(* ===== verification/Py_Strings.thy ===== *)
theory Py_Strings
  imports Main "HOL-Library.Sublist"
begin

text \<open>
  Python's \<open>str\<close> as the code uses it.  A \<open>str\<close> is the list of its code points; a HOL
  \<^typ>\<open>string\<close> holds the code points 0 to 255 (Latin-1), which is the bound of this model:
  code points above 255 are outside it.  Inside the bound the predicates below are Python's:
  \<open>str.strip\<close> removes the 29 .. 32 and other white space of Latin-1 (also U+0085 and U+00A0),
  \<open>str.isdigit\<close> accepts the three superscript digits, \<open>\d\<close> of \<open>re\<close> does not.
  The case mappings whose result lies above 255 (U+00B5 and U+00FF) leave their character; the
  code compares such results only with each other or with ASCII words, so no comparison changes.

  The second half is the fragment of \<open>re\<close> the code uses, with a matcher that lists every
  remainder a match can leave and the language a pattern denotes.
\<close>

named_theorems py_str "rewrite rules that evaluate the string operations"

subsection \<open>Characters\<close>

abbreviation code :: "char \<Rightarrow> nat" where
  "code c \<equiv> of_char c"

definition is_space :: "char \<Rightarrow> bool" where
  "is_space c \<longleftrightarrow> (9 \<le> code c \<and> code c \<le> 13) \<or> (28 \<le> code c \<and> code c \<le> 32)
     \<or> code c = 133 \<or> code c = 160"

definition is_dec :: "char \<Rightarrow> bool" where
  \<comment> \<open>\<open>\d\<close> in a regular expression, and the digits \<open>int\<close> reads\<close>
  "is_dec c \<longleftrightarrow> 48 \<le> code c \<and> code c \<le> 57"

definition is_digit_char :: "char \<Rightarrow> bool" where
  \<comment> \<open>\<open>str.isdigit\<close>: superscript two, three and one count\<close>
  "is_digit_char c \<longleftrightarrow> is_dec c \<or> code c = 178 \<or> code c = 179 \<or> code c = 185"

definition is_lower_az :: "char \<Rightarrow> bool" where
  "is_lower_az c \<longleftrightarrow> 97 \<le> code c \<and> code c \<le> 122"

definition is_upper_az :: "char \<Rightarrow> bool" where
  "is_upper_az c \<longleftrightarrow> 65 \<le> code c \<and> code c \<le> 90"

definition is_alnum_ascii :: "char \<Rightarrow> bool" where
  "is_alnum_ascii c \<longleftrightarrow> is_lower_az c \<or> is_upper_az c \<or> is_dec c"

definition is_hex :: "char \<Rightarrow> bool" where
  "is_hex c \<longleftrightarrow> is_dec c \<or> (97 \<le> code c \<and> code c \<le> 102) \<or> (65 \<le> code c \<and> code c \<le> 70)"

definition lower_char :: "char \<Rightarrow> char" where
  "lower_char c =
     (if is_upper_az c \<or> (192 \<le> code c \<and> code c \<le> 222 \<and> code c \<noteq> 215)
      then char_of (code c + 32) else c)"

definition upper_char :: "char \<Rightarrow> string" where
  "upper_char c =
     (if code c = 223 then ''SS''
      else if is_lower_az c \<or> (224 \<le> code c \<and> code c \<le> 254 \<and> code c \<noteq> 247)
      then [char_of (code c - 32)] else [c])"

definition casefold_char :: "char \<Rightarrow> string" where
  "casefold_char c = (if code c = 223 then ''ss'' else [lower_char c])"

subsection \<open>Strings\<close>

definition lstrip :: "string \<Rightarrow> string" where
  "lstrip s = dropWhile is_space s"

definition rstrip :: "string \<Rightarrow> string" where
  "rstrip s = rev (dropWhile is_space (rev s))"

definition strip :: "string \<Rightarrow> string" where
  "strip s = rstrip (lstrip s)"

definition lstrip_char :: "char \<Rightarrow> string \<Rightarrow> string" where
  "lstrip_char c s = dropWhile (\<lambda>d. d = c) s"

definition rstrip_char :: "char \<Rightarrow> string \<Rightarrow> string" where
  "rstrip_char c s = rev (dropWhile (\<lambda>d. d = c) (rev s))"

definition strip_char :: "char \<Rightarrow> string \<Rightarrow> string" where
  "strip_char c s = rstrip_char c (lstrip_char c s)"

definition str_lower :: "string \<Rightarrow> string" where
  "str_lower s = map lower_char s"

definition str_upper :: "string \<Rightarrow> string" where
  "str_upper s = concat (map upper_char s)"

definition casefold :: "string \<Rightarrow> string" where
  "casefold s = concat (map casefold_char s)"

definition isdigit :: "string \<Rightarrow> bool" where
  "isdigit s \<longleftrightarrow> s \<noteq> [] \<and> list_all is_digit_char s"

definition isascii :: "string \<Rightarrow> bool" where
  "isascii s \<longleftrightarrow> list_all (\<lambda>c. code c < 128) s"

definition startswith :: "string \<Rightarrow> string \<Rightarrow> bool" where
  "startswith s p \<longleftrightarrow> prefix p s"

definition endswith :: "string \<Rightarrow> string \<Rightarrow> bool" where
  "endswith s p \<longleftrightarrow> suffix p s"

definition contains :: "string \<Rightarrow> string \<Rightarrow> bool" where
  \<comment> \<open>\<open>p in s\<close>\<close>
  "contains s p \<longleftrightarrow> sublist p s"

definition replace_char :: "char \<Rightarrow> char \<Rightarrow> string \<Rightarrow> string" where
  "replace_char a b s = map (\<lambda>c. if c = a then b else c) s"

fun split_on :: "char \<Rightarrow> string \<Rightarrow> string list" where
  "split_on c [] = [[]]"
| "split_on c (d # s) =
     (if d = c then [] # split_on c s
      else (case split_on c s of [] \<Rightarrow> [[d]] | w # ws \<Rightarrow> (d # w) # ws))"

fun join_with :: "string \<Rightarrow> string list \<Rightarrow> string" where
  "join_with sep [] = []"
| "join_with sep [w] = w"
| "join_with sep (w # ws) = w @ sep @ join_with sep ws"

definition rpartition_head :: "char \<Rightarrow> string \<Rightarrow> string" where
  \<comment> \<open>\<open>s.rpartition(c)[0]\<close>: what stands before the last \<open>c\<close>, empty without one\<close>
  "rpartition_head c s =
     (if c \<in> set s then rev (tl (dropWhile (\<lambda>d. d \<noteq> c) (rev s))) else [])"

definition rsplit_last :: "char \<Rightarrow> string \<Rightarrow> string" where
  \<comment> \<open>\<open>s.rsplit(c, 1)[-1]\<close>\<close>
  "rsplit_last c s = rev (takeWhile (\<lambda>d. d \<noteq> c) (rev s))"

fun dec_value :: "nat \<Rightarrow> string \<Rightarrow> nat" where
  "dec_value acc [] = acc"
| "dec_value acc (c # s) = dec_value (acc * 10 + (code c - 48)) s"

definition int_of_digits :: "string \<Rightarrow> int option" where
  \<comment> \<open>\<open>int(s)\<close> of a \<open>str.isdigit\<close> string: the superscripts pass \<open>isdigit\<close> and are no
    digits for \<open>int\<close>, which raises \<open>ValueError\<close> (\<open>None\<close>)\<close>
  "int_of_digits s = (if s \<noteq> [] \<and> list_all is_dec s then Some (int (dec_value 0 s)) else None)"

function (sequential) digits_of :: "nat \<Rightarrow> string" where
  "digits_of n = (if n < 10 then [char_of (48 + n)]
     else digits_of (n div 10) @ [char_of (48 + n mod 10)])"
  by pat_completeness auto
termination
  by (relation "measure id") auto

declare digits_of.simps [simp del]

definition str_of_int :: "int \<Rightarrow> string" where
  "str_of_int i = (if i < 0 then ''-'' @ digits_of (nat (- i)) else digits_of (nat i))"

definition int_text :: "string \<Rightarrow> int option" where
  \<comment> \<open>\<open>int(text)\<close>: white space around, a sign, digits with single underscores between them\<close>
  "int_text s =
     (let t = strip s; negative = startswith t ''-'';
          u = (if negative \<or> startswith t ''+'' then tl t else t);
          groups = split_on (CHR ''_'') u in
      if list_all (\<lambda>g. g \<noteq> [] \<and> list_all is_dec g) groups
      then Some ((if negative then - 1 else 1) * int (dec_value 0 (concat groups))) else None)"

subsection \<open>Facts on strings\<close>

lemmas py_char_defs [py_str] =
  is_space_def is_dec_def is_digit_char_def is_lower_az_def is_upper_az_def is_alnum_ascii_def
  is_hex_def lower_char_def upper_char_def casefold_char_def char_of_def bit_Suc_0_iff

lemmas py_string_defs [py_str] =
  lstrip_def rstrip_def strip_def lstrip_char_def rstrip_char_def strip_char_def str_lower_def
  str_upper_def casefold_def isdigit_def isascii_def startswith_def endswith_def contains_def
  replace_char_def rpartition_head_def rsplit_last_def int_of_digits_def

lemma lstrip_idem [simp]: "lstrip (lstrip s) = lstrip s"
  by (simp add: lstrip_def dropWhile_idem)

lemma lstrip_Nil [simp]: "lstrip [] = []"
  by (simp add: lstrip_def)

lemma rstrip_Nil [simp]: "rstrip [] = []"
  by (simp add: rstrip_def)

lemma hd_dropWhile_head: "dropWhile P s \<noteq> [] \<Longrightarrow> \<not> P (hd (dropWhile P s))"
  by (induction s) auto

lemma dropWhile_rev_Cons_keep:
  "\<not> P c \<Longrightarrow> \<exists>t. rev (dropWhile P (rev (c # s))) = c # t"
proof (induction s rule: rev_induct)
  case Nil
  then show ?case by simp
next
  case (snoc x xs)
  then show ?case by (cases "P x") auto
qed

lemma rstrip_keeps_head:
  assumes "s = [] \<or> \<not> is_space (hd s)"
  shows "lstrip (rstrip s) = rstrip s"
proof (cases s)
  case Nil
  then show ?thesis by simp
next
  case (Cons c t)
  with assms have "\<not> is_space c" by simp
  then obtain u where "rstrip s = c # u"
    using dropWhile_rev_Cons_keep [of is_space c t] Cons by (auto simp: rstrip_def)
  with \<open>\<not> is_space c\<close> show ?thesis by (simp add: lstrip_def)
qed

lemma lstrip_head: "lstrip s = [] \<or> \<not> is_space (hd (lstrip s))"
  unfolding lstrip_def using hd_dropWhile_head by blast

lemma rstrip_idem [simp]: "rstrip (rstrip s) = rstrip s"
  by (simp add: rstrip_def dropWhile_idem)

lemma strip_idem [simp]: "strip (strip s) = strip s"
  using rstrip_keeps_head [OF lstrip_head, of s] by (simp add: strip_def)

lemma strip_Nil [simp]: "strip [] = []"
  by (simp add: strip_def)

lemma strip_id: "list_all (\<lambda>c. \<not> is_space c) s \<Longrightarrow> strip s = s"
proof -
  assume *: "list_all (\<lambda>c. \<not> is_space c) s"
  then have "lstrip s = s"
    by (cases s) (auto simp: lstrip_def)
  moreover have "dropWhile is_space (rev s) = rev s"
    using * by (auto simp: list_all_iff dropWhile_eq_self_iff hd_rev)
  then have "rstrip s = s"
    by (simp add: rstrip_def)
  ultimately show ?thesis by (simp add: strip_def)
qed

lemma split_on_nonempty [simp]: "split_on c s \<noteq> []"
  by (induction s) (auto split: list.splits)

lemma join_split: "join_with [c] (split_on c s) = s"
proof (induction s)
  case (Cons d s)
  show ?case
  proof (cases "split_on c s")
    case (Cons w ws)
    with \<open>join_with [c] (split_on c s) = s\<close> show ?thesis by (cases ws) auto
  qed simp
qed simp

lemma split_on_parts: "w \<in> set (split_on c s) \<Longrightarrow> c \<notin> set w"
  by (induction s arbitrary: w) (auto split: list.splits if_splits)

lemma split_on_parts_chars: "w \<in> set (split_on c s) \<Longrightarrow> set w \<subseteq> set s"
proof (induction s arbitrary: w)
  case (Cons d s)
  then show ?case by (auto split: list.splits if_splits) blast+
qed simp

lemma split_on_single: "c \<notin> set s \<Longrightarrow> split_on c s = [s]"
  by (induction s) auto

subsection \<open>Regular expressions\<close>

text \<open>
  The patterns of the code use character classes with a repetition count, concatenation,
  alternatives, optional groups and a group with a fixed count.  \<open>rests r s\<close> lists what can
  be left of \<open>s\<close> after a match of \<open>r\<close> at its start; \<open>fullmatch\<close> asks for nothing left.
\<close>

datatype regex =
    Cls "char \<Rightarrow> bool" nat "nat option"
  | Seqr regex regex
  | Altr regex regex
  | Optr regex
  | Times nat regex

abbreviation lit_char :: "char \<Rightarrow> regex" where
  "lit_char c \<equiv> Cls (\<lambda>d. d = c) 1 (Some 1)"

abbreviation one_of :: "(char \<Rightarrow> bool) \<Rightarrow> regex" where
  "one_of P \<equiv> Cls P 1 (Some 1)"

fun lit :: "string \<Rightarrow> regex" where
  "lit [] = Cls (\<lambda>_. False) 0 (Some 0)"
| "lit [c] = lit_char c"
| "lit (c # s) = Seqr (lit_char c) (lit s)"

fun seq_all :: "regex list \<Rightarrow> regex" where
  "seq_all [] = Cls (\<lambda>_. False) 0 (Some 0)"
| "seq_all [r] = r"
| "seq_all (r # rs) = Seqr r (seq_all rs)"

fun cls_rests :: "(char \<Rightarrow> bool) \<Rightarrow> nat \<Rightarrow> nat option \<Rightarrow> string \<Rightarrow> string list" where
  "cls_rests P lo hi [] = (if lo = 0 then [[]] else [])"
| "cls_rests P lo hi (c # s) =
     (if lo = 0 then [c # s] else []) @
     (if P c \<and> hi \<noteq> Some 0
      then cls_rests P (lo - 1) (map_option (\<lambda>n. n - 1) hi) s else [])"

fun iter_rests :: "nat \<Rightarrow> (string \<Rightarrow> string list) \<Rightarrow> string \<Rightarrow> string list" where
  "iter_rests 0 f s = [s]"
| "iter_rests (Suc n) f s = concat (map (iter_rests n f) (f s))"

primrec rests :: "regex \<Rightarrow> string \<Rightarrow> string list" where
  "rests (Cls P lo hi) = cls_rests P lo hi"
| "rests (Seqr a b) = (\<lambda>s. concat (map (rests b) (rests a s)))"
| "rests (Altr a b) = (\<lambda>s. rests a s @ rests b s)"
| "rests (Optr a) = (\<lambda>s. rests a s @ [s])"
| "rests (Times n a) = iter_rests n (rests a)"

definition fullmatch :: "regex \<Rightarrow> string \<Rightarrow> bool" where
  "fullmatch r s \<longleftrightarrow> [] \<in> set (rests r s)"

definition match_then_dollar :: "regex \<Rightarrow> string \<Rightarrow> bool" where
  \<comment> \<open>\<open>r$\<close> at the start of \<open>s\<close>: \<open>$\<close> also stands before a final line feed\<close>
  "match_then_dollar r s \<longleftrightarrow> list_ex (\<lambda>t. t = [] \<or> t = [CHR 10]) (rests r s)"

fun iter_lang :: "nat \<Rightarrow> string set \<Rightarrow> string set" where
  "iter_lang 0 L = {[]}"
| "iter_lang (Suc n) L = {u @ v | u v. u \<in> L \<and> v \<in> iter_lang n L}"

primrec lang :: "regex \<Rightarrow> string set" where
  "lang (Cls P lo hi) = {s. list_all P s \<and> lo \<le> length s \<and>
     (case hi of None \<Rightarrow> True | Some n \<Rightarrow> length s \<le> n)}"
| "lang (Seqr a b) = {u @ v | u v. u \<in> lang a \<and> v \<in> lang b}"
| "lang (Altr a b) = lang a \<union> lang b"
| "lang (Optr a) = insert [] (lang a)"
| "lang (Times n a) = iter_lang n (lang a)"

lemma cls_rests_lang:
  "t \<in> set (cls_rests P lo hi s) \<longleftrightarrow> (\<exists>u \<in> lang (Cls P lo hi). s = u @ t)"
proof (induction P lo hi s rule: cls_rests.induct)
  case (1 P lo hi)
  then show ?case by (auto split: option.splits)
next
  case (2 P lo hi c s)
  have step: "(\<exists>u \<in> lang (Cls P lo hi). c # s = u @ t) \<longleftrightarrow>
      (lo = 0 \<and> t = c # s) \<or>
      (P c \<and> hi \<noteq> Some 0 \<and>
        (\<exists>u \<in> lang (Cls P (lo - 1) (map_option (\<lambda>n. n - 1) hi)). s = u @ t))"
    (is "?L \<longleftrightarrow> ?R")
  proof
    assume ?L
    then obtain u where u: "u \<in> lang (Cls P lo hi)" "c # s = u @ t" by blast
    show ?R
    proof (cases u)
      case Nil
      with u show ?thesis by (auto split: option.splits)
    next
      case (Cons d v)
      with u have "v \<in> lang (Cls P (lo - 1) (map_option (\<lambda>n. n - 1) hi))" "s = v @ t" "P c"
        "hi \<noteq> Some 0"
        by (auto split: option.splits)
      then show ?thesis by blast
    qed
  next
    assume ?R
    then show ?L
    proof
      assume "lo = 0 \<and> t = c # s"
      then show ?L by (intro bexI [of _ "[]"]) (auto split: option.splits)
    next
      assume "P c \<and> hi \<noteq> Some 0 \<and>
        (\<exists>u \<in> lang (Cls P (lo - 1) (map_option (\<lambda>n. n - 1) hi)). s = u @ t)"
      then obtain u where "P c" "hi \<noteq> Some 0" "s = u @ t"
        "u \<in> lang (Cls P (lo - 1) (map_option (\<lambda>n. n - 1) hi))" by blast
      then show ?L by (intro bexI [of _ "c # u"]) (auto split: option.splits)
    qed
  qed
  show ?case using 2 by (simp only: step) auto
qed

lemma concat_lang:
  "(\<exists>s'. (\<exists>u \<in> L. s = u @ s') \<and> (\<exists>v \<in> M. s' = v @ t)) \<longleftrightarrow>
   (\<exists>w \<in> {u @ v | u v. u \<in> L \<and> v \<in> M}. s = w @ t)"
  (is "?A \<longleftrightarrow> ?B")
proof
  assume ?A
  then obtain u v where "u \<in> L" "v \<in> M" "s = u @ v @ t" by blast
  then show ?B by (intro bexI [of _ "u @ v"]) auto
next
  assume ?B
  then obtain u v where "u \<in> L" "v \<in> M" "s = u @ v @ t" by auto
  then show ?A by blast
qed

lemma in_set_concat_map: "t \<in> set (concat (map f xs)) \<longleftrightarrow> (\<exists>x. x \<in> set xs \<and> t \<in> set (f x))"
  by auto

lemma iter_rests_lang:
  assumes "\<And>s t. t \<in> set (f s) \<longleftrightarrow> (\<exists>u \<in> L. s = u @ t)"
  shows "t \<in> set (iter_rests n f s) \<longleftrightarrow> (\<exists>u \<in> iter_lang n L. s = u @ t)"
proof (induction n arbitrary: s)
  case 0
  then show ?case by auto
next
  case (Suc n)
  show ?case
    by (simp only: iter_rests.simps iter_lang.simps in_set_concat_map assms Suc.IH concat_lang)
qed

theorem rests_lang: "t \<in> set (rests r s) \<longleftrightarrow> (\<exists>u \<in> lang r. s = u @ t)"
proof (induction r arbitrary: s t)
  case (Cls P lo hi)
  show ?case unfolding rests.simps by (rule cls_rests_lang)
next
  case (Seqr a b)
  show ?case
    by (simp only: rests.simps lang.simps in_set_concat_map Seqr.IH concat_lang)
next
  case (Times n a)
  then show ?case by (simp add: iter_rests_lang)
qed auto

theorem fullmatch_lang: "fullmatch r s \<longleftrightarrow> s \<in> lang r"
  by (simp add: fullmatch_def rests_lang)

declare fullmatch_def [py_str] match_then_dollar_def [py_str]

lemma fullmatch_Cls: "fullmatch (Cls P lo hi) s \<longleftrightarrow>
    list_all P s \<and> lo \<le> length s \<and> (case hi of None \<Rightarrow> True | Some n \<Rightarrow> length s \<le> n)"
  by (simp add: fullmatch_lang)

lemma fullmatch_Seqr:
  "fullmatch (Seqr a b) s \<longleftrightarrow> (\<exists>u v. s = u @ v \<and> fullmatch a u \<and> fullmatch b v)"
  by (auto simp: fullmatch_lang)

text \<open>Every character of a match satisfies a predicate all classes of the pattern imply.\<close>

primrec all_classes :: "((char \<Rightarrow> bool) \<Rightarrow> bool) \<Rightarrow> regex \<Rightarrow> bool" where
  "all_classes Q (Cls P lo hi) = Q P"
| "all_classes Q (Seqr a b) = (all_classes Q a \<and> all_classes Q b)"
| "all_classes Q (Altr a b) = (all_classes Q a \<and> all_classes Q b)"
| "all_classes Q (Optr a) = all_classes Q a"
| "all_classes Q (Times n a) = all_classes Q a"

lemma iter_lang_chars:
  "(\<And>u. u \<in> L \<Longrightarrow> list_all P u) \<Longrightarrow> s \<in> iter_lang n L \<Longrightarrow> list_all P s"
  by (induction n arbitrary: s) auto

lemma fullmatch_chars:
  assumes "all_classes (\<lambda>Q. \<forall>c. Q c \<longrightarrow> P c) r"
  shows "fullmatch r s \<Longrightarrow> list_all P s"
  using assms unfolding fullmatch_lang
proof (induction r arbitrary: s)
  case (Cls Q lo hi)
  then show ?case by (auto simp: list_all_iff)
next
  case (Times n r)
  then show ?case using iter_lang_chars by simp blast
qed auto

end
