(* ===== verification/Py_Effects.thy ===== *)
theory Py_Effects
  imports Main "HOL-Library.AList"
begin

text \<open>
  Effects as the code has them.  A Python function that reads and changes state and may raise is
  a function from the state to a sum (\<open>Inl\<close> the exception, \<open>Inr\<close> the value) and the
  state it leaves.  An exception does not undo what was changed before it, so the state is
  returned on both sides.  \<open>try_except\<close> and \<open>try_finally\<close> are the \<open>try\<close> statements,
  \<open>for_each\<close> and \<open>map_each\<close> the \<open>for\<close> loops that stop at the first exception.

  The lemmas propagate two kinds of facts through this structure: \<open>frames g m\<close> (the part
  \<open>g\<close> of the state is not changed by \<open>m\<close>, whether it returns or raises) and
  \<open>keeps P m\<close> (\<open>m\<close> preserves the invariant \<open>P\<close>).  Their rules are collected in
  \<open>eff_rules\<close>.  Insertion-ordered dictionaries are association lists with one entry a key.
\<close>

named_theorems eff_rules "frame and invariant rules of the effect operations"

type_synonym ('s, 'e, 'a) eff = "'s \<Rightarrow> ('e + 'a) \<times> 's"

definition ret :: "'a \<Rightarrow> ('s, 'e, 'a) eff" where
  "ret x = (\<lambda>s. (Inr x, s))"

definition throw :: "'e \<Rightarrow> ('s, 'e, 'a) eff" where
  "throw e = (\<lambda>s. (Inl e, s))"

definition bind :: "('s, 'e, 'a) eff \<Rightarrow> ('a \<Rightarrow> ('s, 'e, 'b) eff) \<Rightarrow> ('s, 'e, 'b) eff" where
  "bind m f = (\<lambda>s. case m s of (Inl e, t) \<Rightarrow> (Inl e, t) | (Inr x, t) \<Rightarrow> f x t)"

abbreviation seq :: "('s, 'e, unit) eff \<Rightarrow> ('s, 'e, 'b) eff \<Rightarrow> ('s, 'e, 'b) eff" where
  "seq m n \<equiv> bind m (\<lambda>_. n)"

definition of_result :: "'e + 'a \<Rightarrow> ('s, 'e, 'a) eff" where
  "of_result r = (\<lambda>s. (r, s))"

definition gets :: "('s \<Rightarrow> 'a) \<Rightarrow> ('s, 'e, 'a) eff" where
  "gets f = (\<lambda>s. (Inr (f s), s))"

definition modify :: "('s \<Rightarrow> 's) \<Rightarrow> ('s, 'e, unit) eff" where
  "modify f = (\<lambda>s. (Inr (), f s))"

definition skip :: "('s, 'e, unit) eff" where
  "skip = ret ()"

definition raise_when :: "bool \<Rightarrow> 'e \<Rightarrow> ('s, 'e, unit) eff" where
  "raise_when b e = (if b then throw e else skip)"

definition try_except :: "('s, 'e, 'a) eff \<Rightarrow> ('e \<Rightarrow> ('s, 'e, 'a) eff) \<Rightarrow> ('s, 'e, 'a) eff" where
  "try_except m h = (\<lambda>s. case m s of (Inl e, t) \<Rightarrow> h e t | (Inr x, t) \<Rightarrow> (Inr x, t))"

definition attempt :: "('s, 'e, 'a) eff \<Rightarrow> ('s, 'e, 'e + 'a) eff" where
  \<comment> \<open>run and hand on the outcome, so that a handler can decide what to do with it\<close>
  "attempt m = (\<lambda>s. case m s of (r, t) \<Rightarrow> (Inr r, t))"

definition try_finally :: "('s, 'e, 'a) eff \<Rightarrow> ('s, 'e, unit) eff \<Rightarrow> ('s, 'e, 'a) eff" where
  \<comment> \<open>an exception of the \<open>finally\<close> block replaces the outcome of the body\<close>
  "try_finally m f = (\<lambda>s. case m s of (r, t) \<Rightarrow>
     (case f t of (Inl e, u) \<Rightarrow> (Inl e, u) | (Inr _, u) \<Rightarrow> (r, u)))"

fun for_each :: "'a list \<Rightarrow> ('a \<Rightarrow> ('s, 'e, unit) eff) \<Rightarrow> ('s, 'e, unit) eff" where
  "for_each [] f = skip"
| "for_each (x # xs) f = bind (f x) (\<lambda>_. for_each xs f)"

fun map_each :: "('a \<Rightarrow> ('s, 'e, 'b) eff) \<Rightarrow> 'a list \<Rightarrow> ('s, 'e, 'b list) eff" where
  "map_each f [] = ret []"
| "map_each f (x # xs) = bind (f x) (\<lambda>y. bind (map_each f xs) (\<lambda>ys. ret (y # ys)))"

subsection \<open>Evaluation\<close>

lemma ret_apply [simp]: "ret x s = (Inr x, s)"
  by (simp add: ret_def)

lemma throw_apply [simp]: "throw e s = (Inl e, s)"
  by (simp add: throw_def)

lemma gets_apply [simp]: "gets f s = (Inr (f s), s)"
  by (simp add: gets_def)

lemma modify_apply [simp]: "modify f s = (Inr (), f s)"
  by (simp add: modify_def)

lemma of_result_apply [simp]: "of_result r s = (r, s)"
  by (simp add: of_result_def)

lemma skip_apply [simp]: "skip s = (Inr (), s)"
  by (simp add: skip_def)

lemma raise_when_apply [simp]: "raise_when b e s = (if b then (Inl e, s) else (Inr (), s))"
  by (simp add: raise_when_def)

lemma attempt_apply [simp]: "attempt m s = (Inr (fst (m s)), snd (m s))"
  by (simp add: attempt_def split: prod.split)

lemma bind_apply:
  "bind m f s = (case m s of (Inl e, t) \<Rightarrow> (Inl e, t) | (Inr x, t) \<Rightarrow> f x t)"
  by (simp add: bind_def)

lemma bind_Inl [simp]: "m s = (Inl e, t) \<Longrightarrow> bind m f s = (Inl e, t)"
  by (simp add: bind_def)

lemma bind_Inr [simp]: "m s = (Inr x, t) \<Longrightarrow> bind m f s = f x t"
  by (simp add: bind_def)

lemma bind_eq_InrE:
  assumes "bind m f s = (Inr y, u)"
  obtains x t where "m s = (Inr x, t)" "f x t = (Inr y, u)"
  using assms by (auto simp: bind_def split: prod.splits sum.splits)

lemma bind_ret_left [simp]: "bind (ret x) f = f x"
  by (simp add: bind_def)

lemma bind_throw [simp]: "bind (throw e) f = throw e"
  by (simp add: bind_def throw_def)

lemma bind_assoc: "bind (bind m f) g = bind m (\<lambda>x. bind (f x) g)"
  by (rule ext) (simp add: bind_def split: prod.split sum.split)

lemma bind_gets: "bind (gets g) f s = f (g s) s"
  by simp

lemma bind_modify: "bind (modify g) f s = f () (g s)"
  by simp

lemma try_except_apply:
  "try_except m h s = (case m s of (Inl e, t) \<Rightarrow> h e t | (Inr x, t) \<Rightarrow> (Inr x, t))"
  by (simp add: try_except_def)

lemma try_except_Inr [simp]: "m s = (Inr x, t) \<Longrightarrow> try_except m h s = (Inr x, t)"
  by (simp add: try_except_def)

lemma try_except_Inl [simp]: "m s = (Inl e, t) \<Longrightarrow> try_except m h s = h e t"
  by (simp add: try_except_def)

lemma try_finally_apply:
  "try_finally m f s = (case m s of (r, t) \<Rightarrow>
     (case f t of (Inl e, u) \<Rightarrow> (Inl e, u) | (Inr _, u) \<Rightarrow> (r, u)))"
  by (simp add: try_finally_def)

lemma map_each_length: "map_each f xs s = (Inr ys, t) \<Longrightarrow> length ys = length xs"
  by (induction xs arbitrary: ys s t) (auto elim!: bind_eq_InrE)

subsection \<open>What an operation leaves unchanged\<close>

definition frames :: "('s \<Rightarrow> 'p) \<Rightarrow> ('s, 'e, 'a) eff \<Rightarrow> bool" where
  "frames g m \<longleftrightarrow> (\<forall>s. g (snd (m s)) = g s)"

definition keeps :: "('s \<Rightarrow> bool) \<Rightarrow> ('s, 'e, 'a) eff \<Rightarrow> bool" where
  "keeps P m \<longleftrightarrow> (\<forall>s. P s \<longrightarrow> P (snd (m s)))"

lemma framesI: "(\<And>s. g (snd (m s)) = g s) \<Longrightarrow> frames g m"
  by (simp add: frames_def)

lemma framesD: "frames g m \<Longrightarrow> m s = (r, t) \<Longrightarrow> g t = g s"
  unfolding frames_def by (metis snd_conv)

lemma keepsI: "(\<And>s. P s \<Longrightarrow> P (snd (m s))) \<Longrightarrow> keeps P m"
  by (simp add: keeps_def)

lemma keepsD: "keeps P m \<Longrightarrow> P s \<Longrightarrow> m s = (r, t) \<Longrightarrow> P t"
  unfolding keeps_def by (metis snd_conv)

lemma frames_ret [eff_rules, simp]: "frames g (ret x)"
  by (simp add: frames_def)

lemma frames_throw [eff_rules, simp]: "frames g (throw e)"
  by (simp add: frames_def)

lemma frames_gets [eff_rules, simp]: "frames g (gets f)"
  by (simp add: frames_def)

lemma frames_of_result [eff_rules, simp]: "frames g (of_result r)"
  by (simp add: frames_def)

lemma frames_skip [eff_rules, simp]: "frames g skip"
  by (simp add: skip_def)

lemma frames_raise_when [eff_rules, simp]: "frames g (raise_when b e)"
  by (simp add: raise_when_def)

lemma frames_modify: "(\<And>s. g (f s) = g s) \<Longrightarrow> frames g (modify f)"
  by (simp add: frames_def)

lemma frames_bind [eff_rules]:
  "frames g m \<Longrightarrow> (\<And>x. frames g (f x)) \<Longrightarrow> frames g (bind m f)"
  by (simp add: frames_def bind_def split: prod.split sum.split) (metis snd_conv)

lemma frames_try_except [eff_rules]:
  "frames g m \<Longrightarrow> (\<And>e. frames g (h e)) \<Longrightarrow> frames g (try_except m h)"
  by (simp add: frames_def try_except_def split: prod.split sum.split) (metis snd_conv)

lemma frames_attempt [eff_rules]: "frames g m \<Longrightarrow> frames g (attempt m)"
  by (simp add: frames_def)

lemma frames_try_finally [eff_rules]:
  "frames g m \<Longrightarrow> frames g f \<Longrightarrow> frames g (try_finally m f)"
  by (simp add: frames_def try_finally_def split: prod.split sum.split) (metis snd_conv)

lemma frames_for_each [eff_rules]: "(\<And>x. frames g (f x)) \<Longrightarrow> frames g (for_each xs f)"
  by (induction xs) (auto intro: frames_bind)

lemma frames_map_each [eff_rules]: "(\<And>x. frames g (f x)) \<Longrightarrow> frames g (map_each f xs)"
  by (induction xs) (auto intro!: frames_bind)

lemma keeps_ret [eff_rules, simp]: "keeps P (ret x)"
  by (simp add: keeps_def)

lemma keeps_throw [eff_rules, simp]: "keeps P (throw e)"
  by (simp add: keeps_def)

lemma keeps_gets [eff_rules, simp]: "keeps P (gets f)"
  by (simp add: keeps_def)

lemma keeps_of_result [eff_rules, simp]: "keeps P (of_result r)"
  by (simp add: keeps_def)

lemma keeps_skip [eff_rules, simp]: "keeps P skip"
  by (simp add: skip_def)

lemma keeps_raise_when [eff_rules, simp]: "keeps P (raise_when b e)"
  by (simp add: raise_when_def)

lemma keeps_Pair [simp]: "keeps P (Pair r)"
  by (simp add: keeps_def)

lemma keeps_modify: "(\<And>s. P s \<Longrightarrow> P (f s)) \<Longrightarrow> keeps P (modify f)"
  by (simp add: keeps_def)

lemma keeps_bind [eff_rules]:
  "keeps P m \<Longrightarrow> (\<And>x. keeps P (f x)) \<Longrightarrow> keeps P (bind m f)"
  by (simp add: keeps_def bind_def split: prod.split sum.split) (metis snd_conv)

lemma keeps_try_except [eff_rules]:
  "keeps P m \<Longrightarrow> (\<And>e. keeps P (h e)) \<Longrightarrow> keeps P (try_except m h)"
  by (simp add: keeps_def try_except_def split: prod.split sum.split) (metis snd_conv)

lemma keeps_attempt [eff_rules]: "keeps P m \<Longrightarrow> keeps P (attempt m)"
  by (simp add: keeps_def)

lemma keeps_try_finally [eff_rules]:
  "keeps P m \<Longrightarrow> keeps P f \<Longrightarrow> keeps P (try_finally m f)"
  by (simp add: keeps_def try_finally_def split: prod.split sum.split) (metis snd_conv)

lemma keeps_for_each [eff_rules]: "(\<And>x. keeps P (f x)) \<Longrightarrow> keeps P (for_each xs f)"
  by (induction xs) (auto intro: keeps_bind)

lemma keeps_map_each [eff_rules]: "(\<And>x. keeps P (f x)) \<Longrightarrow> keeps P (map_each f xs)"
  by (induction xs) (auto intro!: keeps_bind)

lemma frames_imp_keeps: "frames g m \<Longrightarrow> (\<And>s t. g s = g t \<Longrightarrow> P s \<Longrightarrow> P t) \<Longrightarrow> keeps P m"
  unfolding frames_def keeps_def by metis

subsection \<open>Insertion-ordered dictionaries\<close>

type_synonym ('k, 'v) dict = "('k \<times> 'v) list"

abbreviation dict_get :: "('k, 'v) dict \<Rightarrow> 'k \<Rightarrow> 'v option" where
  "dict_get d k \<equiv> map_of d k"

abbreviation dict_set :: "'k \<Rightarrow> 'v \<Rightarrow> ('k, 'v) dict \<Rightarrow> ('k, 'v) dict" where
  \<comment> \<open>\<open>d[k] = v\<close>: an existing key keeps its place, a new one goes to the end\<close>
  "dict_set k v d \<equiv> AList.update k v d"

abbreviation dict_pop :: "'k \<Rightarrow> ('k, 'v) dict \<Rightarrow> ('k, 'v) dict" where
  "dict_pop k d \<equiv> AList.delete k d"

definition dict_ok :: "('k, 'v) dict \<Rightarrow> bool" where
  "dict_ok d \<longleftrightarrow> distinct (map fst d)"

lemma dict_ok_Nil [simp]: "dict_ok []"
  by (simp add: dict_ok_def)

lemma dict_ok_set [simp]: "dict_ok d \<Longrightarrow> dict_ok (dict_set k v d)"
  by (simp add: dict_ok_def distinct_update)

lemma dict_ok_pop [simp]: "dict_ok d \<Longrightarrow> dict_ok (dict_pop k d)"
  by (simp add: dict_ok_def distinct_delete)

lemma dict_ok_filter [simp]: "dict_ok d \<Longrightarrow> dict_ok (filter P d)"
  by (simp add: dict_ok_def distinct_map_filter)

lemma dict_get_set [simp]: "dict_get (dict_set k v d) j = (if j = k then Some v else dict_get d j)"
  by (simp add: update_conv)

lemma dict_get_pop [simp]: "dict_get (dict_pop k d) j = (if j = k then None else dict_get d j)"
  by (simp add: delete_conv)

lemma length_dict_set_le: "length (dict_set k v d) \<le> Suc (length d)"
  by (induction d) auto

lemma length_dict_pop_le: "length (dict_pop k d) \<le> length d"
  by (rule length_delete_le)

end
