(* ===== verification/Domain_Errors.thy ===== *)
theory Domain_Errors
  imports Py_Strings Py_Effects
begin

text \<open>
  Typed failures (\<open>domain/errors.py\<close>), the enumerations of the execution history
  (\<open>domain/execution_log.py\<close>) and the names that carry sensitive values
  (\<open>domain/sensitive_data.py\<close>).  An \<open>ApplicationError\<close> is a record with its class as
  a field; \<open>correlation_id\<close> is \<open>None\<close> while it holds the random default.  Texts of
  \<open>technical_cause\<close> that the code writes in Korean are given in ASCII, since no code reads them.
\<close>

subsection \<open>Execution history\<close>

datatype execution_level = LevelDebug | LevelInfo | LevelWarning | LevelError

datatype execution_result = ResSuccess | ResWarning | ResFailure | ResCancelled

datatype execution_phase = PhaseStarted | PhaseProgress | PhaseCompleted

datatype error_category =
    CatPermission | CatAuthentication | CatNetwork | CatTimeout | CatResource
  | CatProcess | CatConflict | CatConfiguration | CatInternal

definition execution_log_retention_days :: int where
  "execution_log_retention_days = 30"

definition execution_log_max_rows :: int where
  "execution_log_max_rows = 10000"

definition result_from_legacy :: "string \<Rightarrow> execution_result" where
  "result_from_legacy s =
     (let v = str_upper s in
      if v \<in> {''FAILURE'', ''FAILED'', ''ERROR''} then ResFailure
      else if v = ''CANCELLED'' then ResCancelled
      else if v \<in> {''WARNING'', ''WARN'', ''NOTICE''} then ResWarning
      else ResSuccess)"

fun result_value :: "execution_result \<Rightarrow> string" where
  "result_value ResSuccess = ''SUCCESS''"
| "result_value ResWarning = ''WARNING''"
| "result_value ResFailure = ''FAILURE''"
| "result_value ResCancelled = ''CANCELLED''"

fun level_value :: "execution_level \<Rightarrow> string" where
  "level_value LevelDebug = ''DEBUG''"
| "level_value LevelInfo = ''INFO''"
| "level_value LevelWarning = ''WARNING''"
| "level_value LevelError = ''ERROR''"

subsection \<open>Application errors\<close>

datatype error_class =
    ConfigurationError | CredentialValidationError | MfaValidationError | AwsPermissionError
  | AwsNetworkError | TargetNotConnectedError | PortAlreadyInUseError | PluginExecutionError
  | SecretAccessError | S3TransferError | DataProtectionError | ApplicationError

fun error_class_name :: "error_class \<Rightarrow> string" where
  "error_class_name ConfigurationError = ''ConfigurationError''"
| "error_class_name CredentialValidationError = ''CredentialValidationError''"
| "error_class_name MfaValidationError = ''MfaValidationError''"
| "error_class_name AwsPermissionError = ''AwsPermissionError''"
| "error_class_name AwsNetworkError = ''AwsNetworkError''"
| "error_class_name TargetNotConnectedError = ''TargetNotConnectedError''"
| "error_class_name PortAlreadyInUseError = ''PortAlreadyInUseError''"
| "error_class_name PluginExecutionError = ''PluginExecutionError''"
| "error_class_name SecretAccessError = ''SecretAccessError''"
| "error_class_name S3TransferError = ''S3TransferError''"
| "error_class_name DataProtectionError = ''DataProtectionError''"
| "error_class_name ApplicationError = ''ApplicationError''"

record app_error =
  ae_class :: error_class
  ae_message_code :: string
  ae_technical_cause :: string
  ae_retryable :: bool
  ae_aws_service :: "string option"
  ae_aws_action :: "string option"
  ae_correlation_id :: "string option"
  ae_aws_request_id :: "string option"
  ae_error_code :: "string option"
  ae_error_category :: "error_category option"
  ae_required_permission :: "string option"
  ae_execution_logged :: bool

definition mk_error :: "error_class \<Rightarrow> string \<Rightarrow> string \<Rightarrow> app_error" where
  "mk_error cls msg cause =
     \<lparr>ae_class = cls, ae_message_code = msg, ae_technical_cause = cause, ae_retryable = False,
      ae_aws_service = None, ae_aws_action = None, ae_correlation_id = None,
      ae_aws_request_id = None, ae_error_code = None, ae_error_category = None,
      ae_required_permission = None, ae_execution_logged = False\<rparr>"

abbreviation config_error :: "string \<Rightarrow> app_error" where
  \<comment> \<open>the modules' \<open>_configuration(code)\<close>: the code is also the cause\<close>
  "config_error msg \<equiv> mk_error ConfigurationError msg msg"

abbreviation config_error_because :: "string \<Rightarrow> string \<Rightarrow> app_error" where
  "config_error_because msg cause \<equiv> mk_error ConfigurationError msg cause"

definition on_aws :: "string \<Rightarrow> string \<Rightarrow> app_error \<Rightarrow> app_error" where
  "on_aws service action e = e\<lparr>ae_aws_service := Some service, ae_aws_action := Some action\<rparr>"

text \<open>
  What a call can raise: a typed application error, the internal cancellation signal, the two
  errors of \<open>sqlite3\<close> with their message, the two of \<open>botocore\<close> with the name of their class
  (\<open>ClientError\<close> also with the error code and the request id of its response), any other
  \<open>Exception\<close> by the name of its class, or a \<open>BaseException\<close> such as \<open>KeyboardInterrupt\<close> that \<open>except Exception\<close> does not catch.
\<close>

datatype exn =
    AppExn app_error
  | OperationCancelled
  | IntegrityError string
  | OperationalError string
  | ClientError string "string option" "string option"
  | BotoCoreError string
  | PyExn string
  | BaseExn string

definition is_exception :: "exn \<Rightarrow> bool" where
  \<comment> \<open>caught by \<open>except Exception\<close>\<close>
  "is_exception e = (case e of BaseExn _ \<Rightarrow> False | _ \<Rightarrow> True)"

fun class_name :: "exn \<Rightarrow> string" where
  \<comment> \<open>\<open>type(error).__name__\<close>\<close>
  "class_name (AppExn e) = error_class_name (ae_class e)"
| "class_name (IntegrityError _) = ''IntegrityError''"
| "class_name (OperationalError _) = ''OperationalError''"
| "class_name (ClientError n _ _) = n"
| "class_name (BotoCoreError n) = n"
| "class_name (PyExn n) = n"
| "class_name (BaseExn n) = n"
| "class_name OperationCancelled = ''OperationCancelled''"

fun exn_code :: "exn \<Rightarrow> string option" where
  "exn_code (AppExn e) = Some (ae_message_code e)"
| "exn_code _ = None"

abbreviation raise_app :: "app_error \<Rightarrow> ('s, exn, 'a) eff" where
  "raise_app e \<equiv> throw (AppExn e)"

definition of_app :: "app_error + 'a \<Rightarrow> ('s, exn, 'a) eff" where
  "of_app r = (case r of Inl e \<Rightarrow> raise_app e | Inr x \<Rightarrow> ret x)"

lemma of_app_Inl [simp]: "of_app (Inl e) = raise_app e"
  by (simp add: of_app_def)

lemma of_app_Inr [simp]: "of_app (Inr x) = ret x"
  by (simp add: of_app_def)

lemma frames_of_app [eff_rules, simp]: "frames g (of_app r)"
  by (cases r) auto

lemma keeps_of_app [eff_rules, simp]: "keeps P (of_app r)"
  by (cases r) auto

lemma mk_error_simps [simp]:
  "ae_class (mk_error c m t) = c" "ae_message_code (mk_error c m t) = m"
  "ae_technical_cause (mk_error c m t) = t" "ae_execution_logged (mk_error c m t) = False"
  "ae_aws_service (mk_error c m t) = None" "ae_aws_action (mk_error c m t) = None"
  "ae_error_category (mk_error c m t) = None" "ae_retryable (mk_error c m t) = False"
  by (simp_all add: mk_error_def)

lemma on_aws_simps [simp]:
  "ae_class (on_aws s a e) = ae_class e" "ae_message_code (on_aws s a e) = ae_message_code e"
  "ae_execution_logged (on_aws s a e) = ae_execution_logged e"
  by (simp_all add: on_aws_def)

subsection \<open>Sensitive names\<close>

definition redacted :: string where
  "redacted = ''***REDACTED***''"

definition sensitive_parts :: "string list" where
  "sensitive_parts =
     [''token'', ''key'', ''access_key'', ''secret'', ''session_token'', ''sessiontoken'',
      ''tokenvalue'', ''streamurl'', ''password'', ''passwd'', ''mfa'', ''api_key'', ''apikey'',
      ''private_key'']"

definition key_word_search :: "string \<Rightarrow> bool" where
  \<comment> \<open>\<open>(?:^|[_\-.])key$|Key$\<close> anywhere in the name\<close>
  "key_word_search name \<longleftrightarrow> match_then_dollar (lit ''key'') name \<or>
     list_ex (\<lambda>t. match_then_dollar (Seqr (one_of (\<lambda>c. c \<in> set ''_-.'')) (lit ''key'')) t
        \<or> match_then_dollar (lit ''Key'') t) (suffixes name)"

definition is_sensitive_name :: "string \<Rightarrow> bool" where
  "is_sensitive_name name \<longleftrightarrow>
     (let normalized = replace_char (CHR ''-'') (CHR ''_'') (str_lower name)
      in list_ex (contains normalized) sensitive_parts \<or> key_word_search name)"

lemma str_lower_append [simp]: "str_lower (s @ t) = str_lower s @ str_lower t"
  by (simp add: str_lower_def)

lemma replace_char_append [simp]:
  "replace_char a b (s @ t) = replace_char a b s @ replace_char a b t"
  by (simp add: replace_char_def)

lemma match_then_dollar_prefix:
  assumes "match_then_dollar r s" shows "\<exists>u \<in> lang r. prefix u s"
proof -
  from assms obtain t where "t \<in> set (rests r s)"
    by (auto simp: match_then_dollar_def list_ex_iff)
  then obtain u where "u \<in> lang r" "s = u @ t" by (auto simp: rests_lang)
  then show ?thesis by (intro bexI [of _ u]) auto
qed

lemma lower_keyword:
  "replace_char (CHR ''-'') (CHR ''_'') (str_lower ''key'') = ''key''"
  "replace_char (CHR ''-'') (CHR ''_'') (str_lower ''Key'') = ''key''"
  by (simp_all add: py_str)

lemma normalized_contains:
  assumes "sublist w name"
  shows "sublist (replace_char a b (str_lower w)) (replace_char a b (str_lower name))"
  using assms unfolding sublist_def
  by (metis replace_char_append str_lower_append)

lemma lang_lit: "lang (lit w) = {w}"
proof (induction w rule: lit.induct)
  case (2 c)
  show ?case by (auto simp: length_Suc_conv le_Suc_eq)
next
  case (3 c d s)
  have "lang (lit_char c) = {[c]}" by (auto simp: length_Suc_conv le_Suc_eq)
  with 3 show ?case by simp
qed auto

lemma search_lit_sublist:
  assumes "suffix t name" "match_then_dollar r t" "\<And>u. u \<in> lang r \<Longrightarrow> suffix w u"
  shows "sublist w name"
proof -
  from assms(2) obtain u where "u \<in> lang r" "prefix u t"
    using match_then_dollar_prefix by blast
  with assms(3) have "sublist w u" by (blast intro: suffix_imp_sublist)
  also have "sublist u t" using \<open>prefix u t\<close> by (rule prefix_imp_sublist)
  also have "sublist t name" using assms(1) by (rule suffix_imp_sublist)
  finally show ?thesis .
qed

lemma key_word_search_key:
  assumes "key_word_search name"
  shows "sublist ''key'' name \<or> sublist ''Key'' name"
proof -
  from assms consider "match_then_dollar (lit ''key'') name"
    | t where "suffix t name"
        "match_then_dollar (Seqr (one_of (\<lambda>c. c \<in> set ''_-.'')) (lit ''key'')) t"
    | t where "suffix t name" "match_then_dollar (lit ''Key'') t"
    unfolding key_word_search_def list_ex_iff set_suffixes_eq by blast
  then show ?thesis
  proof cases
    case 1
    then show ?thesis
      using search_lit_sublist [of name name "lit ''key''" "''key''"] unfolding lang_lit by auto
  next
    case 2
    have "u \<in> lang (Seqr (one_of (\<lambda>c. c \<in> set ''_-.'')) (lit ''key'')) \<Longrightarrow> suffix ''key'' u" for u
      unfolding lang.simps lang_lit by (auto simp: suffix_def)
    with 2 show ?thesis using search_lit_sublist by blast
  next
    case 3
    then show ?thesis
      using search_lit_sublist [of t name "lit ''Key''" "''Key''"] unfolding lang_lit by auto
  qed
qed

text \<open>The regular expression adds nothing: a match contains \<open>key\<close> once lowered.\<close>

lemma is_sensitive_name_parts:
  "is_sensitive_name name \<longleftrightarrow>
     list_ex (contains (replace_char (CHR ''-'') (CHR ''_'') (str_lower name))) sensitive_parts"
proof -
  have "sublist ''key'' (replace_char (CHR ''-'') (CHR ''_'') (str_lower name))"
    if "key_word_search name"
    using key_word_search_key [OF that] normalized_contains lower_keyword by metis
  then show ?thesis
    by (auto simp: is_sensitive_name_def Let_def sensitive_parts_def contains_def)
qed

end
