(* ===== verification/Sqlite_Table.thy ===== *)
theory Sqlite_Table
  imports Domain_Errors
begin

text \<open>
  One SQLite table with an \<open>INTEGER PRIMARY KEY AUTOINCREMENT\<close> and a \<open>UNIQUE\<close> constraint, as
  the statements of \<open>infrastructure/sqlite_profile_store.py\<close> use it.  A table holds its rows by
  row id in the order they were inserted, and the largest row id ever given
  (\<open>sqlite_sequence\<close>).  A statement that fails raises \<open>sqlite3.IntegrityError\<close> or
  \<open>OperationalError\<close> with SQLite's message, and \<open>transact\<close> is the connection's context
  manager: an exception of the block rolls the database back.
\<close>

record 'r table =
  tb_seq :: int
  tb_rows :: "(int \<times> 'r) list"

definition empty_table :: "'r table" where
  "empty_table = \<lparr>tb_seq = 0, tb_rows = []\<rparr>"

definition max_rowid :: int where
  "max_rowid = 2 ^ 63 - 1"

abbreviation tb_get :: "'r table \<Rightarrow> int \<Rightarrow> 'r option" where
  "tb_get t i \<equiv> map_of (tb_rows t) i"

definition tb_keys :: "('r \<Rightarrow> 'k) \<Rightarrow> 'r table \<Rightarrow> 'k list" where
  "tb_keys key t = map (\<lambda>(i, r). key r) (tb_rows t)"

definition tb_find :: "('r \<Rightarrow> bool) \<Rightarrow> 'r table \<Rightarrow> (int \<times> 'r) option" where
  "tb_find P t = find (\<lambda>(i, r). P r) (tb_rows t)"

definition tb_insert ::
    "('r \<Rightarrow> 'k) \<Rightarrow> string \<Rightarrow> 'r \<Rightarrow> ('r table, exn, int) eff" where
  \<comment> \<open>\<open>INSERT\<close>: the unique columns, named in \<open>columns\<close>, must be new\<close>
  "tb_insert key columns r = (\<lambda>t.
     if tb_seq t \<ge> max_rowid then (Inl (OperationalError ''database or disk is full''), t)
     else if key r \<in> set (tb_keys key t)
     then (Inl (IntegrityError (''UNIQUE constraint failed: '' @ columns)), t)
     else (Inr (tb_seq t + 1),
           \<lparr>tb_seq = tb_seq t + 1, tb_rows = tb_rows t @ [(tb_seq t + 1, r)]\<rparr>))"

definition tb_update ::
    "('r \<Rightarrow> 'k) \<Rightarrow> string \<Rightarrow> int \<Rightarrow> ('r \<Rightarrow> bool) \<Rightarrow> ('r \<Rightarrow> 'r) \<Rightarrow> ('r table, exn, nat) eff" where
  \<comment> \<open>\<open>UPDATE ... WHERE id = i AND cond\<close>, returning \<open>rowcount\<close>\<close>
  "tb_update key columns i cond f = (\<lambda>t.
     case tb_get t i of
       None \<Rightarrow> (Inr 0, t)
     | Some r \<Rightarrow>
         if \<not> cond r then (Inr 0, t)
         else if list_ex (\<lambda>(j, q). j \<noteq> i \<and> key q = key (f r)) (tb_rows t)
         then (Inl (IntegrityError (''UNIQUE constraint failed: '' @ columns)), t)
         else (Inr 1, t\<lparr>tb_rows := AList.update i (f r) (tb_rows t)\<rparr>))"

definition tb_delete :: "(int \<Rightarrow> 'r \<Rightarrow> bool) \<Rightarrow> 'r table \<Rightarrow> 'r table" where
  "tb_delete P t = t\<lparr>tb_rows := filter (\<lambda>(i, r). \<not> P i r) (tb_rows t)\<rparr>"

definition transact :: "('d, exn, 'a) eff \<Rightarrow> ('d, exn, 'a) eff" where
  "transact m = (\<lambda>d. case m d of (Inl e, _) \<Rightarrow> (Inl e, d) | (Inr x, d') \<Rightarrow> (Inr x, d'))"

definition sql_ids :: "int list \<Rightarrow> ('d, exn, unit) eff" where
  \<comment> \<open>binding an integer outside 64 bits raises \<open>OverflowError\<close>\<close>
  "sql_ids is = raise_when (list_ex (\<lambda>i. i < - (2 ^ 63) \<or> max_rowid < i) is) (PyExn ''OverflowError'')"

definition map_integrity :: "(string \<Rightarrow> exn) \<Rightarrow> ('d, exn, 'a) eff \<Rightarrow> ('d, exn, 'a) eff" where
  \<comment> \<open>\<open>except sqlite3.IntegrityError as error: raise ... from error\<close>\<close>
  "map_integrity h m = try_except m
     (\<lambda>e. case e of IntegrityError msg \<Rightarrow> throw (h msg) | _ \<Rightarrow> throw e)"

subsection \<open>The table invariant\<close>

definition tb_ok :: "('r \<Rightarrow> 'k) \<Rightarrow> 'r table \<Rightarrow> bool" where
  "tb_ok key t \<longleftrightarrow> 0 \<le> tb_seq t \<and> tb_seq t \<le> max_rowid \<and> distinct (map fst (tb_rows t)) \<and>
     list_all (\<lambda>(i, r). 1 \<le> i \<and> i \<le> tb_seq t) (tb_rows t) \<and> distinct (tb_keys key t)"

lemma tb_ok_empty [simp]: "tb_ok key empty_table"
  by (simp add: tb_ok_def empty_table_def tb_keys_def max_rowid_def)

lemma tb_get_SomeD: "tb_get t i = Some r \<Longrightarrow> (i, r) \<in> set (tb_rows t)"
  by (rule map_of_SomeD)

lemma tb_ok_get_iff: "tb_ok key t \<Longrightarrow> tb_get t i = Some r \<longleftrightarrow> (i, r) \<in> set (tb_rows t)"
  by (simp add: tb_ok_def)

lemma tb_ok_id_range: "tb_ok key t \<Longrightarrow> tb_get t i = Some r \<Longrightarrow> 1 \<le> i \<and> i \<le> tb_seq t \<and> i \<le> max_rowid"
  by (drule tb_get_SomeD) (auto simp: tb_ok_def list_all_iff)

lemma tb_ok_fresh: "tb_ok key t \<Longrightarrow> tb_seq t < i \<Longrightarrow> tb_get t i = None"
  using tb_ok_id_range [of key t i] by (cases "tb_get t i") auto

lemma tb_insert_Inr:
  assumes "tb_insert key cols r t = (Inr i, t')" "tb_ok key t"
  shows "tb_ok key t'" "tb_get t i = None" "tb_get t' = (tb_get t)(i \<mapsto> r)"
    "i = tb_seq t + 1" "tb_rows t' = tb_rows t @ [(i, r)]" "key r \<notin> set (tb_keys key t)"
proof -
  have i: "i = tb_seq t + 1" and t': "t' = \<lparr>tb_seq = i, tb_rows = tb_rows t @ [(i, r)]\<rparr>"
    and seq: "tb_seq t < max_rowid" and key: "key r \<notin> set (tb_keys key t)"
    using assms(1) by (auto simp: tb_insert_def split: if_splits)
  have fresh: "i \<notin> fst ` set (tb_rows t)"
    using assms(2) i by (auto simp: tb_ok_def list_all_iff)
  show none: "tb_get t i = None" using fresh by (simp add: map_of_eq_None_iff)
  show "tb_get t' = (tb_get t)(i \<mapsto> r)"
  proof
    fix j
    show "tb_get t' j = ((tb_get t)(i \<mapsto> r)) j"
      using none by (cases "tb_get t j") (auto simp: t' map_add_def)
  qed
  show "tb_ok key t'"
    using assms(2) i seq fresh key
    by (auto simp: t' tb_ok_def tb_keys_def list_all_iff max_rowid_def)
  show "i = tb_seq t + 1" "tb_rows t' = tb_rows t @ [(i, r)]" "key r \<notin> set (tb_keys key t)"
    using i t' key by auto
qed

lemma tb_insert_Inl: "tb_insert key cols r t = (Inl e, t') \<Longrightarrow> t' = t"
  by (auto simp: tb_insert_def split: if_splits)

lemma tb_update_Inl: "tb_update key cols i c f t = (Inl e, t') \<Longrightarrow> t' = t"
  by (auto simp: tb_update_def split: if_splits option.splits)

lemma tb_update_zero: "tb_update key cols i c f t = (Inr 0, t') \<Longrightarrow> t' = t"
  by (auto simp: tb_update_def split: if_splits option.splits)

lemma alist_update_rows:
  assumes "distinct (map fst xs)" "map_of xs i = Some r"
  shows "AList.update i r' xs = map (\<lambda>(j, q). (j, if j = i then r' else q)) xs"
  using assms
proof (induction xs)
  case (Cons p xs)
  obtain j q where p: "p = (j, q)" by (cases p)
  show ?case
  proof (cases "j = i")
    case True
    with Cons.prems p have "\<forall>(k, v) \<in> set xs. k \<noteq> i" by force
    then have "map (\<lambda>(j, q). (j, if j = i then r' else q)) xs = xs"
      by (intro map_idI) auto
    with p True show ?thesis by simp
  next
    case False
    with Cons p show ?thesis by simp
  qed
qed simp

lemma tb_update_one:
  assumes "tb_update key cols i c f t = (Inr n, t')" "n \<noteq> 0" "tb_ok key t"
  shows "\<exists>r. tb_get t i = Some r \<and> c r \<and> tb_get t' = (tb_get t)(i \<mapsto> f r)"
    "tb_ok key t'" "n = 1" "map fst (tb_rows t') = map fst (tb_rows t)"
proof -
  obtain r where r: "tb_get t i = Some r" "c r"
    and uniq: "\<forall>(j, q) \<in> set (tb_rows t). j \<noteq> i \<longrightarrow> key q \<noteq> key (f r)"
    and t': "t' = t\<lparr>tb_rows := AList.update i (f r) (tb_rows t)\<rparr>" and n: "n = 1"
    using assms(1,2) by (auto simp: tb_update_def list_ex_iff split: if_splits option.splits)
  have dist: "distinct (map fst (tb_rows t))" using assms(3) by (simp add: tb_ok_def)
  have rows: "AList.update i (f r) (tb_rows t)
      = map (\<lambda>(j, q). (j, if j = i then f r else q)) (tb_rows t)"
    by (rule alist_update_rows [OF dist r(1)])
  have ids: "map fst (tb_rows t') = map fst (tb_rows t)"
    by (auto simp: t' rows)
  have keys: "tb_keys key t' = map (\<lambda>(j, q). if j = i then key (f r) else key q) (tb_rows t)"
    by (auto simp: tb_keys_def t' rows)
  have "distinct (tb_keys key t')"
    unfolding keys distinct_map
  proof (intro conjI inj_onI)
    show "distinct (tb_rows t)" using dist by (simp add: distinct_map)
  next
    fix x y assume xy: "x \<in> set (tb_rows t)" "y \<in> set (tb_rows t)"
      and eq: "(case x of (j, q) \<Rightarrow> if j = i then key (f r) else key q)
        = (case y of (j, q) \<Rightarrow> if j = i then key (f r) else key q)"
    have inj_keys: "inj_on (\<lambda>(j, q). key q) (set (tb_rows t))"
      using assms(3) by (auto simp: tb_ok_def tb_keys_def distinct_map)
    have inj_fst: "inj_on fst (set (tb_rows t))" using dist by (simp add: distinct_map)
    show "x = y"
    proof (cases "fst x = i"; cases "fst y = i")
      assume "fst x = i" "fst y = i"
      then show ?thesis using inj_onD [OF inj_fst] xy by simp
    next
      assume "fst x \<noteq> i" "fst y \<noteq> i"
      with eq have "(case x of (j, q) \<Rightarrow> key q) = (case y of (j, q) \<Rightarrow> key q)"
        by (auto split: prod.splits)
      then show ?thesis using inj_onD [OF inj_keys] xy by blast
    qed (use eq uniq xy in \<open>auto split: prod.splits\<close>)
  qed
  moreover have "list_all (\<lambda>(j, q). 1 \<le> j \<and> j \<le> tb_seq t') (tb_rows t')"
    using assms(3) by (auto simp: tb_ok_def list_all_iff t' rows)
  ultimately show "tb_ok key t'"
    using assms(3) ids by (simp add: tb_ok_def t')
  show "\<exists>r. tb_get t i = Some r \<and> c r \<and> tb_get t' = (tb_get t)(i \<mapsto> f r)"
    using r by (auto simp: t' update_conv')
  show "n = 1" "map fst (tb_rows t') = map fst (tb_rows t)" using n ids by auto
qed

lemma distinct_keys_filter:
  "distinct (tb_keys key t) \<Longrightarrow> distinct (tb_keys key (tb_delete P t))"
  by (simp add: tb_keys_def tb_delete_def distinct_map_filter)

lemma tb_delete_ok [simp]: "tb_ok key t \<Longrightarrow> tb_ok key (tb_delete P t)"
  using distinct_keys_filter [of key t P]
  by (auto simp: tb_ok_def tb_delete_def distinct_map_filter list_all_iff)

lemma tb_delete_rows: "tb_rows (tb_delete P t) = filter (\<lambda>(i, r). \<not> P i r) (tb_rows t)"
  by (simp add: tb_delete_def)

lemma tb_delete_seq [simp]: "tb_seq (tb_delete P t) = tb_seq t"
  by (simp add: tb_delete_def)

lemma tb_get_delete:
  assumes "tb_ok key t"
  shows "tb_get (tb_delete P t) i =
    (case tb_get t i of None \<Rightarrow> None | Some r \<Rightarrow> if P i r then None else Some r)"
proof -
  have "map_of (filter (\<lambda>(i, r). \<not> P i r) xs) i =
      (case map_of xs i of None \<Rightarrow> None | Some r \<Rightarrow> if P i r then None else Some r)"
    if "distinct (map fst xs)" for xs
    using that
  proof (induction xs)
    case (Cons p xs)
    then show ?case
      by (cases p) (auto simp: map_of_eq_None_iff split: option.splits dest: map_of_SomeD)
  qed simp
  then show ?thesis using assms by (simp add: tb_ok_def tb_delete_rows)
qed

lemma transact_Inl [simp]: "m d = (Inl e, d') \<Longrightarrow> transact m d = (Inl e, d)"
  by (simp add: transact_def)

lemma transact_Inr [simp]: "m d = (Inr x, d') \<Longrightarrow> transact m d = (Inr x, d')"
  by (simp add: transact_def)

lemma transact_InlD: "transact m d = (Inl e, d') \<Longrightarrow> d' = d"
  by (auto simp: transact_def split: prod.splits sum.splits)

lemma transact_InrD: "transact m d = (Inr x, d') \<Longrightarrow> m d = (Inr x, d')"
  by (auto simp: transact_def split: prod.splits sum.splits)

lemma map_integrity_Inr [simp]: "map_integrity h m d = (Inr x, d') \<longleftrightarrow> m d = (Inr x, d')"
  by (auto simp: map_integrity_def try_except_def split: prod.splits sum.splits exn.splits)

lemma map_integrity_InlD:
  "map_integrity h m d = (Inl e, d') \<Longrightarrow> \<exists>e0. m d = (Inl e0, d')"
  by (auto simp: map_integrity_def try_except_def split: prod.splits sum.splits exn.splits)

lemma sql_ids_apply [simp]:
  "sql_ids is d = (if list_ex (\<lambda>i. i < - (2 ^ 63) \<or> max_rowid < i) is
     then (Inl (PyExn ''OverflowError''), d) else (Inr (), d))"
  by (simp add: sql_ids_def)

end
