(* ===== verification/Domain_Profile.thy ===== *)
theory Domain_Profile
  imports Domain_Errors
begin

text \<open>
  AWS profiles and temporary sessions (\<open>domain/aws_profile.py\<close>).  A frozen dataclass is a
  record and its \<open>__post_init__\<close> a function that returns the normalised record or the error;
  code that builds one calls that function.  Instants and durations are integers, in
  microseconds; \<open>bytes\<close> are strings of characters below 256.
\<close>

type_synonym bytes = string
type_synonym instant = int

abbreviation minutes :: "int \<Rightarrow> int" where
  "minutes n \<equiv> n * 60000000"

abbreviation hours :: "int \<Rightarrow> int" where
  "hours n \<equiv> minutes (n * 60)"

abbreviation days :: "int \<Rightarrow> int" where
  "days n \<equiv> hours (n * 24)"

definition account_id_re :: regex where
  "account_id_re = Cls is_dec 12 (Some 12)"

definition region_re :: regex where
  "region_re = seq_all [Cls is_lower_az 2 (Some 2), Optr (lit ''-gov''), lit_char (CHR ''-''),
     Cls is_lower_az 1 None, lit_char (CHR ''-''), one_of is_dec]"

definition access_key_re :: regex where
  "access_key_re = Cls (\<lambda>c. is_upper_az c \<or> is_dec c) 16 (Some 128)"

definition session_duration_hours_allowed :: "int list" where
  "session_duration_hours_allowed = [1, 8, 12, 24, 36]"

definition default_session_duration_hours :: int where
  "default_session_duration_hours = 12"

definition max_session_refresh_window :: int where
  "max_session_refresh_window = minutes 30"

definition default_mfa_arn :: "string \<Rightarrow> string \<Rightarrow> string" where
  "default_mfa_arn account_id user_id = ''arn:aws:iam::'' @ account_id @ '':mfa/'' @ user_id"

definition validated_region :: "string \<Rightarrow> app_error + string" where
  "validated_region region =
     (let normalized = strip region in
      if \<not> fullmatch region_re normalized then Inl (config_error ''profile.region.invalid'')
      else Inr normalized)"

definition validated_session_duration_hours :: "int \<Rightarrow> app_error + int" where
  "validated_session_duration_hours v =
     (if v \<notin> set session_duration_hours_allowed
      then Inl (config_error ''profile.session_duration.invalid'') else Inr v)"

definition is_long_session_duration :: "int \<Rightarrow> app_error + bool" where
  "is_long_session_duration v =
     (case validated_session_duration_hours v of Inl e \<Rightarrow> Inl e | Inr h \<Rightarrow> Inr (24 \<le> h))"

record aws_profile =
  ap_id :: "int option"
  ap_name :: string
  ap_region :: string
  ap_account_id :: string
  ap_user_id :: string
  ap_mfa_arn :: string
  ap_encrypted_access_key :: bytes
  ap_encrypted_secret_key :: bytes
  ap_mfa_enabled :: bool
  ap_session_duration_hours :: int
  ap_is_default :: bool
  ap_created_at :: "instant option"
  ap_updated_at :: "instant option"

definition aws_profile_init :: "aws_profile \<Rightarrow> app_error + aws_profile" where
  "aws_profile_init p =
     (if strip (ap_name p) = [] then Inl (config_error ''profile.name.required'')
      else case validated_region (ap_region p) of Inl e \<Rightarrow> Inl e | Inr region \<Rightarrow>
      if \<not> fullmatch account_id_re (ap_account_id p)
      then Inl (config_error ''profile.account_id.invalid'')
      else if strip (ap_user_id p) = [] \<or> CHR ''/'' \<in> set (ap_user_id p)
      then Inl (config_error ''profile.user_id.invalid'')
      else if \<not> startswith (ap_mfa_arn p) (''arn:aws:iam::'' @ ap_account_id p @ '':mfa/'')
      then Inl (config_error ''profile.mfa_arn.invalid'')
      else if ap_encrypted_access_key p = [] \<or> ap_encrypted_secret_key p = []
      then Inl (config_error ''profile.credentials.required'')
      else case validated_session_duration_hours (ap_session_duration_hours p) of
        Inl e \<Rightarrow> Inl e
      | Inr h \<Rightarrow> Inr (p\<lparr>ap_region := region, ap_session_duration_hours := h\<rparr>))"

definition require_profile_id :: "aws_profile \<Rightarrow> app_error + int" where
  "require_profile_id p =
     (case ap_id p of None \<Rightarrow> Inl (config_error ''profile.id.required'') | Some i \<Rightarrow> Inr i)"

record plain_credentials =
  pc_access_key :: string
  pc_secret_key :: string
  pc_session_token :: "string option"

definition plain_credentials_init ::
    "string \<Rightarrow> string \<Rightarrow> string option \<Rightarrow> app_error + plain_credentials" where
  "plain_credentials_init access_key secret_key session_token =
     (if \<not> fullmatch access_key_re access_key
      then Inl (config_error ''credentials.access_key.invalid'')
      else if length secret_key < 16 then Inl (config_error ''credentials.secret_key.invalid'')
      else if session_token = Some [] then Inl (config_error ''credentials.session_token.invalid'')
      else Inr \<lparr>pc_access_key = access_key, pc_secret_key = secret_key,
                pc_session_token = session_token\<rparr>)"

record session_credentials =
  sc_profile_id :: int
  sc_encrypted_access_key :: bytes
  sc_encrypted_secret_key :: bytes
  sc_encrypted_session_token :: bytes
  sc_expires_at_utc :: instant
  sc_verified_at_utc :: instant

definition divide_and_round :: "int \<Rightarrow> int \<Rightarrow> int" where
  \<comment> \<open>\<open>timedelta / int\<close> for a positive divisor: to the nearest microsecond, ties to even\<close>
  "divide_and_round a b =
     (let q = a div b; r = 2 * (a mod b)
      in if r > b \<or> (r = b \<and> q mod 2 = 1) then q + 1 else q)"

definition needs_refresh :: "session_credentials \<Rightarrow> instant \<Rightarrow> bool" where
  "needs_refresh s now =
     (let issued_duration = sc_expires_at_utc s - sc_verified_at_utc s in
      if issued_duration \<le> 0 then True
      else let refresh_window =
             min max_session_refresh_window (divide_and_round issued_duration 10)
           in sc_expires_at_utc s \<le> now + refresh_window)"

subsection \<open>Well-formed values\<close>

definition profile_ok :: "aws_profile \<Rightarrow> bool" where
  "profile_ok p \<longleftrightarrow> aws_profile_init p = Inr p"

lemma validated_region_Inr:
  "validated_region r = Inr r' \<longleftrightarrow> r' = strip r \<and> fullmatch region_re r'"
  by (auto simp: validated_region_def Let_def)

lemma validated_region_idem: "validated_region r = Inr r' \<Longrightarrow> validated_region r' = Inr r'"
  by (auto simp: validated_region_Inr)

lemma validated_duration_Inr:
  "validated_session_duration_hours v = Inr h \<longleftrightarrow> h = v \<and> v \<in> set session_duration_hours_allowed"
  by (auto simp: validated_session_duration_hours_def)

lemma aws_profile_init_Inr_iff:
  "aws_profile_init p = Inr q \<longleftrightarrow>
     strip (ap_name p) \<noteq> [] \<and> fullmatch region_re (strip (ap_region p)) \<and>
     fullmatch account_id_re (ap_account_id p) \<and>
     strip (ap_user_id p) \<noteq> [] \<and> CHR ''/'' \<notin> set (ap_user_id p) \<and>
     startswith (ap_mfa_arn p) (''arn:aws:iam::'' @ ap_account_id p @ '':mfa/'') \<and>
     ap_encrypted_access_key p \<noteq> [] \<and> ap_encrypted_secret_key p \<noteq> [] \<and>
     ap_session_duration_hours p \<in> set session_duration_hours_allowed \<and>
     q = p\<lparr>ap_region := strip (ap_region p)\<rparr>"
  by (auto simp: aws_profile_init_def validated_region_def Let_def
        validated_session_duration_hours_def split: if_splits sum.splits)

lemma aws_profile_init_idem: "aws_profile_init p = Inr q \<Longrightarrow> aws_profile_init q = Inr q"
  by (auto simp: aws_profile_init_Inr_iff)

lemma aws_profile_init_ok: "aws_profile_init p = Inr q \<Longrightarrow> profile_ok q"
  by (simp add: profile_ok_def aws_profile_init_idem)

lemma aws_profile_init_fields:
  assumes "aws_profile_init p = Inr q"
  shows "ap_id q = ap_id p" "ap_name q = ap_name p" "ap_account_id q = ap_account_id p"
    "ap_user_id q = ap_user_id p" "ap_mfa_arn q = ap_mfa_arn p" "ap_is_default q = ap_is_default p"
    "ap_region q = strip (ap_region p)"
    "ap_encrypted_access_key q = ap_encrypted_access_key p"
    "ap_encrypted_secret_key q = ap_encrypted_secret_key p"
    "ap_mfa_enabled q = ap_mfa_enabled p"
    "ap_session_duration_hours q = ap_session_duration_hours p"
  using assms by (auto simp: aws_profile_init_Inr_iff)

text \<open>The bookkeeping columns do not take part in the validation.\<close>

lemma profile_ok_bookkeeping [simp]:
  "profile_ok (p\<lparr>ap_id := i\<rparr>) = profile_ok p"
  "profile_ok (p\<lparr>ap_is_default := d\<rparr>) = profile_ok p"
  "profile_ok (p\<lparr>ap_created_at := c\<rparr>) = profile_ok p"
  "profile_ok (p\<lparr>ap_updated_at := u\<rparr>) = profile_ok p"
  by (cases p; auto simp: profile_ok_def aws_profile_init_Inr_iff)+

lemma plain_credentials_init_Inr:
  "plain_credentials_init a s t = Inr c \<longleftrightarrow>
     fullmatch access_key_re a \<and> 16 \<le> length s \<and> t \<noteq> Some [] \<and>
     c = \<lparr>pc_access_key = a, pc_secret_key = s, pc_session_token = t\<rparr>"
  by (auto simp: plain_credentials_init_def)

lemma default_mfa_arn_prefix:
  "startswith (default_mfa_arn a u) (''arn:aws:iam::'' @ a @ '':mfa/'')"
  by (auto simp: default_mfa_arn_def startswith_def prefix_def)

subsection \<open>The refresh window\<close>

lemma divide_and_round_bounds:
  assumes "0 < a" "1 < b"
  shows "0 \<le> divide_and_round a b" "divide_and_round a b < a"
proof -
  have dm: "a = b * (a div b) + a mod b" and m: "0 \<le> a mod b" "a mod b < b"
    and q0: "0 \<le> a div b"
    using assms by (auto simp: pos_imp_zdiv_nonneg_iff)
  then show "0 \<le> divide_and_round a b"
    by (auto simp: divide_and_round_def Let_def)
  have b2: "2 * (a div b) \<le> b * (a div b)"
    using assms q0 by (intro mult_right_mono) auto
  show "divide_and_round a b < a"
  proof (cases "2 * (a mod b) > b \<or> (2 * (a mod b) = b \<and> (a div b) mod 2 = 1)")
    case True
    then have "1 < a mod b \<or> (a mod b = 1 \<and> b = 2 \<and> a div b \<ge> 1)"
      using assms m q0 by (cases "a div b = 0") auto
    with dm b2 q0 have "a div b + 1 < a" by linarith
    with True show ?thesis by (simp add: divide_and_round_def Let_def)
  next
    case False
    have "a div b < a" using assms by (intro int_div_less_self) auto
    with False show ?thesis by (auto simp: divide_and_round_def Let_def)
  qed
qed

lemma refresh_window_bounds:
  assumes "0 < d"
  shows "0 \<le> min max_session_refresh_window (divide_and_round d 10)"
    "min max_session_refresh_window (divide_and_round d 10) < d"
    "min max_session_refresh_window (divide_and_round d 10) \<le> minutes 30"
  using divide_and_round_bounds [OF assms, of 10]
  by (auto simp: max_session_refresh_window_def)

lemma not_needs_refresh_iff:
  "\<not> needs_refresh s now \<longleftrightarrow>
     sc_verified_at_utc s < sc_expires_at_utc s \<and>
     now + min max_session_refresh_window
             (divide_and_round (sc_expires_at_utc s - sc_verified_at_utc s) 10)
       < sc_expires_at_utc s"
  by (auto simp: needs_refresh_def Let_def not_less not_le)

lemma needs_refresh_unexpired: "\<not> needs_refresh s now \<Longrightarrow> now < sc_expires_at_utc s"
  using refresh_window_bounds(1) [of "sc_expires_at_utc s - sc_verified_at_utc s"]
  unfolding not_needs_refresh_iff by linarith

lemma needs_refresh_mono: "needs_refresh s now \<Longrightarrow> now \<le> later \<Longrightarrow> needs_refresh s later"
  using not_needs_refresh_iff [of s now] not_needs_refresh_iff [of s later] by linarith

lemma needs_refresh_fresh:
  "sc_verified_at_utc s < sc_expires_at_utc s \<Longrightarrow> \<not> needs_refresh s (sc_verified_at_utc s)"
  using refresh_window_bounds(2) [of "sc_expires_at_utc s - sc_verified_at_utc s"]
  unfolding not_needs_refresh_iff by linarith

end
