(* ===== verification/Domain_Tunnel.thy ===== *)
theory Domain_Tunnel
  imports Domain_Profile
begin

text \<open>
  Saved RDS tunnel sessions (\<open>domain/tunnel_session.py\<close>), with the part of the standard
  library's \<open>ipaddress.ip_address\<close> that \<open>_valid_host\<close> uses: whether a text is an IPv4 or an
  IPv6 address (an IPv6 address may carry a zone after a percent sign).
\<close>

subsection \<open>IP addresses\<close>

definition ipv4_octet :: "string \<Rightarrow> bool" where
  "ipv4_octet s \<longleftrightarrow> s \<noteq> [] \<and> isascii s \<and> isdigit s \<and> length s \<le> 3 \<and>
     (s = ''0'' \<or> hd s \<noteq> CHR ''0'') \<and> dec_value 0 s \<le> 255"

definition is_ipv4 :: "string \<Rightarrow> bool" where
  "is_ipv4 s \<longleftrightarrow> CHR ''/'' \<notin> set s \<and>
     (let octets = split_on (CHR ''.'') s in length octets = 4 \<and> list_all ipv4_octet octets)"

definition ipv6_hextet :: "string \<Rightarrow> bool" where
  "ipv6_hextet s \<longleftrightarrow> s \<noteq> [] \<and> list_all is_hex s \<and> length s \<le> 4"

definition zone_ok :: "string \<Rightarrow> bool" where
  \<comment> \<open>\<open>_split_scope_id\<close>: without a percent sign, or with one and a zone after it\<close>
  "zone_ok s \<longleftrightarrow> (case split_on (CHR ''%'') s of [_] \<Rightarrow> True | [_, z] \<Rightarrow> z \<noteq> [] | _ \<Rightarrow> False)"

definition ipv6_parts :: "string \<Rightarrow> string list option" where
  \<comment> \<open>the colon-separated parts, an IPv4 suffix replaced by the two hextets it stands for\<close>
  "ipv6_parts addr =
     (let parts = split_on (CHR '':'') addr in
      if length parts < 3 then None
      else if CHR ''.'' \<in> set (last parts)
      then (if is_ipv4 (last parts) then Some (butlast parts @ [''0'', ''0'']) else None)
      else Some parts)"

definition inner_empty :: "string list \<Rightarrow> nat list" where
  \<comment> \<open>where an empty part stands between the two ends\<close>
  "inner_empty parts = filter (\<lambda>i. parts ! i = []) [1..<length parts - 1]"

definition ipv6_parts_ok :: "string list \<Rightarrow> bool" where
  "ipv6_parts_ok parts \<longleftrightarrow> length parts \<le> 9 \<and>
     (case inner_empty parts of
        [] \<Rightarrow> length parts = 8 \<and> list_all ipv6_hextet parts
      | [i] \<Rightarrow>
          (let hi = (if hd parts = [] then i - 1 else i);
               lo = (if last parts = [] then length parts - i - 2 else length parts - i - 1)
           in (hd parts = [] \<longrightarrow> hi = 0) \<and> (last parts = [] \<longrightarrow> lo = 0) \<and> hi + lo < 8 \<and>
              list_all ipv6_hextet (take hi parts) \<and>
              list_all ipv6_hextet (drop (length parts - lo) parts))
      | _ \<Rightarrow> False)"

definition is_ipv6 :: "string \<Rightarrow> bool" where
  "is_ipv6 s \<longleftrightarrow> CHR ''/'' \<notin> set s \<and> zone_ok s \<and>
     (case ipv6_parts (hd (split_on (CHR ''%'') s)) of
        None \<Rightarrow> False | Some parts \<Rightarrow> ipv6_parts_ok parts)"

definition is_ip_address :: "string \<Rightarrow> bool" where
  "is_ip_address s \<longleftrightarrow> is_ipv4 s \<or> is_ipv6 s"

subsection \<open>Tunnel sessions\<close>

datatype target_mode = Fixed | Select

definition host_label_re :: regex where
  "host_label_re = Seqr (one_of is_alnum_ascii)
     (Optr (Seqr (Cls (\<lambda>c. is_alnum_ascii c \<or> c = CHR ''-'') 0 (Some 61)) (one_of is_alnum_ascii)))"

definition instance_id_re :: regex where
  "instance_id_re = Seqr (lit ''i-'') (Cls is_hex 8 (Some 17))"

definition tunnel_session_duration_hours_allowed :: "int list" where
  "tunnel_session_duration_hours_allowed = [1, 8, 12, 24]"

definition default_tunnel_session_duration_hours :: int where
  "default_tunnel_session_duration_hours = 12"

record tunnel_session =
  ts_id :: "int option"
  ts_profile_id :: int
  ts_name :: string
  ts_host :: string
  ts_remote_port :: int
  ts_local_port :: int
  ts_target_mode :: target_mode
  ts_target_instance_id :: "string option"
  ts_created_at :: "instant option"
  ts_updated_at :: "instant option"
  ts_last_used_at :: "instant option"
  ts_session_duration_hours :: int

definition validate_tunnel_duration :: "int \<Rightarrow> app_error + unit" where
  "validate_tunnel_duration v =
     (if v \<notin> set tunnel_session_duration_hours_allowed
      then Inl (config_error_because ''rds.session.duration.invalid''
                  ''choose 1, 8, 12 or 24 hours'')
      else Inr ())"

definition validate_local_port :: "int \<Rightarrow> app_error + unit" where
  "validate_local_port port =
     (if \<not> (1 \<le> port \<and> port \<le> 65535) then Inl (config_error ''rds.session.local_port.invalid'')
      else Inr ())"

definition valid_host :: "string \<Rightarrow> bool" where
  "valid_host s \<longleftrightarrow>
     (if s = [] \<or> length s > 253 \<or> list_ex is_space s then False
      else if is_ip_address s then True
      else let normalized = (if endswith s ''.'' then butlast s else s)
           in normalized \<noteq> [] \<and> list_all (fullmatch host_label_re) (split_on (CHR ''.'') normalized))"

definition tunnel_session_init :: "tunnel_session \<Rightarrow> app_error + tunnel_session" where
  "tunnel_session_init t =
     (case validate_tunnel_duration (ts_session_duration_hours t) of Inl e \<Rightarrow> Inl e | Inr _ \<Rightarrow>
      let normalized_name = strip (ts_name t); normalized_host = strip (ts_host t) in
      if normalized_name = [] then Inl (config_error ''rds.session.name.required'')
      else if \<not> valid_host normalized_host then Inl (config_error ''rds.session.host.invalid'')
      else if \<not> (1 \<le> ts_remote_port t \<and> ts_remote_port t \<le> 65535)
      then Inl (config_error ''rds.session.remote_port.invalid'')
      else case validate_local_port (ts_local_port t) of Inl e \<Rightarrow> Inl e | Inr _ \<Rightarrow>
      if ts_profile_id t \<le> 0 then Inl (config_error ''rds.session.profile_id.invalid'')
      else if ts_target_mode t = Fixed
      then (case ts_target_instance_id t of
              None \<Rightarrow> Inl (config_error ''rds.session.target_instance_id.invalid'')
            | Some i \<Rightarrow>
                if i = [] \<or> \<not> fullmatch instance_id_re i
                then Inl (config_error ''rds.session.target_instance_id.invalid'') else Inr t)
      else if ts_target_instance_id t \<noteq> None
      then Inl (config_error ''rds.session.select_target_must_be_empty'')
      else Inr t)"

definition require_tunnel_id :: "tunnel_session \<Rightarrow> app_error + int" where
  "require_tunnel_id t =
     (case ts_id t of None \<Rightarrow> Inl (config_error ''rds.session.id.required'') | Some i \<Rightarrow> Inr i)"

definition resolve_target :: "tunnel_session \<Rightarrow> string option \<Rightarrow> app_error + string" where
  "resolve_target t selected =
     (let candidate = (if ts_target_mode t = Fixed then ts_target_instance_id t else selected)
      in case candidate of
           Some i \<Rightarrow> if fullmatch instance_id_re i then Inr i
             else Inl (config_error (if ts_target_mode t = Fixed
                  then ''rds.session.target_instance_id.invalid'' else ''rds.tunnel.target_required''))
         | None \<Rightarrow> Inl (config_error (if ts_target_mode t = Fixed
                  then ''rds.session.target_instance_id.invalid'' else ''rds.tunnel.target_required'')))"

subsection \<open>Facts\<close>

definition tunnel_ok :: "tunnel_session \<Rightarrow> bool" where
  "tunnel_ok t \<longleftrightarrow> tunnel_session_init t = Inr t"

lemma tunnel_session_init_Inr_iff:
  "tunnel_session_init t = Inr u \<longleftrightarrow>
     ts_session_duration_hours t \<in> set tunnel_session_duration_hours_allowed \<and>
     strip (ts_name t) \<noteq> [] \<and> valid_host (strip (ts_host t)) \<and>
     1 \<le> ts_remote_port t \<and> ts_remote_port t \<le> 65535 \<and>
     1 \<le> ts_local_port t \<and> ts_local_port t \<le> 65535 \<and> 0 < ts_profile_id t \<and>
     (case ts_target_mode t of
        Fixed \<Rightarrow> (\<exists>i. ts_target_instance_id t = Some i \<and> i \<noteq> [] \<and> fullmatch instance_id_re i)
      | Select \<Rightarrow> ts_target_instance_id t = None) \<and> u = t"
  by (cases "ts_target_mode t"; cases "ts_target_instance_id t")
     (auto simp: tunnel_session_init_def validate_tunnel_duration_def validate_local_port_def Let_def
        split: if_splits)

lemma tunnel_session_init_same: "tunnel_session_init t = Inr u \<Longrightarrow> u = t"
  by (simp add: tunnel_session_init_Inr_iff)

lemma tunnel_session_init_ok: "tunnel_session_init t = Inr u \<Longrightarrow> tunnel_ok u"
  using tunnel_session_init_same by (fastforce simp: tunnel_ok_def)

lemma tunnel_ok_bookkeeping [simp]:
  "tunnel_ok (t\<lparr>ts_id := i\<rparr>) = tunnel_ok t"
  "tunnel_ok (t\<lparr>ts_created_at := c\<rparr>) = tunnel_ok t"
  "tunnel_ok (t\<lparr>ts_updated_at := d\<rparr>) = tunnel_ok t"
  "tunnel_ok (t\<lparr>ts_last_used_at := d\<rparr>) = tunnel_ok t"
  by (cases "ts_target_mode t"; simp add: tunnel_ok_def tunnel_session_init_Inr_iff)+

lemma resolve_target_Inr:
  "resolve_target t sel = Inr i \<Longrightarrow> fullmatch instance_id_re i"
  by (auto simp: resolve_target_def Let_def split: if_splits option.splits)

lemma resolve_target_fixed:
  "tunnel_ok t \<Longrightarrow> ts_target_mode t = Fixed \<Longrightarrow>
     resolve_target t sel = Inr (the (ts_target_instance_id t))"
  by (auto simp: tunnel_ok_def tunnel_session_init_Inr_iff resolve_target_def)

text \<open>A valid host has no white space and no slash, so it needs no further quoting.\<close>

lemma host_label_chars:
  "fullmatch host_label_re w \<Longrightarrow> list_all (\<lambda>c. is_alnum_ascii c \<or> c = CHR ''-'') w"
  by (rule fullmatch_chars) (auto simp: host_label_re_def)

lemma valid_host_no_space: "valid_host s \<Longrightarrow> list_all (\<lambda>c. \<not> is_space c) s"
  by (auto simp: valid_host_def list_all_iff list_ex_iff split: if_splits)

lemma valid_host_bounds: "valid_host s \<Longrightarrow> 0 < length s \<and> length s \<le> 253"
  by (auto simp: valid_host_def split: if_splits)

end
