(* ===== verification/Domain_S3.thy ===== *)
theory Domain_S3
  imports Domain_Profile
begin

text \<open>
  Saved S3 locations and drives (\<open>domain/s3_location.py\<close>, \<open>domain/s3_drive.py\<close>) and saved
  Secret snapshots (\<open>domain/saved_secret.py\<close>): the values, their validation and the
  normalisation their constructors do.
\<close>

subsection \<open>S3 locations\<close>

definition bucket_re :: regex where
  "bucket_re = seq_all [one_of (\<lambda>c. is_lower_az c \<or> is_dec c),
     Cls (\<lambda>c. is_lower_az c \<or> is_dec c \<or> c = CHR ''.'' \<or> c = CHR ''-'') 1 (Some 61),
     one_of (\<lambda>c. is_lower_az c \<or> is_dec c)]"

definition dotted_quad_re :: regex where
  "dotted_quad_re = Seqr (Cls is_dec 1 (Some 3))
     (Times 3 (Seqr (lit_char (CHR ''.'')) (Cls is_dec 1 (Some 3))))"

definition bucket_matches :: "string \<Rightarrow> bool" where
  \<comment> \<open>the pattern opens with a negative lookahead for a dotted quad up to \<open>$\<close>\<close>
  "bucket_matches s \<longleftrightarrow> \<not> match_then_dollar dotted_quad_re s \<and> fullmatch bucket_re s"

record s3_location =
  sl_id :: "int option"
  sl_profile_id :: int
  sl_name :: string
  sl_bucket :: string
  sl_prefix :: string
  sl_created_at :: "instant option"
  sl_updated_at :: "instant option"

definition s3_location_init :: "s3_location \<Rightarrow> app_error + s3_location" where
  "s3_location_init l =
     (let name = strip (sl_name l); bucket = strip (sl_bucket l);
          pfx = lstrip_char (CHR ''/'') (strip (sl_prefix l)) in
      if name = [] then Inl (config_error ''s3.location.name.required'')
      else if \<not> bucket_matches bucket \<or> contains bucket ''..'' \<or> contains bucket ''.-''
           \<or> contains bucket ''-.''
      then Inl (config_error ''s3.bucket.invalid'')
      else if sl_profile_id l \<le> 0 then Inl (config_error ''s3.location.profile_id.invalid'')
      else if CHR 0x00 \<in> set pfx then Inl (config_error ''s3.prefix.invalid'')
      else Inr (l\<lparr>sl_name := name, sl_bucket := bucket, sl_prefix := pfx\<rparr>))"

definition new_s3_location ::
    "int option \<Rightarrow> int \<Rightarrow> string \<Rightarrow> string \<Rightarrow> string \<Rightarrow> app_error + s3_location" where
  \<comment> \<open>\<open>S3Location(id, profile_id, name, bucket, prefix)\<close>\<close>
  "new_s3_location i profile_id name bucket pfx =
     s3_location_init \<lparr>sl_id = i, sl_profile_id = profile_id, sl_name = name, sl_bucket = bucket,
       sl_prefix = pfx, sl_created_at = None, sl_updated_at = None\<rparr>"

definition require_location_id :: "s3_location \<Rightarrow> app_error + int" where
  "require_location_id l =
     (case sl_id l of None \<Rightarrow> Inl (config_error ''s3.location.id.required'') | Some i \<Rightarrow> Inr i)"

subsection \<open>S3 drives\<close>

datatype drive_state =
  DriveDisconnected | DriveConnecting | DriveConnected | DriveDisconnecting | DriveError

record s3_drive =
  sd_id :: "int option"
  sd_profile_id :: int
  sd_name :: string
  sd_bucket :: string
  sd_prefix :: string
  sd_letter :: string
  sd_local_prefix :: string

record drive_status =
  dst_drive :: s3_drive
  dst_state :: drive_state
  dst_message_code :: string

definition reserved_names :: "string list" where
  "reserved_names = [''CON'', ''PRN'', ''AUX'', ''NUL''] @
     map (\<lambda>i. ''COM'' @ digits_of i) [1..<10] @ map (\<lambda>i. ''LPT'' @ digits_of i) [1..<10]"

definition windows_forbidden :: "char \<Rightarrow> bool" where
  "windows_forbidden c \<longleftrightarrow> c \<in> set ''<>:|?*='' \<or> code c = 34 \<or> code c \<le> 31"

definition local_part_bad :: "string \<Rightarrow> bool" where
  "local_part_bad p \<longleftrightarrow> p = [] \<or> p = ''.'' \<or> p = ''..'' \<or> endswith p ''.'' \<or> endswith p '' ''
     \<or> str_upper (hd (split_on (CHR ''.'') p)) \<in> set reserved_names \<or> list_ex windows_forbidden p"

definition drive_letter_re :: regex where
  "drive_letter_re = one_of (\<lambda>c. 68 \<le> code c \<and> code c \<le> 90)"

definition s3_drive_init :: "s3_drive \<Rightarrow> app_error + s3_drive" where
  "s3_drive_init d =
     (case new_s3_location None (sd_profile_id d) (sd_name d) (sd_bucket d) (sd_prefix d) of
        Inl e \<Rightarrow> Inl e
      | Inr location \<Rightarrow>
      let letter = rstrip_char (CHR '':'') (str_upper (sd_letter d));
          local = strip_char (CHR ''/'') (replace_char (char_of (92::nat)) (CHR ''/'') (sd_local_prefix d));
          parts = (if local = [] then [] else split_on (CHR ''/'') local) in
      if \<not> fullmatch drive_letter_re letter
      then Inl (config_error_because ''drive.letter.invalid'' ''Choose a drive from D: to Z:'')
      else if list_ex local_part_bad parts
      then Inl (config_error_because ''drive.prefix.invalid'' ''Enter a valid relative Windows path'')
      else if list_ex (\<lambda>c. code c < 32) (sl_prefix location)
      then Inl (config_error_because ''drive.prefix.invalid'' ''Control characters are not supported'')
      else Inr (d\<lparr>sd_name := sl_name location, sd_bucket := sl_bucket location,
                 sd_prefix := rstrip_char (CHR ''/'') (sl_prefix location),
                 sd_letter := letter, sd_local_prefix := local\<rparr>))"

definition require_drive_id :: "s3_drive \<Rightarrow> app_error + int" where
  "require_drive_id d =
     (case sd_id d of
        None \<Rightarrow> Inl (config_error_because ''drive.not_found'' ''Save the drive before connecting'')
      | Some i \<Rightarrow> Inr i)"

definition drive_uri :: "s3_drive \<Rightarrow> string" where
  "drive_uri d = ''s3://'' @ sd_bucket d @ ''/'' @
     (if sd_prefix d \<noteq> [] then sd_prefix d @ ''/'' else [])"

definition windows_path :: "s3_drive \<Rightarrow> string" where
  "windows_path d = sd_letter d @ '':'' @ [char_of (92::nat)] @
     replace_char (CHR ''/'') (char_of (92::nat)) (sd_local_prefix d)"

subsection \<open>Saved Secrets\<close>

datatype secret_lookup_mode = Direct | ViaEc2

record saved_secret =
  ss_id :: "int option"
  ss_profile_id :: int
  ss_identifier :: string
  ss_value :: string
  ss_lookup_mode :: secret_lookup_mode
  ss_relay_instance_id :: "string option"
  ss_last_retrieved_at :: "instant option"

definition normalized_relay :: "string option \<Rightarrow> string option" where
  "normalized_relay r =
     (let stripped = map_option strip r in if stripped = Some [] then None else stripped)"

definition saved_secret_init :: "saved_secret \<Rightarrow> app_error + saved_secret" where
  "saved_secret_init s =
     (let identifier = strip (ss_identifier s) in
      if ss_profile_id s \<le> 0
      then Inl (config_error_because ''secret.saved.profile.invalid'' ''Profile ID must be positive'')
      else if identifier = [] \<or> 2048 < length identifier \<or> CHR 0x00 \<in> set identifier
      then Inl (config_error_because ''secret.saved.identifier.invalid''
                  ''A valid Secret name or ARN is required'')
      else
        let relay = normalized_relay (ss_relay_instance_id s) in
      if ss_lookup_mode s = ViaEc2 \<and> relay = None
      then Inl (config_error_because ''secret.saved.relay.required''
                  ''An EC2 relay instance is required for an EC2-mediated saved Secret'')
      else if ss_lookup_mode s = Direct \<and> relay \<noteq> None
      then Inl (config_error_because ''secret.saved.relay.unexpected''
                  ''A directly retrieved saved Secret cannot have an EC2 relay instance'')
      else Inr (s\<lparr>ss_identifier := identifier, ss_relay_instance_id := relay\<rparr>))"

definition require_secret_id :: "saved_secret \<Rightarrow> app_error + int" where
  "require_secret_id s =
     (case ss_id s of
        None \<Rightarrow> Inl (config_error_because ''secret.saved.id.required'' ''Saved Secret ID is required'')
      | Some i \<Rightarrow> Inr i)"

subsection \<open>Facts\<close>

lemma s3_location_init_Inr_iff:
  "s3_location_init l = Inr m \<longleftrightarrow>
     strip (sl_name l) \<noteq> [] \<and> bucket_matches (strip (sl_bucket l)) \<and>
     \<not> contains (strip (sl_bucket l)) ''..'' \<and> \<not> contains (strip (sl_bucket l)) ''.-'' \<and>
     \<not> contains (strip (sl_bucket l)) ''-.'' \<and> 0 < sl_profile_id l \<and>
     CHR 0x00 \<notin> set (lstrip_char (CHR ''/'') (strip (sl_prefix l))) \<and>
     m = l\<lparr>sl_name := strip (sl_name l), sl_bucket := strip (sl_bucket l),
           sl_prefix := lstrip_char (CHR ''/'') (strip (sl_prefix l))\<rparr>"
  by (auto simp: s3_location_init_def Let_def split: if_splits)

lemma s3_location_init_fields:
  assumes "s3_location_init l = Inr m"
  shows "sl_id m = sl_id l" "sl_profile_id m = sl_profile_id l" "sl_name m = strip (sl_name l)"
    "sl_bucket m = strip (sl_bucket l)" "0 < sl_profile_id m" "bucket_matches (sl_bucket m)"
    "sl_prefix m = lstrip_char (CHR ''/'') (strip (sl_prefix l))"
  using assms by (auto simp: s3_location_init_Inr_iff)

lemma bucket_chars:
  "bucket_matches b \<Longrightarrow>
     list_all (\<lambda>c. is_lower_az c \<or> is_dec c \<or> c = CHR ''.'' \<or> c = CHR ''-'') b"
  unfolding bucket_matches_def by (elim conjE, rule fullmatch_chars) (auto simp: bucket_re_def)

lemma bucket_length: "bucket_matches b \<Longrightarrow> 3 \<le> length b \<and> length b \<le> 63"
  by (auto simp: bucket_matches_def bucket_re_def fullmatch_Seqr fullmatch_Cls)

lemma bucket_no_slash: "bucket_matches b \<Longrightarrow> CHR ''/'' \<notin> set b"
  by (drule bucket_chars) (auto simp: list_all_iff py_char_defs)

lemma lstrip_char_head: "lstrip_char c s = [] \<or> hd (lstrip_char c s) \<noteq> c"
  unfolding lstrip_char_def using hd_dropWhile_head by blast

lemma s3_location_prefix_relative:
  "s3_location_init l = Inr m \<Longrightarrow> sl_prefix m = [] \<or> hd (sl_prefix m) \<noteq> CHR ''/''"
  using lstrip_char_head by (auto simp: s3_location_init_Inr_iff)

lemma normalized_relay_idem [simp]: "normalized_relay (normalized_relay r) = normalized_relay r"
  by (cases r) (auto simp: normalized_relay_def)

lemma saved_secret_init_Inr_iff:
  "saved_secret_init s = Inr t \<longleftrightarrow>
     0 < ss_profile_id s \<and> strip (ss_identifier s) \<noteq> [] \<and>
     length (strip (ss_identifier s)) \<le> 2048 \<and> CHR 0x00 \<notin> set (strip (ss_identifier s)) \<and>
     (ss_lookup_mode s = ViaEc2 \<longleftrightarrow> normalized_relay (ss_relay_instance_id s) \<noteq> None) \<and>
     t = s\<lparr>ss_identifier := strip (ss_identifier s),
           ss_relay_instance_id := normalized_relay (ss_relay_instance_id s)\<rparr>"
  by (cases "ss_lookup_mode s") (auto simp: saved_secret_init_def Let_def split: if_splits)

lemma saved_secret_init_idem: "saved_secret_init s = Inr t \<Longrightarrow> saved_secret_init t = Inr t"
  by (simp add: saved_secret_init_Inr_iff)

definition secret_ok :: "saved_secret \<Rightarrow> bool" where
  "secret_ok s \<longleftrightarrow> saved_secret_init s = Inr s"

lemma saved_secret_init_ok: "saved_secret_init s = Inr t \<Longrightarrow> secret_ok t"
  by (simp add: secret_ok_def saved_secret_init_idem)

lemma secret_ok_iff:
  "secret_ok s \<longleftrightarrow> 0 < ss_profile_id s \<and> ss_identifier s \<noteq> [] \<and>
     length (ss_identifier s) \<le> 2048 \<and> CHR 0x00 \<notin> set (ss_identifier s) \<and>
     strip (ss_identifier s) = ss_identifier s \<and>
     normalized_relay (ss_relay_instance_id s) = ss_relay_instance_id s \<and>
     (ss_lookup_mode s = ViaEc2 \<longleftrightarrow> ss_relay_instance_id s \<noteq> None)"
  by (cases s) (simp add: secret_ok_def saved_secret_init_Inr_iff, metis)

lemma secret_ok_bookkeeping [simp]:
  "secret_ok (s\<lparr>ss_id := i\<rparr>) = secret_ok s"
  "secret_ok (s\<lparr>ss_last_retrieved_at := r\<rparr>) = secret_ok s"
  "secret_ok (s\<lparr>ss_value := v\<rparr>) = secret_ok s"
  by (simp_all add: secret_ok_iff)

lemma secret_ok_relay:
  "secret_ok s \<Longrightarrow> ss_lookup_mode s = ViaEc2 \<longleftrightarrow> ss_relay_instance_id s \<noteq> None"
  by (simp add: secret_ok_iff)

lemma in_set_rstrip_char: "x \<in> set (rstrip_char c s) \<Longrightarrow> x \<in> set s"
  unfolding rstrip_char_def set_rev by (drule set_dropWhileD) simp

lemma list_all_rstrip_char: "list_all P s \<Longrightarrow> list_all P (rstrip_char c s)"
  by (auto simp: list_all_iff dest: in_set_rstrip_char)

lemma s3_drive_init_Inr:
  assumes "s3_drive_init d = Inr e"
  shows "fullmatch drive_letter_re (sd_letter e)" "sd_id e = sd_id d"
    "sd_profile_id e = sd_profile_id d" "bucket_matches (sd_bucket e)" "0 < sd_profile_id e"
    "sd_local_prefix e = [] \<or>
       list_all (\<lambda>p. \<not> local_part_bad p) (split_on (CHR ''/'') (sd_local_prefix e))"
    "list_all (\<lambda>c. 32 \<le> code c) (sd_prefix e)"
proof -
  from assms obtain l where l: "new_s3_location None (sd_profile_id d) (sd_name d) (sd_bucket d)
      (sd_prefix d) = Inr l" and chars: "list_all (\<lambda>c. 32 \<le> code c) (sl_prefix l)"
    and e: "sd_prefix e = rstrip_char (CHR ''/'') (sl_prefix l)"
    by (auto simp: s3_drive_init_def Let_def list_ex_iff list_all_iff not_less
        split: sum.splits if_splits)
  show "list_all (\<lambda>c. 32 \<le> code c) (sd_prefix e)"
    unfolding e by (rule list_all_rstrip_char [OF chars])
qed (use assms in \<open>auto simp: s3_drive_init_def new_s3_location_def s3_location_init_Inr_iff Let_def
      list_ex_iff list_all_iff split: sum.splits if_splits\<close>)

end
