(* ===== verification/Store_Database.thy ===== *)
theory Store_Database
  imports Sqlite_Table Domain_Tunnel Domain_S3 "HOL-Library.Char_ord" "HOL-Library.List_Lexorder"
begin

text \<open>
  The database of \<open>infrastructure/sqlite_profile_store.py\<close>: one field a table, the functions
  that read a row back into its domain object (each runs the object's own validation again, as the
  constructors do), the translation of SQLite's messages to error codes, and the invariant of a
  database that only the store has written.  A time stamp column holds text: \<open>StampUtc\<close> is what
  the store writes, the other two are texts that do not parse or carry no time zone.
\<close>

datatype stamp = StampUtc instant | StampNaive | StampMalformed

record session_row =
  sr_encrypted_access_key :: bytes
  sr_encrypted_secret_key :: bytes
  sr_encrypted_session_token :: bytes
  sr_expires_at_utc :: stamp
  sr_verified_at_utc :: stamp

record database =
  db_profiles :: "aws_profile table"
  db_sessions :: "(int, session_row) dict"
  db_tunnels :: "tunnel_session table"
  db_locations :: "s3_location table"
  db_favorites :: "(int \<times> string \<times> string) list"
  db_secrets :: "saved_secret table"
  db_drives :: "s3_drive table"
  db_settings :: "(string, string) dict"

definition empty_database :: database where
  "empty_database =
     \<lparr>db_profiles = empty_table, db_sessions = [], db_tunnels = empty_table,
      db_locations = empty_table, db_favorites = [], db_secrets = empty_table,
      db_drives = empty_table, db_settings = []\<rparr>"

subsection \<open>Rows\<close>

definition load_profile :: "int \<times> aws_profile \<Rightarrow> app_error + aws_profile" where
  "load_profile row = (case row of (i, r) \<Rightarrow> aws_profile_init (r\<lparr>ap_id := Some i\<rparr>))"

definition load_tunnel :: "int \<times> tunnel_session \<Rightarrow> app_error + tunnel_session" where
  \<comment> \<open>an empty \<open>target_instance_id\<close> column reads as \<open>None\<close>\<close>
  "load_tunnel row = (case row of (i, r) \<Rightarrow>
     tunnel_session_init (r\<lparr>ts_id := Some i,
       ts_target_instance_id :=
         (if ts_target_instance_id r = Some [] then None else ts_target_instance_id r)\<rparr>))"

definition load_location :: "int \<times> s3_location \<Rightarrow> app_error + s3_location" where
  "load_location row = (case row of (i, r) \<Rightarrow> s3_location_init (r\<lparr>sl_id := Some i\<rparr>))"

definition load_secret :: "int \<times> saved_secret \<Rightarrow> app_error + saved_secret" where
  "load_secret row = (case row of (i, r) \<Rightarrow> saved_secret_init (r\<lparr>ss_id := Some i\<rparr>))"

definition load_drive :: "int \<times> s3_drive \<Rightarrow> app_error + s3_drive" where
  "load_drive row = (case row of (i, r) \<Rightarrow> s3_drive_init (r\<lparr>sd_id := Some i\<rparr>))"

definition load_opt :: "(int \<times> 'r \<Rightarrow> app_error + 'r) \<Rightarrow> (int \<times> 'r) option \<Rightarrow> ('d, exn, 'r option) eff" where
  \<comment> \<open>\<open>_row(row) if row else None\<close>\<close>
  "load_opt load row = (case row of None \<Rightarrow> ret None | Some p \<Rightarrow> bind (of_app (load p)) (\<lambda>x. ret (Some x)))"

definition load_all :: "(int \<times> 'r \<Rightarrow> app_error + 'r) \<Rightarrow> (int \<times> 'r) list \<Rightarrow> ('d, exn, 'r list) eff" where
  "load_all load rows = map_each (\<lambda>p. of_app (load p)) rows"

definition row_at :: "'r table \<Rightarrow> int \<Rightarrow> (int \<times> 'r) option" where
  "row_at t i = map_option (Pair i) (tb_get t i)"

subsection \<open>Errors\<close>

abbreviation store_error :: "string \<Rightarrow> app_error" where
  "store_error c \<equiv> config_error c"

definition tunnel_store_error :: "string \<Rightarrow> exn" where
  "tunnel_store_error cause = AppExn (config_error_because
     (if contains cause ''tunnel_sessions.profile_id, tunnel_sessions.name''
      then ''rds.session.name.duplicate'' else ''rds.session.persistence.invalid'') cause)"

definition s3_store_error :: "string \<Rightarrow> exn" where
  "s3_store_error cause = AppExn (config_error_because
     (if contains cause ''s3_locations.profile_id, s3_locations.name''
      then ''s3.location.name.duplicate'' else ''s3.location.persistence.invalid'') cause)"

definition saved_secret_store_error :: "string \<Rightarrow> exn" where
  "saved_secret_store_error cause = AppExn (config_error_because
     (if contains cause ''saved_secrets.profile_id, saved_secrets.identifier''
      then ''secret.saved.identifier.duplicate'' else ''secret.saved.persistence.invalid'') cause)"

definition foreign_key_failed :: exn where
  "foreign_key_failed = IntegrityError ''FOREIGN KEY constraint failed''"

subsection \<open>The invariant\<close>

abbreviation profile_ids :: "database \<Rightarrow> int set" where
  "profile_ids db \<equiv> fst ` set (tb_rows (db_profiles db))"

abbreviation tunnel_key :: "tunnel_session \<Rightarrow> int \<times> string" where
  "tunnel_key t \<equiv> (ts_profile_id t, ts_name t)"

abbreviation location_key :: "s3_location \<Rightarrow> int \<times> string" where
  "location_key l \<equiv> (sl_profile_id l, sl_name l)"

abbreviation secret_key :: "saved_secret \<Rightarrow> int \<times> string" where
  "secret_key s \<equiv> (ss_profile_id s, ss_identifier s)"

abbreviation drive_key :: "s3_drive \<Rightarrow> int \<times> string" where
  "drive_key d \<equiv> (sd_profile_id d, sd_name d)"

definition defaults :: "(int \<times> aws_profile) list \<Rightarrow> (int \<times> aws_profile) list" where
  "defaults rows = filter (\<lambda>(i, r). ap_is_default r) rows"

definition one_default :: "(int \<times> aws_profile) list \<Rightarrow> bool" where
  "one_default rows \<longleftrightarrow> length (defaults rows) = (if rows = [] then 0 else 1)"

definition rows_ok :: "('r \<Rightarrow> bool) \<Rightarrow> 'r table \<Rightarrow> bool" where
  "rows_ok P t \<longleftrightarrow> list_all (\<lambda>(i, r). P r) (tb_rows t)"

definition loads :: "(int \<times> 'r \<Rightarrow> app_error + 'r) \<Rightarrow> 'r \<Rightarrow> bool" where
  \<comment> \<open>the row reads back without an error, under any row id\<close>
  "loads load r \<longleftrightarrow> (\<forall>i. \<exists>x. load (i, r) = Inr x)"

definition profiles_ok :: "database \<Rightarrow> bool" where
  "profiles_ok db \<longleftrightarrow> tb_ok ap_name (db_profiles db) \<and> rows_ok profile_ok (db_profiles db) \<and>
     one_default (tb_rows (db_profiles db))"

definition owned_ok :: "('r \<Rightarrow> int) \<Rightarrow> int set \<Rightarrow> 'r table \<Rightarrow> bool" where
  "owned_ok owner ids t \<longleftrightarrow> rows_ok (\<lambda>r. owner r \<in> ids) t"

definition children_ok :: "int set \<Rightarrow> database \<Rightarrow> bool" where
  \<comment> \<open>every other table is well formed and references only profiles in \<open>ids\<close>\<close>
  "children_ok ids db \<longleftrightarrow>
     dict_ok (db_sessions db) \<and> fst ` set (db_sessions db) \<subseteq> ids \<and>
     tb_ok tunnel_key (db_tunnels db) \<and> rows_ok tunnel_ok (db_tunnels db) \<and>
       owned_ok ts_profile_id ids (db_tunnels db) \<and>
     tb_ok location_key (db_locations db) \<and> rows_ok (loads load_location) (db_locations db) \<and>
       owned_ok sl_profile_id ids (db_locations db) \<and>
     tb_ok secret_key (db_secrets db) \<and> rows_ok secret_ok (db_secrets db) \<and>
       owned_ok ss_profile_id ids (db_secrets db) \<and>
     tb_ok drive_key (db_drives db) \<and> rows_ok (loads load_drive) (db_drives db) \<and>
       owned_ok sd_profile_id ids (db_drives db) \<and>
     fst ` set (db_favorites db) \<subseteq> ids \<and> distinct (db_favorites db) \<and>
     dict_ok (db_settings db)"

definition db_ok :: "database \<Rightarrow> bool" where
  "db_ok db \<longleftrightarrow> profiles_ok db \<and> children_ok (profile_ids db) db"

lemma db_ok_empty: "db_ok empty_database"
  by (simp add: db_ok_def children_ok_def empty_database_def profiles_ok_def one_default_def
      defaults_def rows_ok_def owned_ok_def) (simp add: empty_table_def)

subsection \<open>Facts shared by the tables\<close>

lemma rows_okD: "rows_ok P t \<Longrightarrow> tb_get t i = Some r \<Longrightarrow> P r"
  by (drule tb_get_SomeD) (auto simp: rows_ok_def list_all_iff)

lemma rows_ok_append:
  "tb_rows t' = tb_rows t @ [(i, r)] \<Longrightarrow> rows_ok P t' \<longleftrightarrow> rows_ok P t \<and> P r"
  by (auto simp: rows_ok_def)

lemma rows_ok_delete [simp]: "rows_ok P t \<Longrightarrow> rows_ok P (tb_delete Q t)"
  by (auto simp: tb_delete_rows rows_ok_def list_all_iff)

lemma rows_ok_empty [simp]: "rows_ok P empty_table"
  by (simp add: rows_ok_def empty_table_def)

lemma rows_ok_get_iff:
  assumes "tb_ok key t"
  shows "rows_ok P t \<longleftrightarrow> (\<forall>i r. tb_get t i = Some r \<longrightarrow> P r)"
  using assms by (auto simp: rows_ok_def list_all_iff tb_ok_def)

lemma rows_ok_update:
  assumes "tb_update key cols i c f t = (Inr n, t')" "tb_ok key t" "rows_ok P t"
    "\<And>r. tb_get t i = Some r \<Longrightarrow> c r \<Longrightarrow> P r \<Longrightarrow> P (f r)"
  shows "rows_ok P t'"
proof (cases "n = 0")
  case True
  with assms tb_update_zero show ?thesis by fastforce
next
  case False
  then obtain r where r: "tb_get t i = Some r" "c r" "tb_get t' = (tb_get t)(i \<mapsto> f r)"
    and ok: "tb_ok key t'"
    using tb_update_one [OF assms(1) _ assms(2)] by auto
  show ?thesis
    unfolding rows_ok_get_iff [OF ok] r(3)
    using assms(2-4) r rows_ok_get_iff [OF assms(2)] by auto
qed

lemma load_profile_ok [simp]: "profile_ok r \<Longrightarrow> load_profile (i, r) = Inr (r\<lparr>ap_id := Some i\<rparr>)"
  using profile_ok_bookkeeping(1) [where p = r and i = "Some i"] by (simp add: load_profile_def profile_ok_def)

lemma load_tunnel_ok [simp]:
  assumes "tunnel_ok r" shows "load_tunnel (i, r) = Inr (r\<lparr>ts_id := Some i\<rparr>)"
proof -
  have "ts_target_instance_id r \<noteq> Some []"
    using assms by (auto simp: tunnel_ok_def tunnel_session_init_Inr_iff split: target_mode.splits)
  moreover have "tunnel_ok (r\<lparr>ts_id := Some i\<rparr>)" using assms by simp
  ultimately show ?thesis by (cases r) (auto simp: load_tunnel_def tunnel_ok_def)
qed

lemma load_secret_ok [simp]:
  assumes "secret_ok r" shows "load_secret (i, r) = Inr (r\<lparr>ss_id := Some i\<rparr>)"
  using assms secret_ok_bookkeeping(1) [where s = r and i = "Some i"]
  by (simp add: load_secret_def secret_ok_def)

lemma load_opt_None [simp]: "load_opt load None = ret None"
  by (simp add: load_opt_def)

lemma load_opt_Some: "load p = Inr x \<Longrightarrow> load_opt load (Some p) = ret (Some x)"
  by (rule ext) (simp add: load_opt_def)

lemma frames_load_opt [eff_rules, simp]: "frames g (load_opt load row)"
  by (auto simp: load_opt_def split: option.split intro!: frames_bind)

lemma frames_load_all [eff_rules, simp]: "frames g (load_all load rows)"
  by (auto simp: load_all_def intro!: frames_map_each)

lemma load_all_Inr:
  "(\<And>p. p \<in> set rows \<Longrightarrow> load p = Inr (g p)) \<Longrightarrow> load_all load rows d = (Inr (map g rows), d)"
  unfolding load_all_def by (induction rows arbitrary: d) (simp_all add: bind_apply)

lemma row_at_Some [simp]: "tb_get t i = Some r \<Longrightarrow> row_at t i = Some (i, r)"
  by (simp add: row_at_def)

lemma row_at_None [simp]: "tb_get t i = None \<Longrightarrow> row_at t i = None"
  by (simp add: row_at_def)

end
