(* ===== verification/Store_Profiles.thy ===== *)
theory Store_Profiles
  imports Store_Database
begin

text \<open>
  The profile and session tables of \<open>SqliteProfileStore\<close>: every method is a definition over the
  whole database, so that the cascade of a profile's deletion and the foreign keys are visible.
  \<open>now\<close> is the instant \<open>_now_text()\<close> reads.  The store keeps exactly one default profile while
  there is any; \<open>keeps db_ok\<close> is proved for each operation.
\<close>

definition zoom :: "('d \<Rightarrow> 't) \<Rightarrow> ('t \<Rightarrow> 'd \<Rightarrow> 'd) \<Rightarrow> ('t, 'e, 'a) eff \<Rightarrow> ('d, 'e, 'a) eff" where
  \<comment> \<open>a statement on one table of the database\<close>
  "zoom g put m = (\<lambda>d. case m (g d) of (r, t) \<Rightarrow> (r, put t d))"

abbreviation on_profiles :: "(aws_profile table, exn, 'a) eff \<Rightarrow> (database, exn, 'a) eff" where
  "on_profiles \<equiv> zoom db_profiles (\<lambda>t. db_profiles_update (\<lambda>_. t))"

definition order_by :: "('r \<Rightarrow> string) \<Rightarrow> (int \<times> 'r) list \<Rightarrow> (int \<times> 'r) list" where
  "order_by col rows = sort_key (col \<circ> snd) rows"

definition profile_row :: "aws_profile \<Rightarrow> bool \<Rightarrow> instant option \<Rightarrow> instant option \<Rightarrow> aws_profile" where
  "profile_row p flag created updated =
     p\<lparr>ap_id := None, ap_is_default := flag, ap_created_at := created, ap_updated_at := updated\<rparr>"

subsection \<open>Profiles\<close>

definition list_profiles :: "(database, exn, aws_profile list) eff" where
  "list_profiles =
     bind (gets (\<lambda>db. tb_rows (db_profiles db))) (\<lambda>rows.
       load_all load_profile
         (order_by ap_name (filter (\<lambda>(i, r). ap_is_default r) rows) @
          order_by ap_name (filter (\<lambda>(i, r). \<not> ap_is_default r) rows)))"

definition get_profile :: "int \<Rightarrow> (database, exn, aws_profile option) eff" where
  "get_profile i =
     bind (transact (seq (sql_ids [i]) (gets (\<lambda>db. row_at (db_profiles db) i))))
       (load_opt load_profile)"

definition get_profile_by_name :: "string \<Rightarrow> (database, exn, aws_profile option) eff" where
  "get_profile_by_name name =
     bind (gets (\<lambda>db. tb_find (\<lambda>r. ap_name r = name) (db_profiles db))) (load_opt load_profile)"

definition get_default_profile :: "(database, exn, aws_profile option) eff" where
  "get_default_profile =
     bind (gets (\<lambda>db. tb_find ap_is_default (db_profiles db))) (load_opt load_profile)"

definition only_one_default_profile :: "aws_profile \<Rightarrow> (aws_profile table, exn, unit) eff" where
  \<comment> \<open>the partial unique index on \<open>is_default\<close>\<close>
  "only_one_default_profile r =
     bind (gets (\<lambda>t. ap_is_default r \<and> list_ex (\<lambda>(j, q). ap_is_default q) (tb_rows t))) (\<lambda>clash.
       raise_when clash (IntegrityError ''UNIQUE constraint failed: aws_profiles.is_default''))"

definition insert_profile :: "instant \<Rightarrow> aws_profile \<Rightarrow> (aws_profile table, exn, int) eff" where
  "insert_profile now p =
     bind (gets (\<lambda>t. tb_rows t = [])) (\<lambda>make_default.
       let r = profile_row p (make_default \<or> ap_is_default p) (Some now) (Some now)
       in seq (only_one_default_profile r) (tb_insert ap_name ''aws_profiles.name'' r))"

definition profile_store_error :: "string \<Rightarrow> exn" where
  "profile_store_error cause = AppExn (config_error_because ''profile.name.duplicate'' cause)"

definition reread :: "string \<Rightarrow> ('d, exn, 'a option) eff \<Rightarrow> ('d, exn, 'a) eff" where
  \<comment> \<open>\<open>if created is None: raise _store_error(code)\<close>\<close>
  "reread err m = bind m (\<lambda>x. case x of None \<Rightarrow> raise_app (store_error err) | Some y \<Rightarrow> ret y)"

definition create_profile :: "instant \<Rightarrow> aws_profile \<Rightarrow> (database, exn, aws_profile) eff" where
  "create_profile now p =
     bind (map_integrity profile_store_error (transact (on_profiles (insert_profile now p))))
       (\<lambda>i. reread ''profile.create.failed'' (get_profile i))"

definition update_profile :: "instant \<Rightarrow> aws_profile \<Rightarrow> (database, exn, aws_profile) eff" where
  "update_profile now p =
     bind (of_app (require_profile_id p)) (\<lambda>i.
       seq (map_integrity profile_store_error (transact
              (seq (sql_ids [i])
                (bind (on_profiles (tb_update ap_name ''aws_profiles.name'' i (\<lambda>_. True)
                   (\<lambda>r. profile_row p (ap_is_default r) (ap_created_at r) (Some now))))
                 (\<lambda>n. raise_when (n \<noteq> 1) (AppExn (store_error ''profile.not_found'')))))))
         (reread ''profile.update.failed'' (get_profile i)))"

definition cascade :: "int \<Rightarrow> database \<Rightarrow> database" where
  \<comment> \<open>\<open>ON DELETE CASCADE\<close> of the six tables that reference a profile\<close>
  "cascade i db = db\<lparr>
     db_sessions := dict_pop i (db_sessions db),
     db_tunnels := tb_delete (\<lambda>j r. ts_profile_id r = i) (db_tunnels db),
     db_locations := tb_delete (\<lambda>j r. sl_profile_id r = i) (db_locations db),
     db_favorites := filter (\<lambda>(p, _). p \<noteq> i) (db_favorites db),
     db_secrets := tb_delete (\<lambda>j r. ss_profile_id r = i) (db_secrets db),
     db_drives := tb_delete (\<lambda>j r. sd_profile_id r = i) (db_drives db)\<rparr>"

definition set_flag :: "int \<Rightarrow> bool \<Rightarrow> aws_profile table \<Rightarrow> aws_profile table" where
  "set_flag i flag t = t\<lparr>tb_rows := map (\<lambda>(j, r). (j, if j = i then r\<lparr>ap_is_default := flag\<rparr> else r)) (tb_rows t)\<rparr>"

definition remove_profile :: "int \<Rightarrow> aws_profile table \<Rightarrow> aws_profile table" where
  "remove_profile i t =
     (let was_default = (case tb_get t i of None \<Rightarrow> False | Some r \<Rightarrow> ap_is_default r);
          rest = tb_delete (\<lambda>j r. j = i) t
      in if \<not> was_default then rest
         else case order_by ap_name (tb_rows rest) of
           [] \<Rightarrow> rest
         | (j, _) # _ \<Rightarrow> set_flag j True rest)"

definition delete_profile :: "int \<Rightarrow> (database, exn, unit) eff" where
  "delete_profile i = transact
     (seq (sql_ids [i])
       (bind (gets (\<lambda>db. tb_get (db_profiles db) i)) (\<lambda>row.
          seq (raise_when (row = None) (AppExn (store_error ''profile.not_found'')))
            (modify (\<lambda>db. cascade i (db\<lparr>db_profiles := remove_profile i (db_profiles db)\<rparr>))))))"

definition select_default :: "instant \<Rightarrow> int \<Rightarrow> aws_profile table \<Rightarrow> aws_profile table" where
  "select_default now i t = t\<lparr>tb_rows := map (\<lambda>(j, r).
     (j, if j = i then r\<lparr>ap_is_default := True, ap_updated_at := Some now\<rparr>
         else r\<lparr>ap_is_default := False\<rparr>)) (tb_rows t)\<rparr>"

definition set_default_profile :: "instant \<Rightarrow> int \<Rightarrow> (database, exn, aws_profile) eff" where
  "set_default_profile now i =
     seq (transact (seq (sql_ids [i])
           (bind (gets (\<lambda>db. tb_get (db_profiles db) i)) (\<lambda>row.
              seq (raise_when (row = None) (AppExn (store_error ''profile.not_found'')))
                (modify (\<lambda>db. db\<lparr>db_profiles := select_default now i (db_profiles db)\<rparr>))))))
       (reread ''profile.not_found'' (get_profile i))"

subsection \<open>Temporary sessions\<close>

definition read_session :: "int \<Rightarrow> session_row \<Rightarrow> session_credentials option" where
  \<comment> \<open>\<open>None\<close> where a time stamp does not parse or carries no time zone\<close>
  "read_session i r =
     (case (sr_expires_at_utc r, sr_verified_at_utc r) of
        (StampUtc e, StampUtc v) \<Rightarrow> Some \<lparr>
          sc_profile_id = i,
          sc_encrypted_access_key = sr_encrypted_access_key r,
          sc_encrypted_secret_key = sr_encrypted_secret_key r,
          sc_encrypted_session_token = sr_encrypted_session_token r,
          sc_expires_at_utc = e, sc_verified_at_utc = v\<rparr>
      | _ \<Rightarrow> None)"

definition get_session :: "int \<Rightarrow> (database, exn, session_credentials option) eff" where
  "get_session i = transact
     (seq (sql_ids [i])
       (bind (gets (\<lambda>db. dict_get (db_sessions db) i)) (\<lambda>row.
          case row of
            None \<Rightarrow> ret None
          | Some r \<Rightarrow>
              (case read_session i r of
                 Some s \<Rightarrow> ret (Some s)
               | None \<Rightarrow> seq (modify (\<lambda>db. db\<lparr>db_sessions := dict_pop i (db_sessions db)\<rparr>)) (ret None)))))"

definition put_session :: "session_credentials \<Rightarrow> (database, exn, unit) eff" where
  "put_session s = transact
     (seq (sql_ids [sc_profile_id s])
       (bind (gets (\<lambda>db. sc_profile_id s \<notin> profile_ids db)) (\<lambda>missing.
          seq (raise_when missing foreign_key_failed)
            (modify (\<lambda>db. db\<lparr>db_sessions := dict_set (sc_profile_id s) \<lparr>
                sr_encrypted_access_key = sc_encrypted_access_key s,
                sr_encrypted_secret_key = sc_encrypted_secret_key s,
                sr_encrypted_session_token = sc_encrypted_session_token s,
                sr_expires_at_utc = StampUtc (sc_expires_at_utc s),
                sr_verified_at_utc = StampUtc (sc_verified_at_utc s)\<rparr> (db_sessions db)\<rparr>)))))"

definition delete_session :: "int \<Rightarrow> (database, exn, unit) eff" where
  "delete_session i = transact
     (seq (sql_ids [i]) (modify (\<lambda>db. db\<lparr>db_sessions := dict_pop i (db_sessions db)\<rparr>)))"

subsection \<open>The effects of the statements\<close>

lemma zoom_apply [simp]: "zoom g put m d = (fst (m (g d)), put (snd (m (g d))) d)"
  by (simp add: zoom_def split: prod.split)

lemma keeps_transact [eff_rules]:
  "(\<And>d x d'. P d \<Longrightarrow> m d = (Inr x, d') \<Longrightarrow> P d') \<Longrightarrow> keeps P (transact m)"
  unfolding keeps_def transact_def by (force split: prod.splits sum.splits)

lemma keeps_map_integrity [eff_rules]: "keeps P m \<Longrightarrow> keeps P (map_integrity h m)"
  unfolding map_integrity_def by (auto intro!: keeps_try_except split: exn.split)

lemma frames_transact [eff_rules]: "frames g m \<Longrightarrow> frames g (transact m)"
  unfolding frames_def transact_def by (metis (no_types, lifting) old.prod.case prod.collapse snd_conv sum.case_eq_if)

lemma frames_map_integrity [eff_rules]: "frames g m \<Longrightarrow> frames g (map_integrity h m)"
  unfolding map_integrity_def by (auto intro!: frames_try_except split: exn.split)

lemma frames_sql_ids [eff_rules, simp]: "frames g (sql_ids is)"
  by (simp add: sql_ids_def)

lemma frames_reread [eff_rules]: "frames g m \<Longrightarrow> frames g (reread err m)"
  unfolding reread_def by (auto intro!: frames_bind split: option.split)

lemma frames_get_profile [eff_rules, simp]: "frames g (get_profile i)"
  unfolding get_profile_def by (intro eff_rules)

lemma frames_list_profiles [eff_rules, simp]: "frames g list_profiles"
  unfolding list_profiles_def by (intro eff_rules)

lemma frames_get_profile_by_name [eff_rules, simp]: "frames g (get_profile_by_name name)"
  unfolding get_profile_by_name_def by (intro eff_rules)

lemma frames_get_default_profile [eff_rules, simp]: "frames g get_default_profile"
  unfolding get_default_profile_def by (intro eff_rules)

lemma keeps_of_frames_id: "frames (\<lambda>s. s) m \<Longrightarrow> keeps P m"
  unfolding frames_def keeps_def by simp

lemma set_order_by [simp]: "set (order_by col rows) = set rows"
  by (simp add: order_by_def)

lemma sorted_order_by: "sorted (map (col \<circ> snd) (order_by col rows))"
  by (simp add: order_by_def)

text \<open>A valid database answers a read with the row under its id, and only with it.\<close>

lemma in_range_ids: "1 \<le> i \<Longrightarrow> i \<le> max_rowid \<Longrightarrow> \<not> (i < - (2 ^ 63) \<or> max_rowid < i)"
  by (auto simp: max_rowid_def)

lemma get_profile_eq:
  assumes "db_ok db" "i \<in> {- (2 ^ 63) .. max_rowid}"
  shows "get_profile i db =
    (Inr (map_option (\<lambda>r. r\<lparr>ap_id := Some i\<rparr>) (tb_get (db_profiles db) i)), db)"
proof (cases "tb_get (db_profiles db) i")
  case None
  with assms(2) show ?thesis by (simp add: get_profile_def bind_def transact_def)
next
  case (Some r)
  with assms(1) have "profile_ok r" by (auto simp: db_ok_def profiles_ok_def dest: rows_okD)
  with Some assms(2) show ?thesis
    by (simp add: get_profile_def bind_def transact_def load_opt_Some)
qed

lemma get_profile_present:
  assumes "db_ok db" "tb_get (db_profiles db) i = Some r"
  shows "get_profile i db = (Inr (Some (r\<lparr>ap_id := Some i\<rparr>)), db)"
proof -
  have "i \<in> {- (2 ^ 63) .. max_rowid}"
    using assms tb_ok_id_range [of ap_name "db_profiles db" i r]
    by (auto simp: db_ok_def profiles_ok_def)
  with assms show ?thesis by (simp add: get_profile_eq)
qed

lemma find_SomeD_in: "find P xs = Some x \<Longrightarrow> x \<in> set xs \<and> P x"
  by (auto simp: find_Some_iff)

lemma get_default_profile_eq:
  assumes "db_ok db"
  shows "get_default_profile db =
    (Inr (map_option (\<lambda>(i, r). r\<lparr>ap_id := Some i\<rparr>) (tb_find ap_is_default (db_profiles db))), db)"
proof (cases "tb_find ap_is_default (db_profiles db)")
  case None
  then show ?thesis by (simp add: get_default_profile_def)
next
  case (Some p)
  obtain i r where p: "p = (i, r)" by (cases p)
  with Some have "(i, r) \<in> set (tb_rows (db_profiles db))"
    by (auto simp: tb_find_def dest!: find_SomeD_in)
  with assms have "profile_ok r" by (auto simp: db_ok_def profiles_ok_def rows_ok_def list_all_iff)
  with Some p show ?thesis by (simp add: get_default_profile_def load_opt_Some)
qed

lemma list_profiles_eq:
  assumes "db_ok db"
  shows "list_profiles db =
    (Inr (map (\<lambda>(i, r). r\<lparr>ap_id := Some i\<rparr>)
       (order_by ap_name (filter (\<lambda>(i, r). ap_is_default r) (tb_rows (db_profiles db))) @
        order_by ap_name (filter (\<lambda>(i, r). \<not> ap_is_default r) (tb_rows (db_profiles db))))), db)"
proof -
  have ok: "(i, r) \<in> set (tb_rows (db_profiles db)) \<Longrightarrow> profile_ok r" for i r
    using assms by (auto simp: db_ok_def profiles_ok_def rows_ok_def list_all_iff)
  show ?thesis
    unfolding list_profiles_def bind_gets
    by (rule load_all_Inr) (auto simp: ok)
qed

subsection \<open>Exactly one default\<close>

lemma one_default_unique:
  assumes "one_default rows" "(i, r) \<in> set rows" "ap_is_default r"
    "(j, q) \<in> set rows" "ap_is_default q"
  shows "i = j \<and> r = q"
proof -
  have "length (defaults rows) \<le> 1" using assms(1) by (auto simp: one_default_def split: if_splits)
  moreover have "(i, r) \<in> set (defaults rows)" "(j, q) \<in> set (defaults rows)"
    using assms by (auto simp: defaults_def)
  ultimately show ?thesis by (cases "defaults rows") auto
qed

lemma one_default_exists:
  assumes "one_default rows" "rows \<noteq> []" obtains i r where "(i, r) \<in> set rows" "ap_is_default r"
proof -
  from assms obtain p where "p \<in> set (defaults rows)"
    by (cases "defaults rows") (auto simp: one_default_def)
  with that show ?thesis by (cases p) (auto simp: defaults_def)
qed

lemma one_default_iff:
  assumes "distinct (map fst rows)"
  shows "one_default rows \<longleftrightarrow>
    rows = [] \<or> (\<exists>i r. (i, r) \<in> set rows \<and> ap_is_default r \<and>
      (\<forall>(j, q) \<in> set rows. ap_is_default q \<longrightarrow> j = i))" (is "?L = (_ \<or> ?R)")
proof (cases "rows = []")
  case False
  have dist: "distinct (map fst (defaults rows))"
    using assms by (simp add: defaults_def distinct_map_filter)
  show ?thesis
  proof
    assume ?L
    from one_default_exists [OF this False] obtain i r where ir: "(i, r) \<in> set rows" "ap_is_default r" .
    with one_default_unique [OF \<open>?L\<close> ir] show "rows = [] \<or> ?R" by blast
  next
    assume "rows = [] \<or> ?R"
    with False obtain i r where ir: "(i, r) \<in> set rows" "ap_is_default r"
      "\<forall>(j, q) \<in> set rows. ap_is_default q \<longrightarrow> j = i" by blast
    then have "set (map fst (defaults rows)) = {i}" unfolding defaults_def by force
    with dist have "length (map fst (defaults rows)) = 1"
      by (metis card.empty card.insert distinct_card empty_iff finite.emptyI One_nat_def)
    with False show ?L by (simp add: one_default_def)
  qed
qed (simp add: one_default_def defaults_def)

lemma one_default_ids:
  assumes "distinct (map fst rows)"
  shows "one_default rows \<longleftrightarrow>
    rows = [] \<or> (\<exists>i. {k. \<exists>q. (k, q) \<in> set rows \<and> ap_is_default q} = {i})"
proof -
  have "(\<exists>r. (i, r) \<in> set rows \<and> ap_is_default r \<and>
        (\<forall>(j, q) \<in> set rows. ap_is_default q \<longrightarrow> j = i)) \<longleftrightarrow>
      {k. \<exists>q. (k, q) \<in> set rows \<and> ap_is_default q} = {i}" for i
    unfolding set_eq_iff by blast
  then show ?thesis unfolding one_default_iff [OF assms] by simp
qed

lemma defaults_append [simp]: "defaults (xs @ ys) = defaults xs @ defaults ys"
  by (simp add: defaults_def)

lemma defaults_Nil_iff: "defaults rows = [] \<longleftrightarrow> \<not> list_ex (\<lambda>(j, q). ap_is_default q) rows"
  by (auto simp: defaults_def list_ex_iff filter_empty_conv)

lemma map_rows_ids: "map fst (map (\<lambda>(j, r). (j, f j r)) rows) = map fst rows"
  by (induction rows) auto

lemma tb_ok_map_rows:
  assumes "tb_ok key t" "\<And>j r. key (f j r) = key r"
  shows "tb_ok key (t\<lparr>tb_rows := map (\<lambda>(j, r). (j, f j r)) (tb_rows t)\<rparr>)"
proof -
  have "map (\<lambda>(j, r). key r) (map (\<lambda>(j, r). (j, f j r)) (tb_rows t)) = tb_keys key t"
    by (auto simp: tb_keys_def assms(2))
  then show ?thesis
    using assms(1) unfolding tb_ok_def tb_keys_def
    by (auto simp del: map_map simp: map_rows_ids list_all_iff)
qed

lemma tb_get_map_rows:
  "tb_get (t\<lparr>tb_rows := map (\<lambda>(j, r). (j, f j r)) (tb_rows t)\<rparr>) i = map_option (f i) (tb_get t i)"
proof -
  have "map_of (map (\<lambda>(j, r). (j, f j r)) xs) i = map_option (f i) (map_of xs i)" for xs
    by (induction xs) auto
  then show ?thesis by simp
qed

text \<open>The invariant of the profile table alone.\<close>

definition profile_table_ok :: "aws_profile table \<Rightarrow> bool" where
  "profile_table_ok t \<longleftrightarrow> tb_ok ap_name t \<and> rows_ok profile_ok t \<and> one_default (tb_rows t)"

lemma profiles_ok_table: "profiles_ok db \<longleftrightarrow> profile_table_ok (db_profiles db)"
  by (simp add: profiles_ok_def profile_table_ok_def)

lemma profile_row_simps [simp]:
  "ap_name (profile_row p d c u) = ap_name p" "ap_is_default (profile_row p d c u) = d"
  "profile_ok (profile_row p d c u) = profile_ok p"
  by (simp_all add: profile_row_def)

lemma insert_profile_Inr:
  assumes "insert_profile now p t = (Inr i, t')" "profile_table_ok t" "profile_ok p"
  shows "profile_table_ok t'" "tb_get t i = None"
    "tb_get t' = (tb_get t)(i \<mapsto>
       profile_row p (tb_rows t = [] \<or> ap_is_default p) (Some now) (Some now))"
    "tb_rows t' = tb_rows t @ [(i, profile_row p (tb_rows t = [] \<or> ap_is_default p) (Some now) (Some now))]"
    "ap_is_default p \<Longrightarrow> tb_rows t = []"
proof -
  let ?d = "tb_rows t = [] \<or> ap_is_default p"
  let ?r = "profile_row p ?d (Some now) (Some now)"
  have ok: "tb_ok ap_name t" "rows_ok profile_ok t" "one_default (tb_rows t)"
    using assms(2) by (auto simp: profile_table_ok_def)
  have ins: "tb_insert ap_name ''aws_profiles.name'' ?r t = (Inr i, t')"
    and clash: "\<not> (?d \<and> list_ex (\<lambda>(j, q). ap_is_default q) (tb_rows t))"
    using assms(1) unfolding insert_profile_def only_one_default_profile_def
    by (auto simp: Let_def bind_def split: if_splits)
  note facts = tb_insert_Inr [OF ins ok(1)]
  have one: "one_default (tb_rows t @ [(i, ?r)])"
  proof (cases "tb_rows t = []")
    case True then show ?thesis by (simp add: one_default_def defaults_def)
  next
    case False
    with ok(3) have "defaults (tb_rows t) \<noteq> []" by (auto simp: one_default_def)
    with clash have "\<not> ap_is_default p" by (auto simp: defaults_Nil_iff)
    with False ok(3) show ?thesis by (simp add: one_default_def) (simp add: defaults_def)
  qed
  then show "profile_table_ok t'"
    using facts(1,5) ok(2) assms(3) by (simp add: profile_table_ok_def rows_ok_append)
  show "tb_get t i = None" "tb_get t' = (tb_get t)(i \<mapsto> ?r)" "tb_rows t' = tb_rows t @ [(i, ?r)]"
    using facts by auto
  show "tb_rows t = []" if "ap_is_default p"
  proof (rule ccontr)
    assume "tb_rows t \<noteq> []"
    with ok(3) have "defaults (tb_rows t) \<noteq> []" by (auto simp: one_default_def)
    with clash that show False by (auto simp: defaults_Nil_iff)
  qed
qed

lemma set_flag_rows:
  "tb_rows (set_flag i b t) = map (\<lambda>(j, r). (j, if j = i then r\<lparr>ap_is_default := b\<rparr> else r)) (tb_rows t)"
  by (simp add: set_flag_def)

lemma remove_profile_cases:
  assumes "tb_get t i = Some r"
  obtains "\<not> ap_is_default r" "remove_profile i t = tb_delete (\<lambda>j r. j = i) t"
  | "ap_is_default r" "tb_rows (tb_delete (\<lambda>j r. j = i) t) = []"
      "remove_profile i t = tb_delete (\<lambda>j r. j = i) t"
  | j q where "ap_is_default r" "(j, q) \<in> set (tb_rows (tb_delete (\<lambda>j r. j = i) t))"
      "\<forall>(k, p) \<in> set (tb_rows (tb_delete (\<lambda>j r. j = i) t)). ap_name q \<le> ap_name p"
      "remove_profile i t = set_flag j True (tb_delete (\<lambda>j r. j = i) t)"
proof (cases "ap_is_default r")
  case False
  with assms that(1) show thesis by (simp add: remove_profile_def)
next
  case True
  let ?rest = "tb_delete (\<lambda>j r. j = i) t"
  show thesis
  proof (cases "order_by ap_name (tb_rows ?rest)")
    case Nil
    then have "set (tb_rows ?rest) = {}" by (metis empty_set set_order_by)
    then have "tb_rows ?rest = []" by (simp only: set_empty)
    with Nil True assms that(2) show thesis by (simp add: remove_profile_def)
  next
    case (Cons p ps)
    obtain j q where p: "p = (j, q)" by (cases p)
    have "(j, q) \<in> set (order_by ap_name (tb_rows ?rest))" using Cons p by simp
    then have mem: "(j, q) \<in> set (tb_rows ?rest)" by (simp only: set_order_by)
    have "sorted (map (ap_name \<circ> snd) ((j, q) # ps))" using Cons p sorted_order_by by metis
    moreover have "set (tb_rows ?rest) = set ((j, q) # ps)"
      using Cons p set_order_by [of ap_name "tb_rows ?rest"] by simp
    ultimately have "\<forall>(k, p) \<in> set (tb_rows ?rest). ap_name q \<le> ap_name p"
      by auto
    with mem Cons p True assms that(3) show thesis by (simp add: remove_profile_def)
  qed
qed

lemma tb_get_tb_delete_id [simp]:
  "tb_ok key t \<Longrightarrow> tb_get (tb_delete (\<lambda>j r. j = i) t) k = (if k = i then None else tb_get t k)"
  by (auto simp: tb_get_delete split: option.split)

lemma set_flag_ok:
  assumes "tb_ok ap_name t" "rows_ok profile_ok t"
  shows "tb_ok ap_name (set_flag i b t)" "rows_ok profile_ok (set_flag i b t)"
    "map fst (tb_rows (set_flag i b t)) = map fst (tb_rows t)"
  using assms tb_ok_map_rows [of ap_name t "\<lambda>j r. if j = i then r\<lparr>ap_is_default := b\<rparr> else r"]
  by (auto simp: set_flag_def map_rows_ids rows_ok_def list_all_iff)

lemma remove_profile_ids:
  assumes "tb_get t i = Some r"
  shows "map fst (tb_rows (remove_profile i t)) = map fst (tb_rows (tb_delete (\<lambda>j r. j = i) t))"
  by (rule remove_profile_cases [OF assms]) (auto simp: set_flag_def)

lemma one_defaultI:
  assumes "distinct (map fst rows)" "(i, r) \<in> set rows" "ap_is_default r"
    "\<And>j q. (j, q) \<in> set rows \<Longrightarrow> ap_is_default q \<Longrightarrow> j = i"
  shows "one_default rows"
proof -
  have "\<forall>(j, q) \<in> set rows. ap_is_default q \<longrightarrow> j = i" using assms(4) by blast
  with assms(2,3) show ?thesis unfolding one_default_iff [OF assms(1)] by blast
qed

lemma tb_delete_id_rows:
  "(j, q) \<in> set (tb_rows (tb_delete (\<lambda>j r. j = i) t)) \<longleftrightarrow> (j, q) \<in> set (tb_rows t) \<and> j \<noteq> i"
  by (simp add: tb_delete_rows)

lemma delete_other_default:
  assumes "profile_table_ok t" "tb_get t i = Some r" "\<not> ap_is_default r"
  shows "one_default (tb_rows (tb_delete (\<lambda>j r. j = i) t))"
proof -
  let ?rest = "tb_delete (\<lambda>j r. j = i) t"
  have ok: "tb_ok ap_name t" "one_default (tb_rows t)"
    using assms(1) by (auto simp: profile_table_ok_def)
  have ne: "tb_rows t \<noteq> []" using assms(2) by auto
  obtain j q where jq: "(j, q) \<in> set (tb_rows t)" "ap_is_default q"
    using one_default_exists [OF ok(2) ne] by blast
  have "tb_get t j = Some q" using tb_ok_get_iff [OF ok(1)] jq by blast
  with assms(2,3) jq have "j \<noteq> i" by auto
  show ?thesis
  proof (rule one_defaultI [of _ j q])
    show "distinct (map fst (tb_rows ?rest))"
      using tb_delete_ok [OF ok(1)] unfolding tb_ok_def by blast
    show "(j, q) \<in> set (tb_rows ?rest)" "ap_is_default q"
      using jq \<open>j \<noteq> i\<close> by (simp_all add: tb_delete_id_rows)
    show "k = j" if "(k, p) \<in> set (tb_rows ?rest)" "ap_is_default p" for k p
      using that one_default_unique [OF ok(2) _ _ jq] unfolding tb_delete_id_rows by blast
  qed
qed

lemma set_flag_default:
  assumes "tb_ok ap_name t" "rows_ok profile_ok t" "(j, q) \<in> set (tb_rows t)"
    "\<And>k p. (k, p) \<in> set (tb_rows t) \<Longrightarrow> \<not> ap_is_default p"
  shows "profile_table_ok (set_flag j True t)"
proof -
  have "one_default (tb_rows (set_flag j True t))"
  proof (rule one_defaultI [of _ j "q\<lparr>ap_is_default := True\<rparr>"])
    show "distinct (map fst (tb_rows (set_flag j True t)))"
      using set_flag_ok(3) [OF assms(1,2)] assms(1) by (simp add: tb_ok_def)
    show "(j, q\<lparr>ap_is_default := True\<rparr>) \<in> set (tb_rows (set_flag j True t))"
      using assms(3) unfolding set_flag_rows by force
    show "k = j" if "(k, p) \<in> set (tb_rows (set_flag j True t))" "ap_is_default p" for k p
      using that assms(4) unfolding set_flag_rows by (auto split: if_splits)
  qed simp
  then show ?thesis using set_flag_ok [OF assms(1,2)] by (simp add: profile_table_ok_def)
qed

lemma remove_profile_ok:
  assumes "profile_table_ok t" "tb_get t i = Some r"
  shows "profile_table_ok (remove_profile i t)"
proof -
  let ?rest = "tb_delete (\<lambda>j r. j = i) t"
  have ok: "tb_ok ap_name t" "rows_ok profile_ok t" "one_default (tb_rows t)"
    using assms(1) by (auto simp: profile_table_ok_def)
  have ok': "tb_ok ap_name ?rest" "rows_ok profile_ok ?rest" using ok by simp_all
  show ?thesis
  proof (rule remove_profile_cases [OF assms(2)])
    assume "\<not> ap_is_default r" and eq: "remove_profile i t = ?rest"
    with delete_other_default [OF assms] have "one_default (tb_rows ?rest)" by blast
    with ok' eq show ?thesis unfolding profile_table_ok_def by simp
  next
    assume "tb_rows ?rest = []" and eq: "remove_profile i t = ?rest"
    then have "one_default (tb_rows ?rest)" unfolding one_default_def defaults_def by simp
    with ok' eq show ?thesis unfolding profile_table_ok_def by simp
  next
    fix j q
    assume d: "ap_is_default r" and jq: "(j, q) \<in> set (tb_rows ?rest)"
      and eq: "remove_profile i t = set_flag j True ?rest"
    have "\<not> ap_is_default p" if "(k, p) \<in> set (tb_rows ?rest)" for k p
      using that one_default_unique [OF ok(3) tb_get_SomeD [OF assms(2)] d, of k p]
      unfolding tb_delete_id_rows by blast
    then show ?thesis unfolding eq by (rule set_flag_default [OF ok' jq])
  qed
qed

lemma select_default_ids: "map fst (tb_rows (select_default now i t)) = map fst (tb_rows t)"
  by (auto simp: select_default_def)

lemma select_default_get:
  "tb_get (select_default now i t) k = map_option (\<lambda>r.
     if k = i then r\<lparr>ap_is_default := True, ap_updated_at := Some now\<rparr>
     else r\<lparr>ap_is_default := False\<rparr>) (tb_get t k)"
  unfolding select_default_def by (rule tb_get_map_rows)

lemma select_default_ok:
  assumes "profile_table_ok t" "tb_get t i = Some r"
  shows "profile_table_ok (select_default now i t)"
proof -
  have ok: "tb_ok ap_name t" "rows_ok profile_ok t"
    using assms(1) by (auto simp: profile_table_ok_def)
  have ok': "tb_ok ap_name (select_default now i t)"
    unfolding select_default_def by (rule tb_ok_map_rows [OF ok(1)]) simp
  have "rows_ok profile_ok (select_default now i t)"
    unfolding rows_ok_get_iff [OF ok'] select_default_get using ok
    by (auto simp: rows_ok_get_iff)
  moreover have "one_default (tb_rows (select_default now i t))"
  proof (subst one_default_iff)
    show "distinct (map fst (tb_rows (select_default now i t)))"
      using ok' by (simp add: tb_ok_def)
    have "(i, r\<lparr>ap_is_default := True, ap_updated_at := Some now\<rparr>) \<in> set (tb_rows (select_default now i t))"
      using assms(2) by (intro tb_get_SomeD) (simp add: select_default_get)
    moreover have "\<forall>(k, p) \<in> set (tb_rows (select_default now i t)). ap_is_default p \<longrightarrow> k = i"
      by (auto simp: select_default_def split: if_splits)
    ultimately show "tb_rows (select_default now i t) = [] \<or>
      (\<exists>i' r. (i', r) \<in> set (tb_rows (select_default now i t)) \<and> ap_is_default r \<and>
        (\<forall>(j, q) \<in> set (tb_rows (select_default now i t)). ap_is_default q \<longrightarrow> j = i'))"
      by (intro disjI2 exI [of _ i] exI [of _ "r\<lparr>ap_is_default := True, ap_updated_at := Some now\<rparr>"]) simp
  qed
  ultimately show ?thesis using ok' by (simp add: profile_table_ok_def)
qed

lemma update_profile_table_ok:
  assumes "tb_update ap_name cols i (\<lambda>_. True)
      (\<lambda>r. profile_row p (ap_is_default r) (ap_created_at r) (Some now)) t = (Inr n, t')"
    "profile_table_ok t" "profile_ok p" "n \<noteq> 0"
  shows "profile_table_ok t'" "map fst (tb_rows t') = map fst (tb_rows t)"
proof -
  have ok: "tb_ok ap_name t" "rows_ok profile_ok t" "one_default (tb_rows t)"
    using assms(2) by (auto simp: profile_table_ok_def)
  note u = tb_update_one [OF assms(1,4) ok(1)]
  have get: "\<exists>r. tb_get t i = Some r \<and>
      tb_get t' = (tb_get t)(i \<mapsto> profile_row p (ap_is_default r) (ap_created_at r) (Some now))"
    using u(1) by auto
  then obtain r where r: "tb_get t i = Some r"
    "tb_get t' = (tb_get t)(i \<mapsto> profile_row p (ap_is_default r) (ap_created_at r) (Some now))" by blast
  have flags: "(\<exists>q. (k, q) \<in> set (tb_rows t') \<and> ap_is_default q) \<longleftrightarrow>
      (\<exists>q. (k, q) \<in> set (tb_rows t) \<and> ap_is_default q)" for k
    using r by (auto simp: tb_ok_get_iff [OF u(2), symmetric] tb_ok_get_iff [OF ok(1), symmetric])
  have ids: "map fst (tb_rows t') = map fst (tb_rows t)" by (rule u(4))
  have d: "distinct (map fst (tb_rows t))" using ok(1) by (simp add: tb_ok_def)
  have empty: "tb_rows t' = [] \<longleftrightarrow> tb_rows t = []" using ids by auto
  have "one_default (tb_rows t')"
    using ok(3) unfolding one_default_ids [OF d] one_default_ids [OF d [folded ids]] empty flags .
  moreover have "rows_ok profile_ok t'"
    using assms(3) by (intro rows_ok_update [OF assms(1) ok(1,2)]) simp
  ultimately show "profile_table_ok t'" using u(2) by (simp add: profile_table_ok_def)
  show "map fst (tb_rows t') = map fst (tb_rows t)" by (rule ids)
qed

subsection \<open>The invariant of the database\<close>

lemma owned_ok_mono: "owned_ok owner ids t \<Longrightarrow> ids \<subseteq> ids' \<Longrightarrow> owned_ok owner ids' t"
  by (auto simp: owned_ok_def rows_ok_def list_all_iff)

lemma owned_ok_delete: "owned_ok owner ids t \<Longrightarrow> owned_ok owner (ids - {i}) (tb_delete (\<lambda>j r. owner r = i) t)"
  by (auto simp: owned_ok_def rows_ok_def list_all_iff tb_delete_rows)

lemma children_ok_mono: "children_ok ids db \<Longrightarrow> ids \<subseteq> ids' \<Longrightarrow> children_ok ids' db"
  unfolding children_ok_def by (blast intro: owned_ok_mono)

lemma children_ok_profiles [simp]: "children_ok ids (db\<lparr>db_profiles := t\<rparr>) = children_ok ids db"
  by (simp add: children_ok_def)

lemma dict_pop_keys: "fst ` set (dict_pop i d) = fst ` set d - {i}"
  by (induction d) auto

lemma children_ok_cascade: "children_ok ids db \<Longrightarrow> children_ok (ids - {i}) (cascade i db)"
  unfolding children_ok_def cascade_def
  by (auto simp: dict_pop_keys owned_ok_delete)

lemma db_ok_put_profiles:
  assumes "db_ok db" "profile_table_ok t" "profile_ids db \<subseteq> fst ` set (tb_rows t)"
  shows "db_ok (db\<lparr>db_profiles := t\<rparr>)"
  using assms children_ok_mono by (auto simp: db_ok_def profiles_ok_table)

lemma ids_eq: "map fst xs = map fst ys \<Longrightarrow> fst ` set xs = fst ` set ys"
  by (metis list.set_map)

lemma keeps_zoom_profiles:
  assumes "\<And>t x t'. profile_table_ok t \<Longrightarrow> m t = (Inr x, t') \<Longrightarrow>
      profile_table_ok t' \<and> fst ` set (tb_rows t) \<subseteq> fst ` set (tb_rows t')"
  shows "keeps db_ok (transact (on_profiles m))"
proof (rule keeps_transact)
  fix d x d' assume d: "db_ok d" and m: "on_profiles m d = (Inr x, d')"
  obtain t' where t': "m (db_profiles d) = (Inr x, t')" "d' = d\<lparr>db_profiles := t'\<rparr>"
    using m by (cases "m (db_profiles d)") auto
  have "profile_table_ok (db_profiles d)" using d by (simp add: db_ok_def profiles_ok_table)
  from assms [OF this t'(1)] d show "db_ok d'" unfolding t'(2) by (auto intro: db_ok_put_profiles)
qed

lemma keeps_reread [eff_rules]: "keeps P m \<Longrightarrow> keeps P (reread err m)"
  unfolding reread_def by (auto intro!: keeps_bind split: option.split)

lemma keeps_get_profile [eff_rules, simp]: "keeps P (get_profile i)"
  by (rule keeps_of_frames_id) simp

lemma keeps_create_profile:
  assumes "profile_ok p" shows "keeps db_ok (create_profile now p)"
  unfolding create_profile_def
  by (intro keeps_bind keeps_map_integrity keeps_zoom_profiles keeps_reread keeps_get_profile)
    (use insert_profile_Inr(1,4) [OF _ _ assms] in auto)

lemma keeps_update_profile:
  assumes "profile_ok p" shows "keeps db_ok (update_profile now p)"
  unfolding update_profile_def
proof (intro keeps_bind keeps_of_app keeps_map_integrity keeps_reread keeps_get_profile keeps_transact)
  let ?f = "\<lambda>r. profile_row p (ap_is_default r) (ap_created_at r) (Some now)"
  fix i d d' x assume d: "db_ok d"
    and run: "seq (sql_ids [i]) (bind (on_profiles (tb_update ap_name ''aws_profiles.name'' i
      (\<lambda>_. True) ?f)) (\<lambda>n. raise_when (n \<noteq> 1) (AppExn (store_error ''profile.not_found'')))) d = (Inr x, d')"
  obtain n t' where u: "tb_update ap_name ''aws_profiles.name'' i (\<lambda>_. True) ?f (db_profiles d) = (Inr n, t')"
    and n: "n = 1" and d': "d' = d\<lparr>db_profiles := t'\<rparr>"
    using run
    by (cases "tb_update ap_name ''aws_profiles.name'' i (\<lambda>_. True) ?f (db_profiles d)")
      (auto simp: bind_def split: if_splits sum.splits)
  have "profile_table_ok (db_profiles d)" using d by (simp add: db_ok_def profiles_ok_table)
  with update_profile_table_ok [OF u this assms] n d show "db_ok d'"
    unfolding d' by (auto intro!: db_ok_put_profiles dest!: ids_eq)
qed

lemma frames_profiles_cascade [simp]: "db_profiles (cascade i db) = db_profiles db"
  by (simp add: cascade_def)

lemma db_ok_cascade:
  assumes "db_ok db" "profile_table_ok t" "fst ` set (tb_rows t) = profile_ids db - {i}"
  shows "db_ok (cascade i (db\<lparr>db_profiles := t\<rparr>))"
  using assms children_ok_cascade [of "profile_ids db" "db\<lparr>db_profiles := t\<rparr>" i]
  by (simp add: db_ok_def profiles_ok_table)

lemma delete_profile_Inr:
  assumes "delete_profile i db = (Inr u, db')"
  obtains r where "tb_get (db_profiles db) i = Some r"
    "db' = cascade i (db\<lparr>db_profiles := remove_profile i (db_profiles db)\<rparr>)"
  using assms unfolding delete_profile_def
  by (cases "tb_get (db_profiles db) i")
    (auto simp: bind_def transact_def split: if_splits)

lemma keeps_delete_profile: "keeps db_ok (delete_profile i)"
proof (rule keepsI)
  fix db assume db: "db_ok db"
  obtain x db' where run: "delete_profile i db = (x, db')" by (cases "delete_profile i db")
  show "db_ok (snd (delete_profile i db))"
  proof (cases x)
    case (Inl e)
    with run have "db' = db" unfolding delete_profile_def by (auto dest: transact_InlD)
    with run db show ?thesis by simp
  next
    case (Inr u)
    with run obtain r where r: "tb_get (db_profiles db) i = Some r"
      "db' = cascade i (db\<lparr>db_profiles := remove_profile i (db_profiles db)\<rparr>)"
      by (auto elim: delete_profile_Inr)
    have t: "profile_table_ok (db_profiles db)" using db by (simp add: db_ok_def profiles_ok_table)
    have "fst ` set (tb_rows (remove_profile i (db_profiles db))) = profile_ids db - {i}"
      using ids_eq [OF remove_profile_ids [OF r(1)]] by (force simp: tb_delete_rows)
    with db_ok_cascade [OF db remove_profile_ok [OF t r(1)]] show ?thesis
      unfolding run r(2) by simp
  qed
qed

lemma keeps_set_default_profile: "keeps db_ok (set_default_profile now i)"
  unfolding set_default_profile_def
proof (intro keeps_bind keeps_reread keeps_get_profile keeps_transact)
  fix d d' x assume d: "db_ok d"
    and run: "seq (sql_ids [i]) (bind (gets (\<lambda>db. tb_get (db_profiles db) i)) (\<lambda>row.
      seq (raise_when (row = None) (AppExn (store_error ''profile.not_found'')))
        (modify (\<lambda>db. db\<lparr>db_profiles := select_default now i (db_profiles db)\<rparr>)))) d = (Inr x, d')"
  obtain r where r: "tb_get (db_profiles d) i = Some r"
    and d': "d' = d\<lparr>db_profiles := select_default now i (db_profiles d)\<rparr>"
    using run by (cases "tb_get (db_profiles d) i") (auto simp: bind_def split: if_splits)
  have "profile_table_ok (db_profiles d)" using d by (simp add: db_ok_def profiles_ok_table)
  from select_default_ok [OF this r] d ids_eq [OF select_default_ids] show "db_ok d'"
    unfolding d' by (metis db_ok_put_profiles order_refl)
qed

lemma db_ok_put_sessions:
  "db_ok db \<Longrightarrow> dict_ok d \<Longrightarrow> fst ` set d \<subseteq> profile_ids db \<Longrightarrow> db_ok (db\<lparr>db_sessions := d\<rparr>)"
  by (simp add: db_ok_def profiles_ok_def children_ok_def)

lemma db_ok_sessions: "db_ok db \<Longrightarrow> dict_ok (db_sessions db) \<and> fst ` set (db_sessions db) \<subseteq> profile_ids db"
  by (simp add: db_ok_def children_ok_def)

lemma db_ok_pop_session: "db_ok db \<Longrightarrow> db_ok (db\<lparr>db_sessions := dict_pop i (db_sessions db)\<rparr>)"
  by (rule db_ok_put_sessions) (use db_ok_sessions in \<open>auto simp: dict_pop_keys\<close>)

lemma keeps_get_session: "keeps db_ok (get_session i)"
  unfolding get_session_def
  by (rule keeps_transact)
    (auto simp: bind_def db_ok_pop_session split: if_splits option.splits)

lemma keeps_delete_session: "keeps db_ok (delete_session i)"
  unfolding delete_session_def
  by (rule keeps_transact) (auto simp: bind_def db_ok_pop_session split: if_splits)

lemma dict_set_keys: "fst ` set (dict_set k v d) = insert k (fst ` set d)"
  by (induction d) auto

lemma db_ok_set_session:
  "db_ok db \<Longrightarrow> i \<in> profile_ids db \<Longrightarrow> db_ok (db\<lparr>db_sessions := dict_set i v (db_sessions db)\<rparr>)"
  by (rule db_ok_put_sessions) (use db_ok_sessions in \<open>simp_all add: dict_set_keys\<close>)

lemma keeps_put_session: "keeps db_ok (put_session s)"
  unfolding put_session_def
  by (rule keeps_transact)
    (auto simp: bind_def split: if_splits intro!: db_ok_set_session image_eqI)

end
