(* ===== verification/Store_Items.thy ===== *)
theory Store_Items
  imports Store_Profiles
begin

text \<open>
  The tables a profile owns: tunnel sessions, S3 locations, saved Secrets and S3 drives, and the
  favourites and settings, as the methods of \<open>SqliteProfileStore\<close> read and write them.  The
  methods of the four tables have one shape, written once over the table's columns:
  \<open>get_item\<close>, \<open>insert_item\<close>, \<open>update_item\<close>, \<open>delete_item\<close>.

  Two interfaces are stated as locales.  \<open>item_table\<close> is what a table of the database promises
  the store (its place in the database and its part of \<open>db_ok\<close>); \<open>item_store\<close> is what the
  store promises the services (a created object is read back under its id, a deleted one is
  gone, a failed call changes nothing).
\<close>

subsection \<open>The shape of the methods\<close>

definition get_item ::
    "(database \<Rightarrow> 'r table) \<Rightarrow> (int \<times> 'r \<Rightarrow> app_error + 'r) \<Rightarrow> int \<Rightarrow> (database, exn, 'r option) eff" where
  "get_item tbl load i =
     bind (transact (seq (sql_ids [i]) (gets (\<lambda>db. row_at (tbl db) i)))) (load_opt load)"

definition list_items ::
    "(database \<Rightarrow> 'r table) \<Rightarrow> (int \<times> 'r \<Rightarrow> app_error + 'r) \<Rightarrow> ('r \<Rightarrow> int) \<Rightarrow> ('r \<Rightarrow> string) \<Rightarrow> int
     \<Rightarrow> (database, exn, 'r list) eff" where
  \<comment> \<open>\<open>SELECT * ... WHERE profile_id=? ORDER BY col\<close>\<close>
  "list_items tbl load owner col profile_id =
     bind (transact (seq (sql_ids [profile_id]) (gets (\<lambda>db.
        order_by col (filter (\<lambda>(i, r). owner r = profile_id) (tb_rows (tbl db)))))))
       (load_all load)"

definition find_item ::
    "(database \<Rightarrow> 'r table) \<Rightarrow> (int \<times> 'r \<Rightarrow> app_error + 'r) \<Rightarrow> ('r \<Rightarrow> int \<times> string) \<Rightarrow> int \<Rightarrow> string
     \<Rightarrow> (database, exn, 'r option) eff" where
  \<comment> \<open>\<open>SELECT * ... WHERE profile_id=? AND name=?\<close>\<close>
  "find_item tbl load key profile_id name =
     bind (transact (seq (sql_ids [profile_id]) (gets (\<lambda>db.
        tb_find (\<lambda>r. key r = (profile_id, name)) (tbl db)))))
       (load_opt load)"

definition insert_item ::
    "(database \<Rightarrow> 'r table) \<Rightarrow> ('r table \<Rightarrow> database \<Rightarrow> database) \<Rightarrow> ('r \<Rightarrow> int \<times> string) \<Rightarrow> string
     \<Rightarrow> ('r \<Rightarrow> int) \<Rightarrow> 'r \<Rightarrow> (database, exn, int) eff" where
  \<comment> \<open>\<open>INSERT\<close>; the foreign key is checked when the statement ends\<close>
  "insert_item tbl put key columns owner r =
     transact (seq (sql_ids [owner r])
       (bind (zoom tbl put (tb_insert key columns r)) (\<lambda>i.
          bind (gets (\<lambda>db. owner r \<notin> profile_ids db)) (\<lambda>orphan.
            seq (raise_when orphan foreign_key_failed) (ret i)))))"

definition create_item ::
    "(database \<Rightarrow> 'r table) \<Rightarrow> ('r table \<Rightarrow> database \<Rightarrow> database) \<Rightarrow> ('r \<Rightarrow> int \<times> string) \<Rightarrow> string
     \<Rightarrow> ('r \<Rightarrow> int) \<Rightarrow> (int \<times> 'r \<Rightarrow> app_error + 'r) \<Rightarrow> (string \<Rightarrow> exn) \<Rightarrow> string \<Rightarrow> 'r
     \<Rightarrow> (database, exn, 'r) eff" where
  "create_item tbl put key columns owner load err failed r =
     bind (map_integrity err (insert_item tbl put key columns owner r))
       (\<lambda>i. reread failed (get_item tbl load i))"

definition update_item ::
    "(database \<Rightarrow> 'r table) \<Rightarrow> ('r table \<Rightarrow> database \<Rightarrow> database) \<Rightarrow> ('r \<Rightarrow> int \<times> string) \<Rightarrow> string
     \<Rightarrow> int list \<Rightarrow> int \<Rightarrow> ('r \<Rightarrow> bool) \<Rightarrow> ('r \<Rightarrow> 'r) \<Rightarrow> app_error \<Rightarrow> (database, exn, unit) eff" where
  "update_item tbl put key columns params i cond f missing =
     transact (seq (sql_ids params)
       (bind (zoom tbl put (tb_update key columns i cond f)) (\<lambda>n.
          raise_when (n \<noteq> 1) (AppExn missing))))"

definition delete_item ::
    "(database \<Rightarrow> 'r table) \<Rightarrow> ('r table \<Rightarrow> database \<Rightarrow> database) \<Rightarrow> string \<Rightarrow> int
     \<Rightarrow> (database, exn, unit) eff" where
  "delete_item tbl put missing i =
     transact (seq (sql_ids [i])
       (bind (gets (\<lambda>db. tb_get (tbl db) i)) (\<lambda>row.
          seq (raise_when (row = None) (AppExn (store_error missing)))
            (modify (\<lambda>db. put (tb_delete (\<lambda>j r. j = i) (tbl db)) db)))))"

subsection \<open>Tunnel sessions\<close>

abbreviation put_tunnels :: "tunnel_session table \<Rightarrow> database \<Rightarrow> database" where
  "put_tunnels t \<equiv> db_tunnels_update (\<lambda>_. t)"

abbreviation tunnel_columns :: string where
  "tunnel_columns \<equiv> ''tunnel_sessions.profile_id, tunnel_sessions.name''"

definition list_tunnels :: "int \<Rightarrow> (database, exn, tunnel_session list) eff" where
  "list_tunnels = list_items db_tunnels load_tunnel ts_profile_id ts_name"

definition get_tunnel :: "int \<Rightarrow> (database, exn, tunnel_session option) eff" where
  "get_tunnel = get_item db_tunnels load_tunnel"

definition get_tunnel_by_name :: "int \<Rightarrow> string \<Rightarrow> (database, exn, tunnel_session option) eff" where
  "get_tunnel_by_name = find_item db_tunnels load_tunnel tunnel_key"

definition tunnel_row :: "instant \<Rightarrow> tunnel_session \<Rightarrow> tunnel_session" where
  "tunnel_row now s = s\<lparr>ts_id := None, ts_created_at := Some now, ts_updated_at := Some now\<rparr>"

definition create_tunnel :: "instant \<Rightarrow> tunnel_session \<Rightarrow> (database, exn, tunnel_session) eff" where
  "create_tunnel now s =
     create_item db_tunnels put_tunnels tunnel_key tunnel_columns ts_profile_id load_tunnel
       tunnel_store_error ''rds.session.create.failed'' (tunnel_row now s)"

definition update_tunnel :: "instant \<Rightarrow> tunnel_session \<Rightarrow> (database, exn, tunnel_session) eff" where
  "update_tunnel now s =
     bind (of_app (require_tunnel_id s)) (\<lambda>i.
       seq (map_integrity tunnel_store_error
             (update_item db_tunnels put_tunnels tunnel_key tunnel_columns [i, ts_profile_id s] i
               (\<lambda>r. ts_profile_id r = ts_profile_id s)
               (\<lambda>r. r\<lparr>ts_name := ts_name s, ts_host := ts_host s,
                 ts_remote_port := ts_remote_port s, ts_local_port := ts_local_port s,
                 ts_target_mode := ts_target_mode s,
                 ts_target_instance_id := ts_target_instance_id s,
                 ts_session_duration_hours := ts_session_duration_hours s,
                 ts_updated_at := Some now\<rparr>)
               (store_error ''rds.session.not_found'')))
         (reread ''rds.session.update.failed'' (get_tunnel i)))"

definition delete_tunnel :: "int \<Rightarrow> (database, exn, unit) eff" where
  "delete_tunnel = delete_item db_tunnels put_tunnels ''rds.session.not_found''"

definition touch_tunnel :: "instant \<Rightarrow> int \<Rightarrow> instant \<Rightarrow> (database, exn, unit) eff" where
  "touch_tunnel now i used_at =
     update_item db_tunnels put_tunnels tunnel_key tunnel_columns [i] i (\<lambda>r. True)
       (\<lambda>r. r\<lparr>ts_last_used_at := Some used_at, ts_updated_at := Some now\<rparr>)
       (store_error ''rds.session.not_found'')"

subsection \<open>S3 locations\<close>

abbreviation put_locations :: "s3_location table \<Rightarrow> database \<Rightarrow> database" where
  "put_locations t \<equiv> db_locations_update (\<lambda>_. t)"

abbreviation location_columns :: string where
  "location_columns \<equiv> ''s3_locations.profile_id, s3_locations.name''"

definition list_s3_locations :: "int \<Rightarrow> (database, exn, s3_location list) eff" where
  "list_s3_locations = list_items db_locations load_location sl_profile_id sl_name"

definition get_s3_location :: "int \<Rightarrow> (database, exn, s3_location option) eff" where
  "get_s3_location = get_item db_locations load_location"

definition get_s3_location_by_name :: "int \<Rightarrow> string \<Rightarrow> (database, exn, s3_location option) eff" where
  "get_s3_location_by_name = find_item db_locations load_location location_key"

definition location_row :: "instant \<Rightarrow> s3_location \<Rightarrow> s3_location" where
  "location_row now l = l\<lparr>sl_id := None, sl_created_at := Some now, sl_updated_at := Some now\<rparr>"

definition create_s3_location :: "instant \<Rightarrow> s3_location \<Rightarrow> (database, exn, s3_location) eff" where
  "create_s3_location now l =
     create_item db_locations put_locations location_key location_columns sl_profile_id load_location
       s3_store_error ''s3.location.create.failed'' (location_row now l)"

definition update_s3_location :: "instant \<Rightarrow> s3_location \<Rightarrow> (database, exn, s3_location) eff" where
  "update_s3_location now l =
     bind (of_app (require_location_id l)) (\<lambda>i.
       seq (map_integrity s3_store_error
             (update_item db_locations put_locations location_key location_columns
               [i, sl_profile_id l] i (\<lambda>r. sl_profile_id r = sl_profile_id l)
               (\<lambda>r. r\<lparr>sl_name := sl_name l, sl_bucket := sl_bucket l, sl_prefix := sl_prefix l,
                 sl_updated_at := Some now\<rparr>)
               (store_error ''s3.location.not_found'')))
         (reread ''s3.location.update.failed'' (get_s3_location i)))"

definition delete_s3_location :: "int \<Rightarrow> (database, exn, unit) eff" where
  "delete_s3_location = delete_item db_locations put_locations ''s3.location.not_found''"

subsection \<open>Saved Secrets\<close>

abbreviation put_secrets :: "saved_secret table \<Rightarrow> database \<Rightarrow> database" where
  "put_secrets t \<equiv> db_secrets_update (\<lambda>_. t)"

abbreviation secret_columns :: string where
  "secret_columns \<equiv> ''saved_secrets.profile_id, saved_secrets.identifier''"

definition list_saved_secrets :: "int \<Rightarrow> (database, exn, saved_secret list) eff" where
  "list_saved_secrets = list_items db_secrets load_secret ss_profile_id ss_identifier"

definition get_saved_secret :: "int \<Rightarrow> (database, exn, saved_secret option) eff" where
  "get_saved_secret = get_item db_secrets load_secret"

definition get_saved_secret_by_identifier ::
    "int \<Rightarrow> string \<Rightarrow> (database, exn, saved_secret option) eff" where
  "get_saved_secret_by_identifier = find_item db_secrets load_secret secret_key"

definition create_saved_secret :: "saved_secret \<Rightarrow> (database, exn, saved_secret) eff" where
  "create_saved_secret s =
     create_item db_secrets put_secrets secret_key secret_columns ss_profile_id load_secret
       saved_secret_store_error ''secret.saved.create.failed'' (s\<lparr>ss_id := None\<rparr>)"

definition update_saved_secret :: "saved_secret \<Rightarrow> (database, exn, saved_secret) eff" where
  "update_saved_secret s =
     bind (of_app (require_secret_id s)) (\<lambda>i.
       seq (map_integrity saved_secret_store_error
             (update_item db_secrets put_secrets secret_key secret_columns [i, ss_profile_id s] i
               (\<lambda>r. ss_profile_id r = ss_profile_id s)
               (\<lambda>r. r\<lparr>ss_identifier := ss_identifier s, ss_value := ss_value s,
                 ss_lookup_mode := ss_lookup_mode s,
                 ss_relay_instance_id := ss_relay_instance_id s\<rparr>)
               (store_error ''secret.saved.not_found'')))
         (reread ''secret.saved.update.failed'' (get_saved_secret i)))"

definition upsert_secret_row :: "saved_secret \<Rightarrow> (saved_secret table, exn, unit) eff" where
  \<comment> \<open>\<open>INSERT ... ON CONFLICT DO UPDATE\<close>: also the conflicting case takes a row id\<close>
  "upsert_secret_row s = (\<lambda>t.
     if tb_seq t \<ge> max_rowid then (Inl (OperationalError ''database or disk is full''), t)
     else case tb_find (\<lambda>r. secret_key r = secret_key s) t of
       Some (j, r) \<Rightarrow>
         (Inr (), \<lparr>tb_seq = tb_seq t + 1,
           tb_rows = AList.update j (r\<lparr>ss_value := ss_value s, ss_lookup_mode := ss_lookup_mode s,
             ss_relay_instance_id := ss_relay_instance_id s,
             ss_last_retrieved_at := (case ss_last_retrieved_at s of
                None \<Rightarrow> ss_last_retrieved_at r | Some at \<Rightarrow> Some at)\<rparr>) (tb_rows t)\<rparr>)
     | None \<Rightarrow>
         (Inr (), \<lparr>tb_seq = tb_seq t + 1,
           tb_rows = tb_rows t @ [(tb_seq t + 1, s\<lparr>ss_id := None\<rparr>)]\<rparr>))"

definition upsert_saved_secret :: "saved_secret \<Rightarrow> (database, exn, saved_secret) eff" where
  "upsert_saved_secret s =
     map_integrity saved_secret_store_error (transact
       (seq (sql_ids [ss_profile_id s])
         (seq (zoom db_secrets put_secrets (upsert_secret_row s))
           (bind (gets (\<lambda>db. ss_profile_id s \<notin> profile_ids db)) (\<lambda>orphan.
              seq (raise_when orphan foreign_key_failed)
                (bind (gets (\<lambda>db. tb_find (\<lambda>r. secret_key r = secret_key s) (db_secrets db)))
                  (\<lambda>row. case row of
                     None \<Rightarrow> raise_app (store_error ''secret.saved.upsert.failed'')
                   | Some p \<Rightarrow> of_app (load_secret p))))))))"

definition delete_saved_secret :: "int \<Rightarrow> (database, exn, unit) eff" where
  "delete_saved_secret = delete_item db_secrets put_secrets ''secret.saved.not_found''"

subsection \<open>S3 drives\<close>

abbreviation put_drives :: "s3_drive table \<Rightarrow> database \<Rightarrow> database" where
  "put_drives t \<equiv> db_drives_update (\<lambda>_. t)"

abbreviation drive_columns :: string where
  "drive_columns \<equiv> ''s3_drives.profile_id, s3_drives.name''"

definition list_drives :: "int option \<Rightarrow> (database, exn, s3_drive list) eff" where
  "list_drives profile_id =
     bind (transact (seq (sql_ids (case profile_id of None \<Rightarrow> [] | Some p \<Rightarrow> [p])) (gets (\<lambda>db.
        order_by sd_name (filter (\<lambda>(i, r). profile_id = None \<or> profile_id = Some (sd_profile_id r))
          (tb_rows (db_drives db)))))))
       (load_all load_drive)"

definition get_drive :: "int \<Rightarrow> (database, exn, s3_drive option) eff" where
  "get_drive = get_item db_drives load_drive"

definition drive_not_found :: app_error where
  "drive_not_found = config_error_because ''drive.not_found'' ''Drive update target missing''"

definition drive_storage_failed :: exn where
  "drive_storage_failed =
     AppExn (config_error_because ''drive.storage.failed'' ''Check drive name and profile'')"

definition save_drive :: "s3_drive \<Rightarrow> (database, exn, s3_drive) eff" where
  "save_drive d =
     bind (try_except
        (case sd_id d of
           None \<Rightarrow> insert_item db_drives put_drives drive_key drive_columns sd_profile_id (d\<lparr>sd_id := None\<rparr>)
         | Some i \<Rightarrow>
             seq (update_item db_drives put_drives drive_key drive_columns [i, sd_profile_id d] i
                    (\<lambda>r. sd_profile_id r = sd_profile_id d) (\<lambda>r. d\<lparr>sd_id := None\<rparr>) drive_not_found)
               (ret i))
        (\<lambda>e. case e of IntegrityError _ \<Rightarrow> throw drive_storage_failed
                   | OperationalError _ \<Rightarrow> throw drive_storage_failed | _ \<Rightarrow> throw e))
       (\<lambda>i. of_app (s3_drive_init (d\<lparr>sd_id := Some i\<rparr>)))"

definition delete_drive :: "int \<Rightarrow> (database, exn, unit) eff" where
  \<comment> \<open>deleting an unknown drive is not an error\<close>
  "delete_drive i = transact (seq (sql_ids [i])
     (modify (\<lambda>db. put_drives (tb_delete (\<lambda>j r. j = i) (db_drives db)) db)))"

subsection \<open>Favourites and settings\<close>

definition list_ec2_favorites :: "int \<Rightarrow> string \<Rightarrow> (database, exn, string set) eff" where
  "list_ec2_favorites profile_id region =
     transact (seq (sql_ids [profile_id]) (gets (\<lambda>db.
       set (map (\<lambda>(p, r, i). i) (filter (\<lambda>(p, r, i). p = profile_id \<and> r = region) (db_favorites db))))))"

definition favorite_store_error :: "string \<Rightarrow> exn" where
  "favorite_store_error cause =
     AppExn (config_error_because ''ec2.favorite.persistence.invalid'' cause)"

definition set_ec2_favorite :: "int \<Rightarrow> string \<Rightarrow> string \<Rightarrow> bool \<Rightarrow> (database, exn, unit) eff" where
  "set_ec2_favorite profile_id region instance_id favorite =
     map_integrity favorite_store_error (transact
       (seq (sql_ids [profile_id])
         (bind (gets (\<lambda>db. db)) (\<lambda>db.
            let entry = (profile_id, region, instance_id) in
            if favorite
            then if entry \<in> set (db_favorites db) then skip
                 else if profile_id \<notin> profile_ids db then throw foreign_key_failed
                 else modify (\<lambda>db. db\<lparr>db_favorites := db_favorites db @ [entry]\<rparr>)
            else modify (\<lambda>db. db\<lparr>db_favorites := filter (\<lambda>e. e \<noteq> entry) (db_favorites db)\<rparr>)))))"

definition get_setting :: "string \<Rightarrow> (database, exn, string option) eff" where
  "get_setting k = gets (\<lambda>db. dict_get (db_settings db) k)"

definition put_setting :: "string \<Rightarrow> string \<Rightarrow> (database, exn, unit) eff" where
  "put_setting k v = modify (\<lambda>db. db\<lparr>db_settings := dict_set k v (db_settings db)\<rparr>)"

definition delete_setting :: "string \<Rightarrow> (database, exn, unit) eff" where
  "delete_setting k = modify (\<lambda>db. db\<lparr>db_settings := dict_pop k (db_settings db)\<rparr>)"

definition replace_settings :: "(string \<times> string option) list \<Rightarrow> (database, exn, unit) eff" where
  "replace_settings changes = transact (for_each changes (\<lambda>(k, v).
     case v of None \<Rightarrow> delete_setting k | Some x \<Rightarrow> put_setting k x))"

subsection \<open>What a table promises the store\<close>

lemma frames_get_item [eff_rules, simp]: "frames g (get_item tbl load i)"
  unfolding get_item_def by (intro eff_rules)

lemma keeps_get_item [eff_rules, simp]: "keeps P (get_item tbl load i)"
  by (rule keeps_of_frames_id) simp

lemma get_item_range:
  assumes "fst (get_item tbl load i d) = Inr x" shows "i \<in> {- (2 ^ 63) .. max_rowid}"
  using assms by (auto simp: get_item_def bind_def transact_def split: if_splits)

lemma get_item_cong:
  "tb_get (tbl d) i = tb_get (tbl d') i \<Longrightarrow>
     fst (get_item tbl load i d) = fst (get_item tbl load i d')"
  by (auto simp: get_item_def bind_def transact_def row_at_def load_opt_def of_app_def
      split: option.split sum.split)

locale item_table =
  fixes tbl :: "database \<Rightarrow> 'r table"
    and put :: "'r table \<Rightarrow> database \<Rightarrow> database"
    and key :: "'r \<Rightarrow> int \<times> string"
    and owner :: "'r \<Rightarrow> int"
    and row_ok :: "'r \<Rightarrow> bool"
    and load :: "int \<times> 'r \<Rightarrow> app_error + 'r"
    and ident :: "'r \<Rightarrow> int option"
  assumes get_put: "tbl (put t d) = t"
    and put_profiles: "db_profiles (put t d) = db_profiles d"
    and inv_get: "db_ok d \<Longrightarrow>
        tb_ok key (tbl d) \<and> rows_ok row_ok (tbl d) \<and> owned_ok owner (profile_ids d) (tbl d)"
    and inv_put: "db_ok d \<Longrightarrow> tb_ok key t \<Longrightarrow> rows_ok row_ok t \<Longrightarrow>
        owned_ok owner (profile_ids d) t \<Longrightarrow> db_ok (put t d)"
    and load_ok: "row_ok r \<Longrightarrow> \<exists>q. load (i, r) = Inr q \<and> ident q = Some i"
begin

lemma in_range: "db_ok d \<Longrightarrow> tb_get (tbl d) i = Some r \<Longrightarrow> i \<in> {- (2 ^ 63) .. max_rowid}"
  using inv_get [of d] tb_ok_id_range [of key "tbl d" i r] by auto

lemma get_present:
  assumes "db_ok d" "tb_get (tbl d) i = Some r"
  shows "\<exists>q. load (i, r) = Inr q \<and> ident q = Some i \<and> get_item tbl load i d = (Inr (Some q), d)"
proof -
  have "row_ok r" using assms inv_get by (blast dest: rows_okD)
  with load_ok obtain q where "load (i, r) = Inr q" "ident q = Some i" by blast
  with assms in_range [OF assms] show ?thesis
    by (simp add: get_item_def bind_def transact_def load_opt_Some)
qed

lemma get_absent:
  "tb_get (tbl d) i = None \<Longrightarrow> i \<in> {- (2 ^ 63) .. max_rowid} \<Longrightarrow> get_item tbl load i d = (Inr None, d)"
  by (simp add: get_item_def bind_def transact_def)

lemma insert_item_Inr:
  assumes "insert_item tbl put key columns owner r d = (Inr i, d')" "db_ok d" "row_ok r"
  shows "db_ok d'" "tb_get (tbl d) i = None" "tb_get (tbl d') = (tb_get (tbl d))(i \<mapsto> r)"
    "owner r \<in> profile_ids d" "key r \<notin> set (tb_keys key (tbl d))"
proof -
  have "seq (sql_ids [owner r])
       (bind (zoom tbl put (tb_insert key columns r)) (\<lambda>i.
          bind (gets (\<lambda>db. owner r \<notin> profile_ids db)) (\<lambda>orphan.
            seq (raise_when orphan foreign_key_failed) (ret i)))) d = (Inr i, d')"
    using assms(1) unfolding insert_item_def by (rule transact_InrD)
  then obtain t where t: "tb_insert key columns r (tbl d) = (Inr i, t)" and d': "d' = put t d"
    and own: "owner r \<in> profile_ids d"
    by (cases "tb_insert key columns r (tbl d)")
      (auto simp: bind_def put_profiles split: if_splits sum.splits)
  note inv = inv_get [OF assms(2)]
  note ins = tb_insert_Inr [OF t conjunct1 [OF inv]]
  show "tb_get (tbl d) i = None" "tb_get (tbl d') = (tb_get (tbl d))(i \<mapsto> r)"
    "owner r \<in> profile_ids d" "key r \<notin> set (tb_keys key (tbl d))"
    unfolding d' get_put by (fact ins own)+
  have "rows_ok row_ok t" "owned_ok owner (profile_ids d) t"
    using inv own assms(3) rows_ok_append [OF ins(5)] by (auto simp: owned_ok_def)
  then show "db_ok d'" unfolding d' using assms(2) ins(1) by (intro inv_put)
qed

lemma insert_item_keeps: "row_ok r \<Longrightarrow> keeps db_ok (insert_item tbl put key columns owner r)"
proof (rule keepsI)
  fix d assume "row_ok r" "db_ok d"
  obtain x d' where run: "insert_item tbl put key columns owner r d = (x, d')"
    by (cases "insert_item tbl put key columns owner r d")
  show "db_ok (snd (insert_item tbl put key columns owner r d))"
  proof (cases x)
    case (Inl e)
    then have "d' = d" using run unfolding insert_item_def by (auto dest: transact_InlD)
    with run \<open>db_ok d\<close> show ?thesis by simp
  next
    case (Inr i)
    with run \<open>row_ok r\<close> \<open>db_ok d\<close> show ?thesis using insert_item_Inr(1) by fastforce
  qed
qed

lemma create_item_keeps:
  "row_ok r \<Longrightarrow> keeps db_ok (create_item tbl put key columns owner load err failed r)"
  unfolding create_item_def
  by (intro keeps_bind keeps_map_integrity insert_item_keeps keeps_reread keeps_get_item)

lemma create_item_Inr:
  assumes "create_item tbl put key columns owner load err failed r d = (Inr q, d')"
    "db_ok d" "row_ok r"
  obtains i where "db_ok d'" "tb_get (tbl d) i = None" "tb_get (tbl d') = (tb_get (tbl d))(i \<mapsto> r)"
    "load (i, r) = Inr q" "ident q = Some i" "i \<in> {- (2 ^ 63) .. max_rowid}"
    "owner r \<in> profile_ids d" "key r \<notin> set (tb_keys key (tbl d))"
proof -
  obtain i d1 where ins: "insert_item tbl put key columns owner r d = (Inr i, d1)"
    and rest: "reread failed (get_item tbl load i) d1 = (Inr q, d')"
    using assms(1) unfolding create_item_def by (auto elim!: bind_eq_InrE)
  note facts = insert_item_Inr [OF ins assms(2,3)]
  have at: "tb_get (tbl d1) i = Some r" using facts(3) by simp
  obtain p where p: "load (i, r) = Inr p" "ident p = Some i"
    "get_item tbl load i d1 = (Inr (Some p), d1)"
    using get_present [OF facts(1) at] by blast
  have "d' = d1" "q = p" using rest p(3) by (auto simp: reread_def bind_def)
  with facts p in_range [OF facts(1) at] that show thesis by blast
qed

lemma create_item_Inl:
  assumes "create_item tbl put key columns owner load err failed r d = (Inl e, d')"
    "db_ok d" "row_ok r"
  shows "d' = d"
proof (cases "insert_item tbl put key columns owner r d")
  case (Pair x d1)
  show ?thesis
  proof (cases x)
    case (Inl e0)
    then have "d1 = d" using Pair unfolding insert_item_def by (auto dest: transact_InlD)
    with assms(1) Pair Inl show ?thesis
      by (auto simp: create_item_def bind_def map_integrity_def try_except_def
          split: exn.splits)
  next
    case (Inr i)
    with Pair have ins: "insert_item tbl put key columns owner r d = (Inr i, d1)" by simp
    note facts = insert_item_Inr [OF ins assms(2,3)]
    have "tb_get (tbl d1) i = Some r" using facts(3) by simp
    with get_present [OF facts(1)] obtain p where "get_item tbl load i d1 = (Inr (Some p), d1)"
      by blast
    with assms(1) ins show ?thesis
      by (auto simp: create_item_def bind_def map_integrity_def try_except_def reread_def)
  qed
qed

lemma update_item_Inr:
  assumes "update_item tbl put key columns params i cond f missing d = (Inr u, d')" "db_ok d"
    "\<And>r. tb_get (tbl d) i = Some r \<Longrightarrow> cond r \<Longrightarrow> row_ok r \<Longrightarrow> row_ok (f r) \<and> owner (f r) = owner r"
  shows "db_ok d'" "\<exists>r. tb_get (tbl d) i = Some r \<and> cond r \<and> tb_get (tbl d') = (tb_get (tbl d))(i \<mapsto> f r)"
proof -
  have "seq (sql_ids params) (bind (zoom tbl put (tb_update key columns i cond f)) (\<lambda>n.
          raise_when (n \<noteq> 1) (AppExn missing))) d = (Inr u, d')"
    using assms(1) unfolding update_item_def by (rule transact_InrD)
  then obtain n t where t: "tb_update key columns i cond f (tbl d) = (Inr n, t)" and n: "n = 1"
    and d': "d' = put t d"
    by (cases "tb_update key columns i cond f (tbl d)")
      (auto simp: bind_def split: if_splits sum.splits)
  note inv = inv_get [OF assms(2)]
  have ok: "tb_ok key (tbl d)" and rok: "rows_ok row_ok (tbl d)"
    and own: "rows_ok (\<lambda>r. owner r \<in> profile_ids d) (tbl d)"
    using inv by (auto simp: owned_ok_def)
  have "n \<noteq> 0" using n by simp
  note u = tb_update_one [OF t this ok]
  show "\<exists>r. tb_get (tbl d) i = Some r \<and> cond r \<and> tb_get (tbl d') = (tb_get (tbl d))(i \<mapsto> f r)"
    using u(1) by (simp add: d' get_put)
  have "rows_ok row_ok t"
    using assms(3) rok by (intro rows_ok_update [OF t ok rok]) blast
  moreover have "rows_ok (\<lambda>r. owner r \<in> profile_ids d) t"
  proof (rule rows_ok_update [OF t ok own])
    fix r assume r: "tb_get (tbl d) i = Some r" "cond r" and o: "owner r \<in> profile_ids d"
    have "owner (f r) = owner r" using assms(3) r rows_okD [OF rok] by blast
    with o show "owner (f r) \<in> profile_ids d" by simp
  qed
  ultimately show "db_ok d'"
    unfolding d' using assms(2) u(2) by (intro inv_put) (auto simp: owned_ok_def)
qed

lemma update_item_keeps:
  assumes "\<And>r. row_ok r \<Longrightarrow> cond r \<Longrightarrow> row_ok (f r) \<and> owner (f r) = owner r"
  shows "keeps db_ok (update_item tbl put key columns params i cond f missing)"
proof (rule keepsI)
  fix d assume d: "db_ok d"
  obtain x d' where run: "update_item tbl put key columns params i cond f missing d = (x, d')"
    by (cases "update_item tbl put key columns params i cond f missing d")
  show "db_ok (snd (update_item tbl put key columns params i cond f missing d))"
  proof (cases x)
    case (Inl e)
    then have "d' = d" using run unfolding update_item_def by (auto dest: transact_InlD)
    with run d show ?thesis by simp
  next
    case (Inr u)
    with run have "update_item tbl put key columns params i cond f missing d = (Inr u, d')" by simp
    from update_item_Inr(1) [OF this d] assms run show ?thesis by simp
  qed
qed

lemma delete_ok: "db_ok d \<Longrightarrow> db_ok (put (tb_delete P (tbl d)) d)"
  using inv_get [of d] by (intro inv_put) (auto simp: owned_ok_def)

lemma delete_item_Inr:
  assumes "delete_item tbl put missing i d = (Inr u, d')" "db_ok d"
  shows "db_ok d'" "tb_get (tbl d) i \<noteq> None" "tb_get (tbl d') = (tb_get (tbl d))(i := None)"
    "i \<in> {- (2 ^ 63) .. max_rowid}"
proof -
  obtain r where r: "tb_get (tbl d) i = Some r"
    and d': "d' = put (tb_delete (\<lambda>j r. j = i) (tbl d)) d"
    using assms(1) unfolding delete_item_def
    by (cases "tb_get (tbl d) i") (auto simp: bind_def transact_def split: if_splits)
  show "db_ok d'" unfolding d' by (rule delete_ok [OF assms(2)])
  show "tb_get (tbl d) i \<noteq> None" using r by simp
  show "tb_get (tbl d') = (tb_get (tbl d))(i := None)"
    using inv_get [OF assms(2)] by (auto simp: d' get_put)
  show "i \<in> {- (2 ^ 63) .. max_rowid}" by (rule in_range [OF assms(2) r])
qed

lemma delete_item_Inl: "delete_item tbl put missing i d = (Inl e, d') \<Longrightarrow> d' = d"
  unfolding delete_item_def by (rule transact_InlD)

lemma delete_item_keeps: "keeps db_ok (delete_item tbl put missing i)"
proof (rule keepsI)
  fix d assume d: "db_ok d"
  obtain x d' where run: "delete_item tbl put missing i d = (x, d')"
    by (cases "delete_item tbl put missing i d")
  with d delete_item_Inl [of missing i d _ d'] delete_item_Inr(1) [of missing i d _ d']
  show "db_ok (snd (delete_item tbl put missing i d))" by (cases x) auto
qed

end

subsection \<open>The four tables keep the promise\<close>

lemma loads_location_iff: "loads load_location r \<longleftrightarrow> (\<exists>m. s3_location_init r = Inr m)"
  by (auto simp: loads_def load_location_def s3_location_init_Inr_iff)

lemma s3_drive_init_bookkeeping:
  "s3_drive_init (d\<lparr>sd_id := i\<rparr>) = map_sum id (sd_id_update (\<lambda>_. i)) (s3_drive_init d)"
  by (simp add: s3_drive_init_def Let_def split: sum.split)

lemma loads_drive_iff: "loads load_drive r \<longleftrightarrow> (\<exists>m. s3_drive_init r = Inr m)"
  by (cases "s3_drive_init r") (auto simp: loads_def load_drive_def s3_drive_init_bookkeeping)

lemma db_ok_put_tunnels:
  "db_ok d \<Longrightarrow> tb_ok tunnel_key t \<Longrightarrow> rows_ok tunnel_ok t \<Longrightarrow> owned_ok ts_profile_id (profile_ids d) t
     \<Longrightarrow> db_ok (put_tunnels t d)"
  by (simp add: db_ok_def children_ok_def profiles_ok_def)

lemma db_ok_put_locations:
  "db_ok d \<Longrightarrow> tb_ok location_key t \<Longrightarrow> rows_ok (loads load_location) t \<Longrightarrow>
     owned_ok sl_profile_id (profile_ids d) t \<Longrightarrow> db_ok (put_locations t d)"
  by (simp add: db_ok_def children_ok_def profiles_ok_def)

lemma db_ok_put_secrets:
  "db_ok d \<Longrightarrow> tb_ok secret_key t \<Longrightarrow> rows_ok secret_ok t \<Longrightarrow> owned_ok ss_profile_id (profile_ids d) t
     \<Longrightarrow> db_ok (put_secrets t d)"
  by (simp add: db_ok_def children_ok_def profiles_ok_def)

lemma db_ok_put_drives:
  "db_ok d \<Longrightarrow> tb_ok drive_key t \<Longrightarrow> rows_ok (loads load_drive) t \<Longrightarrow>
     owned_ok sd_profile_id (profile_ids d) t \<Longrightarrow> db_ok (put_drives t d)"
  by (simp add: db_ok_def children_ok_def profiles_ok_def)

lemma db_ok_children: "db_ok d \<Longrightarrow> children_ok (profile_ids d) d"
  by (simp add: db_ok_def)

interpretation tunnels: item_table db_tunnels put_tunnels tunnel_key ts_profile_id tunnel_ok
    load_tunnel ts_id
  by unfold_locales (auto simp: db_ok_put_tunnels dest!: db_ok_children simp: children_ok_def)

lemma load_location_id: "load_location (i, r) = Inr q \<Longrightarrow> sl_id q = Some i"
  by (auto simp: load_location_def dest: s3_location_init_fields(1))

lemma load_drive_id: "load_drive (i, r) = Inr q \<Longrightarrow> sd_id q = Some i"
  by (auto simp: load_drive_def dest: s3_drive_init_Inr(2))

lemma loads_at: "loads load r \<Longrightarrow> \<exists>q. load (i, r) = Inr q"
  by (simp add: loads_def)

interpretation locations: item_table db_locations put_locations location_key sl_profile_id
    "loads load_location" load_location sl_id
proof unfold_locales
  show "loads load_location r \<Longrightarrow> \<exists>q. load_location (i, r) = Inr q \<and> sl_id q = Some i" for r i
    using loads_at [of load_location r i] load_location_id by auto
qed (auto simp: db_ok_put_locations dest!: db_ok_children simp: children_ok_def)

interpretation secrets: item_table db_secrets put_secrets secret_key ss_profile_id secret_ok
    load_secret ss_id
  by unfold_locales (auto simp: db_ok_put_secrets dest!: db_ok_children simp: children_ok_def)

interpretation drives: item_table db_drives put_drives drive_key sd_profile_id
    "loads load_drive" load_drive sd_id
proof unfold_locales
  show "loads load_drive r \<Longrightarrow> \<exists>q. load_drive (i, r) = Inr q \<and> sd_id q = Some i" for r i
    using loads_at [of load_drive r i] load_drive_id by auto
qed (auto simp: db_ok_put_drives dest!: db_ok_children simp: children_ok_def)

subsection \<open>Every method keeps the database well formed\<close>

lemma tunnel_row_ok [simp]: "tunnel_ok (tunnel_row now s) = tunnel_ok s"
  by (simp add: tunnel_row_def)

lemma keeps_create_tunnel: "tunnel_ok s \<Longrightarrow> keeps db_ok (create_tunnel now s)"
  unfolding create_tunnel_def by (rule tunnels.create_item_keeps) simp

lemma tunnel_ok_update:
  assumes "tunnel_ok s" "ts_profile_id r = ts_profile_id s"
  shows "tunnel_ok (r\<lparr>ts_name := ts_name s, ts_host := ts_host s,
    ts_remote_port := ts_remote_port s, ts_local_port := ts_local_port s,
    ts_target_mode := ts_target_mode s, ts_target_instance_id := ts_target_instance_id s,
    ts_session_duration_hours := ts_session_duration_hours s, ts_updated_at := u\<rparr>)"
  using assms
  by (cases "ts_target_mode s") (simp_all add: tunnel_ok_def tunnel_session_init_Inr_iff)

lemma keeps_update_tunnel: "tunnel_ok s \<Longrightarrow> keeps db_ok (update_tunnel now s)"
  unfolding update_tunnel_def get_tunnel_def
  by (intro keeps_bind keeps_of_app keeps_map_integrity keeps_reread keeps_get_item
      tunnels.update_item_keeps conjI tunnel_ok_update) simp_all

lemma keeps_delete_tunnel: "keeps db_ok (delete_tunnel i)"
  unfolding delete_tunnel_def by (rule tunnels.delete_item_keeps)

lemma keeps_touch_tunnel: "keeps db_ok (touch_tunnel now i used)"
  unfolding touch_tunnel_def by (rule tunnels.update_item_keeps) simp

lemma loads_location_cong:
  "sl_name r = sl_name l \<Longrightarrow> sl_bucket r = sl_bucket l \<Longrightarrow> sl_prefix r = sl_prefix l \<Longrightarrow>
     sl_profile_id r = sl_profile_id l \<Longrightarrow> loads load_location r = loads load_location l"
  by (simp add: loads_location_iff s3_location_init_Inr_iff)

lemma keeps_create_s3_location:
  "loads load_location l \<Longrightarrow> keeps db_ok (create_s3_location now l)"
  unfolding create_s3_location_def
  by (rule locations.create_item_keeps, rule loads_location_cong [THEN iffD2])
    (simp_all add: location_row_def)

lemma loads_location_update:
  assumes "loads load_location l" "sl_profile_id r = sl_profile_id l"
  shows "loads load_location (r\<lparr>sl_name := sl_name l, sl_bucket := sl_bucket l,
    sl_prefix := sl_prefix l, sl_updated_at := u\<rparr>)"
  by (rule loads_location_cong [THEN iffD2, OF _ _ _ _ assms(1)]) (simp_all add: assms(2))

lemma keeps_update_s3_location:
  "loads load_location l \<Longrightarrow> keeps db_ok (update_s3_location now l)"
  unfolding update_s3_location_def get_s3_location_def
  by (intro keeps_bind keeps_of_app keeps_map_integrity keeps_reread keeps_get_item
      locations.update_item_keeps) (simp add: loads_location_update)

lemma keeps_delete_s3_location: "keeps db_ok (delete_s3_location i)"
  unfolding delete_s3_location_def by (rule locations.delete_item_keeps)

lemma keeps_create_saved_secret: "secret_ok s \<Longrightarrow> keeps db_ok (create_saved_secret s)"
  unfolding create_saved_secret_def by (rule secrets.create_item_keeps) simp

lemma secret_ok_update:
  assumes "secret_ok s" "ss_profile_id r = ss_profile_id s"
  shows "secret_ok (r\<lparr>ss_identifier := ss_identifier s, ss_value := v,
    ss_lookup_mode := ss_lookup_mode s, ss_relay_instance_id := ss_relay_instance_id s\<rparr>)"
  using assms by (simp add: secret_ok_iff)

lemma keeps_update_saved_secret: "secret_ok s \<Longrightarrow> keeps db_ok (update_saved_secret s)"
  unfolding update_saved_secret_def get_saved_secret_def
  by (intro keeps_bind keeps_of_app keeps_map_integrity keeps_reread keeps_get_item
      secrets.update_item_keeps) (simp add: secret_ok_update)

lemma keeps_delete_saved_secret: "keeps db_ok (delete_saved_secret i)"
  unfolding delete_saved_secret_def by (rule secrets.delete_item_keeps)

lemma loads_drive_id [simp]: "loads load_drive (d\<lparr>sd_id := i\<rparr>) = loads load_drive d"
  by (cases "s3_drive_init d") (auto simp: loads_drive_iff s3_drive_init_bookkeeping)

lemma keeps_save_drive: "loads load_drive d \<Longrightarrow> keeps db_ok (save_drive d)"
  unfolding save_drive_def
  by (intro keeps_bind keeps_of_app keeps_try_except)
    (auto split: option.split exn.split intro!: keeps_bind drives.insert_item_keeps
      drives.update_item_keeps)

lemma keeps_delete_drive: "keeps db_ok (delete_drive i)"
  unfolding delete_drive_def
  by (rule keeps_transact) (auto simp: bind_def drives.delete_ok split: if_splits)

lemma db_ok_put_favorites:
  "db_ok d \<Longrightarrow> fst ` set f \<subseteq> profile_ids d \<Longrightarrow> distinct f \<Longrightarrow> db_ok (d\<lparr>db_favorites := f\<rparr>)"
  by (simp add: db_ok_def children_ok_def profiles_ok_def)

lemma db_ok_favorites: "db_ok d \<Longrightarrow> fst ` set (db_favorites d) \<subseteq> profile_ids d \<and> distinct (db_favorites d)"
  by (simp add: db_ok_def children_ok_def)

lemma keeps_set_ec2_favorite: "keeps db_ok (set_ec2_favorite p reg i fav)"
proof -
  have add: "db_ok (d\<lparr>db_favorites := db_favorites d @ [(p, reg, i)]\<rparr>)"
    if "db_ok d" "p \<in> profile_ids d" "(p, reg, i) \<notin> set (db_favorites d)" for d
    using that db_ok_favorites [OF that(1)] by (intro db_ok_put_favorites) simp_all
  then have add: "db_ok (d\<lparr>db_favorites := db_favorites d @ [(p, reg, i)]\<rparr>)"
    if "db_ok d" "(p, r) \<in> set (tb_rows (db_profiles d))" "(p, reg, i) \<notin> set (db_favorites d)" for d r
    using that by (metis fst_conv image_eqI)
  have del: "db_ok (d\<lparr>db_favorites := filter P (db_favorites d)\<rparr>)" if "db_ok d" for d P
    using that db_ok_favorites [OF that] by (intro db_ok_put_favorites) auto
  show ?thesis
    unfolding set_ec2_favorite_def
    by (rule keeps_map_integrity, rule keeps_transact)
      (auto simp: bind_def Let_def split: if_splits intro!: add del)
qed

lemma db_ok_put_settings: "db_ok d \<Longrightarrow> dict_ok t \<Longrightarrow> db_ok (d\<lparr>db_settings := t\<rparr>)"
  by (simp add: db_ok_def children_ok_def profiles_ok_def)

lemma db_ok_settings: "db_ok d \<Longrightarrow> dict_ok (db_settings d)"
  by (simp add: db_ok_def children_ok_def)

lemma keeps_put_setting: "keeps db_ok (put_setting k v)"
  unfolding put_setting_def by (rule keeps_modify) (simp add: db_ok_put_settings db_ok_settings)

lemma keeps_delete_setting: "keeps db_ok (delete_setting k)"
  unfolding delete_setting_def by (rule keeps_modify) (simp add: db_ok_put_settings db_ok_settings)

lemma keeps_transact_body: "keeps P m \<Longrightarrow> keeps P (transact m)"
  by (rule keeps_transact) (auto dest: keepsD)

lemma keeps_replace_settings: "keeps db_ok (replace_settings changes)"
  unfolding replace_settings_def
  by (intro keeps_transact_body keeps_for_each)
    (auto split: prod.split option.split intro: keeps_put_setting keeps_delete_setting)

subsection \<open>The upsert of a Secret snapshot\<close>

definition merged_secret :: "saved_secret \<Rightarrow> saved_secret \<Rightarrow> saved_secret" where
  "merged_secret s r = r\<lparr>ss_value := ss_value s, ss_lookup_mode := ss_lookup_mode s,
     ss_relay_instance_id := ss_relay_instance_id s,
     ss_last_retrieved_at := (case ss_last_retrieved_at s of
        None \<Rightarrow> ss_last_retrieved_at r | Some at \<Rightarrow> Some at)\<rparr>"

lemma merged_secret_ok:
  "secret_ok s \<Longrightarrow> secret_key r = secret_key s \<Longrightarrow> secret_ok (merged_secret s r)"
  by (simp add: merged_secret_def secret_ok_iff)

lemma merged_secret_key [simp]: "secret_key (merged_secret s r) = secret_key r"
  by (simp add: merged_secret_def)

lemma tb_find_SomeD: "tb_find P t = Some (i, r) \<Longrightarrow> (i, r) \<in> set (tb_rows t) \<and> P r"
  unfolding tb_find_def by (drule find_SomeD_in) simp

lemma tb_find_NoneD: "tb_find P t = None \<Longrightarrow> (i, r) \<in> set (tb_rows t) \<Longrightarrow> \<not> P r"
  by (auto simp: tb_find_def find_None_iff)

lemma tb_find_key:
  assumes "tb_ok key t" "(i, r) \<in> set (tb_rows t)" "key r = k"
  shows "tb_find (\<lambda>q. key q = k) t = Some (i, r)"
proof (cases "tb_find (\<lambda>q. key q = k) t")
  case None
  from tb_find_NoneD [OF this assms(2)] assms(3) show ?thesis by simp
next
  case (Some p)
  obtain j q where p: "p = (j, q)" by (cases p)
  with Some have "(j, q) \<in> set (tb_rows t)" "key q = k" by (auto dest: tb_find_SomeD)
  moreover have inj: "inj_on (\<lambda>(j, q). key q) (set (tb_rows t))"
    using assms(1) by (simp add: tb_ok_def tb_keys_def distinct_map)
  ultimately have "(j, q) = (i, r)"
    using assms(2,3) inj_onD [OF inj, of "(j, q)" "(i, r)"] by simp
  with Some p show ?thesis by simp
qed

lemma upsert_secret_row_table:
  assumes "upsert_secret_row s t = (Inr (), t')" "tb_ok secret_key t"
  obtains (merged) j r where "tb_get t j = Some r" "secret_key r = secret_key s"
      "tb_get t' = (tb_get t)(j \<mapsto> merged_secret s r)" "tb_ok secret_key t'"
  | (added) j where "tb_get t j = None" "secret_key s \<notin> set (tb_keys secret_key t)"
      "tb_get t' = (tb_get t)(j \<mapsto> s\<lparr>ss_id := None\<rparr>)" "tb_ok secret_key t'"
proof (cases "tb_find (\<lambda>r. secret_key r = secret_key s) t")
  case None
  then have new: "secret_key (s\<lparr>ss_id := None\<rparr>) \<notin> set (tb_keys secret_key t)"
    using tb_find_NoneD [OF None] by (fastforce simp: tb_keys_def)
  have ins: "tb_insert secret_key [] (s\<lparr>ss_id := None\<rparr>) t = (Inr (tb_seq t + 1), t')"
    using assms(1) None new by (auto simp: upsert_secret_row_def tb_insert_def split: if_splits)
  show thesis
    by (rule added [OF tb_insert_Inr(2) [OF ins assms(2)] _ tb_insert_Inr(3) [OF ins assms(2)]
          tb_insert_Inr(1) [OF ins assms(2)]]) (use new in simp)
next
  case (Some p)
  obtain j r where p: "p = (j, r)" by (cases p)
  have find: "tb_find (\<lambda>r. secret_key r = secret_key s) t = Some (j, r)" using Some p by simp
  have jr: "(j, r) \<in> set (tb_rows t)" "secret_key r = secret_key s"
    using tb_find_SomeD [OF find] by auto
  then have get: "tb_get t j = Some r" using assms(2) by (simp add: tb_ok_def)
  let ?u = "t\<lparr>tb_rows := AList.update j (merged_secret s r) (tb_rows t)\<rparr>"
  have seq: "tb_seq t < max_rowid" and t': "t' = ?u\<lparr>tb_seq := tb_seq t + 1\<rparr>"
    using assms(1) find by (auto simp: upsert_secret_row_def merged_secret_def split: if_splits)
  have "\<not> list_ex (\<lambda>(k, q). k \<noteq> j \<and> secret_key q = secret_key (merged_secret s r)) (tb_rows t)"
    using tb_find_key [OF assms(2), where k = "secret_key s"] find jr(2)
    by (auto simp: list_ex_iff)
  then have upd: "tb_update secret_key [] j (\<lambda>_. True) (merged_secret s) t = (Inr 1, ?u)"
    using get by (simp add: tb_update_def)
  note u = tb_update_one [OF upd one_neq_zero assms(2)]
  have "tb_ok secret_key t'"
    using u(2) seq assms(2) unfolding t' tb_ok_def tb_keys_def list_all_iff by fastforce
  moreover have "tb_get t' = (tb_get t)(j \<mapsto> merged_secret s r)"
    using u(1) get by (simp add: t')
  ultimately show thesis using merged get jr by blast
qed

lemma upsert_saved_secret_Inr:
  assumes "upsert_saved_secret s d = (Inr q, d')" "db_ok d" "secret_ok s"
  shows "db_ok d'" "ss_profile_id s \<in> profile_ids d"
    "\<exists>i r. ss_id q = Some i \<and> q = r\<lparr>ss_id := Some i\<rparr> \<and>
       tb_get (db_secrets d') = (tb_get (db_secrets d))(i \<mapsto> r) \<and>
       (case tb_get (db_secrets d) i of
          None \<Rightarrow> secret_key s \<notin> set (tb_keys secret_key (db_secrets d)) \<and> r = s\<lparr>ss_id := None\<rparr>
        | Some old \<Rightarrow> secret_key old = secret_key s \<and> r = merged_secret s old)"
proof -
  obtain t where t: "upsert_secret_row s (db_secrets d) = (Inr (), t)" and d': "d' = put_secrets t d"
    and own: "ss_profile_id s \<in> profile_ids d"
    and row: "(case tb_find (\<lambda>r. secret_key r = secret_key s) t of
       None \<Rightarrow> raise_app (store_error ''secret.saved.upsert.failed'')
     | Some p \<Rightarrow> of_app (load_secret p)) d' = (Inr q, d')"
    using assms(1) unfolding upsert_saved_secret_def map_integrity_Inr
    by (cases "upsert_secret_row s (db_secrets d)")
      (auto dest!: transact_InrD simp: bind_def of_app_def split: if_splits sum.splits option.splits)
  show "ss_profile_id s \<in> profile_ids d" by (rule own)
  note inv = secrets.inv_get [OF assms(2)]
  have get_iff: "tb_get t i = Some r \<longleftrightarrow> (i, r) \<in> set (tb_rows t)" if "tb_ok secret_key t" for i r
    using that by (simp add: tb_ok_def)
  have finish: "q = r\<lparr>ss_id := Some i\<rparr>"
    if "tb_ok secret_key t" "tb_get t i = Some r" "secret_key r = secret_key s" "secret_ok r" for i r
  proof -
    have "tb_find (\<lambda>r. secret_key r = secret_key s) t = Some (i, r)"
      using that get_iff by (intro tb_find_key) auto
    with row that(4) show ?thesis by simp
  qed
  have put: "db_ok d'" if ok: "tb_ok secret_key t" and upd: "tb_get t = (tb_get (db_secrets d))(i \<mapsto> r)"
    and r: "secret_ok r" "ss_profile_id r = ss_profile_id s" for i r
    unfolding d'
  proof (rule secrets.inv_put [OF assms(2) ok])
    show "rows_ok secret_ok t" "owned_ok ss_profile_id (profile_ids d) t"
      using inv r own by (auto simp: owned_ok_def rows_ok_get_iff [OF ok] upd
          rows_ok_get_iff [OF conjunct1 [OF inv]])
  qed
  show "db_ok d'"
    using t conjunct1 [OF inv]
  proof (cases rule: upsert_secret_row_table)
    case (merged j r)
    have "ss_profile_id (merged_secret s r) = ss_profile_id s"
      using merged(2) by (simp add: merged_secret_def)
    with put [OF merged(4,3) merged_secret_ok [OF assms(3) merged(2)]] show ?thesis .
  next
    case (added j)
    show ?thesis by (rule put [OF added(4,3)]) (use assms(3) in auto)
  qed
  show "\<exists>i r. ss_id q = Some i \<and> q = r\<lparr>ss_id := Some i\<rparr> \<and>
       tb_get (db_secrets d') = (tb_get (db_secrets d))(i \<mapsto> r) \<and>
       (case tb_get (db_secrets d) i of
          None \<Rightarrow> secret_key s \<notin> set (tb_keys secret_key (db_secrets d)) \<and> r = s\<lparr>ss_id := None\<rparr>
        | Some old \<Rightarrow> secret_key old = secret_key s \<and> r = merged_secret s old)"
    using t conjunct1 [OF inv]
  proof (cases rule: upsert_secret_row_table)
    case (merged j r)
    have "q = (merged_secret s r)\<lparr>ss_id := Some j\<rparr>"
      by (rule finish) (use merged assms(3) merged_secret_ok in auto)
    with merged show ?thesis by (intro exI [of _ j] exI [of _ "merged_secret s r"]) (simp add: d' fun_eq_iff)
  next
    case (added j)
    have "q = (s\<lparr>ss_id := None\<rparr>)\<lparr>ss_id := Some j\<rparr>"
      by (rule finish) (use added assms(3) in auto)
    with added show ?thesis by (intro exI [of _ j] exI [of _ "s\<lparr>ss_id := None\<rparr>"]) (simp add: d' fun_eq_iff)
  qed
qed

lemma keeps_upsert_saved_secret: "secret_ok s \<Longrightarrow> keeps db_ok (upsert_saved_secret s)"
proof (rule keepsI)
  fix d assume s: "secret_ok s" and d: "db_ok d"
  obtain x d' where run: "upsert_saved_secret s d = (x, d')" by (cases "upsert_saved_secret s d")
  show "db_ok (snd (upsert_saved_secret s d))"
  proof (cases x)
    case (Inl e)
    with run have "d' = d" unfolding upsert_saved_secret_def
      by (auto dest!: map_integrity_InlD transact_InlD)
    with run d show ?thesis by simp
  next
    case (Inr q)
    with run upsert_saved_secret_Inr(1) [of s d q d'] s d show ?thesis by simp
  qed
qed

end
