(* ===== verification/Store_Contract.thy ===== *)
theory Store_Contract
  imports Store_Items
begin

text \<open>
  What the services rely on from the store, as locales over the ports of
  \<open>application/ports.py\<close>: a created object can be read back under its new id, a deleted one
  is gone, nobody else's object appears or disappears, and a failed call leaves the database as it
  was.  \<open>keyed_store\<close> holds for profiles; \<open>item_store\<close> adds that the other objects
  are not changed either, which a profile's deletion does not promise (another profile may become
  the default).  Both are interpreted on the methods of \<open>SqliteProfileStore\<close>.
  \<open>run_calls\<close> runs any sequence of store calls.
\<close>

locale keyed_store =
  fixes create :: "'r \<Rightarrow> 'd \<Rightarrow> (exn + 'r) \<times> 'd"
    and lookup :: "int \<Rightarrow> 'd \<Rightarrow> (exn + 'r option) \<times> 'd"
    and remove :: "int \<Rightarrow> 'd \<Rightarrow> (exn + unit) \<times> 'd"
    and ident :: "'r \<Rightarrow> int option"
    and inv :: "'d \<Rightarrow> bool"
    and valid :: "'r \<Rightarrow> bool"
  assumes lookup_pure: "snd (lookup i d) = d"
    and create_Inr: "inv d \<Longrightarrow> valid r \<Longrightarrow> create r d = (Inr q, d') \<Longrightarrow>
      inv d' \<and> (\<exists>i. ident q = Some i \<and> fst (lookup i d') = Inr (Some q) \<and> fst (lookup i d) = Inr None \<and>
        (\<forall>j. j \<noteq> i \<longrightarrow> fst (lookup j d') = fst (lookup j d)))"
    and create_Inl: "inv d \<Longrightarrow> valid r \<Longrightarrow> create r d = (Inl e, d') \<Longrightarrow> d' = d"
    and remove_Inr: "inv d \<Longrightarrow> remove i d = (Inr u, d') \<Longrightarrow>
      inv d' \<and> fst (lookup i d) \<noteq> Inr None \<and> fst (lookup i d') = Inr None \<and>
        (\<forall>j. j \<noteq> i \<longrightarrow> (fst (lookup j d') = Inr None) = (fst (lookup j d) = Inr None))"
    and remove_Inl: "remove i d = (Inl e, d') \<Longrightarrow> d' = d"
begin

lemma created_is_found:
  "inv d \<Longrightarrow> valid r \<Longrightarrow> create r d = (Inr q, d') \<Longrightarrow>
     \<exists>i. ident q = Some i \<and> fst (lookup i d') = Inr (Some q)"
  using create_Inr by blast

lemma created_ids_differ:
  assumes "inv d" "valid r" "create r d = (Inr q, d1)" "valid s" "create s d1 = (Inr p, d2)"
  shows "ident q \<noteq> ident p"
proof -
  obtain i where i: "ident q = Some i" "fst (lookup i d1) = Inr (Some q)" "inv d1"
    using create_Inr [OF assms(1-3)] by blast
  obtain j where "ident p = Some j" "fst (lookup j d1) = Inr None"
    using create_Inr [OF i(3) assms(4,5)] by blast
  with i show ?thesis by auto
qed

lemma remove_is_not_repeatable:
  assumes "inv d" "remove i d = (Inr u, d')"
  shows "\<exists>e. remove i d' = (Inl e, d')"
proof -
  have *: "inv d'" "fst (lookup i d') = Inr None" using remove_Inr [OF assms] by auto
  obtain x d'' where x: "remove i d' = (x, d'')" by (cases "remove i d'")
  show ?thesis
  proof (cases x)
    case (Inl e)
    with x show ?thesis using remove_Inl by blast
  next
    case (Inr v)
    with x * remove_Inr [of d' i v d''] show ?thesis by auto
  qed
qed

lemma create_then_remove:
  assumes "inv d" "valid r" "create r d = (Inr q, d1)" "ident q = Some i" "remove i d1 = (Inr u, d2)"
  shows "(fst (lookup j d2) = Inr None) = (fst (lookup j d) = Inr None)"
proof -
  obtain k where "ident q = Some k" and k: "fst (lookup k d) = Inr None" "inv d1"
      "\<forall>j. j \<noteq> k \<longrightarrow> fst (lookup j d1) = fst (lookup j d)"
    using create_Inr [OF assms(1-3)] by blast
  with assms(4) have "k = i" by simp
  with k remove_Inr [OF k(2) assms(5)] show ?thesis by (cases "j = i") auto
qed

end

locale item_store = keyed_store +
  assumes remove_keeps: "inv d \<Longrightarrow> remove i d = (Inr u, d') \<Longrightarrow> j \<noteq> i \<Longrightarrow>
      fst (lookup j d') = fst (lookup j d)"
begin

lemma create_then_remove_restores:
  assumes "inv d" "valid r" "create r d = (Inr q, d1)" "ident q = Some i" "remove i d1 = (Inr u, d2)"
  shows "fst (lookup j d2) = fst (lookup j d)"
proof -
  obtain k where "ident q = Some k" and k: "fst (lookup k d) = Inr None" "inv d1"
      "\<forall>j. j \<noteq> k \<longrightarrow> fst (lookup j d1) = fst (lookup j d)"
    using create_Inr [OF assms(1-3)] by blast
  with assms(4) have "k = i" by simp
  with k remove_Inr [OF k(2) assms(5)] remove_keeps [OF k(2) assms(5)] show ?thesis
    by (cases "j = i") auto
qed

end

subsection \<open>The methods satisfy the contract\<close>

context item_table
begin

lemma get_None_iff:
  assumes "db_ok d" "i \<in> {- (2 ^ 63) .. max_rowid}"
  shows "fst (get_item tbl load i d) = Inr None \<longleftrightarrow> tb_get (tbl d) i = None"
proof (cases "tb_get (tbl d) i")
  case (Some r)
  with get_present [OF assms(1) Some] show ?thesis by auto
qed (simp add: get_absent [OF _ assms(2)])

lemma create_contract:
  assumes "create_item tbl put key columns owner load err failed r d = (Inr q, d')"
    "db_ok d" "row_ok r"
  shows "db_ok d' \<and> (\<exists>i. ident q = Some i \<and> fst (get_item tbl load i d') = Inr (Some q) \<and>
    fst (get_item tbl load i d) = Inr None \<and>
    (\<forall>j. j \<noteq> i \<longrightarrow> fst (get_item tbl load j d') = fst (get_item tbl load j d)))"
proof -
  obtain i where i: "db_ok d'" "tb_get (tbl d) i = None" "tb_get (tbl d') = (tb_get (tbl d))(i \<mapsto> r)"
      "load (i, r) = Inr q" "ident q = Some i" "i \<in> {- (2 ^ 63) .. max_rowid}"
    using create_item_Inr [OF assms] by blast
  have "tb_get (tbl d') i = Some r" using i(3) by simp
  from get_present [OF i(1) this] i(4) have "fst (get_item tbl load i d') = Inr (Some q)" by auto
  moreover have "fst (get_item tbl load i d) = Inr None" by (simp add: get_absent [OF i(2,6)])
  moreover have "j \<noteq> i \<longrightarrow> fst (get_item tbl load j d') = fst (get_item tbl load j d)" for j
    by (intro impI get_item_cong) (simp add: i(3))
  ultimately show ?thesis using i(1,5) by blast
qed

lemma delete_contract:
  assumes "delete_item tbl put missing i d = (Inr u, d')" "db_ok d"
  shows "db_ok d' \<and> fst (get_item tbl load i d) \<noteq> Inr None \<and> fst (get_item tbl load i d') = Inr None \<and>
    (\<forall>j. j \<noteq> i \<longrightarrow> fst (get_item tbl load j d') = fst (get_item tbl load j d))"
proof -
  note del = delete_item_Inr [OF assms]
  have "tb_get (tbl d') i = None" using del(3) by simp
  moreover have "j \<noteq> i \<longrightarrow> fst (get_item tbl load j d') = fst (get_item tbl load j d)" for j
    by (intro impI get_item_cong) (simp add: del(3))
  ultimately show ?thesis
    using del(1,2) get_None_iff [OF assms(2) del(4)] get_None_iff [OF del(1,4)] by simp
qed

lemma get_item_pure: "snd (get_item tbl load i d) = d"
  using frames_get_item [of "\<lambda>d. d" tbl load i] by (simp add: frames_def)

end

interpretation tunnel_store: item_store "create_tunnel now" get_tunnel delete_tunnel ts_id db_ok tunnel_ok
  for now
proof unfold_locales
  fix d r q d' assume a: "db_ok d" "tunnel_ok r" "create_tunnel now r d = (Inr q, d')"
  from tunnels.create_contract [OF a(3) [unfolded create_tunnel_def] a(1)] a(2) show "db_ok d' \<and> (\<exists>i. ts_id q = Some i \<and> fst (get_tunnel i d') = Inr (Some q) \<and>
      fst (get_tunnel i d) = Inr None \<and> (\<forall>j. j \<noteq> i \<longrightarrow> fst (get_tunnel j d') = fst (get_tunnel j d)))"
    unfolding get_tunnel_def by simp
next
  fix d r e d' assume "db_ok d" "tunnel_ok r" "create_tunnel now r d = (Inl e, d')"
  then show "d' = d" unfolding create_tunnel_def by (auto dest: tunnels.create_item_Inl)
qed (auto simp: get_tunnel_def delete_tunnel_def tunnels.get_item_pure
      dest: tunnels.delete_contract tunnels.delete_item_Inl)

lemma loads_location_row: "loads load_location (location_row now l) = loads load_location l"
  by (rule loads_location_cong) (simp_all add: location_row_def)

interpretation location_store: item_store "create_s3_location now" get_s3_location delete_s3_location
    sl_id db_ok "loads load_location"
  for now
proof unfold_locales
  fix d r q d' assume a: "db_ok d" "loads load_location r" "create_s3_location now r d = (Inr q, d')"
  from locations.create_contract [OF a(3) [unfolded create_s3_location_def] a(1)] a(2) show "db_ok d' \<and> (\<exists>i. sl_id q = Some i \<and> fst (get_s3_location i d') = Inr (Some q) \<and>
      fst (get_s3_location i d) = Inr None \<and>
      (\<forall>j. j \<noteq> i \<longrightarrow> fst (get_s3_location j d') = fst (get_s3_location j d)))"
    unfolding get_s3_location_def by (simp add: loads_location_row)
next
  fix d r e d' assume "db_ok d" "loads load_location r" "create_s3_location now r d = (Inl e, d')"
  then show "d' = d" unfolding create_s3_location_def
    using locations.create_item_Inl loads_location_row by blast
qed (auto simp: get_s3_location_def delete_s3_location_def locations.get_item_pure
      dest: locations.delete_contract locations.delete_item_Inl)

interpretation secret_store: item_store create_saved_secret get_saved_secret delete_saved_secret
    ss_id db_ok secret_ok
proof unfold_locales
  fix d r q d' assume a: "db_ok d" "secret_ok r" "create_saved_secret r d = (Inr q, d')"
  from secrets.create_contract [OF a(3) [unfolded create_saved_secret_def] a(1)] a(2) show "db_ok d' \<and> (\<exists>i. ss_id q = Some i \<and> fst (get_saved_secret i d') = Inr (Some q) \<and>
      fst (get_saved_secret i d) = Inr None \<and>
      (\<forall>j. j \<noteq> i \<longrightarrow> fst (get_saved_secret j d') = fst (get_saved_secret j d)))"
    unfolding get_saved_secret_def by simp
next
  fix d r e d' assume "db_ok d" "secret_ok r" "create_saved_secret r d = (Inl e, d')"
  then show "d' = d" unfolding create_saved_secret_def by (auto dest: secrets.create_item_Inl)
qed (auto simp: get_saved_secret_def delete_saved_secret_def secrets.get_item_pure
      dest: secrets.delete_contract secrets.delete_item_Inl)

subsection \<open>Profiles\<close>

lemma get_profile_item: "get_profile = get_item db_profiles load_profile"
  by (rule ext) (simp add: get_profile_def get_item_def)

lemma create_profile_Inr:
  assumes "create_profile now p db = (Inr q, db')" "db_ok db" "profile_ok p"
  obtains i r t where "db_ok db'" "tb_get (db_profiles db) i = None"
    "db' = db\<lparr>db_profiles := t\<rparr>" "tb_get t = (tb_get (db_profiles db))(i \<mapsto> r)"
    "r = profile_row p (tb_rows (db_profiles db) = []) (Some now) (Some now)"
    "q = r\<lparr>ap_id := Some i\<rparr>" "tb_rows t = tb_rows (db_profiles db) @ [(i, r)]"
proof -
  obtain i db1 where tr: "map_integrity profile_store_error
      (transact (on_profiles (insert_profile now p))) db = (Inr i, db1)"
    and rest: "reread ''profile.create.failed'' (get_profile i) db1 = (Inr q, db')"
    using assms(1) unfolding create_profile_def by (auto elim!: bind_eq_InrE)
  have "on_profiles (insert_profile now p) db = (Inr i, db1)"
    using tr unfolding map_integrity_Inr by (rule transact_InrD)
  then obtain t where t: "insert_profile now p (db_profiles db) = (Inr i, t)"
    and db1: "db1 = db\<lparr>db_profiles := t\<rparr>"
    by (cases "insert_profile now p (db_profiles db)") auto
  have "profile_table_ok (db_profiles db)" using assms(2) by (simp add: db_ok_def profiles_ok_table)
  note ins = insert_profile_Inr [OF t this assms(3)]
  define r where "r = profile_row p (tb_rows (db_profiles db) = []) (Some now) (Some now)"
  have flag: "(tb_rows (db_profiles db) = [] \<or> ap_is_default p) = (tb_rows (db_profiles db) = [])"
    using ins(5) by blast
  have get: "tb_get t = (tb_get (db_profiles db))(i \<mapsto> r)"
    and rows: "tb_rows t = tb_rows (db_profiles db) @ [(i, r)]"
    using ins(3,4) unfolding flag r_def by blast+
  have ok: "db_ok db1"
    unfolding db1 by (rule db_ok_put_profiles [OF assms(2) ins(1)]) (auto simp: rows)
  have at: "tb_get (db_profiles db1) i = Some r" by (simp add: db1 get)
  have "db' = db1 \<and> q = r\<lparr>ap_id := Some i\<rparr>"
    using rest by (simp add: reread_def bind_def get_profile_present [OF ok at])
  with that [OF _ ins(2) _ get r_def _ rows] ok db1 show thesis by blast
qed

lemma create_profile_Inl:
  assumes "create_profile now p db = (Inl e, db')" "db_ok db" "profile_ok p"
  shows "db' = db"
proof (cases "transact (on_profiles (insert_profile now p)) db")
  case (Pair x db1)
  show ?thesis
  proof (cases x)
    case (Inl e0)
    with Pair have "db1 = db" by (auto dest: transact_InlD)
    with Pair Inl assms(1) show ?thesis
      by (auto simp: create_profile_def bind_def map_integrity_def try_except_def split: exn.splits)
  next
    case (Inr i)
    with Pair have tr: "transact (on_profiles (insert_profile now p)) db = (Inr i, db1)" by simp
    then have "on_profiles (insert_profile now p) db = (Inr i, db1)" by (rule transact_InrD)
    then obtain t where t: "insert_profile now p (db_profiles db) = (Inr i, t)"
      and db1: "db1 = db\<lparr>db_profiles := t\<rparr>"
      by (cases "insert_profile now p (db_profiles db)") auto
    have "profile_table_ok (db_profiles db)" using assms(2) by (simp add: db_ok_def profiles_ok_table)
    note ins = insert_profile_Inr [OF t this assms(3)]
    have ok: "db_ok db1"
      unfolding db1 by (rule db_ok_put_profiles [OF assms(2) ins(1)]) (auto simp: ins(4))
    obtain r where "tb_get (db_profiles db1) i = Some r" using ins(3) by (simp add: db1)
    from get_profile_present [OF ok this] assms(1) tr show ?thesis
      by (simp add: create_profile_def bind_def map_integrity_def try_except_def reread_def)
  qed
qed

lemma get_profile_None_iff:
  assumes "db_ok db" "i \<in> {- (2 ^ 63) .. max_rowid}"
  shows "fst (get_profile i db) = Inr None \<longleftrightarrow> tb_get (db_profiles db) i = None"
  by (simp add: get_profile_eq [OF assms])

lemma get_profile_overflow: "i \<notin> {- (2 ^ 63) .. max_rowid} \<Longrightarrow> fst (get_profile i db) = Inl (PyExn ''OverflowError'')"
  by (auto simp: get_profile_def bind_def transact_def)

lemma get_profile_None_cong:
  assumes "db_ok db" "db_ok db'"
    "(tb_get (db_profiles db') i = None) = (tb_get (db_profiles db) i = None)"
  shows "(fst (get_profile i db') = Inr None) = (fst (get_profile i db) = Inr None)"
proof (cases "i \<in> {- (2 ^ 63) .. max_rowid}")
  case True
  then show ?thesis using assms(3) get_profile_None_iff assms(1,2) by simp
next
  case False
  then show ?thesis by (simp only: get_profile_overflow [OF False])
qed

lemma remove_profile_get_None:
  assumes "tb_ok ap_name t" "tb_get t i = Some r"
  shows "tb_get (remove_profile i t) j = None \<longleftrightarrow> j = i \<or> tb_get t j = None"
proof -
  have "tb_get (remove_profile i t) j = None \<longleftrightarrow> tb_get (tb_delete (\<lambda>j r. j = i) t) j = None"
    using ids_eq [OF remove_profile_ids [OF assms(2)]] by (simp add: map_of_eq_None_iff)
  then show ?thesis using assms(1) by simp
qed

lemma delete_profile_presence:
  assumes "delete_profile i db = (Inr u, db')" "db_ok db"
  shows "tb_get (db_profiles db) i \<noteq> None" "db_ok db'" "i \<in> {- (2 ^ 63) .. max_rowid}"
    "tb_get (db_profiles db') j = None \<longleftrightarrow> j = i \<or> tb_get (db_profiles db) j = None"
proof -
  obtain r where r: "tb_get (db_profiles db) i = Some r"
    "db' = cascade i (db\<lparr>db_profiles := remove_profile i (db_profiles db)\<rparr>)"
    using assms(1) by (rule delete_profile_Inr)
  have ok: "tb_ok ap_name (db_profiles db)" using assms(2) by (simp add: db_ok_def profiles_ok_def)
  show "tb_get (db_profiles db) i \<noteq> None" using r(1) by simp
  show "db_ok db'" using keepsD [OF keeps_delete_profile assms(2,1)] .
  show "i \<in> {- (2 ^ 63) .. max_rowid}" using tb_ok_id_range [OF ok r(1)] by auto
  show "tb_get (db_profiles db') j = None \<longleftrightarrow> j = i \<or> tb_get (db_profiles db) j = None"
    by (simp add: r(2) remove_profile_get_None [OF ok r(1)])
qed

interpretation profile_store: keyed_store "create_profile now" get_profile delete_profile ap_id
    db_ok profile_ok
  for now
proof unfold_locales
  show "snd (get_profile i d) = d" for i d
    using frames_get_profile [of "\<lambda>d. d" i] by (simp add: frames_def)
next
  fix d r q d' assume a: "db_ok d" "profile_ok r" "create_profile now r d = (Inr q, d')"
  obtain i w t where "db_ok d'" and i: "tb_get (db_profiles d) i = None"
      and d': "d' = d\<lparr>db_profiles := t\<rparr>" "tb_get t = (tb_get (db_profiles d))(i \<mapsto> w)"
      and q: "q = w\<lparr>ap_id := Some i\<rparr>"
    using create_profile_Inr [OF a(3,1,2)] by metis
  have at: "tb_get (db_profiles d') i = Some w" by (simp add: d')
  have range: "i \<in> {- (2 ^ 63) .. max_rowid}"
    using tb_ok_id_range [OF _ at, of ap_name] \<open>db_ok d'\<close> by (auto simp: db_ok_def profiles_ok_def)
  have "\<forall>j. j \<noteq> i \<longrightarrow> fst (get_profile j d') = fst (get_profile j d)"
    unfolding get_profile_item by (intro allI impI get_item_cong) (simp add: d')
  with get_profile_present [OF \<open>db_ok d'\<close> at] get_profile_None_iff [OF a(1) range] i q \<open>db_ok d'\<close>
  show "db_ok d' \<and> (\<exists>i. ap_id q = Some i \<and> fst (get_profile i d') = Inr (Some q) \<and>
      fst (get_profile i d) = Inr None \<and>
      (\<forall>j. j \<noteq> i \<longrightarrow> fst (get_profile j d') = fst (get_profile j d)))"
    by (intro conjI exI [of _ i]) auto
next
  fix d r e d' assume "db_ok d" "profile_ok r" "create_profile now r d = (Inl e, d')"
  then show "d' = d" using create_profile_Inl by blast
next
  fix d i u d' assume a: "db_ok d" "delete_profile i d = (Inr u, d')"
  note p = delete_profile_presence [OF a(2,1)]
  have "(fst (get_profile j d') = Inr None) = (fst (get_profile j d) = Inr None)" if "j \<noteq> i" for j
    by (rule get_profile_None_cong [OF a(1) p(2)]) (use p(4) that in simp)
  then show "db_ok d' \<and> fst (get_profile i d) \<noteq> Inr None \<and> fst (get_profile i d') = Inr None \<and>
      (\<forall>j. j \<noteq> i \<longrightarrow> (fst (get_profile j d') = Inr None) = (fst (get_profile j d) = Inr None))"
    using p get_profile_None_iff [OF a(1) p(3)] get_profile_None_iff [OF p(2,3)] by simp
next
  show "delete_profile i d = (Inl e, d') \<Longrightarrow> d' = d" for i d e d'
    unfolding delete_profile_def by (rule transact_InlD)
qed

subsection \<open>Any sequence of calls\<close>

datatype store_call =
    CreateProfile instant aws_profile | UpdateProfile instant aws_profile | DeleteProfile int
  | SetDefaultProfile instant int | PutSession session_credentials | GetSession int
  | DeleteSession int
  | CreateTunnel instant tunnel_session | UpdateTunnel instant tunnel_session
  | DeleteTunnel int | TouchTunnel instant int instant
  | CreateLocation instant s3_location | UpdateLocation instant s3_location | DeleteLocation int
  | CreateSecret saved_secret | UpsertSecret saved_secret | UpdateSecret saved_secret
  | DeleteSecret int | SaveDrive s3_drive | DeleteDrive int
  | SetFavorite int string string bool | ReplaceSettings "(string \<times> string option) list"
  | PutSetting string string | DeleteSetting string

fun run_call :: "store_call \<Rightarrow> database \<Rightarrow> database" where
  "run_call (CreateProfile now p) db = snd (create_profile now p db)"
| "run_call (UpdateProfile now p) db = snd (update_profile now p db)"
| "run_call (DeleteProfile i) db = snd (delete_profile i db)"
| "run_call (SetDefaultProfile now i) db = snd (set_default_profile now i db)"
| "run_call (PutSession s) db = snd (put_session s db)"
| "run_call (GetSession i) db = snd (get_session i db)"
| "run_call (DeleteSession i) db = snd (delete_session i db)"
| "run_call (CreateTunnel now s) db = snd (create_tunnel now s db)"
| "run_call (UpdateTunnel now s) db = snd (update_tunnel now s db)"
| "run_call (DeleteTunnel i) db = snd (delete_tunnel i db)"
| "run_call (TouchTunnel now i used) db = snd (touch_tunnel now i used db)"
| "run_call (CreateLocation now l) db = snd (create_s3_location now l db)"
| "run_call (UpdateLocation now l) db = snd (update_s3_location now l db)"
| "run_call (DeleteLocation i) db = snd (delete_s3_location i db)"
| "run_call (CreateSecret s) db = snd (create_saved_secret s db)"
| "run_call (UpsertSecret s) db = snd (upsert_saved_secret s db)"
| "run_call (UpdateSecret s) db = snd (update_saved_secret s db)"
| "run_call (DeleteSecret i) db = snd (delete_saved_secret i db)"
| "run_call (SaveDrive d) db = snd (save_drive d db)"
| "run_call (DeleteDrive i) db = snd (delete_drive i db)"
| "run_call (SetFavorite p r i f) db = snd (set_ec2_favorite p r i f db)"
| "run_call (ReplaceSettings changes) db = snd (replace_settings changes db)"
| "run_call (PutSetting k v) db = snd (put_setting k v db)"
| "run_call (DeleteSetting k) db = snd (delete_setting k db)"

definition run_calls :: "store_call list \<Rightarrow> database \<Rightarrow> database" where
  "run_calls calls db = fold run_call calls db"

fun call_ok :: "store_call \<Rightarrow> bool" where
  \<comment> \<open>the argument is an object its constructor accepted\<close>
  "call_ok (CreateProfile _ p) = profile_ok p"
| "call_ok (UpdateProfile _ p) = profile_ok p"
| "call_ok (CreateTunnel _ s) = tunnel_ok s"
| "call_ok (UpdateTunnel _ s) = tunnel_ok s"
| "call_ok (CreateLocation _ l) = (\<exists>m. s3_location_init l = Inr m)"
| "call_ok (UpdateLocation _ l) = (\<exists>m. s3_location_init l = Inr m)"
| "call_ok (CreateSecret s) = secret_ok s"
| "call_ok (UpsertSecret s) = secret_ok s"
| "call_ok (UpdateSecret s) = secret_ok s"
| "call_ok (SaveDrive d) = (\<exists>m. s3_drive_init d = Inr m)"
| "call_ok _ = True"

lemmas keeps_db_ok =
  keeps_create_profile keeps_update_profile keeps_delete_profile keeps_set_default_profile
  keeps_put_session keeps_get_session keeps_delete_session keeps_create_tunnel keeps_update_tunnel
  keeps_delete_tunnel keeps_touch_tunnel keeps_create_s3_location keeps_update_s3_location
  keeps_delete_s3_location keeps_create_saved_secret keeps_upsert_saved_secret
  keeps_update_saved_secret keeps_delete_saved_secret keeps_save_drive keeps_delete_drive
  keeps_set_ec2_favorite keeps_replace_settings keeps_put_setting keeps_delete_setting

lemma run_call_ok: "call_ok c \<Longrightarrow> db_ok db \<Longrightarrow> db_ok (run_call c db)"
  by (cases c) (auto intro!: keeps_db_ok [unfolded keeps_def, rule_format]
      simp: loads_location_iff loads_drive_iff)

end
