(* ===== verification/App_World.thy ===== *)
theory App_World
  imports Store_Contract
begin

text \<open>
  The state the application services run on, and the ports they are given
  (\<open>application/ports.py\<close>).  A world is the database, the execution identity of the current
  call (\<open>application/execution_context.py\<close>) and everything outside the program, of any type
  \<open>'w\<close>.  The ports are functions on the outside; the theorems hold for any of them.  Records that
  extend \<open>world\<close> add the state of single services.
\<close>

record 'w world =
  w_db :: database
  w_exec :: "(string \<times> string) option"
  w_out :: 'w

type_synonym ('w, 'm, 'a) io = "(('w, 'm) world_scheme, exn, 'a) eff"

definition on_db :: "(database, exn, 'a) eff \<Rightarrow> ('w, 'm, 'a) io" where
  "on_db = zoom w_db (\<lambda>d. w_db_update (\<lambda>_. d))"

definition call_out :: "('w \<Rightarrow> (exn + 'a) \<times> 'w) \<Rightarrow> ('w, 'm, 'a) io" where
  "call_out = zoom w_out (\<lambda>w. w_out_update (\<lambda>_. w))"

definition ask :: "('w \<Rightarrow> 'a \<times> 'w) \<Rightarrow> ('w, 'm, 'a) io" where
  \<comment> \<open>a port that cannot raise\<close>
  "ask f = (\<lambda>s. case f (w_out s) of (x, w) \<Rightarrow> (Inr x, s\<lparr>w_out := w\<rparr>))"

subsection \<open>Values of the ports\<close>

record aws_identity =
  id_account_id :: string
  id_user_id :: string
  id_arn :: string

record issued_session =
  iss_credentials :: plain_credentials
  iss_expires_at_utc :: instant

datatype meta = MetaInt int | MetaStr string

record log_call =
  lc_feature :: string
  lc_operation :: string
  lc_result :: string
  lc_level :: string
  lc_phase :: execution_phase
  lc_message_code :: string
  lc_target :: string
  lc_aws_service :: "string option"
  lc_aws_action :: "string option"
  lc_aws_request_id :: "string option"
  lc_error_category :: "error_category option"
  lc_error_code :: "string option"
  lc_required_permission :: "string option"
  lc_retryable :: "bool option"
  lc_profile_id :: "int option"
  lc_region :: "string option"
  lc_correlation_id :: "string option"
  lc_operation_id :: "string option"
  lc_metadata :: "(string \<times> meta) list"

record progress_event =
  pe_operation_id :: string
  pe_phase :: string
  pe_completed :: "int option"
  pe_total :: "int option"
  pe_message_code :: string
  pe_target :: "string option"

type_synonym 'w recorder = "(string \<times> string) option \<Rightarrow> log_call \<Rightarrow> 'w \<Rightarrow> (exn + unit) \<times> 'w"

record 'w ports =
  pt_now :: "'w \<Rightarrow> instant \<times> 'w"
  pt_uuid :: "'w \<Rightarrow> string \<times> 'w"
  pt_protect :: "string \<Rightarrow> 'w \<Rightarrow> (exn + bytes) \<times> 'w"
  pt_unprotect :: "bytes \<Rightarrow> 'w \<Rightarrow> (exn + string) \<times> 'w"
  pt_get_identity :: "plain_credentials \<Rightarrow> string \<Rightarrow> 'w \<Rightarrow> (exn + aws_identity) \<times> 'w"
  pt_get_session_token :: "plain_credentials \<Rightarrow> string \<Rightarrow> string option \<Rightarrow> string option \<Rightarrow> int
    \<Rightarrow> 'w \<Rightarrow> (exn + issued_session) \<times> 'w"
  pt_shared_credentials :: "(int \<Rightarrow> plain_credentials \<Rightarrow> 'w \<Rightarrow> (exn + unit) \<times> 'w) option"
  pt_recorder :: "'w recorder option"
  pt_cancelled :: "nat \<Rightarrow> 'w \<Rightarrow> bool \<times> 'w"
  pt_progress :: "progress_event \<Rightarrow> 'w \<Rightarrow> (exn + unit) \<times> 'w"

subsection \<open>Calls of the ports\<close>

definition clock_now :: "'w ports \<Rightarrow> ('w, 'm, instant) io" where
  "clock_now P = ask (pt_now P)"

definition new_uuid :: "'w ports \<Rightarrow> ('w, 'm, string) io" where
  "new_uuid P = ask (pt_uuid P)"

definition protect :: "'w ports \<Rightarrow> string \<Rightarrow> ('w, 'm, bytes) io" where
  "protect P s = call_out (pt_protect P s)"

definition unprotect :: "'w ports \<Rightarrow> bytes \<Rightarrow> ('w, 'm, string) io" where
  "unprotect P b = call_out (pt_unprotect P b)"

definition get_identity :: "'w ports \<Rightarrow> plain_credentials \<Rightarrow> string \<Rightarrow> ('w, 'm, aws_identity) io" where
  "get_identity P c region = call_out (pt_get_identity P c region)"

definition get_session_token ::
    "'w ports \<Rightarrow> plain_credentials \<Rightarrow> string \<Rightarrow> string option \<Rightarrow> string option \<Rightarrow> int
     \<Rightarrow> ('w, 'm, issued_session) io" where
  "get_session_token P c region arn mfa seconds =
     call_out (pt_get_session_token P c region arn mfa seconds)"

definition record_log :: "'w ports \<Rightarrow> log_call \<Rightarrow> ('w, 'm, unit) io" where
  \<comment> \<open>\<open>if self._activity_logs is not None: self._activity_logs.record(...)\<close>\<close>
  "record_log P c = (case pt_recorder P of None \<Rightarrow> skip
     | Some r \<Rightarrow> bind (gets w_exec) (\<lambda>who. call_out (r who c)))"

definition log_entry ::
    "string \<Rightarrow> string \<Rightarrow> string \<Rightarrow> string \<Rightarrow> execution_phase \<Rightarrow> string \<Rightarrow> log_call" where
  "log_entry feature operation result level phase msg =
     \<lparr>lc_feature = feature, lc_operation = operation, lc_result = result, lc_level = level,
      lc_phase = phase, lc_message_code = msg, lc_target = ''-'', lc_aws_service = None,
      lc_aws_action = None, lc_aws_request_id = None, lc_error_category = None,
      lc_error_code = None, lc_required_permission = None, lc_retryable = None,
      lc_profile_id = None, lc_region = None, lc_correlation_id = None, lc_operation_id = None,
      lc_metadata = []\<rparr>"

definition record_success :: "'w ports \<Rightarrow> string \<Rightarrow> string \<Rightarrow> (log_call \<Rightarrow> log_call) \<Rightarrow> ('w, 'm, unit) io" where
  "record_success P feature operation details =
     record_log P (details (log_entry feature operation ''SUCCESS'' ''INFO'' PhaseCompleted
       (feature @ ''.'' @ operation @ ''.completed'')))"

subsection \<open>What a call leaves unchanged\<close>

lemma on_db_apply [simp]: "on_db m s = (fst (m (w_db s)), s\<lparr>w_db := snd (m (w_db s))\<rparr>)"
  by (simp add: on_db_def)

lemma call_out_apply [simp]: "call_out f s = (fst (f (w_out s)), s\<lparr>w_out := snd (f (w_out s))\<rparr>)"
  by (simp add: call_out_def)

lemma ask_apply [simp]: "ask f s = (Inr (fst (f (w_out s))), s\<lparr>w_out := snd (f (w_out s))\<rparr>)"
  by (simp add: ask_def split: prod.split)

lemma call_out_InrE:
  assumes "call_out f s = (Inr x, t)"
  obtains w where "f (w_out s) = (Inr x, w)" "t = s\<lparr>w_out := w\<rparr>"
  using assms by (cases "f (w_out s)") auto

definition outside_only :: "(('w, 'm) world_scheme, exn, 'a) eff \<Rightarrow> bool" where
  \<comment> \<open>changes nothing but the outside\<close>
  "outside_only m \<longleftrightarrow> (\<forall>s. \<exists>w. snd (m s) = s\<lparr>w_out := w\<rparr>)"

named_theorems outside_rules "operations that change nothing but the outside"

lemma outside_onlyD: "outside_only m \<Longrightarrow> m s = (r, t) \<Longrightarrow> \<exists>w. t = s\<lparr>w_out := w\<rparr>"
  unfolding outside_only_def by (metis snd_conv)

lemma outside_ret [outside_rules, simp]: "outside_only (ret x)"
  unfolding outside_only_def by (metis ret_apply snd_conv world.surjective world.update_convs(3))

lemma outside_throw [outside_rules, simp]: "outside_only (throw e)"
  unfolding outside_only_def by (metis throw_apply snd_conv world.surjective world.update_convs(3))

lemma outside_gets [outside_rules, simp]: "outside_only (gets f)"
  unfolding outside_only_def by (metis gets_apply snd_conv world.surjective world.update_convs(3))

lemma outside_skip [outside_rules, simp]: "outside_only skip"
  by (simp add: skip_def)

lemma outside_raise_when [outside_rules, simp]: "outside_only (raise_when b e)"
  by (simp add: raise_when_def)

lemma outside_of_app [outside_rules, simp]: "outside_only (of_app r)"
  by (cases r) auto

lemma outside_call_out [outside_rules, simp]: "outside_only (call_out f)"
  by (auto simp: outside_only_def)

lemma outside_ask [outside_rules, simp]: "outside_only (ask f)"
  by (auto simp: outside_only_def)

lemma outside_bind [outside_rules]:
  assumes "outside_only m" "\<And>x. outside_only (f x)" shows "outside_only (bind m f)"
  unfolding outside_only_def
proof
  fix s
  obtain r t where m: "m s = (r, t)" by (cases "m s")
  obtain o1 where t: "t = s\<lparr>w_out := o1\<rparr>" using outside_onlyD [OF assms(1) m] by blast
  show "\<exists>w. snd (bind m f s) = s\<lparr>w_out := w\<rparr>"
  proof (cases r)
    case (Inl e) with m t show ?thesis by auto
  next
    case (Inr x)
    obtain o2 where "snd (f x t) = t\<lparr>w_out := o2\<rparr>"
      using assms(2) [of x] unfolding outside_only_def by blast
    with m t Inr show ?thesis by auto
  qed
qed

lemma outside_for_each [outside_rules]: "(\<And>x. outside_only (f x)) \<Longrightarrow> outside_only (for_each xs f)"
  by (induction xs) (auto intro: outside_bind)

lemma outside_map_each [outside_rules]: "(\<And>x. outside_only (f x)) \<Longrightarrow> outside_only (map_each f xs)"
  by (induction xs) (auto intro!: outside_bind)

lemma outside_try_except [outside_rules]:
  assumes "outside_only m" "\<And>e. outside_only (h e)" shows "outside_only (try_except m h)"
  unfolding outside_only_def
proof
  fix s
  obtain r t where m: "m s = (r, t)" by (cases "m s")
  obtain o1 where t: "t = s\<lparr>w_out := o1\<rparr>" using outside_onlyD [OF assms(1) m] by blast
  show "\<exists>w. snd (try_except m h s) = s\<lparr>w_out := w\<rparr>"
  proof (cases r)
    case (Inr e) with m t show ?thesis by auto
  next
    case (Inl x)
    obtain o2 where "snd (h x t) = t\<lparr>w_out := o2\<rparr>"
      using assms(2) [of x] unfolding outside_only_def by blast
    with m t Inl show ?thesis by auto
  qed
qed

lemma outside_attempt [outside_rules]: "outside_only m \<Longrightarrow> outside_only (attempt m)"
  by (simp add: outside_only_def)

lemma outside_clock_now [outside_rules, simp]: "outside_only (clock_now P)"
  by (simp add: clock_now_def)

lemma outside_new_uuid [outside_rules, simp]: "outside_only (new_uuid P)"
  by (simp add: new_uuid_def)

lemma outside_protect [outside_rules, simp]: "outside_only (protect P s)"
  by (simp add: protect_def)

lemma outside_unprotect [outside_rules, simp]: "outside_only (unprotect P s)"
  by (simp add: unprotect_def)

lemma outside_get_identity [outside_rules, simp]: "outside_only (get_identity P c r)"
  by (simp add: get_identity_def)

lemma outside_get_session_token [outside_rules, simp]: "outside_only (get_session_token P c r a m d)"
  by (simp add: get_session_token_def)

lemma outside_record_log [outside_rules, simp]: "outside_only (record_log P c)"
  by (auto simp: record_log_def split: option.split intro!: outside_bind)

lemma outside_record_success [outside_rules, simp]: "outside_only (record_success P f a d)"
  by (simp add: record_success_def)

lemma outside_frames:
  assumes "outside_only m" "\<And>s w. g (s\<lparr>w_out := w\<rparr>) = g s" shows "frames g m"
  using assms unfolding outside_only_def frames_def by (metis (no_types))

lemma frames_on_db: "frames g m \<Longrightarrow> frames (\<lambda>s. g (w_db s)) (on_db m)"
  by (simp add: frames_def)

lemma keeps_on_db: "keeps P m \<Longrightarrow> keeps (\<lambda>s. P (w_db s)) (on_db m)"
  by (simp add: keeps_def)

lemma on_db_read: "frames (\<lambda>d. d) m \<Longrightarrow> on_db m s = (fst (m (w_db s)), s)"
  by (simp add: frames_def)

lemma reads_on_db: "frames (\<lambda>d. d) m \<Longrightarrow> frames (\<lambda>s. s) (on_db m)"
  by (simp add: frames_def)

lemma outside_reads: "frames (\<lambda>s. s) m \<Longrightarrow> outside_only m"
  unfolding outside_only_def frames_def
  by (metis world.surjective world.update_convs(3))

lemma outside_of_result [outside_rules, simp]: "outside_only (of_result r)"
  by (rule outside_reads) simp

end
