(* ===== verification/Operations.thy ===== *)
theory Operations
  imports App_World
begin

text \<open>
  The contract of one operation (\<open>application/operations.py\<close>), the execution scope
  (\<open>application/execution_context.py\<close>) and the logging of a use case
  (\<open>application/execution_logging.py\<close>): \<open>execute_operation\<close> turns what an action raises into
  a typed result, \<open>logged\<close> is the decorator \<open>logged_operation\<close>.  The diagnostic of the
  current AWS call is not modelled; it fills in optional columns of a history entry.
\<close>

datatype operation_state =
  OpPending | OpMfaRequired | OpRunning | OpSucceeded | OpFailed | OpCancelled

record op_context =
  cx_operation_id :: string
  cx_cancellation :: "nat option"  \<comment> \<open>the token; \<open>None\<close> for one that nobody else holds\<close>
  cx_progress :: bool
  cx_correlation_id :: string
  cx_attempt :: int

record mfa_challenge =
  mc_operation_id :: string
  mc_profile_id :: int
  mc_device_arn :: string
  mc_expires_at :: instant

record 'a operation_result =
  or_operation_id :: string
  or_state :: operation_state
  or_value :: "'a option"
  or_error :: "app_error option"
  or_challenge :: "mfa_challenge option"

definition result_of :: "string \<Rightarrow> operation_state \<Rightarrow> 'a operation_result" where
  "result_of i st = \<lparr>or_operation_id = i, or_state = st, or_value = None, or_error = None,
     or_challenge = None\<rparr>"

definition succeeded_with :: "string \<Rightarrow> 'a \<Rightarrow> 'a operation_result" where
  "succeeded_with i x = (result_of i OpSucceeded)\<lparr>or_value := Some x\<rparr>"

definition failed_with :: "string \<Rightarrow> app_error \<Rightarrow> 'a operation_result" where
  "failed_with i e = (result_of i OpFailed)\<lparr>or_error := Some e\<rparr>"

definition max_pending_authentication_operations :: nat where
  "max_pending_authentication_operations = 128"

definition authentication_capacity_error :: app_error where
  "authentication_capacity_error = config_error_because ''auth.operation.capacity_exceeded''
     ''Too many authentication operations are waiting for MFA''"

definition report_progress :: "'w ports \<Rightarrow> op_context \<Rightarrow> string \<Rightarrow> string \<Rightarrow> int option \<Rightarrow> int option
    \<Rightarrow> string option \<Rightarrow> ('w, 'm, unit) io" where
  "report_progress P cx phase msg completed overall target =
     (if cx_progress cx
      then call_out (pt_progress P \<lparr>pe_operation_id = cx_operation_id cx, pe_phase = phase,
             pe_completed = completed, pe_total = overall, pe_message_code = msg, pe_target = target\<rparr>)
      else skip)"

definition raise_if_cancelled :: "'w ports \<Rightarrow> op_context \<Rightarrow> ('w, 'm, unit) io" where
  "raise_if_cancelled P cx =
     (case cx_cancellation cx of None \<Rightarrow> skip
      | Some tok \<Rightarrow> bind (ask (pt_cancelled P tok)) (\<lambda>requested. raise_when requested OperationCancelled))"

definition rebound :: "op_context \<Rightarrow> string \<Rightarrow> op_context" where
  "rebound cx i = cx\<lparr>cx_operation_id := i\<rparr>"

definition own_context :: "string \<Rightarrow> string \<Rightarrow> op_context" where
  "own_context i c = \<lparr>cx_operation_id = i, cx_cancellation = None, cx_progress = False,
     cx_correlation_id = c, cx_attempt = 1\<rparr>"

definition new_context :: "'w ports \<Rightarrow> string option \<Rightarrow> ('w, 'm, op_context) io" where
  \<comment> \<open>\<open>OperationContext()\<close>, or with the operation id given\<close>
  "new_context P i =
     bind (case i of None \<Rightarrow> new_uuid P | Some x \<Rightarrow> ret x) (\<lambda>op.
       bind (new_uuid P) (\<lambda>cor. ret (own_context op cor)))"

subsection \<open>The execution scope\<close>

definition given :: "string option \<Rightarrow> string option" where
  \<comment> \<open>\<open>x or ...\<close> takes the empty text for absent\<close>
  "given x = (if x = Some [] then None else x)"

definition execution_scope ::
    "'w ports \<Rightarrow> string option \<Rightarrow> string option \<Rightarrow> (string \<times> string \<Rightarrow> ('w, 'm, 'a) io) \<Rightarrow> ('w, 'm, 'a) io" where
  "execution_scope P correlation operation body =
     bind (gets w_exec) (\<lambda>parent.
     bind (case given correlation of Some c \<Rightarrow> ret c
           | None \<Rightarrow> (case parent of Some (c, _) \<Rightarrow> ret c | None \<Rightarrow> new_uuid P)) (\<lambda>cor.
     bind (case given operation of Some i \<Rightarrow> ret i | None \<Rightarrow> new_uuid P) (\<lambda>op.
     seq (modify (\<lambda>s. s\<lparr>w_exec := Some (cor, op)\<rparr>))
       (try_finally (body (cor, op)) (modify (\<lambda>s. s\<lparr>w_exec := parent\<rparr>))))))"

subsection \<open>One operation\<close>

definition execute_operation ::
    "'w ports \<Rightarrow> (op_context \<Rightarrow> ('w, 'm, 'a) io) \<Rightarrow> op_context option \<Rightarrow> ('w, 'm, 'a operation_result) io" where
  "execute_operation P act context =
     bind (case context of Some cx \<Rightarrow> ret cx | None \<Rightarrow> new_context P None) (\<lambda>cx.
       try_except
         (seq (raise_if_cancelled P cx)
           (execution_scope P (Some (cx_correlation_id cx)) (Some (cx_operation_id cx)) (\<lambda>_.
              bind (act cx) (\<lambda>x. ret (succeeded_with (cx_operation_id cx) x)))))
         (\<lambda>e. case e of
            OperationCancelled \<Rightarrow> ret (result_of (cx_operation_id cx) OpCancelled)
          | AppExn err \<Rightarrow> ret (failed_with (cx_operation_id cx) err)
          | _ \<Rightarrow> throw e))"

subsection \<open>Logging of a use case\<close>

fun default_category :: "error_class \<Rightarrow> error_category" where
  "default_category AwsPermissionError = CatPermission"
| "default_category AwsNetworkError = CatNetwork"
| "default_category CredentialValidationError = CatAuthentication"
| "default_category MfaValidationError = CatAuthentication"
| "default_category PluginExecutionError = CatProcess"
| "default_category PortAlreadyInUseError = CatConflict"
| "default_category TargetNotConnectedError = CatResource"
| "default_category _ = CatConfiguration"

definition record_failure ::
    "'w ports \<Rightarrow> string \<Rightarrow> string \<Rightarrow> app_error \<Rightarrow> (log_call \<Rightarrow> log_call) \<Rightarrow> ('w, 'm, app_error) io" where
  \<comment> \<open>records a typed failure and returns the error as it has been changed\<close>
  "record_failure P feature action err details =
     bind (gets w_exec) (\<lambda>who.
       let err' = (case who of None \<Rightarrow> err | Some (cor, _) \<Rightarrow> err\<lparr>ae_correlation_id := Some cor\<rparr>) in
       seq (record_log P (details
             ((log_entry feature action ''FAILURE'' ''ERROR'' PhaseCompleted (ae_message_code err'))
               \<lparr>lc_aws_service := ae_aws_service err', lc_aws_action := ae_aws_action err',
                lc_aws_request_id := ae_aws_request_id err',
                lc_error_category := Some (case ae_error_category err' of Some c \<Rightarrow> c
                   | None \<Rightarrow> default_category (ae_class err')),
                lc_error_code := (case given (ae_error_code err') of Some c \<Rightarrow> Some c
                   | None \<Rightarrow> Some (ae_message_code err')),
                lc_required_permission := ae_required_permission err',
                lc_retryable := Some (ae_retryable err')\<rparr>)))
         (ret (err'\<lparr>ae_execution_logged := True\<rparr>)))"

definition log_outcome ::
    "'w ports \<Rightarrow> string \<Rightarrow> string \<Rightarrow> string \<Rightarrow> exn \<Rightarrow> ('w, 'm, 'a) io" where
  \<comment> \<open>the \<open>except\<close> clauses of the decorator; each raises the exception again\<close>
  "log_outcome P feature action target e =
     (case e of
        OperationCancelled \<Rightarrow>
          seq (record_log P ((log_entry feature action ''CANCELLED'' ''WARNING'' PhaseCompleted
                 (feature @ ''.'' @ action @ ''.cancelled''))\<lparr>lc_target := target\<rparr>)) (throw e)
      | AppExn err \<Rightarrow>
          if ae_message_code err = ''auth.mfa_required''
          then seq (record_log P (log_entry feature action ''WARNING'' ''INFO'' PhaseProgress
                 ''auth.mfa_required'')) (throw e)
          else if \<not> ae_execution_logged err
          then bind (record_failure P feature action err (\<lambda>c. c\<lparr>lc_target := target\<rparr>))
                 (\<lambda>err'. throw (AppExn err'))
          else throw e
      | BaseExn _ \<Rightarrow> throw e
      | _ \<Rightarrow>
          seq (record_log P ((log_entry feature action ''FAILURE'' ''ERROR'' PhaseCompleted
                 (feature @ ''.'' @ action @ ''.failed''))
                 \<lparr>lc_error_category := Some CatInternal, lc_error_code := Some (class_name e),
                  lc_target := target\<rparr>)) (throw e))"

definition logged ::
    "'w ports \<Rightarrow> string \<Rightarrow> string \<Rightarrow> bool \<Rightarrow> string \<Rightarrow> bool \<Rightarrow> op_context option
     \<Rightarrow> (op_context option \<Rightarrow> ('w, 'm, 'a) io) \<Rightarrow> ('w, 'm, 'a) io" where
  \<comment> \<open>\<open>takes_context\<close>: the use case has a parameter \<open>context\<close>\<close>
  "logged P feature action completion target takes_context context body =
     (case pt_recorder P of
        None \<Rightarrow> body context
      | Some _ \<Rightarrow>
          execution_scope P (map_option cx_correlation_id context) (map_option cx_operation_id context)
            (\<lambda>who.
              let cx = (if context = None \<and> takes_context
                        then Some (own_context (snd who) (fst who)) else context) in
              seq (record_log P ((log_entry feature action ''SUCCESS'' ''INFO'' PhaseStarted
                     (feature @ ''.'' @ action @ ''.started''))\<lparr>lc_target := target\<rparr>))
              (seq (case context of
                      None \<Rightarrow> skip
                    | Some c \<Rightarrow>
                        if cx_attempt c > 1
                        then record_log P ((log_entry feature ''retry'' ''WARNING'' ''INFO'' PhaseProgress
                               (feature @ ''.'' @ action @ ''.retry''))
                               \<lparr>lc_target := target, lc_metadata := [(''attempt'', MetaInt (cx_attempt c))]\<rparr>)
                        else skip)
              (bind (try_except (body cx) (log_outcome P feature action target)) (\<lambda>x.
                 seq (if completion
                      then record_log P ((log_entry feature action ''SUCCESS'' ''INFO'' PhaseCompleted
                             (feature @ ''.'' @ action @ ''.completed''))\<lparr>lc_target := target\<rparr>)
                      else skip)
                   (ret x))))))"

subsection \<open>Facts\<close>

lemma result_of_simps [simp]:
  "or_state (result_of i st) = st" "or_operation_id (result_of i st) = i"
  "or_value (result_of i st) = None" "or_error (result_of i st) = None"
  "or_challenge (result_of i st) = None"
  by (simp_all add: result_of_def)

lemma succeeded_with_simps [simp]:
  "or_state (succeeded_with i x) = OpSucceeded" "or_operation_id (succeeded_with i x) = i"
  "or_value (succeeded_with i x) = Some x" "or_error (succeeded_with i x) = None"
  "or_challenge (succeeded_with i x) = None"
  by (simp_all add: succeeded_with_def)

lemma failed_with_simps [simp]:
  "or_state (failed_with i e) = OpFailed" "or_operation_id (failed_with i e) = i"
  "or_value (failed_with i e) = None" "or_error (failed_with i e) = Some e"
  "or_challenge (failed_with i e) = None"
  by (simp_all add: failed_with_def)

lemma outside_raise_if_cancelled [outside_rules, simp]: "outside_only (raise_if_cancelled P cx)"
  by (auto simp: raise_if_cancelled_def split: option.split intro!: outside_bind)

lemma outside_report_progress [outside_rules, simp]:
  "outside_only (report_progress P cx ph m c t g)"
  by (simp add: report_progress_def)

lemma outside_new_context [outside_rules, simp]: "outside_only (new_context P i)"
  by (auto simp: new_context_def split: option.split intro!: outside_bind)

lemma outside_record_failure [outside_rules, simp]: "outside_only (record_failure P f a e d)"
  by (auto simp: record_failure_def Let_def intro!: outside_bind)

lemma outside_log_outcome [outside_rules, simp]: "outside_only (log_outcome P f a t e)"
  by (auto simp: log_outcome_def intro!: outside_bind split: exn.split)

text \<open>A fact about the state that does not depend on the outside or the execution identity is
  preserved by the scope and the logging if the body preserves it.\<close>

definition inner :: "(('w, 'm) world_scheme \<Rightarrow> 'p) \<Rightarrow> bool" where
  "inner g \<longleftrightarrow> (\<forall>s w x. g (s\<lparr>w_out := w\<rparr>) = g s \<and> g (s\<lparr>w_exec := x\<rparr>) = g s)"

lemma innerD: "inner g \<Longrightarrow> g (s\<lparr>w_out := w\<rparr>) = g s" "inner g \<Longrightarrow> g (s\<lparr>w_exec := x\<rparr>) = g s"
  by (simp_all add: inner_def)

lemma inner_db [simp]: "inner w_db" "inner (\<lambda>s. f (w_db s))"
  by (simp_all add: inner_def)

lemma frames_outside: "inner g \<Longrightarrow> outside_only m \<Longrightarrow> frames g m"
  by (rule outside_frames) (auto simp: innerD)

lemma keeps_outside: "inner P \<Longrightarrow> outside_only m \<Longrightarrow> keeps P m"
  by (rule frames_imp_keeps [OF frames_outside]) auto

lemma frames_execution_scope:
  assumes "inner g" "\<And>who. frames g (body who)" shows "frames g (execution_scope P c i body)"
  unfolding execution_scope_def
  by (intro frames_bind frames_gets frames_try_finally frames_modify)
    (auto intro: frames_outside assms simp: innerD [OF assms(1)] split: option.split prod.split)

lemma keeps_execution_scope:
  assumes "inner Q" "\<And>who. keeps Q (body who)" shows "keeps Q (execution_scope P c i body)"
  unfolding execution_scope_def
  by (intro keeps_bind keeps_gets keeps_try_finally keeps_modify)
    (auto intro: keeps_outside assms simp: innerD [OF assms(1)] split: option.split prod.split)

lemma keeps_execute_operation:
  assumes "inner Q" "\<And>cx. keeps Q (act cx)" shows "keeps Q (execute_operation P act context)"
  unfolding execute_operation_def
  by (intro keeps_bind keeps_try_except keeps_execution_scope assms)
    (auto intro: keeps_outside assms split: option.split exn.split)

lemma frames_execute_operation:
  assumes "inner g" "\<And>cx. frames g (act cx)" shows "frames g (execute_operation P act context)"
  unfolding execute_operation_def
  by (intro frames_bind frames_try_except frames_execution_scope assms)
    (auto intro: frames_outside assms split: option.split exn.split)

lemma keeps_logged:
  assumes "inner Q" "\<And>cx. keeps Q (body cx)" shows "keeps Q (logged P f a c t k cx body)"
proof (cases "pt_recorder P")
  case (Some r)
  show ?thesis
    unfolding logged_def Some option.case Let_def
    by (intro keeps_execution_scope keeps_bind keeps_try_except assms)
      (auto intro: keeps_outside assms(1) split: option.split)
qed (simp add: logged_def assms(2))

lemma frames_logged:
  assumes "inner g" "\<And>cx. frames g (body cx)" shows "frames g (logged P f a c t k cx body)"
proof (cases "pt_recorder P")
  case (Some r)
  show ?thesis
    unfolding logged_def Some option.case Let_def
    by (intro frames_execution_scope frames_bind frames_try_except assms)
      (auto intro: frames_outside assms(1) split: option.split)
qed (simp add: logged_def assms(2))

text \<open>The scope gives the caller its execution identity back.\<close>

lemma exec_bind:
  assumes "outside_only m" "\<And>x t. w_exec t = w_exec s \<Longrightarrow> w_exec (snd (f x t)) = w_exec s"
  shows "w_exec (snd (bind m f s)) = w_exec s"
proof -
  obtain r t where m: "m s = (r, t)" by (cases "m s")
  obtain w where "t = s\<lparr>w_out := w\<rparr>" using outside_onlyD [OF assms(1) m] by blast
  with m assms(2) show ?thesis by (cases r) auto
qed

lemma finally_exec:
  "w_exec (snd (try_finally m (modify (w_exec_update (\<lambda>_. e))) t)) = e"
  by (simp add: try_finally_def split: prod.split)

lemma execution_scope_exec: "w_exec (snd (execution_scope P c i body s)) = w_exec s"
  by (cases "given c"; cases "given i"; cases "w_exec s")
    (auto simp: execution_scope_def new_uuid_def bind_def finally_exec split: prod.split)

lemma execution_scope_InrE:
  assumes "execution_scope P c i body s = (Inr x, t)"
  obtains who s' t' where "body who s' = (Inr x, t')"
  using assms unfolding execution_scope_def
  by (auto elim!: bind_eq_InrE simp: try_finally_def split: prod.splits sum.splits)

text \<open>
  \<open>yields Q m\<close>: when \<open>m\<close> returns, its value and the state then satisfy \<open>Q\<close>.  The scope and
  the logging hand this on from their body when \<open>Q\<close> does not look at the outside.
\<close>

definition yields :: "('a \<Rightarrow> 's \<Rightarrow> bool) \<Rightarrow> ('s, 'e, 'a) eff \<Rightarrow> bool" where
  "yields Q m \<longleftrightarrow> (\<forall>s x t. m s = (Inr x, t) \<longrightarrow> Q x t)"

lemma yieldsD: "yields Q m \<Longrightarrow> m s = (Inr x, t) \<Longrightarrow> Q x t"
  by (simp add: yields_def)

lemma yields_bind: "(\<And>x. yields Q (f x)) \<Longrightarrow> yields Q (bind m f)"
  unfolding yields_def by (auto elim!: bind_eq_InrE)

lemma yields_throws: "(\<And>s. isl (fst (m s))) \<Longrightarrow> yields Q m"
  unfolding yields_def by (metis fst_conv isl_def sum.distinct(1))

lemma yields_throw [simp]: "yields Q (throw e)"
  by (simp add: yields_def)

lemma yields_try_except: "yields Q m \<Longrightarrow> (\<And>e. yields Q (h e)) \<Longrightarrow> yields Q (try_except m h)"
  unfolding yields_def try_except_def by (auto split: prod.splits sum.splits)

lemma yields_then:
  assumes "yields Q m" "outside_only n" "\<And>x. inner (Q x)"
  shows "yields Q (bind m (\<lambda>x. seq n (ret x)))"
  unfolding yields_def
proof (intro allI impI)
  fix s x t assume "bind m (\<lambda>x. seq n (ret x)) s = (Inr x, t)"
  then obtain u where u: "m s = (Inr x, u)" "n u = (Inr (), t)" by (auto elim!: bind_eq_InrE)
  have "Q x t = Q x u" by (rule framesD [OF frames_outside [OF assms(3,2)] u(2)])
  with assms(1) u(1) show "Q x t" by (simp add: yields_def)
qed

lemma yields_execution_scope:
  assumes "\<And>x. inner (Q x)" "\<And>who. yields Q (body who)"
  shows "yields Q (execution_scope P c i body)"
  unfolding yields_def
proof (intro allI impI)
  fix s x t assume "execution_scope P c i body s = (Inr x, t)"
  then obtain who u v e where body: "body who u = (Inr x, v)" and t: "t = v\<lparr>w_exec := e\<rparr>"
    unfolding execution_scope_def
    by (auto elim!: bind_eq_InrE simp: try_finally_def split: prod.splits sum.splits)
  from yieldsD [OF assms(2) body] show "Q x t" unfolding t by (simp add: innerD(2) [OF assms(1)])
qed

lemma throws_bind: "(\<And>x s. isl (fst (f x s))) \<Longrightarrow> isl (fst (bind m f s))"
  by (cases "m s"; cases "fst (m s)") (auto simp: bind_def)

lemma log_outcome_throws: "isl (fst (log_outcome P f a tg e s))"
  by (cases e) (auto simp: log_outcome_def intro!: throws_bind)

lemma yields_logged:
  assumes "\<And>x. inner (Q x)" "\<And>cx. yields Q (body cx)"
  shows "yields Q (logged P f a c tg k context body)"
proof (cases "pt_recorder P")
  case None
  with assms show ?thesis by (simp add: logged_def)
next
  case (Some r)
  show ?thesis
    unfolding logged_def Some option.case Let_def
    by (intro yields_execution_scope yields_bind yields_then yields_try_except assms
        yields_throws [OF log_outcome_throws]) auto
qed

text \<open>
  \<open>ends Q m\<close>: however \<open>m\<close> ends, the state then satisfies \<open>Q\<close>.  A logged use case whose history
  can be written ends as its body does.
\<close>

definition ends :: "('s \<Rightarrow> bool) \<Rightarrow> ('s, 'e, 'a) eff \<Rightarrow> bool" where
  "ends Q m \<longleftrightarrow> (\<forall>s. Q (snd (m s)))"

definition returns :: "('s, 'e, 'a) eff \<Rightarrow> bool" where
  "returns m \<longleftrightarrow> (\<forall>s. \<not> isl (fst (m s)))"

definition recorder_returns :: "'w ports \<Rightarrow> bool" where
  \<comment> \<open>every history entry can be written\<close>
  "recorder_returns P \<longleftrightarrow> (case pt_recorder P of None \<Rightarrow> True
     | Some r \<Rightarrow> \<forall>who c w. fst (r who c w) = Inr ())"

definition idle_context :: "op_context option \<Rightarrow> bool" where
  \<comment> \<open>no context, or one that nobody cancels or observes\<close>
  "idle_context context \<longleftrightarrow> (case context of None \<Rightarrow> True
     | Some cx \<Rightarrow> cx_cancellation cx = None \<and> \<not> cx_progress cx)"

lemma ends_bind: "returns m \<Longrightarrow> (\<And>x. ends Q (f x)) \<Longrightarrow> ends Q (bind m f)"
  unfolding ends_def returns_def bind_def by (auto split: prod.split sum.split) (metis fst_conv isl_def)

lemma ends_bind_keeps: "ends Q m \<Longrightarrow> (\<And>x. keeps Q (f x)) \<Longrightarrow> ends Q (bind m f)"
  unfolding ends_def keeps_def bind_def by (simp split: prod.split sum.split) (metis snd_conv)

lemma ends_try_except: "ends Q m \<Longrightarrow> (\<And>e. keeps Q (h e)) \<Longrightarrow> ends Q (try_except m h)"
  unfolding ends_def keeps_def try_except_def by (simp split: prod.split sum.split) (metis snd_conv)

lemma ends_try_finally: "ends Q f \<Longrightarrow> ends Q (try_finally m f)"
  unfolding ends_def try_finally_def by (simp split: prod.split sum.split) (metis snd_conv)

lemma returns_simps [simp]:
  "returns (ret x)" "returns skip" "returns (gets f)" "returns (modify h)" "returns (ask p)"
  by (simp_all add: returns_def)

lemma returns_bind: "returns m \<Longrightarrow> (\<And>x. returns (f x)) \<Longrightarrow> returns (bind m f)"
  unfolding returns_def bind_def by (auto split: prod.split sum.split) (metis fst_conv isl_def)

lemma returns_new_context [simp]: "returns (new_context P i)"
  unfolding new_context_def new_uuid_def by (intro returns_bind) (auto split: option.split)

lemma returns_record_log: "recorder_returns P \<Longrightarrow> returns (record_log P c)"
  unfolding record_log_def recorder_returns_def
  by (auto simp: returns_def bind_def split: option.split)

lemma ends_bind_value:
  assumes "returns m" "yields (\<lambda>x s. R x) m" "\<And>x. R x \<Longrightarrow> ends Q (f x)"
  shows "ends Q (bind m f)"
  unfolding ends_def
proof
  fix s
  obtain r t where m: "m s = (r, t)" by (cases "m s")
  with assms(1) obtain x where "r = Inr x" unfolding returns_def by (metis fst_conv isl_def obj_sumE)
  with m assms(2,3) show "Q (snd (bind m f s))" by (auto simp: yields_def ends_def)
qed

lemma yields_new_context: "yields (\<lambda>cx s. idle_context (Some cx)) (new_context P i)"
  unfolding new_context_def idle_context_def own_context_def
  by (intro yields_bind) (simp add: yields_def)

lemma idle_quiet:
  assumes "idle_context (Some cx)"
  shows "returns (raise_if_cancelled P cx)" "returns (report_progress P cx ph m c t tg)"
  using assms by (auto simp: idle_context_def raise_if_cancelled_def report_progress_def split: option.split)

lemma ends_execution_scope:
  assumes "inner Q" "\<And>who. ends Q (body who)"
  shows "ends Q (execution_scope P c i body)"
proof -
  have "ends Q (try_finally (body who) (modify (w_exec_update (\<lambda>_. e))))" for who e
    using assms(2) unfolding ends_def try_finally_def
    by (simp add: innerD(2) [OF assms(1)] split: prod.split) (metis prod.collapse snd_conv)
  then show ?thesis
    unfolding execution_scope_def new_uuid_def
    by (auto intro!: ends_bind split: option.split) (simp_all add: ends_def)
qed

lemma ends_logged:
  assumes "recorder_returns P" "inner Q" "\<And>cx. idle_context cx \<Longrightarrow> ends Q (body cx)"
  shows "ends Q (logged P f a c tg k None body)"
proof (cases "pt_recorder P")
  case None
  with assms(3) [of None] show ?thesis by (simp add: logged_def idle_context_def)
next
  case (Some r)
  have rest: "ends Q (bind (try_except (body cx) (log_outcome P f a tg)) (\<lambda>x. seq n (ret x)))"
    if "idle_context cx" "outside_only n" for cx n
    using that by (intro ends_bind_keeps ends_try_except assms keeps_bind)
      (auto intro: keeps_outside [OF assms(2)])
  have idle: "idle_context (if b then Some (own_context i j) else None)" for b i j
    by (simp add: idle_context_def own_context_def)
  show ?thesis
    unfolding logged_def Some option.case Let_def
    by (intro ends_execution_scope [OF assms(2)] ends_bind [OF returns_record_log [OF assms(1)]]
        ends_bind [OF returns_simps(2)] rest) (use idle in simp_all)
qed

end
