(* ===== verification/Profile_Service.thy ===== *)
theory Profile_Service
  imports Operations
begin

text \<open>
  Profile use cases (\<open>application/profile_service.py\<close>).  A selector is what the code passes as
  \<open>str | int | None\<close>; a text of digits is converted with \<open>int\<close>, which raises
  \<open>ValueError\<close> for the superscript digits that \<open>str.isdigit\<close> accepts.
\<close>

datatype selector = SelNone | SelInt int | SelStr string

record save_profile_request =
  rq_name :: string
  rq_region :: string
  rq_account_id :: string
  rq_user_id :: string
  rq_access_key :: "string option"
  rq_secret_key :: "string option"
  rq_mfa_arn :: "string option"
  rq_mfa_enabled :: "bool option"
  rq_session_duration_hours :: "int option"
  rq_profile_id :: "int option"

record profile_summary =
  su_id :: int
  su_name :: string
  su_region :: string
  su_account_id :: string
  su_user_id :: string
  su_mfa_arn :: string
  su_is_default :: bool
  su_mfa_enabled :: bool
  su_session_duration_hours :: int

definition summary :: "aws_profile \<Rightarrow> app_error + profile_summary" where
  "summary p = (case require_profile_id p of Inl e \<Rightarrow> Inl e
     | Inr i \<Rightarrow> Inr \<lparr>su_id = i, su_name = ap_name p, su_region = ap_region p,
         su_account_id = ap_account_id p, su_user_id = ap_user_id p, su_mfa_arn = ap_mfa_arn p,
         su_is_default = ap_is_default p, su_mfa_enabled = ap_mfa_enabled p,
         su_session_duration_hours = ap_session_duration_hours p\<rparr>)"

definition int_of_text :: "string \<Rightarrow> exn + int" where
  \<comment> \<open>\<open>int(selector)\<close> of a text for which \<open>isdigit\<close> holds; Python converts 4300 digits at most\<close>
  "int_of_text s = (if 4300 < length s then Inl (PyExn ''ValueError'') else case int_of_digits s of None \<Rightarrow> Inl (PyExn ''ValueError'') | Some n \<Rightarrow> Inr n)"

definition resolve_profile :: "selector \<Rightarrow> ('w, 'm, aws_profile) io" where
  "resolve_profile sel =
     bind (case sel of
             SelNone \<Rightarrow> on_db get_default_profile
           | SelInt i \<Rightarrow> on_db (get_profile i)
           | SelStr s \<Rightarrow>
               if isdigit s then bind (of_result (int_of_text s)) (\<lambda>i. on_db (get_profile i))
               else on_db (get_profile_by_name s))
       (\<lambda>found. case found of
          None \<Rightarrow> raise_app (config_error ''profile.not_found'')
        | Some p \<Rightarrow> ret p)"

definition list_summaries :: "('w, 'm, profile_summary list) io" where
  "list_summaries = bind (on_db list_profiles) (map_each (\<lambda>p. of_app (summary p)))"

definition show_profile :: "selector \<Rightarrow> ('w, 'm, profile_summary) io" where
  "show_profile sel = bind (resolve_profile sel) (\<lambda>p. of_app (summary p))"

definition reveal_credentials :: "'w ports \<Rightarrow> aws_profile \<Rightarrow> ('w, 'm, plain_credentials) io" where
  "reveal_credentials P p =
     bind (unprotect P (ap_encrypted_access_key p)) (\<lambda>a.
     bind (unprotect P (ap_encrypted_secret_key p)) (\<lambda>k.
       of_app (plain_credentials_init a k None)))"

definition requested_credentials :: "save_profile_request \<Rightarrow> app_error + plain_credentials" where
  "requested_credentials r = (case (rq_access_key r, rq_secret_key r) of
     (Some a, Some k) \<Rightarrow> plain_credentials_init a k None
   | _ \<Rightarrow> Inl (config_error ''profile.credentials.required''))"

definition credentials_for_update ::
    "'w ports \<Rightarrow> save_profile_request \<Rightarrow> aws_profile \<Rightarrow> ('w, 'm, plain_credentials) io" where
  "credentials_for_update P r current = (case (rq_access_key r, rq_secret_key r) of
     (None, None) \<Rightarrow> reveal_credentials P current
   | (Some a, Some k) \<Rightarrow> of_app (plain_credentials_init a k None)
   | _ \<Rightarrow> raise_app (config_error ''profile.credentials.incomplete''))"

definition identity_mismatch :: "string \<Rightarrow> app_error" where
  "identity_mismatch cause = on_aws ''sts'' ''GetCallerIdentity''
     (mk_error CredentialValidationError ''credentials.identity_mismatch'' cause)"

definition validate_identity ::
    "'w ports \<Rightarrow> save_profile_request \<Rightarrow> plain_credentials \<Rightarrow> ('w, 'm, unit) io" where
  "validate_identity P r c =
     bind (get_identity P c (rq_region r)) (\<lambda>who.
       raise_when (id_account_id who \<noteq> rq_account_id r \<or> id_user_id who \<noteq> rq_user_id r)
         (AppExn (identity_mismatch ''Configured Account ID or IAM user does not match STS identity'')))"

definition create_profile_use_case ::
    "'w ports \<Rightarrow> instant \<Rightarrow> save_profile_request \<Rightarrow> ('w, 'm, profile_summary) io" where
  \<comment> \<open>\<open>now\<close> is the store's own reading of the clock\<close>
  "create_profile_use_case P now r =
     bind (of_app (requested_credentials r)) (\<lambda>c.
     seq (validate_identity P r c)
     (bind (protect P (pc_access_key c)) (\<lambda>a.
      bind (protect P (pc_secret_key c)) (\<lambda>k.
      bind (of_app (aws_profile_init \<lparr>
          ap_id = None, ap_name = rq_name r, ap_region = rq_region r,
          ap_account_id = rq_account_id r, ap_user_id = rq_user_id r,
          ap_mfa_arn = (case given (rq_mfa_arn r) of Some x \<Rightarrow> x
             | None \<Rightarrow> default_mfa_arn (rq_account_id r) (rq_user_id r)),
          ap_encrypted_access_key = a, ap_encrypted_secret_key = k,
          ap_mfa_enabled = (rq_mfa_enabled r \<noteq> Some False),
          ap_session_duration_hours = (case rq_session_duration_hours r of
             Some h \<Rightarrow> h | None \<Rightarrow> default_session_duration_hours),
          ap_is_default = False, ap_created_at = None, ap_updated_at = None\<rparr>)) (\<lambda>p.
      bind (on_db (create_profile now p)) (\<lambda>q. of_app (summary q)))))))"

definition update_profile_use_case ::
    "'w ports \<Rightarrow> instant \<Rightarrow> save_profile_request \<Rightarrow> ('w, 'm, profile_summary) io" where
  "update_profile_use_case P now r =
     (case rq_profile_id r of None \<Rightarrow> raise_app (config_error ''profile.id.required'') | Some i \<Rightarrow>
      bind (resolve_profile (SelInt i)) (\<lambda>current.
      bind (credentials_for_update P r current) (\<lambda>c.
      seq (validate_identity P r c)
      (bind (protect P (pc_access_key c)) (\<lambda>a.
       bind (protect P (pc_secret_key c)) (\<lambda>k.
       bind (of_app (aws_profile_init (current\<lparr>
           ap_name := rq_name r, ap_region := rq_region r,
           ap_account_id := rq_account_id r, ap_user_id := rq_user_id r,
           ap_mfa_arn := (case rq_mfa_arn r of Some x \<Rightarrow> x | None \<Rightarrow> ap_mfa_arn current),
           ap_encrypted_access_key := a, ap_encrypted_secret_key := k,
           ap_mfa_enabled := (case rq_mfa_enabled r of Some b \<Rightarrow> b | None \<Rightarrow> ap_mfa_enabled current),
           ap_session_duration_hours := (case rq_session_duration_hours r of
              Some h \<Rightarrow> h | None \<Rightarrow> ap_session_duration_hours current)\<rparr>))) (\<lambda>p.
       bind (on_db (update_profile now p)) (\<lambda>saved.
       seq (on_db (delete_session i)) (of_app (summary saved))))))))))"

definition clone_profile :: "instant \<Rightarrow> selector \<Rightarrow> string \<Rightarrow> ('w, 'm, profile_summary) io" where
  "clone_profile now sel name =
     bind (resolve_profile sel) (\<lambda>source.
     bind (of_app (aws_profile_init (source\<lparr>ap_id := None, ap_name := strip name,
         ap_is_default := False, ap_created_at := None, ap_updated_at := None\<rparr>))) (\<lambda>p.
     bind (on_db (create_profile now p)) (\<lambda>q. of_app (summary q))))"

definition use_profile :: "instant \<Rightarrow> selector \<Rightarrow> ('w, 'm, profile_summary) io" where
  "use_profile now sel =
     bind (resolve_profile sel) (\<lambda>p.
     bind (of_app (require_profile_id p)) (\<lambda>i.
     bind (on_db (set_default_profile now i)) (\<lambda>q. of_app (summary q))))"

subsection \<open>Resolution\<close>

lemma reads_resolve_profile [simp]: "frames (\<lambda>s. s) (resolve_profile sel)"
  unfolding resolve_profile_def
  by (intro frames_bind) (auto split: selector.split option.split intro!: frames_bind reads_on_db)

lemma outside_resolve_profile [outside_rules, simp]: "outside_only (resolve_profile sel)"
  by (rule outside_reads) simp

lemma resolve_profile_state [simp]: "snd (resolve_profile sel s) = s"
  by (rule reads_resolve_profile [unfolded frames_def, rule_format])

text \<open>Which profile a selector names.\<close>

fun selects :: "selector \<Rightarrow> aws_profile table \<Rightarrow> int \<Rightarrow> aws_profile \<Rightarrow> bool" where
  "selects SelNone t i r \<longleftrightarrow> ap_is_default r"
| "selects (SelInt n) t i r \<longleftrightarrow> i = n"
| "selects (SelStr s) t i r \<longleftrightarrow> (if isdigit s then int_of_digits s = Some i else ap_name r = s)"

lemma get_profile_InrD:
  assumes "fst (get_profile i db) = Inr (Some p)" "db_ok db"
  obtains r where "tb_get (db_profiles db) i = Some r" "p = r\<lparr>ap_id := Some i\<rparr>"
proof (cases "i \<in> {- (2 ^ 63) .. max_rowid}")
  case True
  with assms that show thesis by (auto simp: get_profile_eq)
next
  case False
  with assms(1) get_profile_overflow show thesis by fastforce
qed

lemma get_profile_by_name_eq:
  assumes "db_ok db"
  shows "get_profile_by_name n db =
    (Inr (map_option (\<lambda>(i, r). r\<lparr>ap_id := Some i\<rparr>) (tb_find (\<lambda>r. ap_name r = n) (db_profiles db))), db)"
proof (cases "tb_find (\<lambda>r. ap_name r = n) (db_profiles db)")
  case None
  then show ?thesis by (simp add: get_profile_by_name_def)
next
  case (Some p)
  obtain i r where p: "p = (i, r)" by (cases p)
  with Some have "(i, r) \<in> set (tb_rows (db_profiles db))" by (auto dest: tb_find_SomeD)
  with assms have "profile_ok r" by (auto simp: db_ok_def profiles_ok_def rows_ok_def list_all_iff)
  with Some p show ?thesis by (simp add: get_profile_by_name_def load_opt_Some)
qed

lemma resolve_profile_Inr:
  assumes "resolve_profile sel s = (Inr p, t)" "db_ok (w_db s)"
  obtains i r where "t = s" "tb_get (db_profiles (w_db s)) i = Some r" "p = r\<lparr>ap_id := Some i\<rparr>"
    "selects sel (db_profiles (w_db s)) i r" "profile_ok r"
proof -
  have t: "t = s" using resolve_profile_state [of sel s] assms(1) by simp
  have tb: "tb_ok ap_name (db_profiles (w_db s))" "rows_ok profile_ok (db_profiles (w_db s))"
    using assms(2) by (auto simp: db_ok_def profiles_ok_def)
  have find: "tb_get (db_profiles (w_db s)) i = Some r"
    if "tb_find Q (db_profiles (w_db s)) = Some (i, r)" for Q i r
    using tb_find_SomeD [OF that] tb by (simp add: tb_ok_def)
  have get: "\<exists>r. tb_get (db_profiles (w_db s)) i = Some r \<and> p = r\<lparr>ap_id := Some i\<rparr>"
    if "fst (get_profile i (w_db s)) = Inr (Some p)" for i
    using get_profile_InrD [OF that assms(2)] by blast
  have "\<exists>i r. tb_get (db_profiles (w_db s)) i = Some r \<and> p = r\<lparr>ap_id := Some i\<rparr> \<and>
      selects sel (db_profiles (w_db s)) i r"
  proof (cases sel)
    case SelNone
    with assms obtain i r where "tb_find ap_is_default (db_profiles (w_db s)) = Some (i, r)"
      "p = r\<lparr>ap_id := Some i\<rparr>"
      by (auto simp: resolve_profile_def bind_def get_default_profile_eq split: option.splits)
    with find SelNone show ?thesis
      by (intro exI [of _ i] exI [of _ r]) (auto dest: tb_find_SomeD)
  next
    case (SelInt n)
    with assms have "fst (get_profile n (w_db s)) = Inr (Some p)"
      by (auto simp: resolve_profile_def bind_def split: option.splits sum.splits)
    with get SelInt show ?thesis by auto
  next
    case (SelStr w)
    show ?thesis
    proof (cases "isdigit w")
      case True
      with SelStr assms obtain n where "int_of_digits w = Some n"
        "fst (get_profile n (w_db s)) = Inr (Some p)"
        by (auto simp: resolve_profile_def bind_def int_of_text_def split: option.splits sum.splits if_splits)
      with get SelStr True show ?thesis by auto
    next
      case False
      with SelStr assms obtain i r where
        "tb_find (\<lambda>r. ap_name r = w) (db_profiles (w_db s)) = Some (i, r)" "p = r\<lparr>ap_id := Some i\<rparr>"
        by (auto simp: resolve_profile_def bind_def get_profile_by_name_eq split: option.splits)
      with find SelStr False show ?thesis
        by (intro exI [of _ i] exI [of _ r]) (auto dest: tb_find_SomeD)
    qed
  qed
  with that t rows_okD [OF tb(2)] show thesis by blast
qed

subsection \<open>The use cases and the database\<close>

lemma keeps_bind_of_app:
  "(\<And>x. r = Inr x \<Longrightarrow> keeps Q (f x)) \<Longrightarrow> keeps Q (bind (of_app r) f)"
  by (cases r) auto

abbreviation world_ok :: "('w, 'm) world_scheme \<Rightarrow> bool" where
  "world_ok s \<equiv> db_ok (w_db s)"

lemma keeps_world_db: "keeps db_ok m \<Longrightarrow> keeps world_ok (on_db m)"
  by (rule keeps_on_db)

lemma keeps_world_outside: "outside_only m \<Longrightarrow> keeps world_ok m"
  by (rule keeps_outside) simp_all

lemma outside_reveal_credentials [outside_rules, simp]: "outside_only (reveal_credentials P p)"
  by (simp add: reveal_credentials_def outside_bind)

lemma outside_credentials_for_update [outside_rules, simp]: "outside_only (credentials_for_update P r p)"
  by (auto simp: credentials_for_update_def split: option.split)

lemma outside_validate_identity [outside_rules, simp]: "outside_only (validate_identity P r c)"
  by (simp add: validate_identity_def outside_bind)

lemma keeps_create_profile_use_case: "keeps world_ok (create_profile_use_case P now r)"
  unfolding create_profile_use_case_def
  by (intro keeps_bind keeps_bind_of_app keeps_of_app keeps_world_db keeps_create_profile)
    (auto simp: keeps_world_outside dest: aws_profile_init_ok)

lemma keeps_update_profile_use_case: "keeps world_ok (update_profile_use_case P now r)"
proof (cases "rq_profile_id r")
  case (Some i)
  show ?thesis
    unfolding update_profile_use_case_def Some option.case
    by (intro keeps_bind keeps_bind_of_app keeps_of_app keeps_world_db keeps_update_profile
        keeps_delete_session)
      (auto simp: keeps_world_outside dest: aws_profile_init_ok)
qed (simp add: update_profile_use_case_def)

lemma keeps_clone_profile: "keeps world_ok (clone_profile now sel name)"
  unfolding clone_profile_def
  by (intro keeps_bind keeps_bind_of_app keeps_of_app keeps_world_db keeps_create_profile)
    (auto simp: keeps_world_outside dest: aws_profile_init_ok)

lemma keeps_use_profile: "keeps world_ok (use_profile now sel)"
  unfolding use_profile_def
  by (intro keeps_bind keeps_of_app keeps_world_db keeps_set_default_profile)
    (auto simp: keeps_world_outside)

end
