(* ===== verification/Pending_Registry.thy ===== *)
theory Pending_Registry
  imports Operations
begin

text \<open>
  The bounded dictionary of operations that wait for a second factor.  Both coordinators
  (\<open>OperationCoordinator\<close> and \<open>AuthenticatedOperationCoordinator\<close>) keep one under a lock;
  what they do inside the lock is one of the critical sections below, and between two of them
  any other caller may run.  A run of the dictionary is therefore a list of events in any order;
  \<open>reg_run\<close> is its step relation and the theorems on it hold for every interleaving.
\<close>

definition reg_sweep :: "('p \<Rightarrow> instant) \<Rightarrow> instant \<Rightarrow> 'k option \<Rightarrow> ('k, 'p) dict \<Rightarrow> ('k, 'p) dict" where
  \<comment> \<open>drop what has expired, except the key the caller is about to resume\<close>
  "reg_sweep expires now exclude d = filter (\<lambda>(k, p). \<not> (Some k \<noteq> exclude \<and> expires p \<le> now)) d"

definition reg_full :: "('k, 'p) dict \<Rightarrow> bool" where
  "reg_full d \<longleftrightarrow> max_pending_authentication_operations \<le> length d"

definition reg_admit :: "'k \<Rightarrow> 'p \<Rightarrow> ('k, 'p) dict \<Rightarrow> ('k, 'p) dict" where
  "reg_admit k p d = (if reg_full d then d else dict_set k p d)"

definition reg_take :: "'k \<Rightarrow> ('k, 'p) dict \<Rightarrow> ('k, 'p) dict" where
  "reg_take k d = dict_pop k d"

subsection \<open>Runs\<close>

datatype ('k, 'p) reg_event =
    Admitted 'k 'p | Refused 'k | Taken 'k 'p | Missed 'k | Swept

inductive reg_step ::
    "('p \<Rightarrow> instant) \<Rightarrow> ('k, 'p) dict \<Rightarrow> ('k, 'p) reg_event \<Rightarrow> ('k, 'p) dict \<Rightarrow> bool" for expires where
  admit: "\<not> reg_full d \<Longrightarrow> reg_step expires d (Admitted k p) (reg_admit k p d)"
| refuse: "reg_full d \<Longrightarrow> reg_step expires d (Refused k) (reg_admit k p d)"
| take_found: "dict_get d k = Some p \<Longrightarrow> reg_step expires d (Taken k p) (reg_take k d)"
| take_missing: "dict_get d k = None \<Longrightarrow> reg_step expires d (Missed k) (reg_take k d)"
| sweep: "reg_step expires d Swept (reg_sweep expires now exclude d)"

inductive_cases reg_step_AdmittedE: "reg_step expires d (Admitted k p) d'"
inductive_cases reg_step_TakenE: "reg_step expires d (Taken k p) d'"
inductive_simps reg_step_Missed: "reg_step expires d (Missed k) d'"

inductive reg_run ::
    "('p \<Rightarrow> instant) \<Rightarrow> ('k, 'p) dict \<Rightarrow> ('k, 'p) reg_event list \<Rightarrow> ('k, 'p) dict \<Rightarrow> bool" for expires where
  stop: "reg_run expires d [] d"
| more: "reg_step expires d e d' \<Longrightarrow> reg_run expires d' es d'' \<Longrightarrow> reg_run expires d (e # es) d''"

inductive_cases reg_run_ConsE: "reg_run expires d (e # es) d'"

lemma reg_run_Nil: "reg_run expires d [] d"
  by (rule reg_run.stop)

lemma reg_run_one: "reg_step expires d e d' \<Longrightarrow> reg_run expires d [e] d'"
  by (rule reg_run.more [OF _ reg_run.stop])

lemma reg_run_append:
  "reg_run expires d es d' \<Longrightarrow> reg_run expires d' fs d'' \<Longrightarrow> reg_run expires d (es @ fs) d''"
  by (induction rule: reg_run.induct) (auto intro: reg_run.more)

subsection \<open>The invariant\<close>

definition reg_ok :: "('k, 'p) dict \<Rightarrow> bool" where
  "reg_ok d \<longleftrightarrow> dict_ok d \<and> length d \<le> max_pending_authentication_operations"

lemma reg_ok_Nil [simp]: "reg_ok []"
  by (simp add: reg_ok_def)

lemma reg_ok_sweep: "reg_ok d \<Longrightarrow> reg_ok (reg_sweep expires now exclude d)"
  by (auto simp: reg_ok_def reg_sweep_def intro: order_trans [OF length_filter_le])

lemma reg_ok_admit: "reg_ok d \<Longrightarrow> reg_ok (reg_admit k p d)"
  using length_dict_set_le [of k p d] by (auto simp: reg_ok_def reg_admit_def reg_full_def)

lemma reg_ok_take: "reg_ok d \<Longrightarrow> reg_ok (reg_take k d)"
  using length_dict_pop_le [of k d] by (auto simp: reg_ok_def reg_take_def)

lemma reg_step_ok: "reg_step expires d e d' \<Longrightarrow> reg_ok d \<Longrightarrow> reg_ok d'"
  by (induction rule: reg_step.induct) (auto intro: reg_ok_sweep reg_ok_admit reg_ok_take)

lemma reg_run_ok: "reg_run expires d es d' \<Longrightarrow> reg_ok d \<Longrightarrow> reg_ok d'"
  by (induction rule: reg_run.induct) (auto dest: reg_step_ok)

subsection \<open>At most one resume\<close>

fun admitted_keys :: "('k, 'p) reg_event list \<Rightarrow> 'k list" where
  "admitted_keys [] = []"
| "admitted_keys (Admitted k p # es) = k # admitted_keys es"
| "admitted_keys (_ # es) = admitted_keys es"

fun taken_keys :: "('k, 'p) reg_event list \<Rightarrow> 'k list" where
  "taken_keys [] = []"
| "taken_keys (Taken k p # es) = k # taken_keys es"
| "taken_keys (_ # es) = taken_keys es"

lemma sweep_get:
  assumes "dict_ok d"
  shows "dict_get (reg_sweep expires now exclude d) k =
    (case dict_get d k of None \<Rightarrow> None
     | Some p \<Rightarrow> if Some k \<noteq> exclude \<and> expires p \<le> now then None else Some p)"
  using assms unfolding reg_sweep_def dict_ok_def
proof (induction d)
  case (Cons x d)
  then show ?case
    by (cases x) (auto simp: map_of_eq_None_iff split: option.splits dest: map_of_SomeD)
qed simp

lemma reg_step_get_new:
  assumes "reg_step expires d e d'" "dict_ok d" "dict_get d' k = Some p"
  shows "dict_get d k = Some p \<or> e = Admitted k p"
  using assms by cases (auto simp: reg_admit_def reg_take_def sweep_get split: if_splits option.splits)

lemma reg_step_dict_ok: "reg_step expires d e d' \<Longrightarrow> dict_ok d \<Longrightarrow> dict_ok d'"
  by (induction rule: reg_step.induct) (auto simp: reg_admit_def reg_take_def reg_sweep_def)

text \<open>An operation is taken no more often than it has been admitted.\<close>

lemma taken_le_admitted:
  assumes "reg_run expires d es d'" "dict_ok d"
  shows "count_list (taken_keys es) k + (if dict_get d' k = None then 0 else 1)
    \<le> count_list (admitted_keys es) k + (if dict_get d k = None then 0 else 1)"
  using assms
proof (induction rule: reg_run.induct)
  case (more d e d' es d'')
  have IH: "count_list (taken_keys es) k + (if dict_get d'' k = None then 0 else 1)
      \<le> count_list (admitted_keys es) k + (if dict_get d' k = None then 0 else 1)"
    using more reg_step_dict_ok by blast
  from more.hyps(1) show ?case
  proof cases
    case (admit j p)
    then show ?thesis using IH by (auto simp: reg_admit_def split: if_splits)
  next
    case (refuse j p)
    then show ?thesis using IH by (auto simp: reg_admit_def)
  next
    case (take_found j p)
    then show ?thesis using IH by (auto simp: reg_take_def split: if_splits)
  next
    case (take_missing j)
    then show ?thesis using IH by (auto simp: reg_take_def split: if_splits)
  next
    case (sweep now exclude)
    then have "dict_get d' k \<noteq> None \<Longrightarrow> dict_get d k \<noteq> None"
      using more.prems by (auto simp: sweep_get split: option.splits)
    with sweep IH show ?thesis by (auto split: if_splits)
  qed
qed auto

lemma taken_was_admitted:
  assumes "reg_run expires d es d'" "dict_ok d" "Taken k p \<in> set es"
  shows "dict_get d k = Some p \<or> Admitted k p \<in> set es"
  using assms
proof (induction rule: reg_run.induct)
  case (more d e d' es d'')
  show ?case
  proof (cases "e = Taken k p")
    case True
    with more.hyps(1) show ?thesis by (auto elim: reg_step_TakenE)
  next
    case False
    with more.prems more.IH reg_step_dict_ok [OF more.hyps(1)]
    have "dict_get d' k = Some p \<or> Admitted k p \<in> set es" by auto
    with reg_step_get_new [OF more.hyps(1) more.prems(1)] show ?thesis by auto
  qed
qed simp

lemma distinct_count_le: "distinct xs \<Longrightarrow> count_list xs k \<le> 1"
  by (induction xs) (auto simp: count_list_0_iff)

lemma count_le_distinct: "(\<And>k. count_list xs k \<le> 1) \<Longrightarrow> distinct xs"
proof (induction xs)
  case (Cons x xs)
  have le: "count_list xs k \<le> 1" for k
    using Cons.prems [of k] by (cases "k = x") auto
  moreover have "count_list xs x = 0" using Cons.prems [of x] by simp
  ultimately show ?case using Cons.IH by (auto simp: count_list_0_iff)
qed simp

text \<open>With fresh keys, no operation is taken twice, in whatever order the callers run.\<close>

lemma taken_at_most_once:
  assumes "reg_run expires [] es d" "distinct (admitted_keys es)"
  shows "distinct (taken_keys es)"
proof (rule count_le_distinct)
  fix k
  from taken_le_admitted [OF assms(1), of k] distinct_count_le [OF assms(2), of k]
  show "count_list (taken_keys es) k \<le> 1" by auto
qed

subsection \<open>Effects that run the dictionary\<close>

definition runs_reg ::
    "('s \<Rightarrow> ('k, 'p) dict) \<Rightarrow> ('p \<Rightarrow> instant) \<Rightarrow> ('s, 'e, 'a) eff \<Rightarrow> bool" where
  \<comment> \<open>\<open>m\<close> changes the dictionary through critical sections only\<close>
  "runs_reg pending expires m \<longleftrightarrow> (\<forall>s. \<exists>es. reg_run expires (pending s) es (pending (snd (m s))))"

named_theorems reg_rules "effects that run the dictionary"

lemma runs_regD: "runs_reg g ex m \<Longrightarrow> m s = (r, t) \<Longrightarrow> \<exists>es. reg_run ex (g s) es (g t)"
  unfolding runs_reg_def by (metis snd_conv)

lemma runs_frames: "frames g m \<Longrightarrow> runs_reg g ex m"
  unfolding runs_reg_def frames_def by (metis reg_run_Nil)

lemma runs_modify: "(\<And>s. \<exists>e. reg_step ex (g s) e (g (f s))) \<Longrightarrow> runs_reg g ex (modify f)"
  unfolding runs_reg_def using reg_run_one by fastforce

lemma runs_bind [reg_rules]:
  assumes "runs_reg g ex m" "\<And>x. runs_reg g ex (f x)" shows "runs_reg g ex (bind m f)"
  unfolding runs_reg_def
proof
  fix s
  obtain r t where m: "m s = (r, t)" by (cases "m s")
  obtain es where es: "reg_run ex (g s) es (g t)" using runs_regD [OF assms(1) m] by blast
  show "\<exists>es. reg_run ex (g s) es (g (snd (bind m f s)))"
  proof (cases r)
    case (Inl e) with m es show ?thesis by auto
  next
    case (Inr x)
    obtain fs where "reg_run ex (g t) fs (g (snd (f x t)))"
      using assms(2) [of x] unfolding runs_reg_def by blast
    with m Inr es show ?thesis by (auto intro: reg_run_append)
  qed
qed

lemma runs_try_except [reg_rules]:
  assumes "runs_reg g ex m" "\<And>e. runs_reg g ex (h e)" shows "runs_reg g ex (try_except m h)"
  unfolding runs_reg_def
proof
  fix s
  obtain r t where m: "m s = (r, t)" by (cases "m s")
  obtain es where es: "reg_run ex (g s) es (g t)" using runs_regD [OF assms(1) m] by blast
  show "\<exists>es. reg_run ex (g s) es (g (snd (try_except m h s)))"
  proof (cases r)
    case (Inr e) with m es show ?thesis by auto
  next
    case (Inl x)
    obtain fs where "reg_run ex (g t) fs (g (snd (h x t)))"
      using assms(2) [of x] unfolding runs_reg_def by blast
    with m Inl es show ?thesis by (auto intro: reg_run_append)
  qed
qed

lemma runs_for_each [reg_rules]: "(\<And>x. runs_reg g ex (f x)) \<Longrightarrow> runs_reg g ex (for_each xs f)"
  by (induction xs) (auto intro: runs_bind runs_frames)

lemma runs_simple [reg_rules, simp]:
  "runs_reg g ex (ret x)" "runs_reg g ex skip" "runs_reg g ex (throw e)" "runs_reg g ex (gets h)"
  "runs_reg g ex (of_app r)" "runs_reg g ex (raise_when b e)"
  by (simp_all add: runs_frames)

lemma runs_outside: "inner g \<Longrightarrow> outside_only m \<Longrightarrow> runs_reg g ex m"
  by (rule runs_frames [OF frames_outside])

lemma runs_try_finally [reg_rules]:
  assumes "runs_reg g ex m" "runs_reg g ex f" shows "runs_reg g ex (try_finally m f)"
  unfolding runs_reg_def
proof
  fix s
  obtain r t where m: "m s = (r, t)" by (cases "m s")
  obtain r' u where f: "f t = (r', u)" by (cases "f t")
  obtain es fs where "reg_run ex (g s) es (g t)" "reg_run ex (g t) fs (g u)"
    using runs_regD [OF assms(1) m] runs_regD [OF assms(2) f] by blast
  moreover have "snd (try_finally m f s) = u" using m f by (cases r') (simp_all add: try_finally_def)
  ultimately show "\<exists>es. reg_run ex (g s) es (g (snd (try_finally m f s)))"
    by (auto intro: reg_run_append)
qed

lemma runs_execution_scope:
  assumes "inner g" "\<And>who. runs_reg g ex (body who)"
  shows "runs_reg g ex (execution_scope P c i body)"
  unfolding execution_scope_def
  by (intro runs_bind runs_try_finally assms)
    (auto intro!: runs_frames frames_modify intro: frames_outside assms(1) simp: innerD [OF assms(1)]
      split: option.split prod.split)

lemma runs_execute_operation:
  assumes "inner g" "\<And>cx. runs_reg g ex (act cx)"
  shows "runs_reg g ex (execute_operation P act context)"
  unfolding execute_operation_def
  by (intro runs_bind runs_try_except runs_execution_scope assms)
    (auto intro: runs_outside assms split: option.split exn.split)

subsection \<open>The interface of the coordinators\<close>

text \<open>
  A coordinator is a set of operations on a state that holds such a dictionary, every one of
  which runs the dictionary through critical sections only.
\<close>

locale pending_coordinator =
  fixes pending :: "'s \<Rightarrow> ('k, 'p) dict"
    and expires :: "'p \<Rightarrow> instant"
    and operation :: "'o \<Rightarrow> 's \<Rightarrow> 's"
  assumes operation_runs: "\<exists>es. reg_run expires (pending s) es (pending (operation x s))"
begin

lemma history_runs: "\<exists>es. reg_run expires (pending s) es (pending (fold operation xs s))"
proof (induction xs arbitrary: s)
  case Nil
  then show ?case by (intro exI [of _ "[]"]) (simp add: reg_run_Nil)
next
  case (Cons x xs)
  obtain es where "reg_run expires (pending s) es (pending (operation x s))"
    using operation_runs by blast
  moreover obtain fs where
    "reg_run expires (pending (operation x s)) fs (pending (fold operation xs (operation x s)))"
    using Cons.IH by blast
  ultimately show ?case by (auto intro: reg_run_append)
qed

lemma history_ok: "reg_ok (pending s) \<Longrightarrow> reg_ok (pending (fold operation xs s))"
  using history_runs reg_run_ok by blast

lemma history_bounded:
  "pending s = [] \<Longrightarrow> length (pending (fold operation xs s)) \<le> max_pending_authentication_operations"
  using history_ok [of s xs] by (simp add: reg_ok_def)

end

end
