(* ===== verification/Authentication.thy ===== *)
theory Authentication
  imports Profile_Service Pending_Registry
begin

text \<open>
  Sessions and MFA (\<open>application/authentication_service.py\<close>): the session guard that every AWS
  feature asks for credentials, the refresh that replaces a session, and the coordinator that
  holds refresh requests until a code arrives.  The per-profile refresh lock makes the body of
  \<open>refresh\<close> atomic, which a sequential model is.
\<close>

definition mfa_code_re :: regex where
  "mfa_code_re = Cls is_dec 6 (Some 6)"

record authentication_status =
  as_profile :: profile_summary
  as_state :: string
  as_expires_at_utc :: "instant option"
  as_reusable :: bool

definition required_state :: "aws_profile \<Rightarrow> string" where
  "required_state p = (if ap_mfa_enabled p then ''MFA_REQUIRED'' else ''SESSION_REQUIRED'')"

subsection \<open>The session guard\<close>

definition assert_identity ::
    "string \<Rightarrow> string \<Rightarrow> string \<Rightarrow> string \<Rightarrow> ('w, 'm, unit) io" where
  "assert_identity expected_account expected_user actual_account actual_user =
     raise_when (expected_account \<noteq> actual_account \<or> expected_user \<noteq> actual_user)
       (AppExn (identity_mismatch ''Session identity does not match its owning profile''))"

definition guard_catches :: "exn \<Rightarrow> bool" where
  "guard_catches e = (case e of AppExn err \<Rightarrow>
     ae_class err \<in> {ConfigurationError, CredentialValidationError, DataProtectionError} | _ \<Rightarrow> False)"

definition verified_credentials ::
    "'w ports \<Rightarrow> aws_profile \<Rightarrow> session_credentials \<Rightarrow> ('w, 'm, plain_credentials) io" where
  \<comment> \<open>the \<open>try\<close> block of \<open>SessionGuard.credentials\<close>\<close>
  "verified_credentials P p session =
     bind (unprotect P (sc_encrypted_access_key session)) (\<lambda>a.
     bind (unprotect P (sc_encrypted_secret_key session)) (\<lambda>k.
     bind (unprotect P (sc_encrypted_session_token session)) (\<lambda>tok.
     bind (of_app (plain_credentials_init a k (Some tok))) (\<lambda>c.
     bind (get_identity P c (ap_region p)) (\<lambda>who.
     seq (assert_identity (ap_account_id p) (ap_user_id p) (id_account_id who) (id_user_id who))
       (ret c))))))"

definition guard_credentials ::
    "'w ports \<Rightarrow> selector \<Rightarrow> ('w, 'm, plain_credentials option) io" where
  "guard_credentials P sel =
     bind (resolve_profile sel) (\<lambda>p.
     bind (of_app (require_profile_id p)) (\<lambda>i.
     bind (on_db (get_session i)) (\<lambda>found.
       case found of None \<Rightarrow> ret None
       | Some session \<Rightarrow>
           bind (clock_now P) (\<lambda>now.
             if needs_refresh session now then seq (on_db (delete_session i)) (ret None)
             else try_except (bind (verified_credentials P p session) (\<lambda>c. ret (Some c)))
               (\<lambda>e. if guard_catches e then seq (on_db (delete_session i)) (ret None) else throw e)))))"

definition mfa_required_error :: app_error where
  "mfa_required_error = mk_error CredentialValidationError ''auth.mfa_required''
     ''No reusable authenticated session is available''"

definition require_credentials :: "'w ports \<Rightarrow> int \<Rightarrow> ('w, 'm, plain_credentials) io" where
  "require_credentials P i =
     bind (guard_credentials P (SelInt i)) (\<lambda>c. case c of
       None \<Rightarrow> raise_app mfa_required_error | Some x \<Rightarrow> ret x)"

subsection \<open>The authentication service\<close>

definition auth_status :: "'w ports \<Rightarrow> selector \<Rightarrow> ('w, 'm, authentication_status) io" where
  "auth_status P sel =
     bind (resolve_profile sel) (\<lambda>p.
     bind (of_app (require_profile_id p)) (\<lambda>i.
     bind (on_db (get_session i)) (\<lambda>found.
       case found of
         None \<Rightarrow> bind (show_profile (SelInt i)) (\<lambda>su.
           ret \<lparr>as_profile = su, as_state = required_state p, as_expires_at_utc = None,
                as_reusable = False\<rparr>)
       | Some session \<Rightarrow>
           bind (clock_now P) (\<lambda>now.
             let reusable = \<not> needs_refresh session now in
             seq (if \<not> reusable then on_db (delete_session i) else skip)
               (bind (show_profile (SelInt i)) (\<lambda>su.
                 ret \<lparr>as_profile = su,
                      as_state = (if reusable then ''READY'' else required_state p),
                      as_expires_at_utc = Some (sc_expires_at_utc session),
                      as_reusable = reusable\<rparr>))))))"

definition validate_profile :: "'w ports \<Rightarrow> selector \<Rightarrow> ('w, 'm, authentication_status) io" where
  "validate_profile P sel =
     logged P ''auth'' ''validate'' False ''-'' False None (\<lambda>_.
       bind (resolve_profile sel) (\<lambda>p.
       bind (bind (reveal_credentials P p) (\<lambda>c. get_identity P c (ap_region p))) (\<lambda>who.
       seq (assert_identity (ap_account_id p) (ap_user_id p) (id_account_id who) (id_user_id who))
       (bind (of_app (require_profile_id p)) (\<lambda>i.
          seq (record_success P ''auth'' ''validate'' (lc_profile_id_update (\<lambda>_. Some i)))
            (auth_status P (SelInt i)))))))"

definition discard_cached_session :: "selector \<Rightarrow> ('w, 'm, int) io" where
  "discard_cached_session sel =
     bind (resolve_profile sel) (\<lambda>p.
     bind (of_app (require_profile_id p)) (\<lambda>i. seq (on_db (delete_session i)) (ret i)))"

definition mfa_code_error :: app_error where
  "mfa_code_error = mk_error MfaValidationError ''mfa.code.invalid''
     ''MFA code must contain exactly six digits''"

definition publish_session ::
    "'w ports \<Rightarrow> int \<Rightarrow> plain_credentials \<Rightarrow> ('w, 'm, unit) io" where
  \<comment> \<open>write the shared credentials file; the session does not stay if that is refused\<close>
  "publish_session P i c =
     try_except (case pt_shared_credentials P of None \<Rightarrow> skip | Some w \<Rightarrow> call_out (w i c))
       (\<lambda>e. case e of
          AppExn err \<Rightarrow> if ae_class err = ConfigurationError
            then seq (on_db (delete_session i)) (throw e) else throw e
        | _ \<Rightarrow> throw e)"

definition issue_session ::
    "'w ports \<Rightarrow> int \<Rightarrow> aws_profile \<Rightarrow> string option \<Rightarrow> ('w, 'm, issued_session) io" where
  "issue_session P i p mfa_code =
     bind (reveal_credentials P p) (\<lambda>c.
     bind (get_session_token P c (ap_region p)
             (if ap_mfa_enabled p then Some (ap_mfa_arn p) else None)
             (if ap_mfa_enabled p then mfa_code else None)
             (ap_session_duration_hours p * 60 * 60)) (\<lambda>issued.
     seq (record_log P ((log_entry ''auth'' ''issue_session'' ''SUCCESS'' ''INFO'' PhaseProgress
            ''auth.session.issued'')\<lparr>lc_profile_id := Some i\<rparr>))
     (bind (get_identity P (iss_credentials issued) (ap_region p)) (\<lambda>who.
      seq (assert_identity (ap_account_id p) (ap_user_id p) (id_account_id who) (id_user_id who))
        (ret issued)))))"

definition store_session :: "'w ports \<Rightarrow> int \<Rightarrow> issued_session \<Rightarrow> ('w, 'm, unit) io" where
  "store_session P i issued =
     bind (clock_now P) (\<lambda>now.
     bind (protect P (pc_access_key (iss_credentials issued))) (\<lambda>a.
     bind (protect P (pc_secret_key (iss_credentials issued))) (\<lambda>k.
     bind (protect P (case pc_session_token (iss_credentials issued) of None \<Rightarrow> [] | Some x \<Rightarrow> x)) (\<lambda>tok.
       on_db (put_session \<lparr>sc_profile_id = i, sc_encrypted_access_key = a,
         sc_encrypted_secret_key = k, sc_encrypted_session_token = tok,
         sc_expires_at_utc = iss_expires_at_utc issued, sc_verified_at_utc = now\<rparr>)))))"

definition refresh_body :: "'w ports \<Rightarrow> int \<Rightarrow> string option \<Rightarrow> ('w, 'm, authentication_status) io" where
  "refresh_body P i mfa_code =
     bind (resolve_profile (SelInt i)) (\<lambda>p.
     seq (raise_when (ap_mfa_enabled p \<and>
            (case mfa_code of None \<Rightarrow> True | Some c \<Rightarrow> \<not> fullmatch mfa_code_re c)) (AppExn mfa_code_error))
     (bind (guard_credentials P (SelInt i)) (\<lambda>current.
        if current \<noteq> None then auth_status P (SelInt i)
        else bind (issue_session P i p mfa_code) (\<lambda>issued.
          seq (store_session P i issued)
          (seq (publish_session P i (iss_credentials issued))
          (seq (record_success P ''auth'' ''refresh'' (lc_profile_id_update (\<lambda>_. Some i)))
             (auth_status P (SelInt i))))))))"

definition refresh :: "'w ports \<Rightarrow> int \<Rightarrow> string option \<Rightarrow> ('w, 'm, authentication_status) io" where
  "refresh P i mfa_code =
     logged P ''auth'' ''refresh'' False ''-'' False None (\<lambda>_. refresh_body P i mfa_code)"

subsection \<open>The coordinator of pending refreshes\<close>

record pending_refresh =
  pr_profile_id :: int
  pr_expires_at :: instant
  pr_correlation_id :: string
  pr_resumed :: bool

record 'w auth_world = "'w world" +
  aw_pending :: "(string, pending_refresh) dict"

definition sweep_refreshes :: "'w ports \<Rightarrow> (('w, 'm) auth_world_scheme, exn, unit) eff" where
  "sweep_refreshes P =
     bind (clock_now P) (\<lambda>now. modify (aw_pending_update (reg_sweep pr_expires_at now None)))"

definition admit_refresh :: "string \<Rightarrow> pending_refresh \<Rightarrow> (('w, 'm) auth_world_scheme, exn, bool) eff" where
  \<comment> \<open>\<open>False\<close> when the dictionary is full\<close>
  "admit_refresh k r =
     bind (gets (\<lambda>s. reg_full (aw_pending s))) (\<lambda>full.
       seq (modify (aw_pending_update (reg_admit k r))) (ret (\<not> full)))"

definition take_refresh :: "string \<Rightarrow> (('w, 'm) auth_world_scheme, exn, pending_refresh option) eff" where
  "take_refresh k =
     bind (gets (\<lambda>s. dict_get (aw_pending s) k)) (\<lambda>found.
       seq (modify (aw_pending_update (reg_take k))) (ret found))"

definition claim_refresh :: "string \<Rightarrow> (('w, 'm) auth_world_scheme, exn, pending_refresh option) eff" where
  \<comment> \<open>the locked section of \<open>resume\<close>: an entry is marked and removed, once\<close>
  "claim_refresh k =
     bind (gets (\<lambda>s. dict_get (aw_pending s) k)) (\<lambda>found. case found of
       None \<Rightarrow> ret None
     | Some r \<Rightarrow>
         if pr_resumed r then ret None
         else seq (modify (aw_pending_update (reg_take k))) (ret (Some (r\<lparr>pr_resumed := True\<rparr>))))"

definition mfa_failure :: "string \<Rightarrow> string \<Rightarrow> 'a operation_result" where
  "mfa_failure i msg = failed_with i (mk_error MfaValidationError msg msg)"

definition log_mfa_cancelled :: "'w ports \<Rightarrow> string \<Rightarrow> pending_refresh \<Rightarrow> ('w, 'm, unit) io" where
  "log_mfa_cancelled P i r =
     record_log P ((log_entry ''auth'' ''mfa'' ''CANCELLED'' ''INFO'' PhaseCompleted
       ''auth.mfa.cancelled'')\<lparr>lc_correlation_id := Some (pr_correlation_id r), lc_operation_id := Some i\<rparr>)"

definition start_refresh ::
    "'w ports \<Rightarrow> selector \<Rightarrow> bool
     \<Rightarrow> (('w, 'm) auth_world_scheme, exn, authentication_status operation_result) eff" where
  "start_refresh P sel discard =
     seq (sweep_refreshes P)
     (seq (if discard then bind (discard_cached_session sel) (\<lambda>_. skip) else skip)
     (bind (auth_status P sel) (\<lambda>st.
      bind (new_uuid P) (\<lambda>i.
      bind (gets w_exec) (\<lambda>who.
      bind (case who of Some (c, _) \<Rightarrow> ret c | None \<Rightarrow> new_uuid P) (\<lambda>cor.
        if as_reusable st then ret (succeeded_with i st)
        else if \<not> su_mfa_enabled (as_profile st)
        then bind (execution_scope P (Some cor) (Some i) (\<lambda>_. refresh P (su_id (as_profile st)) None))
               (\<lambda>refreshed. ret (succeeded_with i refreshed))
        else bind (clock_now P) (\<lambda>now.
          let expires_at = now + minutes 5;
              challenge = \<lparr>mc_operation_id = i, mc_profile_id = su_id (as_profile st),
                           mc_device_arn = su_mfa_arn (as_profile st), mc_expires_at = expires_at\<rparr>
          in seq (sweep_refreshes P)
            (bind (admit_refresh i \<lparr>pr_profile_id = su_id (as_profile st), pr_expires_at = expires_at,
                      pr_correlation_id = cor, pr_resumed = False\<rparr>) (\<lambda>admitted.
               ret (if admitted then (result_of i OpMfaRequired)\<lparr>or_challenge := Some challenge\<rparr>
                    else failed_with i authentication_capacity_error))))))))))"

definition continue_refresh ::
    "'w ports \<Rightarrow> string \<Rightarrow> string option \<Rightarrow> pending_refresh option
     \<Rightarrow> ('w, 'm, authentication_status operation_result) io" where
  \<comment> \<open>\<open>resume\<close> after its locked section, with what that has claimed\<close>
  "continue_refresh P i mfa_code found =
     (case found of None \<Rightarrow> ret (mfa_failure i ''mfa.operation.not_resumable'')
      | Some r \<Rightarrow>
          if mfa_code = None
          then seq (log_mfa_cancelled P i r) (ret (result_of i OpCancelled))
          else bind (clock_now P) (\<lambda>now.
            if pr_expires_at r \<le> now then ret (mfa_failure i ''mfa.challenge.expired'')
            else try_except
              (bind (execution_scope P (Some (pr_correlation_id r)) (Some i)
                       (\<lambda>_. refresh P (pr_profile_id r) mfa_code))
                 (\<lambda>st. ret (succeeded_with i st)))
              (\<lambda>e. case e of
                 AppExn err \<Rightarrow> if ae_class err = MfaValidationError then ret (failed_with i err) else throw e
               | _ \<Rightarrow> throw e)))"

definition resume_refresh ::
    "'w ports \<Rightarrow> string \<Rightarrow> string option
     \<Rightarrow> (('w, 'm) auth_world_scheme, exn, authentication_status operation_result) eff" where
  "resume_refresh P i mfa_code = bind (claim_refresh i) (continue_refresh P i mfa_code)"

definition cancel_refresh :: "'w ports \<Rightarrow> string \<Rightarrow> (('w, 'm) auth_world_scheme, exn, unit) eff" where
  "cancel_refresh P i =
     bind (take_refresh i) (\<lambda>found. case found of None \<Rightarrow> skip | Some r \<Rightarrow> log_mfa_cancelled P i r)"

subsection \<open>The database under authentication\<close>

lemma outside_assert_identity [outside_rules, simp]: "outside_only (assert_identity a b c d)"
  by (simp add: assert_identity_def)

lemma outside_verified_credentials [outside_rules, simp]: "outside_only (verified_credentials P p s)"
  by (simp add: verified_credentials_def outside_bind)

lemma outside_issue_session [outside_rules, simp]: "outside_only (issue_session P i p c)"
  by (simp add: issue_session_def outside_bind)

lemma outside_show_profile [outside_rules, simp]: "outside_only (show_profile sel)"
  by (simp add: show_profile_def outside_bind)

lemma outside_log_mfa_cancelled [outside_rules, simp]: "outside_only (log_mfa_cancelled P i r)"
  by (simp add: log_mfa_cancelled_def)

lemma keeps_guard_credentials: "keeps world_ok (guard_credentials P sel)"
  unfolding guard_credentials_def
  by (intro keeps_bind) (auto simp: keeps_world_outside
      intro!: keeps_bind keeps_try_except keeps_world_db keeps_get_session keeps_delete_session
      split: option.split)

lemma keeps_require_credentials: "keeps world_ok (require_credentials P i)"
  unfolding require_credentials_def
  by (intro keeps_bind keeps_guard_credentials) (auto split: option.split)

lemma keeps_auth_status: "keeps world_ok (auth_status P sel)"
  unfolding auth_status_def Let_def
  by (intro keeps_bind) (auto simp: keeps_world_outside
      intro!: keeps_bind keeps_world_db keeps_get_session keeps_delete_session
      split: option.split)

lemma keeps_store_session: "keeps world_ok (store_session P i issued)"
  unfolding store_session_def
  by (intro keeps_bind keeps_world_db keeps_put_session) (auto simp: keeps_world_outside)

lemma keeps_publish_session: "keeps world_ok (publish_session P i c)"
  unfolding publish_session_def
  by (intro keeps_try_except) (auto simp: keeps_world_outside
      intro!: keeps_bind keeps_world_db keeps_delete_session split: option.split exn.split)

lemma keeps_refresh_body: "keeps world_ok (refresh_body P i c)"
  unfolding refresh_body_def
  by (intro keeps_bind keeps_guard_credentials)
    (auto simp: keeps_world_outside
      intro!: keeps_bind keeps_auth_status keeps_store_session keeps_publish_session)

lemma keeps_refresh: "keeps world_ok (refresh P i c)"
  unfolding refresh_def by (intro keeps_logged keeps_refresh_body) simp

lemma keeps_validate_profile: "keeps world_ok (validate_profile P sel)"
  unfolding validate_profile_def
  by (intro keeps_logged keeps_bind keeps_auth_status)
    (auto simp: keeps_world_outside outside_bind)

lemma keeps_discard_cached_session: "keeps world_ok (discard_cached_session sel)"
  unfolding discard_cached_session_def
  by (intro keeps_bind keeps_world_db keeps_delete_session) (auto simp: keeps_world_outside)

subsection \<open>The state of the coordinators under authentication\<close>

abbreviation world_more :: "('w, 'm) world_scheme \<Rightarrow> 'm" where
  "world_more \<equiv> world.more"

lemma inner_more [simp]: "inner world_more"
  by (simp add: inner_def)

lemma more_outside: "outside_only m \<Longrightarrow> frames world_more m"
  by (rule frames_outside) simp_all

lemma more_on_db [simp]: "frames world_more (on_db m)"
  by (simp add: frames_def)

lemma more_call_out [simp]: "frames world_more (call_out f)"
  by (simp add: frames_def)

lemma more_guard_credentials [simp]: "frames world_more (guard_credentials P sel)"
  unfolding guard_credentials_def
  by (intro frames_bind)
    (auto simp: more_outside intro!: frames_bind frames_try_except split: option.split)

lemma more_auth_status [simp]: "frames world_more (auth_status P sel)"
  unfolding auth_status_def Let_def
  by (intro frames_bind) (auto simp: more_outside intro!: frames_bind split: option.split)

lemma more_store_session [simp]: "frames world_more (store_session P i issued)"
  unfolding store_session_def by (intro frames_bind) (auto simp: more_outside)

lemma more_publish_session [simp]: "frames world_more (publish_session P i c)"
  unfolding publish_session_def
  by (intro frames_try_except) (auto intro!: frames_bind split: option.split exn.split)

lemma more_refresh_body [simp]: "frames world_more (refresh_body P i c)"
  unfolding refresh_body_def
  by (intro frames_bind) (auto simp: more_outside intro!: frames_bind)

lemma more_refresh [simp]: "frames world_more (refresh P i c)"
  unfolding refresh_def by (intro frames_logged) simp_all

lemma more_discard_cached_session [simp]: "frames world_more (discard_cached_session sel)"
  unfolding discard_cached_session_def by (intro frames_bind) (auto simp: more_outside)

lemma frames_aw_pending: "frames world_more m \<Longrightarrow> frames aw_pending m"
proof -
  have "aw_pending s = aw_pending t" if "world_more s = world_more t" for s t :: "('w, 'm) auth_world_scheme"
    using that by (cases s, cases t) simp
  then show "frames world_more m \<Longrightarrow> frames aw_pending m" unfolding frames_def by blast
qed

lemma inner_aw_pending [simp]: "inner aw_pending"
  by (simp add: inner_def)

lemma runs_more: "frames world_more m \<Longrightarrow> runs_reg aw_pending pr_expires_at m"
  by (rule runs_frames [OF frames_aw_pending])

lemma runs_world_outside: "outside_only m \<Longrightarrow> runs_reg aw_pending pr_expires_at m"
  by (rule runs_more [OF more_outside])

lemma runs_sweep_refreshes: "runs_reg aw_pending pr_expires_at (sweep_refreshes P)"
  unfolding sweep_refreshes_def
  by (intro runs_bind runs_modify) (auto simp: runs_world_outside intro: reg_step.sweep)

lemma runs_admit_refresh: "runs_reg aw_pending pr_expires_at (admit_refresh k r)"
proof -
  have "\<exists>e. reg_step pr_expires_at d e (reg_admit k r d)" for d
    by (cases "reg_full d") (auto intro: reg_step.admit reg_step.refuse)
  then show ?thesis
    unfolding admit_refresh_def by (intro runs_bind runs_modify) auto
qed

lemma runs_take: "\<exists>e. reg_step ex d e (reg_take k d)"
  by (cases "dict_get d k") (auto intro: reg_step.take_found reg_step.take_missing)

lemma runs_take_refresh: "runs_reg aw_pending pr_expires_at (take_refresh k)"
  unfolding take_refresh_def by (intro runs_bind runs_modify) (auto intro: runs_take)

lemma runs_claim_refresh: "runs_reg aw_pending pr_expires_at (claim_refresh k)"
  unfolding claim_refresh_def
  by (intro runs_bind) (auto intro!: runs_bind runs_modify runs_take split: option.split)

lemma runs_start_refresh: "runs_reg aw_pending pr_expires_at (start_refresh P sel discard)"
  unfolding start_refresh_def Let_def
  by (intro runs_bind runs_sweep_refreshes)
    (auto simp: runs_more more_outside
      intro!: runs_bind runs_sweep_refreshes runs_admit_refresh runs_more [OF frames_execution_scope]
      split: option.split prod.split)

lemma more_continue_refresh [simp]: "frames world_more (continue_refresh P i mfa found)"
  unfolding continue_refresh_def
  by (auto simp: more_outside split: option.split exn.split
      intro!: frames_bind frames_try_except frames_execution_scope)

lemma runs_resume_refresh: "runs_reg aw_pending pr_expires_at (resume_refresh P i mfa)"
  unfolding resume_refresh_def
  by (intro runs_bind runs_claim_refresh) (simp add: runs_more)

lemma runs_cancel_refresh: "runs_reg aw_pending pr_expires_at (cancel_refresh P i)"
  unfolding cancel_refresh_def
  by (intro runs_bind runs_take_refresh) (auto simp: runs_more more_outside split: option.split)

datatype refresh_call =
  StartRefresh selector bool | ResumeRefresh string "string option" | CancelRefresh string

fun run_refresh_call :: "'w ports \<Rightarrow> refresh_call \<Rightarrow> ('w, 'm) auth_world_scheme \<Rightarrow> ('w, 'm) auth_world_scheme" where
  "run_refresh_call P (StartRefresh sel discard) s = snd (start_refresh P sel discard s)"
| "run_refresh_call P (ResumeRefresh i mfa) s = snd (resume_refresh P i mfa s)"
| "run_refresh_call P (CancelRefresh i) s = snd (cancel_refresh P i s)"

lemma refresh_call_runs:
  "\<exists>es. reg_run pr_expires_at (aw_pending s) es (aw_pending (run_refresh_call P c s))"
  by (cases c) (simp_all add: runs_start_refresh [unfolded runs_reg_def, rule_format]
      runs_resume_refresh [unfolded runs_reg_def, rule_format]
      runs_cancel_refresh [unfolded runs_reg_def, rule_format])

interpretation refreshes: pending_coordinator aw_pending pr_expires_at "run_refresh_call P" for P
  by unfold_locales (rule refresh_call_runs)

end
