(* ===== verification/Authenticated_Operation.thy ===== *)
theory Authenticated_Operation
  imports Authentication
begin

text \<open>
  MFA recovery for any action (\<open>application/authenticated_operation.py\<close>).  The code keeps the
  action of a pending operation as a closure; here it is a request \<open>'r\<close>, and \<open>act\<close> runs a
  request under a context.  \<open>act\<close> may do anything to the world, the pending dictionaries
  included.
\<close>

record 'r pending_action =
  pa_expires_at :: instant
  pa_request :: 'r
  pa_context :: op_context

record ('w, 'r) op_world = "'w auth_world" +
  ow_pending :: "(string, 'r pending_action) dict"

type_synonym ('w, 'r, 'm, 'a) op_io = "(('w, 'r, 'm) op_world_scheme, exn, 'a) eff"

definition invoke ::
    "'w ports \<Rightarrow> ('r \<Rightarrow> op_context \<Rightarrow> ('w, 'r, 'm, 'a) op_io) \<Rightarrow> 'r \<Rightarrow> op_context
     \<Rightarrow> ('w, 'r, 'm, 'a operation_result) op_io" where
  "invoke P act r cx = execute_operation P (\<lambda>_. act r cx) (Some cx)"

definition not_resumable_failure :: "string \<Rightarrow> 'a operation_result" where
  "not_resumable_failure i = failed_with i (mk_error CredentialValidationError
     ''auth.operation.not_resumable'' ''Authenticated operation was already resumed or expired'')"

definition expired_keys :: "instant \<Rightarrow> string option \<Rightarrow> (string, 'r pending_action) dict \<Rightarrow> string list" where
  "expired_keys now exclude d =
     map fst (filter (\<lambda>(k, p). Some k \<noteq> exclude \<and> pa_expires_at p \<le> now) d)"

definition drop_action :: "string \<Rightarrow> ('w, 'r, 'm, unit) op_io" where
  "drop_action k = modify (ow_pending_update (reg_take k))"

definition sweep_actions :: "'w ports \<Rightarrow> string option \<Rightarrow> ('w, 'r, 'm, unit) op_io" where
  "sweep_actions P exclude =
     bind (clock_now P) (\<lambda>now.
     bind (gets (\<lambda>s. expired_keys now exclude (ow_pending s))) (\<lambda>ks.
       for_each ks (\<lambda>k. seq (drop_action k) (cancel_refresh P k))))"

definition admit_action :: "string \<Rightarrow> 'r pending_action \<Rightarrow> ('w, 'r, 'm, bool) op_io" where
  "admit_action k p =
     bind (gets (\<lambda>s. reg_full (ow_pending s))) (\<lambda>full.
       seq (modify (ow_pending_update (reg_admit k p))) (ret (\<not> full)))"

definition take_action :: "string \<Rightarrow> ('w, 'r, 'm, 'r pending_action option) op_io" where
  "take_action k = bind (gets (\<lambda>s. dict_get (ow_pending s) k)) (\<lambda>found. seq (drop_action k) (ret found))"

definition asks_for_mfa :: "'a operation_result \<Rightarrow> bool" where
  "asks_for_mfa r \<longleftrightarrow> or_state r = OpFailed \<and> (case or_error r of None \<Rightarrow> False
     | Some e \<Rightarrow> ae_class e = CredentialValidationError \<and> ae_message_code e = ''auth.mfa_required'')"

definition start_long ::
    "'w ports \<Rightarrow> ('r \<Rightarrow> op_context \<Rightarrow> ('w, 'r, 'm, 'a) op_io) \<Rightarrow> selector \<Rightarrow> 'r \<Rightarrow> op_context option
     \<Rightarrow> ('w, 'r, 'm, 'a operation_result) op_io" where
  "start_long P act sel r context =
     bind (case context of Some cx \<Rightarrow> ret cx | None \<Rightarrow> new_context P None) (\<lambda>initial.
     seq (sweep_actions P None)
     (bind (invoke P act r initial) (\<lambda>attempted.
      if \<not> asks_for_mfa attempted then ret attempted
      else bind (execution_scope P (Some (cx_correlation_id initial)) (Some (cx_operation_id initial))
                   (\<lambda>_. start_refresh P sel True)) (\<lambda>refreshed.
        let i = or_operation_id refreshed; again = rebound initial i in
        if or_state refreshed = OpSucceeded then invoke P act r again
        else if or_state refreshed \<noteq> OpMfaRequired \<or> or_challenge refreshed = None
        then ret ((result_of i (or_state refreshed))\<lparr>or_error := or_error refreshed\<rparr>)
        else bind (admit_action i \<lparr>pa_expires_at = mc_expires_at (the (or_challenge refreshed)),
                     pa_request = r, pa_context = again\<rparr>) (\<lambda>admitted.
          if \<not> admitted
          then seq (cancel_refresh P i) (ret (failed_with i authentication_capacity_error))
          else ret ((result_of i OpMfaRequired)\<lparr>or_challenge := or_challenge refreshed\<rparr>))))))"

definition start_operation ::
    "'w ports \<Rightarrow> ('r \<Rightarrow> op_context \<Rightarrow> ('w, 'r, 'm, 'a) op_io) \<Rightarrow> selector \<Rightarrow> 'r
     \<Rightarrow> ('w, 'r, 'm, 'a operation_result) op_io" where
  "start_operation P act sel r = start_long P act sel r None"

definition answer_challenge ::
    "'w ports \<Rightarrow> string \<Rightarrow> string option \<Rightarrow> op_context
     \<Rightarrow> ('w, 'r, 'm, authentication_status operation_result) op_io" where
  "answer_challenge P i mfa_code cx =
     execution_scope P (Some (cx_correlation_id cx)) (Some i) (\<lambda>_. resume_refresh P i mfa_code)"

definition continue_operation ::
    "'w ports \<Rightarrow> ('r \<Rightarrow> op_context \<Rightarrow> ('w, 'r, 'm, 'a) op_io) \<Rightarrow> string \<Rightarrow> string option
     \<Rightarrow> 'r pending_action option \<Rightarrow> ('w, 'r, 'm, 'a operation_result) op_io" where
  "continue_operation P act i mfa_code found =
     (case found of None \<Rightarrow> ret (not_resumable_failure i)
      | Some p \<Rightarrow>
          bind (clock_now P) (\<lambda>now.
          if pa_expires_at p \<le> now
          then seq (cancel_refresh P i) (ret (failed_with i
                 (mk_error MfaValidationError ''mfa.challenge.expired'' ''MFA challenge expired'')))
          else bind (answer_challenge P i mfa_code (pa_context p)) (\<lambda>refreshed.
            if or_state refreshed \<noteq> OpSucceeded
            then ret ((result_of i (or_state refreshed))
                   \<lparr>or_error := or_error refreshed, or_challenge := or_challenge refreshed\<rparr>)
            else invoke P act (pa_request p) (pa_context p))))"

definition resume_operation ::
    "'w ports \<Rightarrow> ('r \<Rightarrow> op_context \<Rightarrow> ('w, 'r, 'm, 'a) op_io) \<Rightarrow> string \<Rightarrow> string option
     \<Rightarrow> ('w, 'r, 'm, 'a operation_result) op_io" where
  "resume_operation P act i mfa_code =
     seq (sweep_actions P (Some i)) (bind (take_action i) (continue_operation P act i mfa_code))"

definition cancel_operation :: "'w ports \<Rightarrow> string \<Rightarrow> ('w, 'r, 'm, unit) op_io" where
  "cancel_operation P i = seq (drop_action i) (cancel_refresh P i)"

subsection \<open>Both dictionaries run through their critical sections\<close>

lemma inner_ow_pending [simp]: "inner ow_pending"
  by (simp add: inner_def)

lemma frames_ow_pending: "frames world_more m \<Longrightarrow> frames ow_pending m"
proof -
  have "ow_pending s = ow_pending t" if "world_more s = world_more t"
    for s t :: "('w, 'r, 'm) op_world_scheme"
    using that by (cases s, cases t) simp
  then show "frames world_more m \<Longrightarrow> frames ow_pending m" unfolding frames_def by blast
qed

abbreviation auth_more :: "('w, 'm) auth_world_scheme \<Rightarrow> 'm" where
  "auth_more \<equiv> auth_world.more"

lemma inner_auth_more [simp]: "inner auth_more"
  by (simp add: inner_def)

lemma frames_auth_more: "frames world_more m \<Longrightarrow> frames auth_more m"
proof -
  have "auth_more s = auth_more t" if "world_more s = world_more t" for s t :: "('w, 'm) auth_world_scheme"
    using that by (cases s, cases t) simp
  then show "frames world_more m \<Longrightarrow> frames auth_more m" unfolding frames_def by blast
qed

lemma auth_more_simple [simp]:
  "outside_only m \<Longrightarrow> frames auth_more m"
  "frames auth_more (modify (aw_pending_update f))"
  by (simp_all add: frames_auth_more more_outside frames_modify)

lemma auth_more_sweep [simp]: "frames auth_more (sweep_refreshes P)"
  unfolding sweep_refreshes_def by (intro frames_bind) auto

lemma auth_more_admit [simp]: "frames auth_more (admit_refresh k r)"
  unfolding admit_refresh_def by (intro frames_bind) auto

lemma auth_more_claim [simp]: "frames auth_more (claim_refresh k)"
  unfolding claim_refresh_def by (intro frames_bind) (auto intro!: frames_bind split: option.split)

lemma auth_more_take [simp]: "frames auth_more (take_refresh k)"
  unfolding take_refresh_def by (intro frames_bind) auto

lemma auth_more_start_refresh [simp]: "frames auth_more (start_refresh P sel discard)"
  unfolding start_refresh_def Let_def
  by (intro frames_bind)
    (auto intro!: frames_bind frames_auth_more [OF frames_execution_scope] simp: frames_auth_more
      split: option.split prod.split)

lemma auth_more_resume_refresh [simp]: "frames auth_more (resume_refresh P i mfa)"
  unfolding resume_refresh_def by (intro frames_bind) (auto simp: frames_auth_more)

lemma auth_more_cancel_refresh [simp]: "frames auth_more (cancel_refresh P i)"
  unfolding cancel_refresh_def by (intro frames_bind) (auto split: option.split)

lemma frames_ow_auth: "frames auth_more m \<Longrightarrow> frames ow_pending m"
proof -
  have "ow_pending s = ow_pending t" if "auth_more s = auth_more t"
    for s t :: "('w, 'r, 'm) op_world_scheme"
    using that by (cases s, cases t) simp
  then show "frames auth_more m \<Longrightarrow> frames ow_pending m" unfolding frames_def by blast
qed

lemma ow_frames [simp]:
  "frames ow_pending (start_refresh P sel discard)" "frames ow_pending (resume_refresh P i mfa)"
  "frames ow_pending (cancel_refresh P i)"
  by (simp_all add: frames_ow_auth)

lemma ow_outside [simp]: "outside_only m \<Longrightarrow> frames ow_pending m"
  by (simp add: frames_ow_auth)

lemma runs_ow_simple [simp]:
  "outside_only m \<Longrightarrow> runs_reg ow_pending pa_expires_at m"
  "runs_reg ow_pending pa_expires_at (cancel_refresh P i)"
  by (simp_all add: runs_frames)

lemma runs_drop_action: "runs_reg ow_pending pa_expires_at (drop_action k)"
  unfolding drop_action_def by (intro runs_modify) (auto intro: runs_take)

lemma runs_admit_action: "runs_reg ow_pending pa_expires_at (admit_action k p)"
proof -
  have "\<exists>e. reg_step pa_expires_at d e (reg_admit k p d)" for d
    by (cases "reg_full d") (auto intro: reg_step.admit reg_step.refuse)
  then show ?thesis unfolding admit_action_def by (intro runs_bind runs_modify) auto
qed

lemma runs_take_action: "runs_reg ow_pending pa_expires_at (take_action k)"
  unfolding take_action_def by (intro runs_bind runs_drop_action) auto

lemma runs_sweep_actions: "runs_reg ow_pending pa_expires_at (sweep_actions P exclude)"
  unfolding sweep_actions_def
  by (intro runs_bind runs_for_each runs_drop_action) (auto simp: runs_frames)

lemma runs_invoke:
  assumes "\<And>r cx. runs_reg ow_pending pa_expires_at (act r cx)"
  shows "runs_reg ow_pending pa_expires_at (invoke P act r cx)"
  unfolding invoke_def by (intro runs_execute_operation) (simp_all add: assms)

lemma runs_scope: "(\<And>who. frames ow_pending (m who)) \<Longrightarrow>
    runs_reg ow_pending pa_expires_at (execution_scope P c i m)"
  by (intro runs_frames frames_execution_scope) simp_all

lemma runs_start_long:
  assumes "\<And>r cx. runs_reg ow_pending pa_expires_at (act r cx)"
  shows "runs_reg ow_pending pa_expires_at (start_long P act sel r context)"
  unfolding start_long_def Let_def
  by (intro runs_bind runs_sweep_actions runs_invoke [OF assms])
    (auto intro!: runs_bind runs_invoke [OF assms] runs_admit_action runs_scope
      split: option.split)

lemma ow_answer_challenge [simp]: "frames ow_pending (answer_challenge P i mfa cx)"
  unfolding answer_challenge_def by (intro frames_execution_scope) simp_all

lemma runs_continue_operation:
  assumes "\<And>r cx. runs_reg ow_pending pa_expires_at (act r cx)"
  shows "runs_reg ow_pending pa_expires_at (continue_operation P act i mfa found)"
  unfolding continue_operation_def
  by (auto intro!: runs_bind runs_invoke [OF assms] simp: runs_frames [OF ow_answer_challenge]
      split: option.split)

lemma runs_resume_operation:
  assumes "\<And>r cx. runs_reg ow_pending pa_expires_at (act r cx)"
  shows "runs_reg ow_pending pa_expires_at (resume_operation P act i mfa)"
  unfolding resume_operation_def
  by (intro runs_bind runs_sweep_actions runs_take_action runs_continue_operation assms)

lemma runs_cancel_operation: "runs_reg ow_pending pa_expires_at (cancel_operation P i)"
  unfolding cancel_operation_def by (intro runs_bind runs_drop_action) (auto intro: runs_frames)

datatype 'r operation_call =
    StartOp selector 'r "op_context option" | ResumeOp string "string option" | CancelOp string

fun run_operation_call ::
    "'w ports \<Rightarrow> ('r \<Rightarrow> op_context \<Rightarrow> ('w, 'r, 'm, 'a) op_io) \<Rightarrow> 'r operation_call
     \<Rightarrow> ('w, 'r, 'm) op_world_scheme \<Rightarrow> ('w, 'r, 'm) op_world_scheme" where
  "run_operation_call P act (StartOp sel r cx) s = snd (start_long P act sel r cx s)"
| "run_operation_call P act (ResumeOp i mfa) s = snd (resume_operation P act i mfa s)"
| "run_operation_call P act (CancelOp i) s = snd (cancel_operation P i s)"

lemma operation_coordinator:
  assumes "\<And>r cx. runs_reg ow_pending pa_expires_at (act r cx)"
  shows "pending_coordinator ow_pending pa_expires_at (run_operation_call P act)"
proof
  show "\<exists>es. reg_run pa_expires_at (ow_pending s) es (ow_pending (run_operation_call P act c s))" for s c
    by (cases c) (simp_all add: runs_start_long [OF assms, unfolded runs_reg_def, rule_format]
        runs_resume_operation [OF assms, unfolded runs_reg_def, rule_format]
        runs_cancel_operation [unfolded runs_reg_def, rule_format])
qed

end
