(* ===== verification/Store_Properties.thy ===== *)
theory Store_Properties
  imports Store_Contract
begin

text \<open>
  The properties of the store.  Each follows from the lemmas of the tables and from the
  interpretations of the store's interfaces.
\<close>

subsection \<open>Sample objects\<close>

definition sample_profile :: "string \<Rightarrow> aws_profile" where
  "sample_profile name = \<lparr>ap_id = None, ap_name = name, ap_region = ''eu-west-1'',
     ap_account_id = ''123456789012'', ap_user_id = ''ann'',
     ap_mfa_arn = ''arn:aws:iam::123456789012:mfa/ann'', ap_encrypted_access_key = ''A'',
     ap_encrypted_secret_key = ''K'', ap_mfa_enabled = True, ap_session_duration_hours = 12,
     ap_is_default = False, ap_created_at = None, ap_updated_at = None\<rparr>"

definition sample_tunnel :: "int \<Rightarrow> string \<Rightarrow> tunnel_session" where
  "sample_tunnel p name = \<lparr>ts_id = None, ts_profile_id = p, ts_name = name,
     ts_host = ''db.example.com'', ts_remote_port = 5432, ts_local_port = 15432,
     ts_target_mode = Fixed, ts_target_instance_id = Some ''i-0123456789abcdef0'',
     ts_created_at = None, ts_updated_at = None, ts_last_used_at = None,
     ts_session_duration_hours = 12\<rparr>"

definition sample_secret :: "int \<Rightarrow> string \<Rightarrow> instant option \<Rightarrow> saved_secret" where
  "sample_secret p v at = \<lparr>ss_id = None, ss_profile_id = p, ss_identifier = ''prod/db'',
     ss_value = v, ss_lookup_mode = Direct, ss_relay_instance_id = None,
     ss_last_retrieved_at = at\<rparr>"

lemma sample_profiles_ok: "profile_ok (sample_profile ''a'')" "profile_ok (sample_profile ''b'')"
  by code_simp+

lemma sample_tunnel_ok: "tunnel_ok (sample_tunnel 1 ''rds'')"
  by code_simp

definition sample_calls :: "store_call list" where
  "sample_calls = [CreateProfile 1 (sample_profile ''b''), CreateProfile 2 (sample_profile ''a''),
     CreateTunnel 3 (sample_tunnel 1 ''rds''), CreateTunnel 3 (sample_tunnel 2 ''rds''),
     UpsertSecret (sample_secret 2 ''one'' (Some 5)), DeleteProfile 1, SetDefaultProfile 9 2]"

lemma sample_secret_ok: "secret_ok (sample_secret 2 ''one'' (Some 5))"
  by code_simp

lemma sample_calls_ok: "list_all call_ok sample_calls"
  using sample_profiles_ok sample_secret_ok
  by (simp add: sample_calls_def) code_simp

definition two_profiles :: database where
  "two_profiles = run_calls (take 4 sample_calls) empty_database"

lemma run_calls_ok: "list_all call_ok calls \<Longrightarrow> db_ok db \<Longrightarrow> db_ok (run_calls calls db)"
  unfolding run_calls_def by (induction calls arbitrary: db) (auto intro: run_call_ok)

lemma two_profiles_ok: "db_ok two_profiles"
proof -
  have "list_all call_ok (take 4 sample_calls)"
    using sample_calls_ok by (auto simp: list_all_iff dest: in_set_takeD)
  then show ?thesis unfolding two_profiles_def by (rule run_calls_ok [OF _ db_ok_empty])
qed

subsection \<open>The default profile after a deletion\<close>

lemma the_default:
  assumes "profile_table_ok t" "tb_rows t \<noteq> []"
  obtains j r where "tb_get t j = Some r" "ap_is_default r"
    "\<And>k q. tb_get t k = Some q \<Longrightarrow> ap_is_default q \<Longrightarrow> k = j"
proof -
  have one: "one_default (tb_rows t)" and ok: "tb_ok ap_name t"
    using assms(1) by (auto simp: profile_table_ok_def)
  obtain j r where jr: "(j, r) \<in> set (tb_rows t)" "ap_is_default r"
    using one_default_exists [OF one assms(2)] by blast
  show thesis
  proof (rule that [of j r])
    show "tb_get t j = Some r" using tb_ok_get_iff [OF ok] jr by blast
    show "ap_is_default r" by (rule jr(2))
    show "k = j" if "tb_get t k = Some q" "ap_is_default q" for k q
      using one_default_unique [OF one jr tb_get_SomeD [OF that(1)] that(2)] by simp
  qed
qed

lemma set_flag_get: "tb_get (set_flag j b t) k = map_option (\<lambda>r. if k = j then r\<lparr>ap_is_default := b\<rparr> else r) (tb_get t k)"
  unfolding set_flag_def by (rule tb_get_map_rows)

lemma removed_default_replacement:
  assumes "profile_table_ok t" "tb_get t i = Some r" "ap_is_default r"
    "tb_get (remove_profile i t) j = Some q" "ap_is_default q"
    "tb_get (remove_profile i t) k = Some p"
  shows "ap_name q \<le> ap_name p"
proof -
  have ok: "tb_ok ap_name t" "one_default (tb_rows t)"
    using assms(1) by (auto simp: profile_table_ok_def)
  let ?rest = "tb_delete (\<lambda>j r. j = i) t"
  have rest: "tb_ok ap_name ?rest" using ok(1) by simp
  have none: "\<not> ap_is_default w" if "(l, w) \<in> set (tb_rows ?rest)" for l w
    using that one_default_unique [OF ok(2) tb_get_SomeD [OF assms(2)] assms(3), of l w]
    unfolding tb_delete_id_rows by blast
  show ?thesis
  proof (rule remove_profile_cases [OF assms(2)])
    assume "\<not> ap_is_default r" with assms(3) show ?thesis by simp
  next
    assume "tb_rows ?rest = []" "remove_profile i t = ?rest"
    with assms(4) show ?thesis by simp
  next
    fix m w
    assume mw: "(m, w) \<in> set (tb_rows ?rest)"
      and least: "\<forall>(k, p) \<in> set (tb_rows ?rest). ap_name w \<le> ap_name p"
      and eq: "remove_profile i t = set_flag m True ?rest"
    obtain q0 where q0: "tb_get ?rest j = Some q0"
        "q = (if j = m then q0\<lparr>ap_is_default := True\<rparr> else q0)"
      using assms(4) unfolding eq set_flag_get by blast
    have "j = m"
    proof (rule ccontr)
      assume "j \<noteq> m"
      with q0(2) assms(5) none [OF tb_get_SomeD [OF q0(1)]] show False by simp
    qed
    moreover have "tb_get ?rest m = Some w" using mw tb_ok_get_iff [OF rest] by blast
    ultimately have "ap_name q = ap_name w" using q0 by simp
    moreover obtain p0 where p0: "tb_get ?rest k = Some p0"
        "p = (if k = m then p0\<lparr>ap_is_default := True\<rparr> else p0)"
      using assms(6) unfolding eq set_flag_get by blast
    then have "ap_name p = ap_name p0" by simp
    moreover have "ap_name w \<le> ap_name p0" using least tb_get_SomeD [OF p0(1)] by blast
    ultimately show ?thesis by simp
  qed
qed

lemma removed_other_keeps_default:
  assumes "tb_ok ap_name t" "tb_get t i = Some r" "\<not> ap_is_default r"
  shows "tb_get (remove_profile i t) = (tb_get t)(i := None)"
  using assms by (auto simp: remove_profile_def)

text \<open>
  C1: deleting a profile removes exactly that profile and everything it owns, and leaves exactly
  one default profile as long as any is left: the old default if another profile was deleted,
  otherwise the profile with the smallest name.
\<close>

theorem delete_profile_replaces_default:
  assumes "db_ok db" "delete_profile i db = (Inr u, db')"
  shows "db_ok db' \<and>
    (\<forall>j. tb_get (db_profiles db') j = None \<longleftrightarrow> j = i \<or> tb_get (db_profiles db) j = None) \<and>
    tb_rows (db_tunnels db') = filter (\<lambda>(j, t). ts_profile_id t \<noteq> i) (tb_rows (db_tunnels db)) \<and>
    tb_rows (db_locations db') = filter (\<lambda>(j, l). sl_profile_id l \<noteq> i) (tb_rows (db_locations db)) \<and>
    tb_rows (db_secrets db') = filter (\<lambda>(j, s). ss_profile_id s \<noteq> i) (tb_rows (db_secrets db)) \<and>
    tb_rows (db_drives db') = filter (\<lambda>(j, d). sd_profile_id d \<noteq> i) (tb_rows (db_drives db)) \<and>
    dict_get (db_sessions db') = (dict_get (db_sessions db))(i := None) \<and>
    (tb_rows (db_profiles db') = [] \<or>
      (\<exists>j r. tb_get (db_profiles db') j = Some r \<and> ap_is_default r \<and>
        (\<forall>k q. tb_get (db_profiles db') k = Some q \<and> ap_is_default q \<longrightarrow> k = j) \<and>
        (if fst (get_default_profile db) = fst (get_profile i db)
         then \<forall>k q. tb_get (db_profiles db') k = Some q \<longrightarrow> ap_name r \<le> ap_name q
         else tb_get (db_profiles db) j = Some r)))"
proof -
  obtain r where r: "tb_get (db_profiles db) i = Some r"
    "db' = cascade i (db\<lparr>db_profiles := remove_profile i (db_profiles db)\<rparr>)"
    using assms(2) by (rule delete_profile_Inr)
  have t: "profile_table_ok (db_profiles db)" using assms(1) by (simp add: db_ok_def profiles_ok_table)
  then have ok: "tb_ok ap_name (db_profiles db)" "one_default (tb_rows (db_profiles db))"
    by (auto simp: profile_table_ok_def)
  have profiles': "db_profiles db' = remove_profile i (db_profiles db)" by (simp add: r(2))
  have default: "fst (get_default_profile db) = fst (get_profile i db) \<longleftrightarrow> ap_is_default r"
  proof -
    have "tb_rows (db_profiles db) \<noteq> []" using r(1) by auto
    obtain j q where jq: "(j, q) \<in> set (tb_rows (db_profiles db))" "ap_is_default q"
      using one_default_exists [OF ok(2) \<open>tb_rows (db_profiles db) \<noteq> []\<close>] by blast
    obtain p where p: "tb_find ap_is_default (db_profiles db) = Some p"
      using tb_find_NoneD [OF _ jq(1)] jq(2) by (cases "tb_find ap_is_default (db_profiles db)") auto
    obtain k w where kw: "p = (k, w)" by (cases p)
    have d: "(k, w) \<in> set (tb_rows (db_profiles db))" "ap_is_default w"
      using tb_find_SomeD [OF p [unfolded kw]] by auto
    have "fst (get_default_profile db) = Inr (Some (w\<lparr>ap_id := Some k\<rparr>))"
      by (simp add: get_default_profile_eq [OF assms(1)] p kw)
    moreover have "fst (get_profile i db) = Inr (Some (r\<lparr>ap_id := Some i\<rparr>))"
      by (simp add: get_profile_present [OF assms(1) r(1)])
    moreover have "w\<lparr>ap_id := Some k\<rparr> = r\<lparr>ap_id := Some i\<rparr> \<longleftrightarrow> ap_is_default r"
    proof
      assume "w\<lparr>ap_id := Some k\<rparr> = r\<lparr>ap_id := Some i\<rparr>"
      then have "ap_is_default (w\<lparr>ap_id := Some k\<rparr>) = ap_is_default (r\<lparr>ap_id := Some i\<rparr>)" by simp
      with d(2) show "ap_is_default r" by simp
    next
      assume "ap_is_default r"
      with one_default_unique [OF ok(2) d tb_get_SomeD [OF r(1)]]
      show "w\<lparr>ap_id := Some k\<rparr> = r\<lparr>ap_id := Some i\<rparr>" by simp
    qed
    ultimately show ?thesis by simp
  qed
  have last: "tb_rows (db_profiles db') = [] \<or>
      (\<exists>j r'. tb_get (db_profiles db') j = Some r' \<and> ap_is_default r' \<and>
        (\<forall>k q. tb_get (db_profiles db') k = Some q \<and> ap_is_default q \<longrightarrow> k = j) \<and>
        (if ap_is_default r
         then \<forall>k q. tb_get (db_profiles db') k = Some q \<longrightarrow> ap_name r' \<le> ap_name q
         else tb_get (db_profiles db) j = Some r'))"
  proof (cases "tb_rows (db_profiles db') = []")
    case False
    then obtain j r' where j: "tb_get (db_profiles db') j = Some r'" "ap_is_default r'"
      "\<And>k q. tb_get (db_profiles db') k = Some q \<Longrightarrow> ap_is_default q \<Longrightarrow> k = j"
      using the_default [OF remove_profile_ok [OF t r(1)]] unfolding profiles' by metis
    have "if ap_is_default r then \<forall>k q. tb_get (db_profiles db') k = Some q \<longrightarrow> ap_name r' \<le> ap_name q
        else tb_get (db_profiles db) j = Some r'"
      using removed_default_replacement [OF t r(1)] removed_other_keeps_default [OF ok(1) r(1)] j(1,2)
      unfolding profiles' by (auto split: if_splits)
    with j show ?thesis by blast
  qed simp
  note p = delete_profile_presence [OF assms(2,1)]
  have rest: "dict_get (db_sessions db') = (dict_get (db_sessions db))(i := None)"
    by (simp add: r(2) cascade_def fun_eq_iff)
  show ?thesis
    unfolding default
    by (intro conjI p(2) allI p(4) last rest) (simp_all add: r(2) cascade_def tb_delete_rows)
qed

lemma two_profiles_delete: "isl (fst (delete_profile 1 two_profiles)) = False"
  by code_simp

theorem delete_profile_replaces_default_witness:
  "\<exists>db'. delete_profile 1 two_profiles = (Inr (), db') \<and> db_ok db' \<and>
     tb_rows (db_tunnels db') = filter (\<lambda>(j, t). ts_profile_id t \<noteq> 1) (tb_rows (db_tunnels two_profiles))"
proof -
  obtain db' where run: "delete_profile 1 two_profiles = (Inr (), db')"
    using two_profiles_delete by (cases "delete_profile 1 two_profiles"; cases "fst (delete_profile 1 two_profiles)") auto
  from delete_profile_replaces_default [OF two_profiles_ok run] run show ?thesis by blast
qed

text \<open>
  C2: whatever calls are made on the store, in any order and whether they fail or not, the
  database stays well formed: every row is readable, every reference points to a profile,
  names are unique, and exactly one profile is the default while there is any.
\<close>

theorem store_calls_keep_database:
  assumes "list_all call_ok calls"
  shows "db_ok (run_calls calls empty_database)"
  by (rule run_calls_ok [OF assms db_ok_empty])

theorem store_calls_keep_database_witness: "db_ok (run_calls sample_calls empty_database)"
  by (rule store_calls_keep_database [OF sample_calls_ok])



lemma run_Inr: "\<not> isl (fst x) \<Longrightarrow> \<exists>v s. x = (Inr v, s)"
  by (cases x; cases "fst x") auto

text \<open>
  C4: a saved Secret is upserted in place: the row keeps its id, takes the new value, mode and
  relay, and keeps the last retrieval time when the new snapshot has none; all other Secrets
  are unchanged, and a name the profile does not have yet gets a new row.
\<close>

theorem upsert_secret_keeps_row:
  assumes "db_ok db" "secret_ok s" "upsert_saved_secret s db = (Inr q, db')"
  shows "db_ok db' \<and> (\<exists>i r. ss_id q = Some i \<and> q = r\<lparr>ss_id := Some i\<rparr> \<and>
    secret_key r = secret_key s \<and> ss_value r = ss_value s \<and> ss_lookup_mode r = ss_lookup_mode s \<and>
    ss_relay_instance_id r = ss_relay_instance_id s \<and>
    tb_get (db_secrets db') = (tb_get (db_secrets db))(i \<mapsto> r) \<and>
    (case tb_get (db_secrets db) i of
       None \<Rightarrow> secret_key s \<notin> set (tb_keys secret_key (db_secrets db))
     | Some old \<Rightarrow> secret_key old = secret_key s \<and>
         ss_last_retrieved_at r = (if ss_last_retrieved_at s = None
           then ss_last_retrieved_at old else ss_last_retrieved_at s)))"
proof -
  note up = upsert_saved_secret_Inr [OF assms(3,1,2)]
  obtain i r where ir: "ss_id q = Some i" "q = r\<lparr>ss_id := Some i\<rparr>"
    "tb_get (db_secrets db') = (tb_get (db_secrets db))(i \<mapsto> r)"
    and old: "case tb_get (db_secrets db) i of
          None \<Rightarrow> secret_key s \<notin> set (tb_keys secret_key (db_secrets db)) \<and> r = s\<lparr>ss_id := None\<rparr>
        | Some old \<Rightarrow> secret_key old = secret_key s \<and> r = merged_secret s old"
    using up(3) by blast
  have "secret_key r = secret_key s \<and> ss_value r = ss_value s \<and> ss_lookup_mode r = ss_lookup_mode s \<and>
      ss_relay_instance_id r = ss_relay_instance_id s"
    using old by (auto simp: merged_secret_def split: option.splits)
  moreover have "case tb_get (db_secrets db) i of
       None \<Rightarrow> secret_key s \<notin> set (tb_keys secret_key (db_secrets db))
     | Some old \<Rightarrow> secret_key old = secret_key s \<and>
         ss_last_retrieved_at r = (if ss_last_retrieved_at s = None
           then ss_last_retrieved_at old else ss_last_retrieved_at s)"
    using old by (auto simp: merged_secret_def split: option.splits)
  ultimately show ?thesis using up(1) ir by blast
qed

lemma second_secret_ok: "secret_ok (sample_secret 2 ''two'' None)"
  by code_simp

theorem upsert_secret_keeps_row_witness:
  "\<exists>q db'. upsert_saved_secret (sample_secret 2 ''two'' None) (run_calls (take 5 sample_calls) empty_database)
     = (Inr q, db') \<and> ss_value q = ''two'' \<and> ss_last_retrieved_at q = Some 5"
proof -
  let ?db = "run_calls (take 5 sample_calls) empty_database"
  have calls: "list_all call_ok (take 5 sample_calls)"
    using sample_calls_ok by (auto simp: list_all_iff dest: in_set_takeD)
  have "\<not> isl (fst (upsert_saved_secret (sample_secret 2 ''two'' None) ?db))" by code_simp
  then obtain q db' where run: "upsert_saved_secret (sample_secret 2 ''two'' None) ?db = (Inr q, db')"
    using run_Inr by blast
  have "map_option ss_last_retrieved_at (tb_get (db_secrets ?db) 1) = Some (Some 5)" by code_simp
  moreover have "ss_id (projr (fst (upsert_saved_secret (sample_secret 2 ''two'' None) ?db))) = Some 1"
    by code_simp
  ultimately show ?thesis
    using upsert_secret_keeps_row [OF run_calls_ok [OF calls db_ok_empty] second_secret_ok run] run
    by (intro exI [of _ q] exI [of _ db']) (auto simp: sample_secret_def split: option.splits)
qed

text \<open>
  Selecting a default profile makes that profile the default and no other, and changes
  nothing else.
\<close>

theorem set_default_selects_one:
  assumes "db_ok db" "set_default_profile now i db = (Inr q, db')"
  shows "db_ok db' \<and> ap_id q = Some i \<and> ap_is_default q \<and>
    fst (get_default_profile db') = Inr (Some q) \<and>
    (\<forall>j. tb_get (db_profiles db') j = map_option (\<lambda>r.
       if j = i then r\<lparr>ap_is_default := True, ap_updated_at := Some now\<rparr> else r\<lparr>ap_is_default := False\<rparr>)
       (tb_get (db_profiles db) j)) \<and>
    db' = db\<lparr>db_profiles := db_profiles db'\<rparr>"
proof -
  obtain r where r: "tb_get (db_profiles db) i = Some r"
    and rest: "reread ''profile.not_found'' (get_profile i)
      (db\<lparr>db_profiles := select_default now i (db_profiles db)\<rparr>) = (Inr q, db')"
    using assms(2) unfolding set_default_profile_def
    by (cases "tb_get (db_profiles db) i") (auto simp: bind_def transact_def split: if_splits)
  let ?db = "db\<lparr>db_profiles := select_default now i (db_profiles db)\<rparr>"
  let ?r = "r\<lparr>ap_is_default := True, ap_updated_at := Some now\<rparr>"
  have t: "profile_table_ok (db_profiles db)" using assms(1) by (simp add: db_ok_def profiles_ok_table)
  have ok: "db_ok ?db"
    using db_ok_put_profiles [OF assms(1) select_default_ok [OF t r]] ids_eq [OF select_default_ids]
    by (metis order_refl)
  have at: "tb_get (db_profiles ?db) i = Some ?r" by (simp add: select_default_get r)
  have db': "db' = ?db" and q: "q = ?r\<lparr>ap_id := Some i\<rparr>"
    using rest by (simp_all add: reread_def bind_def get_profile_present [OF ok at])
  have one: "one_default (tb_rows (db_profiles ?db))" using ok by (simp add: db_ok_def profiles_ok_def)
  have "tb_find ap_is_default (db_profiles ?db) = Some (i, ?r)"
  proof (cases "tb_find ap_is_default (db_profiles ?db)")
    case None
    from tb_find_NoneD [OF this tb_get_SomeD [OF at]] show ?thesis by simp
  next
    case (Some p)
    obtain k w where kw: "p = (k, w)" by (cases p)
    from tb_find_SomeD [OF Some [unfolded kw]] have "(k, w) \<in> set (tb_rows (db_profiles ?db))" "ap_is_default w"
      by auto
    from one_default_unique [OF one this tb_get_SomeD [OF at]] Some kw show ?thesis by simp
  qed
  then have "fst (get_default_profile ?db) = Inr (Some q)"
    by (simp add: get_default_profile_eq [OF ok] q)
  then show ?thesis using ok by (simp add: db' q select_default_get)
qed

theorem set_default_selects_one_witness:
  "\<exists>q db'. set_default_profile 9 2 two_profiles = (Inr q, db') \<and> ap_is_default q"
proof -
  have "\<not> isl (fst (set_default_profile 9 2 two_profiles))" by code_simp
  then obtain q db' where run: "set_default_profile 9 2 two_profiles = (Inr q, db')"
    using run_Inr by blast
  with set_default_selects_one [OF two_profiles_ok run] show ?thesis by blast
qed

text \<open>
  C6: a session that is stored is read back unchanged; one whose time stamps do not parse or
  carry no time zone is read as absent and deleted, and the read never raises for a profile in
  the database.
\<close>

lemma profile_id_range: "db_ok db \<Longrightarrow> i \<in> profile_ids db \<Longrightarrow> \<not> (i < - (2 ^ 63) \<or> max_rowid < i)"
  by (fastforce simp: db_ok_def profiles_ok_def tb_ok_def list_all_iff max_rowid_def)

theorem session_roundtrip:
  assumes "db_ok db" "sc_profile_id s \<in> profile_ids db"
  shows "fst (put_session s db) = Inr () \<and>
    get_session (sc_profile_id s) (snd (put_session s db)) = (Inr (Some s), snd (put_session s db)) \<and>
    (\<forall>r. read_session (sc_profile_id s) r = None \<longrightarrow>
      (let db' = db\<lparr>db_sessions := dict_set (sc_profile_id s) r (db_sessions db)\<rparr>
       in fst (get_session (sc_profile_id s) db') = Inr None \<and>
          dict_get (db_sessions (snd (get_session (sc_profile_id s) db'))) (sc_profile_id s) = None))"
  using profile_id_range [OF assms] assms(2)
  by (auto simp: put_session_def get_session_def bind_def transact_def read_session_def Let_def)

theorem session_roundtrip_witness:
  "get_session 1 (snd (put_session \<lparr>sc_profile_id = 1, sc_encrypted_access_key = ''a'',
     sc_encrypted_secret_key = ''k'', sc_encrypted_session_token = ''t'', sc_expires_at_utc = 9,
     sc_verified_at_utc = 2\<rparr> two_profiles)) \<noteq> (Inr None, two_profiles)"
proof -
  have "1 \<in> set (map fst (tb_rows (db_profiles two_profiles)))" by code_simp
  then have one: "1 \<in> profile_ids two_profiles" by simp
  let ?s = "\<lparr>sc_profile_id = 1, sc_encrypted_access_key = ''a'',
     sc_encrypted_secret_key = ''k'', sc_encrypted_session_token = ''t'', sc_expires_at_utc = 9,
     sc_verified_at_utc = 2\<rparr> :: session_credentials"
  show ?thesis using session_roundtrip [OF two_profiles_ok, of ?s] one by simp
qed

text \<open>
  C7: a tunnel session that is created and deleted again leaves every lookup as it was, and two
  created sessions never share an id.
\<close>

theorem tunnel_create_delete:
  assumes "db_ok db" "tunnel_ok s" "create_tunnel now s db = (Inr q, db1)" "ts_id q = Some i"
    "delete_tunnel i db1 = (Inr u, db2)"
  shows "fst (get_tunnel i db1) = Inr (Some q) \<and> fst (get_tunnel j db2) = fst (get_tunnel j db) \<and>
    (tunnel_ok w \<longrightarrow> create_tunnel later w db1 = (Inr p, db3) \<longrightarrow> ts_id p \<noteq> ts_id q)"
proof (intro conjI impI)
  show "fst (get_tunnel i db1) = Inr (Some q)"
    using tunnel_store.created_is_found [OF assms(1-3)] assms(4) by auto
  show "fst (get_tunnel j db2) = fst (get_tunnel j db)"
    by (rule tunnel_store.create_then_remove_restores [OF assms])
  assume w: "tunnel_ok w" "create_tunnel later w db1 = (Inr p, db3)"
  obtain k where k: "ts_id q = Some k" "fst (get_tunnel k db1) = Inr (Some q)" "db_ok db1"
    using tunnel_store.create_Inr [OF assms(1-3)] by blast
  obtain l where "ts_id p = Some l" "fst (get_tunnel l db1) = Inr None"
    using tunnel_store.create_Inr [OF k(3) w] by blast
  with k show "ts_id p \<noteq> ts_id q" by auto
qed

lemma second_tunnel_ok: "tunnel_ok (sample_tunnel 1 ''other'')"
  by code_simp

theorem tunnel_create_delete_witness:
  "fst (get_tunnel 1 (snd (delete_tunnel 3 (snd (create_tunnel 5 (sample_tunnel 1 ''other'') two_profiles)))))
     = fst (get_tunnel 1 two_profiles)"
proof -
  let ?c = "create_tunnel 5 (sample_tunnel 1 ''other'') two_profiles"
  have "\<not> isl (fst ?c)" "ts_id (projr (fst ?c)) = Some 3" "\<not> isl (fst (delete_tunnel 3 (snd ?c)))"
    by code_simp+
  then obtain q db1 u db2 where "?c = (Inr q, db1)" "ts_id q = Some 3" "delete_tunnel 3 db1 = (Inr u, db2)"
    by (cases ?c; cases "fst ?c"; cases "delete_tunnel 3 (snd ?c)"; cases "fst (delete_tunnel 3 (snd ?c))") auto
  with tunnel_create_delete [OF two_profiles_ok second_tunnel_ok this, where j = 1] show ?thesis by simp
qed

end
