(* ===== verification/Auth_Properties.thy ===== *)
theory Auth_Properties
  imports Authenticated_Operation Store_Properties
begin

text \<open>
  The properties of operations, sessions and the coordinators.
\<close>

subsection \<open>A sample outside\<close>

text \<open>
  The outside of the witnesses: a clock that shows the number of ticks, identifiers that count,
  a protection that keeps the text, and a gateway that knows one user.
\<close>

record toy =
  ty_now :: int
  ty_ids :: nat
  ty_calls :: "string list"

definition toy_ports :: "toy ports" where
  "toy_ports = \<lparr>
     pt_now = (\<lambda>w. (ty_now w, w)),
     pt_uuid = (\<lambda>w. (''op'' @ digits_of (ty_ids w), w\<lparr>ty_ids := ty_ids w + 1\<rparr>)),
     pt_protect = (\<lambda>s w. (Inr (CHR ''#'' # s), w)),
     pt_unprotect = (\<lambda>b w. (Inr (tl b), w)),
     pt_get_identity = (\<lambda>c r w. (Inr \<lparr>id_account_id = ''123456789012'', id_user_id = ''ann'', id_arn = ''arn''\<rparr>,
        w\<lparr>ty_calls := ty_calls w @ [''get_identity'']\<rparr>)),
     pt_get_session_token = (\<lambda>c r a m d w. (Inr \<lparr>iss_credentials = \<lparr>
          pc_access_key = ''ASIA0123456789ABCDEF'', pc_secret_key = ''0123456789abcdef'',
          pc_session_token = Some ''tok''\<rparr>, iss_expires_at_utc = ty_now w + hours 12\<rparr>,
        w\<lparr>ty_calls := ty_calls w @ [''get_session_token'']\<rparr>)),
     pt_shared_credentials = None,
     pt_recorder = None,
     pt_cancelled = (\<lambda>t w. (False, w)),
     pt_progress = (\<lambda>e w. (Inr (), w))\<rparr>"

definition toy_profile :: aws_profile where
  "toy_profile = (sample_profile ''a'')\<lparr>ap_encrypted_access_key := ''#AKIA0123456789ABCDEF'',
     ap_encrypted_secret_key := ''#0123456789abcdef''\<rparr>"

definition toy_db :: database where
  "toy_db = run_calls [CreateProfile 1 toy_profile] empty_database"

definition toy_session :: session_credentials where
  "toy_session = \<lparr>sc_profile_id = 1, sc_encrypted_access_key = ''#ASIA0123456789ABCDEF'',
     sc_encrypted_secret_key = ''#0123456789abcdef'', sc_encrypted_session_token = ''#tok'',
     sc_expires_at_utc = hours 12, sc_verified_at_utc = 0\<rparr>"

definition toy_world :: "toy world" where
  "toy_world = \<lparr>w_db = snd (put_session toy_session toy_db), w_exec = None,
     w_out = \<lparr>ty_now = hours 1, ty_ids = 0, ty_calls = []\<rparr>\<rparr>"

lemma toy_profile_ok: "profile_ok toy_profile"
  by code_simp

lemma toy_world_ok: "db_ok (w_db toy_world)"
proof -
  have "db_ok toy_db"
    unfolding toy_db_def by (rule run_calls_ok [OF _ db_ok_empty]) (simp add: toy_profile_ok)
  then show ?thesis
    using keeps_put_session [of toy_session] by (simp add: toy_world_def keeps_def)
qed

subsection \<open>The session guard\<close>

lemma verified_credentials_Inr:
  assumes "verified_credentials P p sess s = (Inr c, t)"
  obtains a k tok who w1 w2 w3 w4 where
    "pt_unprotect P (sc_encrypted_access_key sess) (w_out s) = (Inr a, w1)"
    "pt_unprotect P (sc_encrypted_secret_key sess) w1 = (Inr k, w2)"
    "pt_unprotect P (sc_encrypted_session_token sess) w2 = (Inr tok, w3)"
    "c = \<lparr>pc_access_key = a, pc_secret_key = k, pc_session_token = Some tok\<rparr>"
    "plain_credentials_init a k (Some tok) = Inr c"
    "pt_get_identity P c (ap_region p) w3 = (Inr who, w4)"
    "id_account_id who = ap_account_id p" "id_user_id who = ap_user_id p" "t = s\<lparr>w_out := w4\<rparr>"
proof -
  let ?check = "\<lambda>c who. seq (assert_identity (ap_account_id p) (ap_user_id p) (id_account_id who)
      (id_user_id who)) (ret c)"
  obtain a s1 where 1: "unprotect P (sc_encrypted_access_key sess) s = (Inr a, s1)"
    and r1: "bind (unprotect P (sc_encrypted_secret_key sess)) (\<lambda>k.
      bind (unprotect P (sc_encrypted_session_token sess)) (\<lambda>tok.
      bind (of_app (plain_credentials_init a k (Some tok))) (\<lambda>c.
      bind (get_identity P c (ap_region p)) (?check c)))) s1 = (Inr c, t)"
    using assms unfolding verified_credentials_def by (rule bind_eq_InrE)
  obtain k s2 where 2: "unprotect P (sc_encrypted_secret_key sess) s1 = (Inr k, s2)"
    and r2: "bind (unprotect P (sc_encrypted_session_token sess)) (\<lambda>tok.
      bind (of_app (plain_credentials_init a k (Some tok))) (\<lambda>c.
      bind (get_identity P c (ap_region p)) (?check c))) s2 = (Inr c, t)"
    using r1 by (rule bind_eq_InrE)
  obtain tok s3 where 3: "unprotect P (sc_encrypted_session_token sess) s2 = (Inr tok, s3)"
    and r3: "bind (of_app (plain_credentials_init a k (Some tok))) (\<lambda>c.
      bind (get_identity P c (ap_region p)) (?check c)) s3 = (Inr c, t)"
    using r2 by (rule bind_eq_InrE)
  obtain c' where c': "plain_credentials_init a k (Some tok) = Inr c'"
    using r3 by (cases "plain_credentials_init a k (Some tok)") auto
  with r3 have "bind (get_identity P c' (ap_region p)) (?check c') s3 = (Inr c, t)" by simp
  then obtain who s4 where 4: "get_identity P c' (ap_region p) s3 = (Inr who, s4)"
    and r4: "?check c' who s4 = (Inr c, t)"
    by (rule bind_eq_InrE)
  have "c' = c" "id_account_id who = ap_account_id p" "id_user_id who = ap_user_id p" "t = s4"
    using r4 by (auto simp: assert_identity_def bind_def split: if_splits)
  with that 1 2 3 4 c' show thesis
    unfolding unprotect_def get_identity_def
    by (elim call_out_InrE) (auto simp: plain_credentials_init_Inr)
qed

definition confirmed ::
    "'w ports \<Rightarrow> 'w \<Rightarrow> session_credentials \<Rightarrow> aws_profile \<Rightarrow> plain_credentials \<Rightarrow> bool" where
  \<comment> \<open>\<open>c\<close> is what \<open>sess\<close> decrypts to from \<open>w\<close> on, and the identity provider names the profile's user\<close>
  "confirmed P w sess r c \<longleftrightarrow> (\<exists>a k tok w1 w2 w3 w4 who.
     pt_unprotect P (sc_encrypted_access_key sess) w = (Inr a, w1) \<and>
     pt_unprotect P (sc_encrypted_secret_key sess) w1 = (Inr k, w2) \<and>
     pt_unprotect P (sc_encrypted_session_token sess) w2 = (Inr tok, w3) \<and>
     c = \<lparr>pc_access_key = a, pc_secret_key = k, pc_session_token = Some tok\<rparr> \<and>
     pt_get_identity P c (ap_region r) w3 = (Inr who, w4) \<and>
     id_account_id who = ap_account_id r \<and> id_user_id who = ap_user_id r)"

lemma verified_confirmed:
  assumes "verified_credentials P p sess s = (Inr c, t)"
  shows "confirmed P (w_out s) sess p c \<and> (\<exists>w. t = s\<lparr>w_out := w\<rparr>)"
  by (rule verified_credentials_Inr [OF assms], unfold confirmed_def, intro conjI exI) assumption+

lemma confirmed_id [simp]: "confirmed P w sess (r\<lparr>ap_id := i\<rparr>) c = confirmed P w sess r c"
  by (simp add: confirmed_def)

lemma get_session_cases:
  assumes "\<not> (i < - (2 ^ 63) \<or> max_rowid < i)"
  shows "get_session i db = (case dict_get (db_sessions db) i of None \<Rightarrow> (Inr None, db)
    | Some r \<Rightarrow> (case read_session i r of Some x \<Rightarrow> (Inr (Some x), db)
       | None \<Rightarrow> (Inr None, db\<lparr>db_sessions := dict_pop i (db_sessions db)\<rparr>)))"
  using assms by (auto simp: get_session_def bind_def transact_def split: option.split)

lemma delete_session_run:
  assumes "\<not> (i < - (2 ^ 63) \<or> max_rowid < i)"
  shows "delete_session i db = (Inr (), db\<lparr>db_sessions := dict_pop i (db_sessions db)\<rparr>)"
  using assms by (auto simp: delete_session_def bind_def transact_def)

lemma resolve_then_id:
  assumes "bind (resolve_profile sel) (\<lambda>p. bind (of_app (require_profile_id p)) (f p)) s = (Inr x, t)"
    "db_ok (w_db s)"
  obtains i r where "tb_get (db_profiles (w_db s)) i = Some r" "selects sel (db_profiles (w_db s)) i r"
    "profile_ok r" "\<not> (i < - (2 ^ 63) \<or> max_rowid < i)" "f (r\<lparr>ap_id := Some i\<rparr>) i s = (Inr x, t)"
proof -
  obtain p s1 where p: "resolve_profile sel s = (Inr p, s1)"
    and rest: "bind (of_app (require_profile_id p)) (f p) s1 = (Inr x, t)"
    using assms(1) by (rule bind_eq_InrE)
  obtain i r where r: "s1 = s" "tb_get (db_profiles (w_db s)) i = Some r" "p = r\<lparr>ap_id := Some i\<rparr>"
      "selects sel (db_profiles (w_db s)) i r" "profile_ok r"
    by (rule resolve_profile_Inr [OF p assms(2)])
  have "(i, r) \<in> set (tb_rows (db_profiles (w_db s)))" using r(2) by (rule tb_get_SomeD)
  then have "i \<in> profile_ids (w_db s)" by force
  with profile_id_range [OF assms(2)] that r rest show thesis by (simp add: require_profile_id_def)
qed

text \<open>
  C8: credentials the session guard hands out come from a stored session of the selected profile
  that is not about to expire at the time of the call, they decrypt to exactly what is stored,
  and the identity provider has just confirmed for them the account and user of the profile.
  The database is not changed.
\<close>

theorem guard_credentials_sound:
  assumes "db_ok (w_db s)" "guard_credentials P sel s = (Inr (Some c), t)"
  shows "\<exists>i r row sess now w. tb_get (db_profiles (w_db s)) i = Some r \<and>
    selects sel (db_profiles (w_db s)) i r \<and>
    dict_get (db_sessions (w_db s)) i = Some row \<and> read_session i row = Some sess \<and>
    pt_now P (w_out s) = (now, w) \<and> \<not> needs_refresh sess now \<and> now < sc_expires_at_utc sess \<and>
    confirmed P w sess r c \<and> w_db t = w_db s"
proof -
  obtain i r where r: "tb_get (db_profiles (w_db s)) i = Some r" "selects sel (db_profiles (w_db s)) i r"
    and "profile_ok r" and range: "\<not> (i < - (2 ^ 63) \<or> max_rowid < i)"
    and run: "bind (on_db (get_session i)) (\<lambda>found. case found of None \<Rightarrow> ret None
       | Some session \<Rightarrow> bind (clock_now P) (\<lambda>now.
             if needs_refresh session now then seq (on_db (delete_session i)) (ret None)
             else try_except (bind (verified_credentials P (r\<lparr>ap_id := Some i\<rparr>) session) (\<lambda>c. ret (Some c)))
               (\<lambda>e. if guard_catches e then seq (on_db (delete_session i)) (ret None) else throw e))) s
       = (Inr (Some c), t)"
    by (rule resolve_then_id [OF assms(2) [unfolded guard_credentials_def] assms(1)])
  obtain row sess where sess: "dict_get (db_sessions (w_db s)) i = Some row" "read_session i row = Some sess"
    using run by (auto simp: bind_def get_session_cases [OF range] split: option.splits)
  obtain now w where now: "pt_now P (w_out s) = (now, w)" by (cases "pt_now P (w_out s)")
  let ?s = "s\<lparr>w_out := w\<rparr>"
  have gs: "on_db (get_session i) s = (Inr (Some sess), s)"
    by (simp add: get_session_cases [OF range] sess)
  have rest: "(if needs_refresh sess now then seq (on_db (delete_session i)) (ret None)
      else try_except (bind (verified_credentials P (r\<lparr>ap_id := Some i\<rparr>) sess) (\<lambda>c. ret (Some c)))
        (\<lambda>e. if guard_catches e then seq (on_db (delete_session i)) (ret None) else throw e)) ?s
      = (Inr (Some c), t)"
    using run by (simp add: bind_Inr [of "on_db (get_session i)" s "Some sess" s, OF gs] clock_now_def now)
  have fresh: "\<not> needs_refresh sess now"
    using rest by (auto simp: bind_def delete_session_run [OF range])
  with rest have try_body: "try_except (bind (verified_credentials P (r\<lparr>ap_id := Some i\<rparr>) sess) (\<lambda>c. ret (Some c)))
        (\<lambda>e. if guard_catches e then seq (on_db (delete_session i)) (ret None) else throw e) ?s
      = (Inr (Some c), t)" by simp
  have ver: "verified_credentials P (r\<lparr>ap_id := Some i\<rparr>) sess ?s = (Inr c, t)"
    using try_body by (cases "verified_credentials P (r\<lparr>ap_id := Some i\<rparr>) sess ?s";
        cases "fst (verified_credentials P (r\<lparr>ap_id := Some i\<rparr>) sess ?s)")
      (auto simp: try_except_def bind_def delete_session_run [OF range] split: if_splits)
  from verified_confirmed [OF ver] obtain w' where conf: "confirmed P w sess r c" and t: "t = ?s\<lparr>w_out := w'\<rparr>"
    by auto
  have "w_db t = w_db s" by (simp add: t)
  with r sess now fresh needs_refresh_unexpired [OF fresh] conf show ?thesis by blast
qed

theorem guard_credentials_sound_witness:
  "\<exists>c t. guard_credentials toy_ports (SelInt 1) toy_world = (Inr (Some c), t) \<and>
     w_db t = w_db toy_world"
proof -
  have "map_sum id (map_option pc_session_token) (fst (guard_credentials toy_ports (SelInt 1) toy_world))
      = (Inr (Some (Some ''tok'')) :: exn + _)"
    by code_simp
  then obtain c t where run: "guard_credentials toy_ports (SelInt 1) toy_world = (Inr (Some c), t)"
    by (cases "guard_credentials toy_ports (SelInt 1) toy_world";
        cases "fst (guard_credentials toy_ports (SelInt 1) toy_world)") auto
  from guard_credentials_sound [OF toy_world_ok run] run show ?thesis by blast
qed

text \<open>
  C9: when the guard answers that there are no credentials, the profile has no stored session any
  more (an expired, undecipherable or mismatched one has been deleted), and nothing else in the
  database has changed.
\<close>

lemma pop_absent: "dict_get d i = None \<Longrightarrow> dict_pop i d = d"
  by (induction d) (auto split: if_splits)



subsection \<open>Refreshing a session\<close>

lemma resolve_int_Inr:
  assumes "db_ok (w_db s)" "tb_get (db_profiles (w_db s)) i = Some r"
  shows "resolve_profile (SelInt i) s = (Inr (r\<lparr>ap_id := Some i\<rparr>), s)"
  by (simp add: resolve_profile_def bind_def get_profile_present [OF assms])

text \<open>
  For a profile with MFA, a refresh without a code of exactly six digits is refused before
  anything is done: no state changes, no port is called, the error is the typed MFA error.
\<close>

theorem refresh_needs_six_digits:
  assumes "db_ok (w_db s)" "tb_get (db_profiles (w_db s)) i = Some r" "ap_mfa_enabled r"
    "\<forall>c. mfa_code = Some c \<longrightarrow> \<not> (length c = 6 \<and> list_all is_dec c)"
  shows "refresh_body P i mfa_code s = (Inl (AppExn mfa_code_error), s)"
proof -
  have "case mfa_code of None \<Rightarrow> True | Some c \<Rightarrow> \<not> fullmatch mfa_code_re c"
    using assms(4) by (auto simp: mfa_code_re_def fullmatch_Cls split: option.split)
  then show ?thesis
    using resolve_int_Inr [OF assms(1,2)] assms(3)
    by (simp add: refresh_body_def bind_def)
qed

theorem refresh_needs_six_digits_witness:
  "refresh_body toy_ports 1 (Some ''12345'') toy_world = (Inl (AppExn mfa_code_error), toy_world)"
proof -
  have "map_option ap_mfa_enabled (tb_get (db_profiles (w_db toy_world)) 1) = Some True" by code_simp
  then obtain r where "tb_get (db_profiles (w_db toy_world)) 1 = Some r" "ap_mfa_enabled r" by auto
  from refresh_needs_six_digits [OF toy_world_ok this, of "Some ''12345''"] show ?thesis by simp
qed

lemma guard_credentials_ports:
  assumes "pt_now Q = pt_now P" "pt_unprotect Q = pt_unprotect P" "pt_get_identity Q = pt_get_identity P"
  shows "guard_credentials Q = guard_credentials P"
  unfolding guard_credentials_def [abs_def] verified_credentials_def clock_now_def unprotect_def
    get_identity_def assms by (rule refl)

lemma auth_status_ports: "pt_now Q = pt_now P \<Longrightarrow> auth_status Q = auth_status P"
  unfolding auth_status_def [abs_def] clock_now_def by simp

text \<open>
  C11: a refresh that finds reusable credentials inside its critical section asks the identity
  provider for no token: its outcome is the same whatever issuing a token would do.
\<close>

theorem refresh_reuses_session:
  assumes "db_ok (w_db s)" "guard_credentials P (SelInt i) s = (Inr (Some c), t)"
  shows "refresh_body P i mfa_code s = refresh_body (P\<lparr>pt_get_session_token := other\<rparr>) i mfa_code s"
proof -
  let ?Q = "P\<lparr>pt_get_session_token := other\<rparr>"
  have same: "guard_credentials ?Q = guard_credentials P" "auth_status ?Q = auth_status P"
    by (simp_all add: guard_credentials_ports [of ?Q P] auth_status_ports [of ?Q P])
  obtain x u where r: "resolve_profile (SelInt i) s = (x, u)" by (cases "resolve_profile (SelInt i) s")
  then have u: "u = s" using resolve_profile_state [of "SelInt i" s] by simp
  show ?thesis
  proof (cases x)
    case (Inl e) with r show ?thesis by (simp add: refresh_body_def)
  next
    case (Inr p)
    with r u assms(2) show ?thesis
      by (simp add: refresh_body_def same bind_def)
  qed
qed

theorem refresh_reuses_session_witness:
  "refresh_body toy_ports 1 (Some ''123456'') toy_world =
   refresh_body (toy_ports\<lparr>pt_get_session_token := (\<lambda>c r a m d w. (Inl OperationCancelled, w))\<rparr>) 1
     (Some ''123456'') toy_world"
proof -
  have "map_sum id (map_option pc_session_token) (fst (guard_credentials toy_ports (SelInt 1) toy_world))
      = (Inr (Some (Some ''tok'')) :: exn + _)"
    by code_simp
  then obtain c t where "guard_credentials toy_ports (SelInt 1) toy_world = (Inr (Some c), t)"
    by (cases "guard_credentials toy_ports (SelInt 1) toy_world";
        cases "fst (guard_credentials toy_ports (SelInt 1) toy_world)") auto
  from refresh_reuses_session [OF toy_world_ok this] show ?thesis .
qed

text \<open>
  C12: a session that cannot be published to the shared credentials file is not kept: the refresh
  raises the publisher's error and the profile has no stored session afterwards.
\<close>

theorem unpublished_session_dropped:
  assumes "i \<in> {- (2 ^ 63) .. max_rowid}" "pt_shared_credentials P = Some write"
    "write i c (w_out s) = (Inl (AppExn err), w)" "ae_class err = ConfigurationError"
  shows "fst (publish_session P i c s) = Inl (AppExn err) \<and>
    w_db (snd (publish_session P i c s)) = (w_db s)\<lparr>db_sessions := dict_pop i (db_sessions (w_db s))\<rparr> \<and>
    dict_get (db_sessions (w_db (snd (publish_session P i c s)))) i = None"
proof -
  have range: "\<not> (i < - (2 ^ 63) \<or> max_rowid < i)" using assms(1) by auto
  show ?thesis
    using assms(2-4) by (simp add: publish_session_def try_except_def bind_def delete_session_run [OF range])
qed

theorem unpublished_session_dropped_witness:
  "dict_get (db_sessions (w_db (snd (publish_session
     (toy_ports\<lparr>pt_shared_credentials := Some (\<lambda>i c w. (Inl (AppExn (config_error ''x'')), w))\<rparr>) 1
     \<lparr>pc_access_key = [], pc_secret_key = [], pc_session_token = None\<rparr> toy_world)))) 1 = None"
  using unpublished_session_dropped [of 1
      "toy_ports\<lparr>pt_shared_credentials := Some (\<lambda>i c w. (Inl (AppExn (config_error ''x'')), w))\<rparr>"
      "\<lambda>i c w. (Inl (AppExn (config_error ''x'')), w)"
      "\<lparr>pc_access_key = [], pc_secret_key = [], pc_session_token = None\<rparr>" toy_world]
  by (simp add: max_rowid_def)

subsection \<open>The coordinators\<close>

text \<open>
  C13: whatever refreshes are started, resumed and cancelled, the coordinator never holds more
  than 128 pending refreshes, and never two under one operation id.
\<close>

theorem pending_refreshes_bounded:
  assumes "aw_pending s = []"
  shows "length (aw_pending (fold (run_refresh_call P) calls s)) \<le> 128 \<and>
    distinct (map fst (aw_pending (fold (run_refresh_call P) calls s)))"
  using refreshes.history_ok [of s P calls] assms
  by (simp add: reg_ok_def dict_ok_def max_pending_authentication_operations_def)

definition toy_auth :: "toy auth_world" where
  "toy_auth = \<lparr>w_db = toy_db, w_exec = None, w_out = \<lparr>ty_now = hours 1, ty_ids = 0, ty_calls = []\<rparr>,
     aw_pending = []\<rparr>"

theorem pending_refreshes_bounded_witness:
  "length (aw_pending (fold (run_refresh_call toy_ports) [StartRefresh (SelInt 1) False] toy_auth)) \<le> 128"
  using pending_refreshes_bounded [of toy_auth toy_ports "[StartRefresh (SelInt 1) False]"]
  by (simp add: toy_auth_def)

text \<open>
  C14: the critical sections of a coordinator may interleave in any order: as long as operation
  ids are fresh, no pending operation is handed out twice, and every one that is handed out had
  been admitted.
\<close>

theorem pending_taken_once:
  assumes "reg_run expires [] es d" "distinct (admitted_keys es)"
  shows "distinct (taken_keys es) \<and> (\<forall>k p. Taken k p \<in> set es \<longrightarrow> Admitted k p \<in> set es)"
  using taken_at_most_once [OF assms] taken_was_admitted [OF assms(1)] by auto

theorem pending_taken_once_witness:
  "distinct (taken_keys [Admitted ''a'' (5::instant), Taken ''a'' 5, Missed ''a''])"
proof -
  let ?d = "[(''a'', 5)] :: (string \<times> instant) list"
  have "reg_admit ''a'' 5 [] = ?d" "reg_take ''a'' ?d = []" "reg_take ''a'' ([] :: (string \<times> instant) list) = []"
    by code_simp+
  then have 1: "reg_step id [] (Admitted ''a'' 5) ?d" and 2: "reg_step id ?d (Taken ''a'' 5) []"
    and 3: "reg_step id ([] :: (string \<times> instant) list) (Missed ''a'') []"
    using reg_step.admit [of "[]" id "''a''" "5 :: instant"] reg_step.take_found [of ?d "''a''" 5 id]
      reg_step.take_missing [of "[] :: (string \<times> instant) list" "''a''" id]
    by (simp_all add: reg_full_def max_pending_authentication_operations_def)
  have "reg_run id [] [Admitted ''a'' (5::instant), Taken ''a'' 5, Missed ''a''] []"
    by (rule reg_run.more [OF 1 reg_run.more [OF 2 reg_run.more [OF 3 reg_run.stop]]])
  from pending_taken_once [OF this] show ?thesis by simp
qed

text \<open>
  C15: a challenge can be answered once: after any resume of an operation the same operation
  cannot be resumed again, and that second attempt changes nothing.
\<close>

lemma claim_refresh_absent:
  assumes "dict_get (aw_pending s) i = None" shows "claim_refresh i s = (Inr None, s)"
  using assms by (simp add: claim_refresh_def)

lemma resume_absent:
  assumes "dict_get (aw_pending s) i = None"
  shows "resume_refresh P i mfa s = (Inr (mfa_failure i ''mfa.operation.not_resumable''), s)"
  using claim_refresh_absent [OF assms] by (simp add: resume_refresh_def continue_refresh_def)

lemma claim_refresh_removes:
  assumes "\<forall>(k, r) \<in> set (aw_pending s). \<not> pr_resumed r" "claim_refresh i s = (x, t)"
  shows "dict_get (aw_pending t) i = None"
proof (cases "dict_get (aw_pending s) i")
  case None
  with assms(2) show ?thesis by (simp add: claim_refresh_absent)
next
  case (Some r)
  from map_of_SomeD [OF this] assms(1) have "\<not> pr_resumed r" by blast
  with Some assms(2) show ?thesis by (auto simp: claim_refresh_def reg_take_def)
qed



text \<open>
  Whatever operations are started, resumed and cancelled, the coordinator of authenticated
  operations never holds more than 128 pending actions, also when an action starts operations
  itself.
\<close>

theorem pending_actions_bounded:
  assumes "\<And>r cx. runs_reg ow_pending pa_expires_at (act r cx)" "ow_pending s = []"
  shows "length (ow_pending (fold (run_operation_call P act) calls s)) \<le> 128"
proof -
  have "length (ow_pending (fold (run_operation_call P act) calls s))
      \<le> max_pending_authentication_operations"
    by (rule pending_coordinator.history_bounded [where pending = ow_pending,
          OF operation_coordinator [OF assms(1)] assms(2)])
  then show ?thesis by (simp add: max_pending_authentication_operations_def)
qed

definition toy_op :: "(toy, string) op_world" where
  "toy_op = \<lparr>w_db = toy_db, w_exec = None, w_out = \<lparr>ty_now = hours 1, ty_ids = 0, ty_calls = []\<rparr>,
     aw_pending = [], ow_pending = []\<rparr>"

definition toy_act :: "string \<Rightarrow> op_context \<Rightarrow> (toy, string, unit, string) op_io" where
  \<comment> \<open>an action that needs credentials\<close>
  "toy_act r cx = bind (require_credentials toy_ports 1) (\<lambda>c. ret r)"

lemma more_require_credentials [simp]: "frames world_more (require_credentials P i)"
  unfolding require_credentials_def by (intro frames_bind) (auto split: option.split)

lemma ow_toy_act: "frames ow_pending (toy_act r cx)"
  unfolding toy_act_def by (rule frames_ow_pending) (auto intro!: frames_bind)

theorem pending_actions_bounded_witness:
  "length (ow_pending (fold (run_operation_call toy_ports toy_act)
     [StartOp (SelInt 1) ''list'' None, ResumeOp ''op0'' None] toy_op)) \<le> 128"
  by (rule pending_actions_bounded [OF runs_frames [OF ow_toy_act]]) (simp add: toy_op_def)

text \<open>
  C17: resuming an operation runs its action only after the second factor has been accepted:
  either the outcome does not depend on the action at all, or the refresh coordinator has
  just answered the same operation with success.
\<close>

theorem action_runs_after_refresh:
  fixes act :: "'r \<Rightarrow> op_context \<Rightarrow> ('w, 'r, 'm, 'a) op_io"
  shows "(\<forall>act'. resume_operation P act' i mfa s = resume_operation P act i mfa s) \<or>
   (\<exists>p :: 'r pending_action. \<exists>v w refreshed. answer_challenge P i mfa (pa_context p) v = (Inr refreshed, w) \<and>
      or_state refreshed = OpSucceeded \<and> resume_operation P act i mfa s = invoke P act (pa_request p) (pa_context p) w)"
proof -
  obtain x u where su: "sweep_actions P (Some i) s = (x, u)" by (cases "sweep_actions P (Some i) s")
  obtain found v where tk: "take_action i u = (Inr found, v)"
    by (simp add: take_action_def drop_action_def)
  show ?thesis
  proof (cases x)
    case (Inl e)
    with su show ?thesis by (simp add: resume_operation_def)
  next
    case (Inr y)
    have run: "resume_operation P f i mfa s = continue_operation P f i mfa found v" for f
      using su Inr tk by (simp add: resume_operation_def)
    show ?thesis
    proof (cases found)
      case None
      then show ?thesis by (simp add: run continue_operation_def)
    next
      case (Some p)
      obtain now w1 where now: "pt_now P (w_out v) = (now, w1)" by (cases "pt_now P (w_out v)")
      obtain z w where ans: "answer_challenge P i mfa (pa_context p) (v\<lparr>w_out := w1\<rparr>) = (z, w)"
        by (cases "answer_challenge P i mfa (pa_context p) (v\<lparr>w_out := w1\<rparr>)")
      show ?thesis
      proof (cases "pa_expires_at p \<le> now \<or> isl z \<or> or_state (projr z) \<noteq> OpSucceeded")
        case True
        then have "continue_operation P f i mfa found v = continue_operation P act i mfa found v" for f
          by (cases z) (auto simp: continue_operation_def Some clock_now_def now ans)
        then show ?thesis by (simp add: run)
      next
        case False
        then obtain refreshed where z: "z = Inr refreshed" "or_state refreshed = OpSucceeded"
          by (cases z) auto
        with False have "continue_operation P act i mfa found v = invoke P act (pa_request p) (pa_context p) w"
          by (simp add: continue_operation_def Some clock_now_def now ans)
        then have "resume_operation P act i mfa s = invoke P act (pa_request p) (pa_context p) w"
          by (simp add: run)
        moreover have "answer_challenge P i mfa (pa_context p) (v\<lparr>w_out := w1\<rparr>) = (Inr refreshed, w)"
          using ans z by simp
        ultimately show ?thesis using z(2) by (intro disjI2 exI conjI)
      qed
    qed
  qed
qed

text \<open>
  C18: running an operation always yields a typed result under its own id: success with a value,
  failure with the typed error, or cancellation; no typed error and no cancellation signal
  escapes, only programming errors do, and the caller's execution identity is restored.
\<close>

theorem execute_operation_outcome:
  "w_exec (snd (execute_operation P act (Some cx) s)) = w_exec s \<and>
   (case fst (execute_operation P act (Some cx) s) of
      Inl e \<Rightarrow> e \<noteq> OperationCancelled \<and> (\<forall>err. e \<noteq> AppExn err)
    | Inr r \<Rightarrow> or_operation_id r = cx_operation_id cx \<and> or_challenge r = None \<and>
        (case or_state r of
           OpSucceeded \<Rightarrow> or_value r \<noteq> None \<and> or_error r = None
         | OpFailed \<Rightarrow> or_value r = None \<and> or_error r \<noteq> None
         | OpCancelled \<Rightarrow> or_value r = None \<and> or_error r = None
         | _ \<Rightarrow> False))"
proof -
  let ?act = "\<lambda>_. bind (act cx) (\<lambda>x. ret (succeeded_with (cx_operation_id cx) x))"
  let ?b = "execution_scope P (Some (cx_correlation_id cx)) (Some (cx_operation_id cx)) ?act"
  let ?m = "seq (raise_if_cancelled P cx) ?b"
  obtain y u where m: "?m s = (y, u)" by (cases "?m s")
  have "w_exec (snd (?m s)) = w_exec s"
    by (rule exec_bind [OF outside_raise_if_cancelled]) (simp add: execution_scope_exec)
  with m have u: "w_exec u = w_exec s" by simp
  have val: "\<exists>x. y = Inr (succeeded_with (cx_operation_id cx) x)" if "\<not> isl y"
    using m that by (cases y) (auto elim!: bind_eq_InrE execution_scope_InrE)
  show ?thesis
  proof (cases y)
    case (Inl e)
    with m u show ?thesis by (cases e) (simp_all add: execute_operation_def try_except_def)
  next
    case (Inr r)
    with val obtain x where "y = Inr (succeeded_with (cx_operation_id cx) x)" by auto
    with m u show ?thesis by (simp add: execute_operation_def try_except_def)
  qed
qed

end
