(* ===== verification/Ssm_Session.thy ===== *)
theory Ssm_Session
  imports Authenticated_Operation "HOL-Library.Multiset"
begin

text \<open>
  The lifetime of Session Manager sessions (\<open>application/ssm_session.py\<close>): the runner that stays
  in the foreground until the plugin ends, and the runner that owns sessions until they are
  polled or stopped.  The AWS gateway and the plugin with its child process are ports; a process
  is a handle with its process id.  Notes that \<open>add_note\<close> attaches to an exception are left out,
  no code reads them.
\<close>

record started_session =
  st_session_id :: string
  st_stream_url :: string
  st_token_value :: string

record plugin_diagnostic =
  pd_path :: string
  pd_exists :: bool
  pd_version :: "string option"
  pd_supported :: bool
  pd_environment_ready :: bool

type_synonym parameters = "(string \<times> string list) list"

record plugin_invocation =
  pi_session :: started_session
  pi_region :: string
  pi_target :: string
  pi_document_name :: "string option"
  pi_parameters :: "parameters option"

record process_handle =
  ph_handle :: nat
  ph_pid :: int

record managed_instance =
  mi_instance_id :: string
  mi_ping_status :: string
  mi_ip_address :: "string option"
  mi_platform_name :: "string option"

record 'w session_ports =
  sp_list_online :: "plain_credentials \<Rightarrow> string \<Rightarrow> 'w \<Rightarrow> (exn + managed_instance list) \<times> 'w"
  sp_list_managed :: "plain_credentials \<Rightarrow> string \<Rightarrow> 'w \<Rightarrow> (exn + managed_instance list) \<times> 'w"
  sp_start_session :: "plain_credentials \<Rightarrow> string \<Rightarrow> string \<Rightarrow> string option \<Rightarrow> parameters option
    \<Rightarrow> 'w \<Rightarrow> (exn + started_session) \<times> 'w"
  sp_end_session :: "plain_credentials \<Rightarrow> string \<Rightarrow> string \<Rightarrow> 'w \<Rightarrow> (exn + unit) \<times> 'w"
  sp_diagnose :: "'w \<Rightarrow> (exn + plugin_diagnostic) \<times> 'w"
  sp_run :: "plugin_invocation \<Rightarrow> 'w \<Rightarrow> (exn + int) \<times> 'w"
  sp_launch :: "plugin_invocation \<Rightarrow> bool \<Rightarrow> 'w \<Rightarrow> (exn + process_handle) \<times> 'w"
  sp_poll :: "process_handle \<Rightarrow> 'w \<Rightarrow> (exn + int option) \<times> 'w"
  sp_wait :: "process_handle \<Rightarrow> int \<Rightarrow> 'w \<Rightarrow> (exn + int) \<times> 'w"
  sp_terminate :: "process_handle \<Rightarrow> 'w \<Rightarrow> (exn + unit) \<times> 'w"
  sp_kill :: "process_handle \<Rightarrow> 'w \<Rightarrow> (exn + unit) \<times> 'w"
  sp_text :: "exn \<Rightarrow> string"  \<comment> \<open>what \<open>str\<close> makes of an exception of a library\<close>

datatype session_end_reason = MaxDuration

definition end_reason_value :: "session_end_reason \<Rightarrow> string" where
  "end_reason_value r = (case r of MaxDuration \<Rightarrow> ''max_duration'')"

record ssm_run_result =
  rr_session_id :: string
  rr_plugin_exit_code :: int
  rr_end_reason :: "session_end_reason option"

record managed_session =
  ms_operation_id :: string
  ms_process_id :: int
  ms_session_id :: string
  ms_state :: operation_state
  ms_exit_code :: "int option"
  ms_error :: "app_error option"
  ms_warning :: "app_error option"

record owned_session =
  os_credentials :: plain_credentials
  os_region :: string
  os_session_id :: string
  os_process :: process_handle
  os_ended :: bool
  os_external_terminal :: bool

subsection \<open>Errors of the plugin\<close>

abbreviation plugin_error :: "string \<Rightarrow> string \<Rightarrow> app_error" where
  "plugin_error msg cause \<equiv> mk_error PluginExecutionError msg cause"

definition caused_by :: "app_error \<Rightarrow> string \<Rightarrow> app_error" where
  \<comment> \<open>a \<open>PluginExecutionError\<close> in place of \<open>primary\<close>, with another cause\<close>
  "caused_by primary cause =
     (plugin_error (ae_message_code primary) cause)
       \<lparr>ae_retryable := ae_retryable primary, ae_aws_service := ae_aws_service primary,
        ae_aws_action := ae_aws_action primary, ae_correlation_id := ae_correlation_id primary\<rparr>"

definition with_cleanup_failure :: "app_error \<Rightarrow> exn \<Rightarrow> app_error" where
  "with_cleanup_failure primary cleanup =
     caused_by primary (ae_technical_cause primary @ ''; EndSession failed ('' @ class_name cleanup @ '')'')"

definition combine_errors :: "app_error option list \<Rightarrow> app_error option" where
  "combine_errors errors =
     (case List.map_filter id errors of
        [] \<Rightarrow> None
      | [e] \<Rightarrow> Some e
      | e # es \<Rightarrow> Some (caused_by e (join_with ''; '' (ae_technical_cause e #
          map (\<lambda>x. ae_message_code x @ '' ('' @ ae_technical_cause x @ '')'') es))))"

definition described :: "'w session_ports \<Rightarrow> exn \<Rightarrow> string" where
  \<comment> \<open>type and text of an exception; \<open>ApplicationError.__str__\<close> is its message code\<close>
  "described S e = class_name e @ '': '' @ (case e of
     AppExn err \<Rightarrow> ae_message_code err | OperationCancelled \<Rightarrow> []
   | IntegrityError m \<Rightarrow> m | OperationalError m \<Rightarrow> m | _ \<Rightarrow> sp_text S e)"

definition catching :: "('s, exn, 'a) eff \<Rightarrow> ('s, exn, exn + 'a) eff" where
  \<comment> \<open>\<open>except Exception as error\<close>: what is no \<open>Exception\<close> is not caught\<close>
  "catching m = bind (attempt m) (\<lambda>r. case r of
     Inl e \<Rightarrow> if is_exception e then ret (Inl e) else throw e
   | Inr x \<Rightarrow> ret (Inr x))"

abbreviation caught :: "exn + 'a \<Rightarrow> exn option" where
  "caught r \<equiv> (case r of Inl e \<Rightarrow> Some e | Inr _ \<Rightarrow> None)"

definition ensure_plugin_ready :: "'w session_ports \<Rightarrow> ('w, 'm, unit) io" where
  "ensure_plugin_ready S =
     bind (call_out (sp_diagnose S)) (\<lambda>d.
       if \<not> pd_exists d
       then raise_app (plugin_error ''plugin.not_found'' ''Session Manager Plugin is missing'')
       else if \<not> pd_environment_ready d
       then raise_app (plugin_error ''plugin.environment.invalid''
              ''Plugin execution environment is not supported'')
       else if \<not> pd_supported d
       then raise_app (plugin_error ''plugin.version.unsupported''
              ''Session Manager Plugin version is too old'')
       else skip)"

subsection \<open>Ending a process\<close>

definition recover_process :: "'w session_ports \<Rightarrow> process_handle \<Rightarrow> exn
    \<Rightarrow> ('w, 'm, int option \<times> app_error option) io" where
  "recover_process S p primary =
     bind (catching (call_out (sp_kill S p))) (\<lambda>killed.
     bind (catching (call_out (sp_wait S p 5))) (\<lambda>waited.
       let notes = (case killed of Inl e \<Rightarrow> [''kill failed ('' @ class_name e @ '')''] | Inr _ \<Rightarrow> []) @
             (case waited of Inl e \<Rightarrow> [''wait failed ('' @ class_name e @ '')''] | Inr _ \<Rightarrow> []);
           detail = described S primary @ (if notes = [] then [] else ''; '' @ join_with ''; '' notes)
       in ret (case waited of Inl _ \<Rightarrow> None | Inr c \<Rightarrow> Some c,
               Some (plugin_error ''plugin.stop.failed'' detail))))"

definition terminate_process :: "'w session_ports \<Rightarrow> process_handle \<Rightarrow> ('w, 'm, int) io" where
  "terminate_process S p =
     seq (call_out (sp_terminate S p))
       (try_except (call_out (sp_wait S p 5))
          (\<lambda>e. if e = PyExn ''TimeoutError''
               then seq (call_out (sp_kill S p)) (call_out (sp_wait S p 5)) else throw e))"

definition stop_process :: "'w session_ports \<Rightarrow> process_handle
    \<Rightarrow> ('w, 'm, int option \<times> app_error option) io" where
  "stop_process S p =
     bind (catching (terminate_process S p)) (\<lambda>r. case r of
       Inr c \<Rightarrow> ret (Some c, None)
     | Inl e \<Rightarrow> recover_process S p e)"

subsection \<open>The foreground runner\<close>

definition end_session :: "'w session_ports \<Rightarrow> plain_credentials \<Rightarrow> string \<Rightarrow> string \<Rightarrow> ('w, 'm, unit) io" where
  "end_session S c region i = call_out (sp_end_session S c region i)"

definition after_end_exn :: "'w session_ports \<Rightarrow> exn \<Rightarrow> exn option \<Rightarrow> exn" where
  \<comment> \<open>what \<open>_raise_after_end\<close> raises once the session has been ended\<close>
  "after_end_exn S primary cleanup =
     (if primary = OperationCancelled \<or> primary = BaseExn ''KeyboardInterrupt''
      then (case cleanup of None \<Rightarrow> primary
            | Some c \<Rightarrow> AppExn (plugin_error ''session.cancel.cleanup_failed''
                (class_name primary @ ''; EndSession failed ('' @ class_name c @ '')'')))
      else case primary of
        AppExn e \<Rightarrow> (case cleanup of None \<Rightarrow> primary | Some c \<Rightarrow> AppExn (with_cleanup_failure e c))
      | BaseExn _ \<Rightarrow> primary
      | _ \<Rightarrow> (let converted = plugin_error ''plugin.execute.failed'' (described S primary) in
           AppExn (case cleanup of None \<Rightarrow> converted | Some c \<Rightarrow> with_cleanup_failure converted c)))"

definition raise_after_end ::
    "'w session_ports \<Rightarrow> plain_credentials \<Rightarrow> string \<Rightarrow> string \<Rightarrow> exn \<Rightarrow> ('w, 'm, 'a) io" where
  "raise_after_end S c region i primary =
     bind (catching (end_session S c region i)) (\<lambda>r. throw (after_end_exn S primary (caught r)))"

definition after_stop_exn :: "exn \<Rightarrow> app_error option \<Rightarrow> exn" where
  \<comment> \<open>the last handler of \<open>_run_bounded\<close>, once the process has been stopped\<close>
  "after_stop_exn primary cleanup = (case cleanup of None \<Rightarrow> primary
     | Some c \<Rightarrow> AppExn (case primary of
         AppExn e \<Rightarrow> with_cleanup_failure e (AppExn c)
       | _ \<Rightarrow> if primary = OperationCancelled \<or> primary = BaseExn ''KeyboardInterrupt''
              then plugin_error ''session.cancel.cleanup_failed'' (ae_technical_cause c)
              else plugin_error ''plugin.wait.failed''
                     (class_name primary @ ''; '' @ ae_technical_cause c)))"

definition run_bounded :: "'w session_ports \<Rightarrow> plugin_invocation \<Rightarrow> int
    \<Rightarrow> ('w, 'm, int \<times> session_end_reason option) io" where
  "run_bounded S job seconds =
     bind (call_out (sp_launch S job False)) (\<lambda>p.
     bind (attempt (call_out (sp_wait S p seconds))) (\<lambda>r. case r of
       Inr c \<Rightarrow> ret (c, None)
     | Inl e \<Rightarrow>
         bind (stop_process S p) (\<lambda>(_, failed).
           if e = PyExn ''TimeoutError''
           then (case failed of None \<Rightarrow> ret (0, Some MaxDuration) | Some err \<Rightarrow> raise_app err)
           else throw (after_stop_exn e failed))))"

definition open_session ::
    "'w ports \<Rightarrow> 'w session_ports \<Rightarrow> op_context \<Rightarrow> plain_credentials \<Rightarrow> string \<Rightarrow> string
     \<Rightarrow> string option \<Rightarrow> parameters option \<Rightarrow> ('w, 'm, started_session) io" where
  \<comment> \<open>the steps both runners share: checks, reports and \<open>start_session\<close>\<close>
  "open_session P S cx c region target doc params =
     seq (raise_if_cancelled P cx)
     (seq (report_progress P cx ''plugin-check'' ''session.plugin.check'' None None (Some target))
     (seq (ensure_plugin_ready S)
     (seq (raise_if_cancelled P cx)
     (seq (report_progress P cx ''session-start'' ''session.aws.start'' None None (Some target))
        (call_out (sp_start_session S c region target doc params))))))"

definition run_plugin ::
    "'w ports \<Rightarrow> 'w session_ports \<Rightarrow> op_context \<Rightarrow> plugin_invocation \<Rightarrow> int option
     \<Rightarrow> ('w, 'm, int \<times> session_end_reason option) io" where
  \<comment> \<open>the first \<open>try\<close> block of \<open>run\<close>\<close>
  "run_plugin P S cx job timeout =
     seq (raise_if_cancelled P cx)
     (seq (report_progress P cx ''running'' ''session.running'' None None (Some (pi_target job)))
     (bind (case timeout of
              None \<Rightarrow> bind (call_out (sp_run S job)) (\<lambda>c. ret (c, None))
            | Some t \<Rightarrow> run_bounded S job t) (\<lambda>(c, reason).
        if c \<noteq> 0
        then raise_app (plugin_error ''plugin.exit.nonzero''
               (''Session Manager Plugin exited with '' @ str_of_int c))
        else ret (c, reason))))"

definition use_session ::
    "'w ports \<Rightarrow> 'w session_ports \<Rightarrow> op_context \<Rightarrow> plain_credentials \<Rightarrow> plugin_invocation
     \<Rightarrow> int option \<Rightarrow> ('w, 'm, ssm_run_result) io" where
  \<comment> \<open>\<open>run\<close> after \<open>start_session\<close> has returned\<close>
  "use_session P S cx c job timeout =
     (let i = st_session_id (pi_session job) in
      bind (attempt (run_plugin P S cx job timeout)) (\<lambda>r. case r of
        Inl primary \<Rightarrow> raise_after_end S c (pi_region job) i primary
      | Inr (rc, reason) \<Rightarrow>
          seq (bind (catching (end_session S c (pi_region job) i)) (\<lambda>r. case r of
                 Inl e \<Rightarrow> raise_app (plugin_error ''session.end.failed'' (class_name e))
               | Inr _ \<Rightarrow> skip))
          (seq (report_progress P cx ''completed'' ''session.completed'' (Some 1) (Some 1)
                  (Some (pi_target job)))
             (ret \<lparr>rr_session_id = i, rr_plugin_exit_code = rc, rr_end_reason = reason\<rparr>))))"

definition given_context :: "'w ports \<Rightarrow> op_context option \<Rightarrow> ('w, 'm, op_context) io" where
  \<comment> \<open>\<open>context or OperationContext()\<close>\<close>
  "given_context P context = (case context of Some cx \<Rightarrow> ret cx | None \<Rightarrow> new_context P None)"

definition run_session ::
    "'w ports \<Rightarrow> 'w session_ports \<Rightarrow> plain_credentials \<Rightarrow> string \<Rightarrow> string \<Rightarrow> string option
     \<Rightarrow> parameters option \<Rightarrow> op_context option \<Rightarrow> int option \<Rightarrow> ('w, 'm, ssm_run_result) io" where
  "run_session P S c region target doc params context timeout =
     bind (given_context P context) (\<lambda>cx.
     bind (open_session P S cx c region target doc params) (\<lambda>started.
       use_session P S cx c \<lparr>pi_session = started, pi_region = region, pi_target = target,
         pi_document_name = doc, pi_parameters = params\<rparr> timeout))"

subsection \<open>The managed runner\<close>

record ('w, 'r) session_world = "('w, 'r) op_world" +
  sw_owned :: "(string, owned_session) dict"

type_synonym ('w, 'r, 'm, 'a) sw_io = "(('w, 'r, 'm) session_world_scheme, exn, 'a) eff"

definition require_owned :: "string \<Rightarrow> ('w, 'r, 'm, owned_session) sw_io" where
  "require_owned i = bind (gets (\<lambda>s. dict_get (sw_owned s) i)) (\<lambda>found. case found of
     None \<Rightarrow> raise_app (plugin_error ''session.operation.not_found''
               ''Managed SSM session is not owned by this process'')
   | Some ow \<Rightarrow> ret ow)"

definition forget_owned :: "string \<Rightarrow> ('w, 'r, 'm, unit) sw_io" where
  "forget_owned i = modify (sw_owned_update (dict_pop i))"

definition mark_ended :: "string \<Rightarrow> owned_session \<Rightarrow> ('w, 'r, 'm, unit) sw_io" where
  \<comment> \<open>\<open>owned.ended = True\<close>: the entry of the dictionary is that object\<close>
  "mark_ended i ow = modify (sw_owned_update (dict_set i (ow\<lparr>os_ended := True\<rparr>)))"

definition end_once :: "'w session_ports \<Rightarrow> string \<Rightarrow> owned_session \<Rightarrow> ('w, 'r, 'm, unit) sw_io" where
  "end_once S i ow =
     (if os_ended ow then skip
      else seq (mark_ended i ow) (end_session S (os_credentials ow) (os_region ow) (os_session_id ow)))"

definition capture_end_error ::
    "'w session_ports \<Rightarrow> string \<Rightarrow> owned_session \<Rightarrow> ('w, 'r, 'm, app_error option) sw_io" where
  "capture_end_error S i ow =
     bind (catching (end_once S i ow)) (\<lambda>r. ret (case r of
       Inl e \<Rightarrow> Some (plugin_error ''session.end.failed'' (class_name e)) | Inr _ \<Rightarrow> None))"

definition snapshot ::
    "string \<Rightarrow> owned_session \<Rightarrow> operation_state \<Rightarrow> int option \<Rightarrow> app_error option
     \<Rightarrow> app_error option \<Rightarrow> managed_session" where
  "snapshot i ow st rc err warning =
     \<lparr>ms_operation_id = i, ms_process_id = ph_pid (os_process ow), ms_session_id = os_session_id ow,
      ms_state = st, ms_exit_code = rc, ms_error = err, ms_warning = warning\<rparr>"

definition exit_error :: "operation_state \<Rightarrow> int option \<Rightarrow> app_error option" where
  \<comment> \<open>a failed state without an exit code would print \<open>None\<close>; it does not occur\<close>
  "exit_error st rc =
     (if st = OpFailed
      then Some (plugin_error ''plugin.exit.nonzero'' (''Session Manager Plugin exited with '' @
             (case rc of Some c \<Rightarrow> str_of_int c | None \<Rightarrow> ''None'')))
      else None)"

definition finished_state :: "int option \<Rightarrow> operation_state" where
  "finished_state rc = (if rc = Some 0 then OpSucceeded else OpFailed)"

definition status_failed ::
    "'w session_ports \<Rightarrow> string \<Rightarrow> owned_session \<Rightarrow> exn \<Rightarrow> ('w, 'r, 'm, managed_session) sw_io" where
  \<comment> \<open>\<open>status\<close> when polling the process has failed\<close>
  "status_failed S i ow primary =
     bind (stop_process S (os_process ow)) (\<lambda>(_, cleanup).
     bind (capture_end_error S i ow) (\<lambda>ended.
     seq (forget_owned i)
       (ret (snapshot i ow OpFailed None
          (combine_errors [Some (plugin_error ''plugin.status.failed'' (described S primary)), cleanup, ended])
          None))))"

definition status_finished ::
    "'w session_ports \<Rightarrow> string \<Rightarrow> owned_session \<Rightarrow> int \<Rightarrow> ('w, 'r, 'm, managed_session) sw_io" where
  \<comment> \<open>\<open>status\<close> of a process that has ended by itself\<close>
  "status_finished S i ow rc =
     (let state = finished_state (Some rc); failed = exit_error state (Some rc) in
      bind (capture_end_error S i ow) (\<lambda>ended.
        let external = (rc = 0 \<and> os_external_terminal ow);
            warning = (if external then ended else None);
            end_error = (if external then None else ended) in
        seq (forget_owned i)
          (ret (snapshot i ow (if end_error = None then state else OpFailed) (Some rc)
             (if end_error = None then failed else combine_errors [failed, end_error]) warning))))"

definition session_status :: "'w session_ports \<Rightarrow> string \<Rightarrow> ('w, 'r, 'm, managed_session) sw_io" where
  "session_status S i =
     bind (require_owned i) (\<lambda>ow.
     bind (catching (call_out (sp_poll S (os_process ow)))) (\<lambda>r. case r of
       Inl e \<Rightarrow> status_failed S i ow e
     | Inr None \<Rightarrow> ret (snapshot i ow OpRunning None None None)
     | Inr (Some rc) \<Rightarrow> status_finished S i ow rc))"

definition stop_owned ::
    "'w session_ports \<Rightarrow> string \<Rightarrow> owned_session \<Rightarrow> bool \<Rightarrow> int option \<times> app_error option
     \<Rightarrow> ('w, 'r, 'm, managed_session) sw_io" where
  \<comment> \<open>\<open>stop\<close> once the process has ended; \<open>by_itself\<close> is \<open>naturally_finished\<close>\<close>
  "stop_owned S i ow by_itself outcome =
     (case outcome of (rc, failed) \<Rightarrow>
      bind (capture_end_error S i ow) (\<lambda>ended.
        let state = (if by_itself then finished_state rc else OpCancelled);
            err = combine_errors [exit_error state rc, failed, ended] in
        seq (forget_owned i)
          (ret (snapshot i ow (if err = None then state else OpFailed) rc err None))))"

definition session_stop :: "'w session_ports \<Rightarrow> string \<Rightarrow> ('w, 'r, 'm, managed_session) sw_io" where
  "session_stop S i =
     bind (require_owned i) (\<lambda>ow.
     bind (catching (call_out (sp_poll S (os_process ow)))) (\<lambda>r. case r of
       Inr (Some rc) \<Rightarrow> stop_owned S i ow True (Some rc, None)
     | _ \<Rightarrow>
         bind (stop_process S (os_process ow)) (\<lambda>(rc, failed).
           stop_owned S i ow False (rc, combine_errors
             [map_option (\<lambda>e. plugin_error ''plugin.status.failed'' (described S e)) (caught r), failed]))))"

definition start_failure_exn :: "'w session_ports \<Rightarrow> exn \<Rightarrow> exn option \<Rightarrow> exn" where
  \<comment> \<open>what \<open>_raise_start_failure\<close> raises once the session has been ended\<close>
  "start_failure_exn S primary cleanup =
     (case primary of
        AppExn e \<Rightarrow> (case cleanup of None \<Rightarrow> primary | Some c \<Rightarrow> AppExn (with_cleanup_failure e c))
      | OperationCancelled \<Rightarrow> (case cleanup of None \<Rightarrow> primary
          | Some c \<Rightarrow> AppExn (plugin_error ''session.cancel.cleanup_failed'' (class_name c)))
      | BaseExn _ \<Rightarrow> primary
      | _ \<Rightarrow> (let converted = plugin_error ''plugin.launch.failed'' (described S primary) in
           AppExn (case cleanup of None \<Rightarrow> converted | Some c \<Rightarrow> with_cleanup_failure converted c)))"

definition raise_start_failure ::
    "'w session_ports \<Rightarrow> plain_credentials \<Rightarrow> string \<Rightarrow> string \<Rightarrow> exn \<Rightarrow> ('w, 'm, 'a) io" where
  "raise_start_failure S c region i primary =
     bind (catching (end_session S c region i)) (\<lambda>r. throw (start_failure_exn S primary (caught r)))"

definition launch_plugin ::
    "'w ports \<Rightarrow> 'w session_ports \<Rightarrow> op_context \<Rightarrow> plugin_invocation \<Rightarrow> bool
     \<Rightarrow> ('w, 'm, process_handle) io" where
  "launch_plugin P S cx job external =
     seq (raise_if_cancelled P cx)
     (seq (report_progress P cx ''plugin-launch'' ''session.plugin.launch'' None None (Some (pi_target job)))
        (call_out (sp_launch S job external)))"

definition own_session ::
    "'w ports \<Rightarrow> 'w session_ports \<Rightarrow> op_context \<Rightarrow> owned_session \<Rightarrow> string
     \<Rightarrow> ('w, 'r, 'm, managed_session) sw_io" where
  \<comment> \<open>\<open>start\<close> after the launch: take the session over and report that it runs\<close>
  "own_session P S cx ow target =
     (let i = cx_operation_id cx in
      seq (modify (sw_owned_update (dict_set i ow)))
      (seq (try_except
              (report_progress P cx ''running'' ''session.running'' (Some 1) (Some 1) (Some target))
              (\<lambda>primary. bind (session_stop S i) (\<lambda>_. throw primary)))
         (ret (snapshot i ow OpRunning None None None))))"

definition session_start ::
    "'w ports \<Rightarrow> 'w session_ports \<Rightarrow> plain_credentials \<Rightarrow> string \<Rightarrow> string \<Rightarrow> string option
     \<Rightarrow> parameters option \<Rightarrow> bool \<Rightarrow> op_context option \<Rightarrow> ('w, 'r, 'm, managed_session) sw_io" where
  "session_start P S c region target doc params external context =
     bind (given_context P context) (\<lambda>cx.
     bind (open_session P S cx c region target doc params) (\<lambda>started.
     bind (attempt (launch_plugin P S cx \<lparr>pi_session = started, pi_region = region,
             pi_target = target, pi_document_name = doc, pi_parameters = params\<rparr> external)) (\<lambda>r.
       case r of
         Inl primary \<Rightarrow> raise_start_failure S c region (st_session_id started) primary
       | Inr p \<Rightarrow> own_session P S cx \<lparr>os_credentials = c, os_region = region,
             os_session_id = st_session_id started, os_process = p, os_ended = False,
             os_external_terminal = external\<rparr> target)))"

end
