(* ===== verification/Session_Books.thy ===== *)
theory Session_Books
  imports Ssm_Session
begin

text \<open>
  The books of the sessions.  Two observers of the outside count, with multiplicity, the sessions
  AWS has started and those it has been asked to end; \<open>books_kept\<close> says which ports move them:
  \<open>start_session\<close> that returns, and \<open>end_session\<close> whether it returns or raises.  The lemmas
  follow the books through the foreground and the managed runner.
\<close>

subsection \<open>Steps that leave an observer of the outside alone\<close>

definition quiet :: "('w \<Rightarrow> 'g) \<Rightarrow> ('w \<Rightarrow> 'a \<times> 'w) \<Rightarrow> bool" where
  "quiet g f \<longleftrightarrow> (\<forall>w. g (snd (f w)) = g w)"

lemma frames_call_out: "quiet g f \<Longrightarrow> frames (\<lambda>s. g (w_out s)) (call_out f)"
  by (simp add: quiet_def frames_def)

lemma frames_ask: "quiet g f \<Longrightarrow> frames (\<lambda>s. g (w_out s)) (ask f)"
  by (simp add: quiet_def frames_def)

lemma frames_catching: "frames g m \<Longrightarrow> frames g (catching m)"
  unfolding catching_def by (intro frames_bind frames_attempt) (auto split: sum.split)

lemma keeps_catching: "keeps Q m \<Longrightarrow> keeps Q (catching m)"
  unfolding catching_def by (intro keeps_bind keeps_attempt) (auto split: sum.split)

lemma outside_catching [outside_rules]: "outside_only m \<Longrightarrow> outside_only (catching m)"
  unfolding catching_def by (intro outside_bind outside_attempt) (auto split: sum.split)

definition context_quiet :: "('w \<Rightarrow> 'g) \<Rightarrow> 'w ports \<Rightarrow> bool" where
  \<comment> \<open>the ports an operation context uses\<close>
  "context_quiet g P \<longleftrightarrow> quiet g (pt_uuid P) \<and> (\<forall>e. quiet g (pt_progress P e)) \<and>
     (\<forall>t. quiet g (pt_cancelled P t))"

lemma frames_raise_if_cancelled:
  "context_quiet g P \<Longrightarrow> frames (\<lambda>s. g (w_out s)) (raise_if_cancelled P cx)"
  unfolding raise_if_cancelled_def context_quiet_def
  by (auto split: option.split intro!: frames_bind frames_ask)

lemma frames_report_progress:
  "context_quiet g P \<Longrightarrow> frames (\<lambda>s. g (w_out s)) (report_progress P cx ph m c t tg)"
  unfolding report_progress_def context_quiet_def by (auto intro!: frames_call_out)

lemma frames_given_context:
  "context_quiet g P \<Longrightarrow> frames (\<lambda>s. g (w_out s)) (given_context P context)"
  unfolding given_context_def new_context_def new_uuid_def context_quiet_def
  by (auto split: option.split intro!: frames_bind frames_ask)

definition plugin_quiet :: "('w \<Rightarrow> 'g) \<Rightarrow> 'w session_ports \<Rightarrow> bool" where
  "plugin_quiet g S \<longleftrightarrow> quiet g (sp_diagnose S) \<and> (\<forall>j. quiet g (sp_run S j)) \<and>
     (\<forall>j x. quiet g (sp_launch S j x)) \<and> (\<forall>p. quiet g (sp_poll S p)) \<and>
     (\<forall>p n. quiet g (sp_wait S p n)) \<and> (\<forall>p. quiet g (sp_terminate S p)) \<and>
     (\<forall>p. quiet g (sp_kill S p))"

lemma frames_ensure_plugin_ready:
  "plugin_quiet g S \<Longrightarrow> frames (\<lambda>s. g (w_out s)) (ensure_plugin_ready S)"
  unfolding ensure_plugin_ready_def plugin_quiet_def by (auto intro!: frames_bind frames_call_out)

lemma frames_stop_process:
  "plugin_quiet g S \<Longrightarrow> frames (\<lambda>s. g (w_out s)) (stop_process S p)"
  unfolding stop_process_def terminate_process_def recover_process_def plugin_quiet_def Let_def
  by (auto intro!: frames_bind frames_catching frames_try_except frames_call_out split: sum.split)

lemma frames_run_bounded:
  "plugin_quiet g S \<Longrightarrow> frames (\<lambda>s. g (w_out s)) (run_bounded S job t)"
  using frames_stop_process [of g S] unfolding run_bounded_def plugin_quiet_def
  by (auto intro!: frames_bind frames_attempt frames_call_out split: sum.split option.split)

lemma frames_run_plugin:
  assumes "context_quiet g P" "plugin_quiet g S"
  shows "frames (\<lambda>s. g (w_out s)) (run_plugin P S cx job timeout)"
proof -
  have "frames (\<lambda>s. g (w_out s)) (call_out (sp_run S job))"
    using assms(2) by (simp add: plugin_quiet_def frames_call_out)
  with assms show ?thesis
    unfolding run_plugin_def
    by (intro frames_bind frames_raise_if_cancelled frames_report_progress)
      (auto intro!: frames_bind frames_run_bounded split: option.split)
qed

lemma frames_launch_plugin:
  assumes "context_quiet g P" "plugin_quiet g S"
  shows "frames (\<lambda>s. g (w_out s)) (launch_plugin P S cx job x)"
  unfolding launch_plugin_def using assms
  by (intro frames_bind frames_raise_if_cancelled frames_report_progress frames_call_out)
    (simp_all add: plugin_quiet_def)

subsection \<open>Steps that leave the services alone\<close>

lemma outside_ensure_plugin_ready [outside_rules, simp]: "outside_only (ensure_plugin_ready S)"
  unfolding ensure_plugin_ready_def by (intro outside_bind) auto

lemma outside_stop_process [outside_rules, simp]: "outside_only (stop_process S p)"
  unfolding stop_process_def terminate_process_def recover_process_def Let_def
  by (auto intro!: outside_bind outside_catching outside_try_except split: sum.split)

lemma outside_run_plugin [outside_rules, simp]: "outside_only (run_plugin P S cx job timeout)"
  unfolding run_plugin_def run_bounded_def
  by (auto intro!: outside_bind outside_attempt split: sum.split option.split)

lemma outside_launch_plugin [outside_rules, simp]: "outside_only (launch_plugin P S cx job x)"
  unfolding launch_plugin_def by (intro outside_bind) auto

lemma outside_given_context [outside_rules, simp]: "outside_only (given_context P context)"
  unfolding given_context_def by (auto split: option.split)

lemma outside_end_session [outside_rules, simp]: "outside_only (end_session S c r i)"
  by (simp add: end_session_def)

lemma outside_open_session [outside_rules, simp]:
  "outside_only (open_session P S cx c region target doc params)"
  unfolding open_session_def by (intro outside_bind) auto

lemma outside_raise_after_end [outside_rules, simp]: "outside_only (raise_after_end S c r i e)"
  unfolding raise_after_end_def by (intro outside_bind outside_catching) auto

lemma outside_raise_start_failure [outside_rules, simp]: "outside_only (raise_start_failure S c r i e)"
  unfolding raise_start_failure_def by (intro outside_bind outside_catching) auto

lemma outside_use_session [outside_rules, simp]: "outside_only (use_session P S cx c job t)"
  unfolding use_session_def Let_def
  by (intro outside_bind outside_attempt)
    (auto intro!: outside_bind outside_catching split: sum.split)

lemma outside_run_session [outside_rules, simp]:
  "outside_only (run_session P S c region target doc params context timeout)"
  unfolding run_session_def by (intro outside_bind) auto

subsection \<open>The books\<close>

definition books_kept ::
    "'w ports \<Rightarrow> 'w session_ports \<Rightarrow> ('w \<Rightarrow> string multiset) \<Rightarrow> ('w \<Rightarrow> string multiset) \<Rightarrow> bool" where
  "books_kept P S opened closed \<longleftrightarrow>
     context_quiet opened P \<and> context_quiet closed P \<and> plugin_quiet opened S \<and> plugin_quiet closed S \<and>
     (\<forall>c r t d p. quiet closed (sp_start_session S c r t d p)) \<and>
     (\<forall>c r t d p w. opened (snd (sp_start_session S c r t d p w)) = opened w +
        (case fst (sp_start_session S c r t d p w) of Inl _ \<Rightarrow> {#} | Inr st \<Rightarrow> {#st_session_id st#})) \<and>
     (\<forall>c r i. quiet opened (sp_end_session S c r i)) \<and>
     (\<forall>c r i w. closed (snd (sp_end_session S c r i w)) = closed w + {#i#})"

definition accounted ::
    "('w \<Rightarrow> string multiset) \<Rightarrow> ('w \<Rightarrow> string multiset) \<Rightarrow> (('w, 'm) world_scheme \<Rightarrow> string multiset)
     \<Rightarrow> string multiset \<Rightarrow> ('w, 'm) world_scheme \<Rightarrow> bool" where
  \<comment> \<open>every session started has been ended, is held in \<open>L\<close> or is one of \<open>C\<close>\<close>
  "accounted opened closed L C s \<longleftrightarrow> opened (w_out s) = closed (w_out s) + L s + C"

definition inert :: "(('w, 'm) world_scheme \<Rightarrow> 'p) \<Rightarrow> bool" where
  "inert L \<longleftrightarrow> (\<forall>s w. L (s\<lparr>w_out := w\<rparr>) = L s)"

lemma inert_const [simp]: "inert (\<lambda>_. c)"
  by (simp add: inert_def)

lemma frames_inert: "inert L \<Longrightarrow> outside_only m \<Longrightarrow> frames L m"
  by (rule outside_frames) (simp_all add: inert_def)

lemma books_keptD:
  assumes "books_kept P S opened closed"
  shows "context_quiet opened P" "context_quiet closed P" "plugin_quiet opened S" "plugin_quiet closed S"
  using assms by (simp_all add: books_kept_def)

lemma keeps_accounted:
  assumes "frames (\<lambda>s. opened (w_out s)) m" "frames (\<lambda>s. closed (w_out s)) m" "frames L m"
  shows "keeps (accounted opened closed L C) m"
  using assms unfolding frames_def keeps_def accounted_def by simp

definition moves :: "('s \<Rightarrow> bool) \<Rightarrow> ('s \<Rightarrow> bool) \<Rightarrow> ('s, 'e, 'a) eff \<Rightarrow> bool" where
  \<comment> \<open>from \<open>A\<close> to \<open>B\<close>, whether the step returns or raises\<close>
  "moves A B m \<longleftrightarrow> (\<forall>s. A s \<longrightarrow> B (snd (m s)))"

lemma moves_keeps: "keeps A m \<longleftrightarrow> moves A A m"
  by (simp add: moves_def keeps_def)

lemma moves_bind: "moves A B m \<Longrightarrow> (\<And>x. keeps B (f x)) \<Longrightarrow> moves A B (bind m f)"
  unfolding moves_def keeps_def bind_def by (auto split: prod.split sum.split)

lemma moves_attempt: "keeps A m \<Longrightarrow> (\<And>r. moves A B (f r)) \<Longrightarrow> moves A B (bind (attempt m) f)"
  unfolding moves_def keeps_def bind_def by (simp split: prod.split)

lemma moves_catching: "moves A B m \<Longrightarrow> moves A B (catching m)"
  unfolding catching_def by (rule moves_bind) (simp_all add: moves_def split: sum.split)

lemma moves_end_session:
  assumes "books_kept P S opened closed" "inert L"
  shows "moves (accounted opened closed L (add_mset i C)) (accounted opened closed L C) (end_session S c r i)"
  using assms unfolding moves_def end_session_def accounted_def books_kept_def quiet_def inert_def by simp

lemma open_session_books:
  fixes s :: "('w, 'm) world_scheme"
  assumes books: "books_kept P S opened closed" and "inert L" "accounted opened closed L C s"
    and run: "open_session P S cx c region target doc params s = (r, t)"
  shows "accounted opened closed L
    (C + (case r of Inl _ \<Rightarrow> {#} | Inr st \<Rightarrow> {#st_session_id st#})) t"
proof -
  note quiet = books_keptD [OF books]
  let ?A = "accounted opened closed L C"
  let ?pre = "seq (raise_if_cancelled P cx)
     (seq (report_progress P cx ''plugin-check'' ''session.plugin.check'' None None (Some target))
     (seq (ensure_plugin_ready S)
     (seq (raise_if_cancelled P cx)
        (report_progress P cx ''session-start'' ''session.aws.start'' None None (Some target)))))"
  define pre :: "('w, 'm, unit) io" where "pre = ?pre"
  have split: "open_session P S cx c region target doc params
      = seq pre (call_out (sp_start_session S c region target doc params))"
    by (simp add: open_session_def pre_def bind_assoc)
  have keep: "keeps ?A pre"
    unfolding pre_def using quiet by (intro keeps_accounted frames_inert [OF assms(2)] frames_bind
        outside_bind frames_raise_if_cancelled frames_report_progress frames_ensure_plugin_ready) simp_all
  obtain x u where first: "pre s = (x, u)" by (cases "pre s")
  have u: "?A u" by (rule keepsD [OF keep assms(3) first])
  show ?thesis
  proof (cases x)
    case (Inl e)
    with run first u show ?thesis by (auto simp: split)
  next
    case (Inr y)
    with run first have "call_out (sp_start_session S c region target doc params) u = (r, t)"
      by (simp add: split)
    with u books assms(2) show ?thesis
      by (auto simp: books_kept_def accounted_def inert_def quiet_def)
  qed
qed

subsection \<open>The foreground runner\<close>

lemma moves_use_session:
  assumes books: "books_kept P S opened closed" and "inert L"
  shows "moves (accounted opened closed L (add_mset (st_session_id (pi_session job)) C))
    (accounted opened closed L C) (use_session P S cx c job timeout)"
proof -
  note quiet = books_keptD [OF books]
  let ?i = "st_session_id (pi_session job)"
  have run: "keeps (accounted opened closed L (add_mset ?i C)) (run_plugin P S cx job timeout)"
    using quiet by (intro keeps_accounted frames_run_plugin frames_inert [OF assms(2)]) simp_all
  note ended = moves_catching [OF moves_end_session [OF assms]]
  have report: "keeps (accounted opened closed L C) (report_progress P cx ph m x y tg)" for ph m x y tg
    using quiet by (intro keeps_accounted frames_report_progress frames_inert [OF assms(2)]) simp_all
  show ?thesis
    unfolding use_session_def Let_def
  proof (intro moves_attempt [OF run], goal_cases)
    case (1 r)
    show ?case
    proof (cases r)
      case (Inl e)
      then show ?thesis unfolding raise_after_end_def by (auto intro!: moves_bind ended)
    next
      case (Inr p)
      then show ?thesis
        by (cases p) (auto intro!: moves_bind ended keeps_bind report split: sum.split)
    qed
  qed
qed

lemma run_session_books:
  assumes books: "books_kept P S opened closed" and "inert L"
  shows "keeps (accounted opened closed L C)
    (run_session P S c region target doc params context timeout)"
proof (rule keepsI)
  fix s assume s: "accounted opened closed L C s"
  let ?use = "\<lambda>cx started. use_session P S cx c \<lparr>pi_session = started, pi_region = region,
    pi_target = target, pi_document_name = doc, pi_parameters = params\<rparr> timeout"
  obtain x u where cx: "given_context P context s = (x, u)" by (cases "given_context P context s")
  have "keeps (accounted opened closed L C) (given_context P context)"
    using books_keptD [OF books]
    by (intro keeps_accounted frames_given_context frames_inert [OF assms(2)]) simp_all
  from keepsD [OF this s cx] have u: "accounted opened closed L C u" .
  show "accounted opened closed L C (snd (run_session P S c region target doc params context timeout s))"
  proof (cases x)
    case (Inl e) with cx u show ?thesis by (simp add: run_session_def)
  next
    case (Inr y)
    obtain z v where op: "open_session P S y c region target doc params u = (z, v)"
      by (cases "open_session P S y c region target doc params u")
    note v = open_session_books [OF books assms(2) u op]
    show ?thesis
    proof (cases z)
      case (Inl e) with cx Inr op v show ?thesis by (simp add: run_session_def)
    next
      case (Inr started)
      then have "accounted opened closed L C (snd (?use y started v))"
        using moves_use_session [OF assms] v by (simp add: moves_def)
      with cx op \<open>x = Inr y\<close> Inr show ?thesis by (simp add: run_session_def)
    qed
  qed
qed

subsection \<open>The sessions a managed runner holds\<close>

definition unended :: "owned_session \<Rightarrow> string multiset" where
  "unended ow = (if os_ended ow then {#} else {#os_session_id ow#})"

fun live :: "(string, owned_session) dict \<Rightarrow> string multiset" where
  "live [] = {#}"
| "live ((k, ow) # d) = unended ow + live d"

lemma live_set_new: "dict_get d k = None \<Longrightarrow> live (dict_set k ow d) = live d + unended ow"
  by (induction d rule: live.induct) (auto split: if_splits)

lemma live_set_old:
  "dict_get d k = Some old \<Longrightarrow> live (dict_set k ow d) + unended old = live d + unended ow"
  by (induction d rule: live.induct) (auto split: if_splits)

lemma live_pop:
  "dict_ok d \<Longrightarrow> dict_get d k = Some ow \<Longrightarrow> live d = live (dict_pop k d) + unended ow"
proof (induction d rule: live.induct)
  case (2 j x d)
  then show ?case
    by (cases "j = k") (auto simp: dict_ok_def delete_id ac_simps)
qed simp

definition owned_books ::
    "('w \<Rightarrow> string multiset) \<Rightarrow> ('w \<Rightarrow> string multiset) \<Rightarrow> string set \<Rightarrow> string multiset
     \<Rightarrow> ('w, 'r, 'm) session_world_scheme \<Rightarrow> bool" where
  "owned_books opened closed K C s \<longleftrightarrow> dict_ok (sw_owned s) \<and> fst ` set (sw_owned s) \<subseteq> K \<and>
     accounted opened closed (\<lambda>s. live (sw_owned s)) C s"

lemma inert_live [simp]: "inert (\<lambda>s. live (sw_owned s))" "inert sw_owned"
  by (simp_all add: inert_def)

lemma frames_sw_owned: "outside_only m \<Longrightarrow> frames sw_owned m"
  by (rule frames_inert) simp_all

lemma moves_then:
  assumes "moves A B m" "\<And>s. B s \<Longrightarrow> D s" "\<And>x. moves B D (f x)"
  shows "moves A D (bind m f)"
  unfolding moves_def
proof (intro allI impI)
  fix s assume "A s"
  obtain r t where m: "m s = (r, t)" by (cases "m s")
  with assms(1) \<open>A s\<close> have "B t" unfolding moves_def by (metis snd_conv)
  with m assms(2,3) show "D (snd (bind m f s))" by (cases r) (auto simp: moves_def)
qed

definition owns :: "('w \<Rightarrow> string multiset) \<Rightarrow> ('w \<Rightarrow> string multiset) \<Rightarrow> string set \<Rightarrow> string multiset
    \<Rightarrow> string \<Rightarrow> owned_session \<Rightarrow> ('w, 'r, 'm) session_world_scheme \<Rightarrow> bool" where
  "owns opened closed K C i ow s \<longleftrightarrow>
     owned_books opened closed K C s \<and> dict_get (sw_owned s) i = Some ow"

definition released :: "('w \<Rightarrow> string multiset) \<Rightarrow> ('w \<Rightarrow> string multiset) \<Rightarrow> string set \<Rightarrow> string multiset
    \<Rightarrow> string \<Rightarrow> ('w, 'r, 'm) session_world_scheme \<Rightarrow> bool" where
  "released opened closed K C i s \<longleftrightarrow> owned_books opened closed K C s \<and>
     (\<exists>ow. dict_get (sw_owned s) i = Some ow \<and> os_ended ow)"

lemma keeps_owns:
  assumes "frames (\<lambda>s. opened (w_out s)) m" "frames (\<lambda>s. closed (w_out s)) m" "outside_only m"
  shows "keeps (owns opened closed K C i ow) m" "keeps (owned_books opened closed K C) m"
  using assms(1,2) frames_sw_owned [OF assms(3)]
  by (simp_all add: keeps_def frames_def owns_def owned_books_def accounted_def)

lemma moves_end_once:
  assumes "books_kept P S opened closed"
  shows "moves (owns opened closed K C i ow) (released opened closed K C i)
    (end_once S i ow :: ('w, 'r, 'm, unit) sw_io)"
proof (cases "os_ended ow")
  case True
  then show ?thesis by (auto simp: end_once_def moves_def owns_def released_def)
next
  case False
  have "released opened closed K C i (snd (end_once S i ow s))" if "owns opened closed K C i ow s"
    for s :: "('w, 'r, 'm) session_world_scheme"
  proof -
    let ?d = "dict_set i (ow\<lparr>os_ended := True\<rparr>) (sw_owned s)"
    have get: "dict_get (sw_owned s) i = Some ow" using that by (simp add: owns_def)
    have "live ?d + {#os_session_id ow#} = live (sw_owned s)"
      using live_set_old [OF get, of "ow\<lparr>os_ended := True\<rparr>"] False by (simp add: unended_def)
    moreover have "fst ` set ?d = fst ` set (sw_owned s)"
      using get by (auto simp: dom_update dest: map_of_SomeD intro: rev_image_eqI)
    ultimately show ?thesis
      using that assms False
      by (simp add: end_once_def mark_ended_def end_session_def released_def owns_def owned_books_def
          accounted_def books_kept_def quiet_def flip: \<open>live ?d + _ = _\<close>)
  qed
  then show ?thesis by (simp add: moves_def)
qed

lemma moves_capture_end_error:
  assumes "books_kept P S opened closed"
  shows "moves (owns opened closed K C i ow) (released opened closed K C i) (capture_end_error S i ow)"
  unfolding capture_end_error_def
  by (intro moves_bind moves_catching moves_end_once [OF assms]) simp

lemma moves_forget_owned:
  "moves (released opened closed K C i) (owned_books opened closed K C)
    (forget_owned i :: ('w, 'r, 'm, unit) sw_io)"
  unfolding moves_def
proof (intro allI impI)
  fix s :: "('w, 'r, 'm) session_world_scheme"
  assume s: "released opened closed K C i s"
  then obtain ow where get: "dict_get (sw_owned s) i = Some ow" "os_ended ow" "dict_ok (sw_owned s)"
    by (auto simp: released_def owned_books_def)
  from live_pop [OF get(3,1)] get(2) have "live (dict_pop i (sw_owned s)) = live (sw_owned s)"
    by (simp add: unended_def)
  moreover have "fst ` set (dict_pop i (sw_owned s)) \<subseteq> fst ` set (sw_owned s)"
    by (metis Diff_subset delete_keys set_map set_removeAll)
  ultimately show "owned_books opened closed K C (snd (forget_owned i s))"
    using s by (auto simp: forget_owned_def released_def owned_books_def accounted_def)
qed

subsection \<open>The managed runner\<close>

lemma released_owned: "released opened closed K C i s \<Longrightarrow> owned_books opened closed K C s"
  by (simp add: released_def)

lemma owns_owned: "owns opened closed K C i ow s \<Longrightarrow> owned_books opened closed K C s"
  by (simp add: owns_def)

lemma moves_release:
  assumes "books_kept P S opened closed"
  shows "moves (owns opened closed K C i ow) (owned_books opened closed K C)
    (bind (capture_end_error S i ow) (\<lambda>x. seq (forget_owned i) (ret (f x))))"
  by (rule moves_then [OF moves_capture_end_error [OF assms] released_owned])
    (auto intro!: moves_bind moves_forget_owned)

lemma keeps_stop_process:
  assumes "books_kept P S opened closed"
  shows "keeps (owns opened closed K C i ow) (stop_process S p)"
  using books_keptD [OF assms] by (intro keeps_owns frames_stop_process) simp_all

lemma moves_status_failed:
  assumes "books_kept P S opened closed"
  shows "moves (owns opened closed K C i ow) (owned_books opened closed K C) (status_failed S i ow e)"
  unfolding status_failed_def
  by (rule moves_then [OF keeps_stop_process [OF assms, unfolded moves_keeps] owns_owned])
    (auto intro!: moves_release [OF assms] split: prod.split)

lemma moves_status_finished:
  assumes "books_kept P S opened closed"
  shows "moves (owns opened closed K C i ow) (owned_books opened closed K C) (status_finished S i ow c)"
  unfolding status_finished_def Let_def by (rule moves_release [OF assms])

lemma moves_stop_owned:
  assumes "books_kept P S opened closed"
  shows "moves (owns opened closed K C i ow) (owned_books opened closed K C) (stop_owned S i ow b r)"
  unfolding stop_owned_def Let_def by (cases r) (auto intro!: moves_release [OF assms])

lemma keeps_poll:
  assumes "books_kept P S opened closed"
  shows "keeps (owns opened closed K C i ow) (catching (call_out (sp_poll S p)))"
  using books_keptD [OF assms]
  by (intro keeps_catching keeps_owns frames_call_out) (simp_all add: plugin_quiet_def)

lemma require_owned_cases:
  assumes "\<And>ow. moves (owns opened closed K C i ow) (owned_books opened closed K C) (f ow)"
  shows "keeps (owned_books opened closed K C)
    (bind (require_owned i) f :: ('w, 'r, 'm, 'a) sw_io)"
proof (rule keepsI)
  fix s :: "('w, 'r, 'm) session_world_scheme"
  assume s: "owned_books opened closed K C s"
  show "owned_books opened closed K C (snd (bind (require_owned i) f s))"
  proof (cases "dict_get (sw_owned s) i")
    case None with s show ?thesis by (simp add: require_owned_def bind_def)
  next
    case (Some ow)
    with s have "owns opened closed K C i ow s" by (simp add: owns_def)
    with assms Some show ?thesis by (simp add: require_owned_def bind_def moves_def)
  qed
qed

lemma moves_ret_owned: "moves (owns opened closed K C i ow) (owned_books opened closed K C) (ret x)"
  by (simp add: moves_def owns_def)

lemma keeps_session_status:
  assumes "books_kept P S opened closed"
  shows "keeps (owned_books opened closed K C) (session_status S i)"
  unfolding session_status_def
  by (intro require_owned_cases moves_then [OF keeps_poll [OF assms, unfolded moves_keeps] owns_owned])
    (auto split: sum.split option.split intro: moves_ret_owned moves_status_failed [OF assms]
      moves_status_finished [OF assms])

lemma moves_stop_running:
  assumes "books_kept P S opened closed"
  shows "moves (owns opened closed K C i ow) (owned_books opened closed K C)
    (bind (stop_process S p) (\<lambda>(rc, failed). stop_owned S i ow False (rc, f failed)))"
  by (rule moves_then [OF keeps_stop_process [OF assms, unfolded moves_keeps] owns_owned])
    (auto intro!: moves_stop_owned [OF assms] split: prod.split)

lemma keeps_session_stop:
  assumes "books_kept P S opened closed"
  shows "keeps (owned_books opened closed K C) (session_stop S i)"
  unfolding session_stop_def
  by (intro require_owned_cases moves_then [OF keeps_poll [OF assms, unfolded moves_keeps] owns_owned])
    (auto split: sum.split option.split
      intro: moves_stop_running [OF assms] moves_stop_owned [OF assms])

lemma own_session_books:
  fixes s :: "('w, 'r, 'm) session_world_scheme"
  assumes books: "books_kept P S opened closed"
    and "owned_books opened closed K (add_mset (os_session_id ow) C) s"
    and "dict_get (sw_owned s) (cx_operation_id cx) = None" "\<not> os_ended ow"
  shows "owned_books opened closed (insert (cx_operation_id cx) K) C (snd (own_session P S cx ow target s))"
proof -
  let ?i = "cx_operation_id cx"
  let ?t = "sw_owned_update (dict_set ?i ow) s"
  have t: "owned_books opened closed (insert ?i K) C ?t"
    using assms(2-4) by (auto simp: owned_books_def accounted_def live_set_new unended_def dom_update)
  have "keeps (owned_books opened closed (insert ?i K) C) 
      (report_progress P cx ph m x y tg :: ('w, 'r, 'm, unit) sw_io)" for ph m x y tg
    using books_keptD [OF books] by (intro keeps_owns frames_report_progress) simp_all
  then have "keeps (owned_books opened closed (insert ?i K) C)
     (seq (try_except (report_progress P cx ''running'' ''session.running'' (Some 1) (Some 1) (Some target))
        (\<lambda>primary. bind (session_stop S ?i) (\<lambda>_. throw primary)))
      (ret (snapshot ?i ow OpRunning None None None)) :: ('w, 'r, 'm, managed_session) sw_io)"
    by (intro keeps_bind keeps_try_except keeps_session_stop [OF books]) simp_all
  with t show ?thesis by (simp add: own_session_def Let_def keeps_def bind_modify)
qed

lemma session_start_books:
  fixes s :: "('w, 'r, 'm) session_world_scheme"
  assumes books: "books_kept P S opened closed" and s: "owned_books opened closed K C s"
    and fresh: "dict_get (sw_owned s) (cx_operation_id cx) = None"
  shows "owned_books opened closed (insert (cx_operation_id cx) K) C
    (snd (session_start P S c region target doc params external (Some cx) s))"
proof -
  let ?goal = "\<lambda>t. owned_books opened closed (insert (cx_operation_id cx) K) C t"
  obtain x u where op: "open_session P S cx c region target doc params s = (x, u)"
    by (cases "open_session P S cx c region target doc params s")
  have owned: "sw_owned u = sw_owned s" by (rule framesD [OF frames_sw_owned [OF outside_open_session] op])
  have acc: "accounted opened closed (\<lambda>s. live (sw_owned s)) C s" using s by (simp add: owned_books_def)
  note u = open_session_books [OF books inert_live(1) acc op]
  show ?thesis
  proof (cases x)
    case (Inl e)
    with op u owned s show ?thesis
      by (auto simp: session_start_def given_context_def owned_books_def)
  next
    case (Inr started)
    let ?i = "st_session_id started"
    let ?job = "\<lparr>pi_session = started, pi_region = region, pi_target = target,
      pi_document_name = doc, pi_parameters = params\<rparr>"
    have u: "owned_books opened closed K (add_mset ?i C) u"
      using u owned s Inr by (simp add: owned_books_def)
    obtain y v where la: "launch_plugin P S cx ?job external u = (y, v)"
      by (cases "launch_plugin P S cx ?job external u")
    have "keeps (owned_books opened closed K (add_mset ?i C)) (launch_plugin P S cx ?job external)"
      using books_keptD [OF books] by (intro keeps_owns frames_launch_plugin) simp_all
    from keepsD [OF this u la] have v: "owned_books opened closed K (add_mset ?i C) v" .
    have ov: "sw_owned v = sw_owned s"
      using framesD [OF frames_sw_owned [OF outside_launch_plugin] la] owned by simp
    show ?thesis
    proof (cases y)
      case (Inl e)
      let ?fail = "raise_start_failure S c region ?i e :: ('w, 'r, 'm, managed_session) sw_io"
      have "moves (accounted opened closed (\<lambda>s. live (sw_owned s)) (add_mset ?i C))
          (accounted opened closed (\<lambda>s. live (sw_owned s)) C) ?fail"
        unfolding raise_start_failure_def
        by (intro moves_bind moves_catching moves_end_session [OF books]) simp_all
      then have "accounted opened closed (\<lambda>s. live (sw_owned s)) C (snd (?fail v))"
        using v by (simp add: moves_def owned_books_def)
      moreover have "sw_owned (snd (?fail v)) = sw_owned v"
        using frames_sw_owned [of ?fail] by (simp add: frames_def)
      ultimately have "?goal (snd (?fail v))" using v by (auto simp: owned_books_def)
      with op la Inr Inl show ?thesis by (simp add: session_start_def given_context_def bind_def)
    next
      case (Inr p)
      with op la \<open>x = Inr started\<close> own_session_books [OF books, of K _ C v cx target] v fresh ov
      show ?thesis by (simp add: session_start_def given_context_def bind_def)
    qed
  qed
qed

subsection \<open>Any sequence of calls\<close>

datatype session_call =
    StartSession plain_credentials string string "string option" "parameters option" bool op_context
  | StatusSession string
  | StopSession string

fun run_session_call ::
    "'w ports \<Rightarrow> 'w session_ports \<Rightarrow> session_call \<Rightarrow> ('w, 'r, 'm) session_world_scheme
     \<Rightarrow> ('w, 'r, 'm) session_world_scheme" where
  "run_session_call P S (StartSession c r t d p x cx) s = snd (session_start P S c r t d p x (Some cx) s)"
| "run_session_call P S (StatusSession i) s = snd (session_status S i s)"
| "run_session_call P S (StopSession i) s = snd (session_stop S i s)"

fun started_ids :: "session_call list \<Rightarrow> string list" where
  "started_ids [] = []"
| "started_ids (StartSession c r t d p x cx # cs) = cx_operation_id cx # started_ids cs"
| "started_ids (_ # cs) = started_ids cs"

lemma owned_books_fresh: "owned_books opened closed K C s \<Longrightarrow> i \<notin> K \<Longrightarrow> dict_get (sw_owned s) i = None"
  by (auto simp: owned_books_def map_of_eq_None_iff)

lemmas status_books = keeps_session_status [unfolded keeps_def, rule_format]

lemmas stop_books = keeps_session_stop [unfolded keeps_def, rule_format]

lemma session_history_books:
  assumes "books_kept P S opened closed" "owned_books opened closed K C s"
    "distinct (started_ids calls)" "set (started_ids calls) \<inter> K = {}"
  shows "\<exists>K'. owned_books opened closed K' C (fold (run_session_call P S) calls s)"
  using assms(2-4)
proof (induction calls arbitrary: K s)
  case (Cons call calls)
  show ?case
  proof (cases call)
    case (StartSession c r t d p x cx)
    have "owned_books opened closed (insert (cx_operation_id cx) K) C (run_session_call P S call s)"
      using session_start_books [OF assms(1) Cons.prems(1) owned_books_fresh [OF Cons.prems(1)]]
        Cons.prems StartSession by simp
    from Cons.IH [OF this] show ?thesis using Cons.prems StartSession by simp
  next
    case (StatusSession i)
    then have "owned_books opened closed K C (run_session_call P S call s)"
      by (simp add: status_books [OF assms(1) Cons.prems(1)])
    from Cons.IH [OF this] show ?thesis using Cons.prems StatusSession by simp
  next
    case (StopSession i)
    then have "owned_books opened closed K C (run_session_call P S call s)"
      by (simp add: stop_books [OF assms(1) Cons.prems(1)])
    from Cons.IH [OF this] show ?thesis using Cons.prems StopSession by simp
  qed
qed auto

end
