(* ===== verification/Tunnel_Service.thy ===== *)
theory Tunnel_Service
  imports Session_Books
begin

text \<open>
  Saved tunnel sessions and the tunnels that run (\<open>application/rds_tunnel_service.py\<close>), and their
  start behind MFA (\<open>application/rds_tunnel_operation.py\<close>).  The service keeps the managed tunnels
  in a dictionary by operation id; the sessions themselves belong to the managed runner.  The
  reentrant lock makes each operation one step.  Where the store stamps rows with its own clock,
  the reading is an argument \<open>now\<close> or the port \<open>tp_store_now\<close>.
\<close>

subsection \<open>Saved tunnel sessions\<close>

type_synonym item_selector = "int + string"  \<comment> \<open>\<open>int | str\<close>\<close>

record save_tunnel_request =
  sr_profile :: selector
  sr_name :: string
  sr_host :: string
  sr_remote_port :: int
  sr_local_port :: int
  sr_target_mode :: target_mode
  sr_target_instance_id :: "string option"
  sr_tunnel_id :: "int option"
  sr_session_duration_hours :: "int option"

definition profile_id_of :: "selector \<Rightarrow> ('w, 'm, int) io" where
  "profile_id_of sel = bind (resolve_profile sel) (\<lambda>p. of_app (require_profile_id p))"

definition resolve_tunnel :: "item_selector \<Rightarrow> int \<Rightarrow> ('w, 'm, tunnel_session) io" where
  "resolve_tunnel sel profile_id =
     bind (case sel of
             Inl i \<Rightarrow> on_db (get_tunnel i)
           | Inr s \<Rightarrow> if isdigit s then bind (of_result (int_of_text s)) (\<lambda>i. on_db (get_tunnel i))
                     else on_db (get_tunnel_by_name profile_id s))
       (\<lambda>found. case found of
          None \<Rightarrow> raise_app (config_error ''rds.session.not_found'') | Some t \<Rightarrow> ret t)"

definition list_tunnel_sessions :: "selector \<Rightarrow> ('w, 'm, tunnel_session list) io" where
  "list_tunnel_sessions profile = bind (profile_id_of profile) (\<lambda>i. on_db (list_tunnels i))"

definition show_tunnel :: "item_selector \<Rightarrow> selector \<Rightarrow> ('w, 'm, tunnel_session) io" where
  "show_tunnel sel profile =
     bind (profile_id_of profile) (\<lambda>i.
     bind (resolve_tunnel sel i) (\<lambda>t.
       if ts_profile_id t \<noteq> i then raise_app (config_error ''rds.session.not_found'') else ret t))"

definition tunnel_from_request ::
    "save_tunnel_request \<Rightarrow> tunnel_session option \<Rightarrow> ('w, 'm, tunnel_session) io" where
  "tunnel_from_request r current =
     bind (profile_id_of (sr_profile r)) (\<lambda>i.
       of_app (tunnel_session_init \<lparr>
         ts_id = Option.bind current ts_id, ts_profile_id = i, ts_name = sr_name r,
         ts_host = sr_host r, ts_remote_port = sr_remote_port r, ts_local_port = sr_local_port r,
         ts_target_mode = sr_target_mode r, ts_target_instance_id = sr_target_instance_id r,
         ts_created_at = Option.bind current ts_created_at,
         ts_updated_at = Option.bind current ts_updated_at,
         ts_last_used_at = Option.bind current ts_last_used_at,
         ts_session_duration_hours = (case sr_session_duration_hours r of Some h \<Rightarrow> h
           | None \<Rightarrow> (case current of Some c \<Rightarrow> ts_session_duration_hours c
               | None \<Rightarrow> default_tunnel_session_duration_hours))\<rparr>))"

definition create_tunnel_use_case ::
    "instant \<Rightarrow> save_tunnel_request \<Rightarrow> ('w, 'm, tunnel_session) io" where
  "create_tunnel_use_case now r =
     bind (tunnel_from_request r None) (\<lambda>t. on_db (create_tunnel now t))"

definition update_tunnel_use_case ::
    "instant \<Rightarrow> save_tunnel_request \<Rightarrow> ('w, 'm, tunnel_session) io" where
  "update_tunnel_use_case now r =
     (case sr_tunnel_id r of None \<Rightarrow> raise_app (config_error ''rds.session.id.required'') | Some i \<Rightarrow>
      bind (show_tunnel (Inl i) (sr_profile r)) (\<lambda>current.
      bind (tunnel_from_request r (Some current)) (\<lambda>t. on_db (update_tunnel now t))))"

definition saved_request :: "tunnel_session \<Rightarrow> string \<Rightarrow> int option \<Rightarrow> int option \<Rightarrow> save_tunnel_request" where
  \<comment> \<open>the request that saves \<open>t\<close> again under another name\<close>
  "saved_request t name i duration = \<lparr>
     sr_profile = SelInt (ts_profile_id t), sr_name = name, sr_host = ts_host t,
     sr_remote_port = ts_remote_port t, sr_local_port = ts_local_port t,
     sr_target_mode = ts_target_mode t, sr_target_instance_id = ts_target_instance_id t,
     sr_tunnel_id = i, sr_session_duration_hours = duration\<rparr>"

definition rename_tunnel ::
    "instant \<Rightarrow> item_selector \<Rightarrow> string \<Rightarrow> selector \<Rightarrow> ('w, 'm, tunnel_session) io" where
  "rename_tunnel now sel name profile =
     bind (show_tunnel sel profile) (\<lambda>source.
     bind (of_app (require_tunnel_id source)) (\<lambda>i.
       update_tunnel_use_case now (saved_request source name (Some i) None)))"

definition clone_tunnel ::
    "instant \<Rightarrow> item_selector \<Rightarrow> string \<Rightarrow> selector \<Rightarrow> ('w, 'm, tunnel_session) io" where
  "clone_tunnel now sel name profile =
     bind (show_tunnel sel profile) (\<lambda>source.
       create_tunnel_use_case now
         (saved_request source name None (Some (ts_session_duration_hours source))))"

definition delete_tunnel_use_case :: "item_selector \<Rightarrow> selector \<Rightarrow> ('w, 'm, unit) io" where
  "delete_tunnel_use_case sel profile =
     bind (show_tunnel sel profile) (\<lambda>t.
     bind (of_app (require_tunnel_id t)) (\<lambda>i. on_db (delete_tunnel i)))"

subsection \<open>Running tunnels\<close>

datatype tunnel_owner = OwnerForeground | OwnerGui

record tunnel_handle =
  th_session_id :: string
  th_owner :: tunnel_owner
  th_state :: operation_state
  th_operation_id :: "string option"
  th_process_id :: "int option"
  th_local_host :: string
  th_local_port :: "int option"
  th_exit_code :: "int option"
  th_end_reason :: "session_end_reason option"

record tunnel_connection =
  tc_tunnel :: tunnel_session
  tc_target_instance_id :: string
  tc_handle :: tunnel_handle
  tc_plugin_exit_code :: "int option"
  tc_error :: "app_error option"

record start_tunnel_request =
  st_tunnel :: item_selector
  st_profile :: selector
  st_selected_instance_id :: "string option"

record managed_tunnel =
  mt_tunnel :: tunnel_session
  mt_target_instance_id :: string
  mt_process_id :: int
  mt_session_id :: string
  mt_expires_at :: instant

record ('w, 'r) tunnel_world = "('w, 'r) session_world" +
  tw_managed :: "(string, managed_tunnel) dict"

type_synonym ('w, 'r, 'm, 'a) tw_io = "(('w, 'r, 'm) tunnel_world_scheme, exn, 'a) eff"

record 'w tunnel_ports =
  tp_sessions :: "'w session_ports"
  tp_port_available :: "int \<Rightarrow> 'w \<Rightarrow> (exn + bool) \<times> 'w"
  tp_store_now :: "'w \<Rightarrow> instant \<times> 'w"
  tp_managed :: bool  \<comment> \<open>a managed runner is given\<close>

definition port_forward_document :: string where
  "port_forward_document = ''AWS-StartPortForwardingSessionToRemoteHost''"

definition local_port_available :: "'w tunnel_ports \<Rightarrow> int \<Rightarrow> ('w, 'm, bool) io" where
  "local_port_available T port =
     bind (of_app (validate_local_port port)) (\<lambda>_. call_out (tp_port_available T port))"

definition port_in_use :: "int \<Rightarrow> app_error" where
  "port_in_use port = mk_error PortAlreadyInUseError ''rds.tunnel.local_port_in_use''
     (''Local port '' @ str_of_int port @ '' is already in use'')"

definition target_not_online :: app_error where
  "target_not_online = on_aws ''ssm'' ''DescribeInstanceInformation''
     (mk_error TargetNotConnectedError ''rds.tunnel.target_not_online''
        ''The relay instance is not an online SSM managed node'')"

definition require_online_target ::
    "'w session_ports \<Rightarrow> plain_credentials \<Rightarrow> string \<Rightarrow> string \<Rightarrow> ('w, 'm, unit) io" where
  "require_online_target S c region target =
     bind (call_out (sp_list_online S c region)) (\<lambda>online.
       raise_when (\<not> list_ex (\<lambda>m. mi_instance_id m = target \<and> mi_ping_status m = ''Online'') online)
         (AppExn target_not_online))"

record prepared_tunnel =
  pp_profile :: aws_profile
  pp_profile_id :: int
  pp_tunnel :: tunnel_session
  pp_credentials :: plain_credentials
  pp_target :: string
  pp_parameters :: parameters

definition tunnel_parameters :: "tunnel_session \<Rightarrow> parameters" where
  "tunnel_parameters t =
     [(''host'', [ts_host t]), (''portNumber'', [str_of_int (ts_remote_port t)]),
      (''localPortNumber'', [str_of_int (ts_local_port t)])]"

definition prepare_tunnel ::
    "'w ports \<Rightarrow> 'w tunnel_ports \<Rightarrow> start_tunnel_request \<Rightarrow> ('w, 'm, prepared_tunnel) io" where
  "prepare_tunnel P T r =
     bind (resolve_profile (st_profile r)) (\<lambda>p.
     bind (of_app (require_profile_id p)) (\<lambda>i.
     bind (show_tunnel (st_tunnel r) (SelInt i)) (\<lambda>t.
     bind (local_port_available T (ts_local_port t)) (\<lambda>free.
     seq (raise_when (\<not> free) (AppExn (port_in_use (ts_local_port t))))
     (bind (of_app (resolve_target t (st_selected_instance_id r))) (\<lambda>target.
      bind (require_credentials P i) (\<lambda>c.
      seq (require_online_target (tp_sessions T) c (ap_region p) target)
        (ret \<lparr>pp_profile = p, pp_profile_id = i, pp_tunnel = t, pp_credentials = c,
              pp_target = target, pp_parameters = tunnel_parameters t\<rparr>))))))))"

definition profile_entry :: "aws_profile \<Rightarrow> int \<Rightarrow> log_call \<Rightarrow> log_call" where
  \<comment> \<open>\<open>profile_id\<close> and \<open>region\<close> of a history entry\<close>
  "profile_entry p i e = e\<lparr>lc_profile_id := Some i, lc_region := Some (ap_region p)\<rparr>"

definition log_tunnel_started :: "'w ports \<Rightarrow> prepared_tunnel \<Rightarrow> string \<Rightarrow> ('w, 'm, unit) io" where
  "log_tunnel_started P pr op =
     record_success P ''rds'' ''start'' (\<lambda>e. (profile_entry (pp_profile pr) (pp_profile_id pr) e)
       \<lparr>lc_target := ts_name (pp_tunnel pr), lc_operation_id := Some op,
        lc_metadata := [(''local_port'', MetaInt (ts_local_port (pp_tunnel pr))),
                        (''remote_port'', MetaInt (ts_remote_port (pp_tunnel pr)))]\<rparr>)"

definition touch_prepared :: "'w ports \<Rightarrow> 'w tunnel_ports \<Rightarrow> prepared_tunnel \<Rightarrow> ('w, 'm, unit) io" where
  "touch_prepared P T pr =
     bind (of_app (require_tunnel_id (pp_tunnel pr))) (\<lambda>i.
     bind (clock_now P) (\<lambda>used_at.
     bind (ask (tp_store_now T)) (\<lambda>now. on_db (touch_tunnel now i used_at))))"

definition show_prepared :: "prepared_tunnel \<Rightarrow> ('w, 'm, tunnel_session) io" where
  "show_prepared pr =
     bind (of_app (require_tunnel_id (pp_tunnel pr))) (\<lambda>i.
       show_tunnel (Inl i) (SelInt (pp_profile_id pr)))"

definition start_tunnel_body ::
    "'w ports \<Rightarrow> 'w tunnel_ports \<Rightarrow> start_tunnel_request \<Rightarrow> op_context option
     \<Rightarrow> ('w, 'm, tunnel_connection) io" where
  "start_tunnel_body P T r context =
     bind (given_context P context) (\<lambda>cx.
     seq (raise_if_cancelled P cx)
     (bind (prepare_tunnel P T r) (\<lambda>pr.
      seq (report_progress P cx ''target-validation'' ''rds.tunnel.target.validate'' None None
             (Some (pp_target pr)))
      (bind (run_session P (tp_sessions T) (pp_credentials pr) (ap_region (pp_profile pr))
               (pp_target pr) (Some port_forward_document) (Some (pp_parameters pr)) (Some cx)
               (Some (ts_session_duration_hours (pp_tunnel pr) * 3600))) (\<lambda>result.
       seq (touch_prepared P T pr)
       (seq (log_tunnel_started P pr (cx_operation_id cx))
       (seq (case rr_end_reason result of None \<Rightarrow> skip
             | Some reason \<Rightarrow> record_success P ''rds'' ''stop''
                 (\<lambda>e. (profile_entry (pp_profile pr) (pp_profile_id pr) e)
                   \<lparr>lc_target := ts_name (pp_tunnel pr), lc_operation_id := Some (cx_operation_id cx),
                    lc_metadata := [(''reason'', MetaStr (end_reason_value reason))]\<rparr>))
       (bind (show_prepared pr) (\<lambda>t.
          ret \<lparr>tc_tunnel = t, tc_target_instance_id = pp_target pr,
            tc_handle = \<lparr>th_session_id = rr_session_id result, th_owner = OwnerForeground,
              th_state = OpSucceeded, th_operation_id = None, th_process_id = None,
              th_local_host = ''127.0.0.1'', th_local_port = None, th_exit_code = None,
              th_end_reason = rr_end_reason result\<rparr>,
            tc_plugin_exit_code = Some (rr_plugin_exit_code result), tc_error = None\<rparr>)))))))))"

definition start_tunnel ::
    "'w ports \<Rightarrow> 'w tunnel_ports \<Rightarrow> start_tunnel_request \<Rightarrow> op_context option
     \<Rightarrow> ('w, 'm, tunnel_connection) io" where
  "start_tunnel P T r context =
     logged P ''rds'' ''start'' False ''-'' True context (start_tunnel_body P T r)"

definition managed_handle ::
    "tunnel_session \<Rightarrow> managed_session \<Rightarrow> session_end_reason option \<Rightarrow> tunnel_handle" where
  \<comment> \<open>\<open>_handle\<close>, which is only called for the owner \<open>GUI\<close>\<close>
  "managed_handle t m reason =
     \<lparr>th_session_id = ms_session_id m, th_owner = OwnerGui, th_state = ms_state m,
      th_operation_id = Some (ms_operation_id m), th_process_id = Some (ms_process_id m),
      th_local_host = ''127.0.0.1'', th_local_port = Some (ts_local_port t),
      th_exit_code = ms_exit_code m, th_end_reason = reason\<rparr>"

definition no_managed_runner :: app_error where
  "no_managed_runner = config_error ''rds.tunnel.managed_runner.unavailable''"

definition manage_tunnel :: "string \<Rightarrow> managed_tunnel \<Rightarrow> ('w, 'r, 'm, unit) tw_io" where
  "manage_tunnel i m = modify (tw_managed_update (dict_set i m))"

definition forget_tunnel :: "string \<Rightarrow> ('w, 'r, 'm, unit) tw_io" where
  "forget_tunnel i = modify (tw_managed_update (dict_pop i))"

definition start_managed_body ::
    "'w ports \<Rightarrow> 'w tunnel_ports \<Rightarrow> start_tunnel_request \<Rightarrow> op_context option
     \<Rightarrow> ('w, 'r, 'm, tunnel_connection) tw_io" where
  "start_managed_body P T r context =
     (if \<not> tp_managed T then raise_app no_managed_runner else
      bind (given_context P context) (\<lambda>cx.
      seq (raise_if_cancelled P cx)
      (bind (prepare_tunnel P T r) (\<lambda>pr.
       seq (report_progress P cx ''target-validation'' ''rds.tunnel.target.validate'' None None
              (Some (pp_target pr)))
       (bind (session_start P (tp_sessions T) (pp_credentials pr) (ap_region (pp_profile pr))
                (pp_target pr) (Some port_forward_document) (Some (pp_parameters pr)) False (Some cx)) (\<lambda>m.
        bind (clock_now P) (\<lambda>connected_at.
        seq (manage_tunnel (ms_operation_id m) \<lparr>mt_tunnel = pp_tunnel pr,
               mt_target_instance_id = pp_target pr, mt_process_id = ms_process_id m,
               mt_session_id = ms_session_id m,
               mt_expires_at = connected_at + hours (ts_session_duration_hours (pp_tunnel pr))\<rparr>)
        (seq (touch_prepared P T pr)
        (seq (log_tunnel_started P pr (cx_operation_id cx))
        (bind (show_prepared pr) (\<lambda>t.
           ret \<lparr>tc_tunnel = t, tc_target_instance_id = pp_target pr,
             tc_handle = managed_handle (pp_tunnel pr) m None,
             tc_plugin_exit_code = None, tc_error = None\<rparr>)))))))))))"

definition start_managed ::
    "'w ports \<Rightarrow> 'w tunnel_ports \<Rightarrow> start_tunnel_request \<Rightarrow> op_context option
     \<Rightarrow> ('w, 'r, 'm, tunnel_connection) tw_io" where
  "start_managed P T r context =
     logged P ''rds'' ''start_managed'' False ''-'' True context (start_managed_body P T r)"

subsection \<open>Polling and stopping\<close>

definition finish_stop ::
    "'w ports \<Rightarrow> op_context \<Rightarrow> string \<Rightarrow> tunnel_session \<Rightarrow> session_end_reason option
     \<Rightarrow> managed_session \<Rightarrow> ('w, 'm, tunnel_handle) io" where
  \<comment> \<open>\<open>stop\<close> once the runner has returned\<close>
  "finish_stop P cx i t reason m =
     (case ms_error m of Some err \<Rightarrow> raise_app err | None \<Rightarrow>
      seq (report_progress P cx ''stopped'' ''rds.tunnel.stopped'' (Some 1) (Some 1) (Some (ts_name t)))
      (seq (record_success P ''rds'' ''stop'' (\<lambda>e. e\<lparr>lc_target := ts_name t,
              lc_profile_id := Some (ts_profile_id t), lc_operation_id := Some i,
              lc_metadata := (case reason of None \<Rightarrow> []
                | Some x \<Rightarrow> [(''reason'', MetaStr (end_reason_value x))])\<rparr>))
         (ret (managed_handle t m reason))))"

definition stop_tunnel_body ::
    "'w ports \<Rightarrow> 'w tunnel_ports \<Rightarrow> string \<Rightarrow> session_end_reason option \<Rightarrow> op_context option
     \<Rightarrow> ('w, 'r, 'm, tunnel_handle) tw_io" where
  "stop_tunnel_body P T i reason context =
     (if \<not> tp_managed T then raise_app no_managed_runner else
      bind (gets (\<lambda>s. dict_get (tw_managed s) i)) (\<lambda>found. case found of
        None \<Rightarrow> raise_app (config_error ''rds.tunnel.operation.not_found'')
      | Some entry \<Rightarrow>
          let t = mt_tunnel entry in
          bind (case context of Some cx \<Rightarrow> ret cx | None \<Rightarrow> new_context P (Some i)) (\<lambda>cx.
          seq (raise_if_cancelled P cx)
          (seq (report_progress P cx ''stopping'' ''rds.tunnel.stop'' None None (Some (ts_name t)))
          (bind (try_finally (session_stop (tp_sessions T) i) (forget_tunnel i))
             (finish_stop P cx i t reason))))))"

definition stop_tunnel ::
    "'w ports \<Rightarrow> 'w tunnel_ports \<Rightarrow> string \<Rightarrow> op_context option \<Rightarrow> session_end_reason option
     \<Rightarrow> ('w, 'r, 'm, tunnel_handle) tw_io" where
  "stop_tunnel P T i context reason =
     logged P ''rds'' ''stop'' False ''-'' True context (stop_tunnel_body P T i reason)"

definition owned_tunnels :: "int option \<Rightarrow> (string, managed_tunnel) dict \<Rightarrow> (string \<times> managed_tunnel) list" where
  "owned_tunnels profile_id d =
     filter (\<lambda>(i, m). profile_id = None \<or> profile_id = Some (ts_profile_id (mt_tunnel m))) d"

definition probe_tunnel ::
    "'w ports \<Rightarrow> 'w tunnel_ports \<Rightarrow> string \<Rightarrow> managed_tunnel
     \<Rightarrow> ('w, 'r, 'm, tunnel_handle + managed_session) tw_io" where
  \<comment> \<open>the \<open>try\<close> block of \<open>active_tunnels\<close>: an expired tunnel is stopped, another one polled\<close>
  "probe_tunnel P T i entry =
     bind (clock_now P) (\<lambda>now.
       if mt_expires_at entry \<le> now
       then bind (stop_tunnel P T i None (Some MaxDuration)) (\<lambda>h. ret (Inl h))
       else bind (session_status (tp_sessions T) i) (\<lambda>m. ret (Inr m)))"

definition lost_session :: "string \<Rightarrow> managed_tunnel \<Rightarrow> app_error \<Rightarrow> managed_session" where
  "lost_session i entry err =
     \<lparr>ms_operation_id = i, ms_process_id = mt_process_id entry, ms_session_id = mt_session_id entry,
      ms_state = OpFailed, ms_exit_code = None, ms_error = Some err, ms_warning = None\<rparr>"

definition poll_tunnel ::
    "'w ports \<Rightarrow> 'w tunnel_ports \<Rightarrow> string \<times> managed_tunnel \<Rightarrow> ('w, 'r, 'm, tunnel_connection) tw_io" where
  "poll_tunnel P T owned = (case owned of (i, entry) \<Rightarrow>
     let polled = (\<lambda>m. seq (if ms_state m = OpRunning then skip else forget_tunnel i)
           (ret \<lparr>tc_tunnel = mt_tunnel entry, tc_target_instance_id = mt_target_instance_id entry,
              tc_handle = managed_handle (mt_tunnel entry) m None,
              tc_plugin_exit_code = ms_exit_code m, tc_error = ms_error m\<rparr>))
     in bind (attempt (probe_tunnel P T i entry)) (\<lambda>r. case r of
          Inr (Inl h) \<Rightarrow> ret \<lparr>tc_tunnel = mt_tunnel entry,
            tc_target_instance_id = mt_target_instance_id entry, tc_handle = h,
            tc_plugin_exit_code = th_exit_code h, tc_error = None\<rparr>
        | Inr (Inr m) \<Rightarrow> polled m
        | Inl (AppExn err) \<Rightarrow> polled (lost_session i entry err)
        | Inl e \<Rightarrow> throw e))"

definition active_tunnels ::
    "'w ports \<Rightarrow> 'w tunnel_ports \<Rightarrow> int option \<Rightarrow> ('w, 'r, 'm, tunnel_connection list) tw_io" where
  "active_tunnels P T profile_id =
     (if \<not> tp_managed T then ret []
      else bind (gets (\<lambda>s. owned_tunnels profile_id (tw_managed s))) (map_each (poll_tunnel P T)))"

definition stop_each ::
    "'w ports \<Rightarrow> 'w tunnel_ports \<Rightarrow> string \<Rightarrow> ('w, 'r, 'm, app_error + tunnel_handle) tw_io" where
  \<comment> \<open>one round of \<open>stop_all\<close>: only an application error is kept for later\<close>
  "stop_each P T i =
     bind (attempt (stop_tunnel P T i None None)) (\<lambda>r. case r of
       Inr h \<Rightarrow> ret (Inr h) | Inl (AppExn err) \<Rightarrow> ret (Inl err) | Inl e \<Rightarrow> throw e)"

definition stop_all ::
    "'w ports \<Rightarrow> 'w tunnel_ports \<Rightarrow> int option \<Rightarrow> ('w, 'r, 'm, tunnel_handle list) tw_io" where
  "stop_all P T profile_id =
     bind (gets (\<lambda>s. map fst (owned_tunnels profile_id (tw_managed s)))) (\<lambda>ids.
     bind (map_each (stop_each P T) ids) (\<lambda>outcomes.
       case List.map_filter (\<lambda>r. case r of Inl err \<Rightarrow> Some err | Inr _ \<Rightarrow> None) outcomes of
         err # _ \<Rightarrow> raise_app err
       | [] \<Rightarrow> ret (map projr outcomes)))"

subsection \<open>Tunnels behind MFA\<close>

datatype tunnel_request = TunnelRequest start_tunnel_request bool  \<comment> \<open>managed or in the foreground\<close>

type_synonym ('w, 'm, 'a) tunnel_io = "('w, tunnel_request, 'm, 'a) tw_io"

fun tunnel_action ::
    "'w ports \<Rightarrow> 'w tunnel_ports \<Rightarrow> tunnel_request \<Rightarrow> op_context \<Rightarrow> ('w, 'm, tunnel_connection) tunnel_io" where
  "tunnel_action P T (TunnelRequest r managed) cx =
     (if managed then start_managed P T r (Some cx) else start_tunnel P T r (Some cx))"

definition operation_context ::
    "'w ports \<Rightarrow> string option \<Rightarrow> nat option \<Rightarrow> bool \<Rightarrow> ('w, 'm, op_context) io" where
  \<comment> \<open>\<open>_context\<close>\<close>
  "operation_context P i cancellation progress =
     bind (new_context P (given i)) (\<lambda>cx.
       ret (cx\<lparr>cx_cancellation := cancellation, cx_progress := progress\<rparr>))"

definition start_tunnel_operation ::
    "'w ports \<Rightarrow> 'w tunnel_ports \<Rightarrow> start_tunnel_request \<Rightarrow> bool \<Rightarrow> nat option \<Rightarrow> bool
     \<Rightarrow> ('w, 'm, tunnel_connection operation_result) tunnel_io" where
  "start_tunnel_operation P T r managed cancellation progress =
     bind (operation_context P None cancellation progress) (\<lambda>cx.
       start_long P (tunnel_action P T) (st_profile r) (TunnelRequest r managed) (Some cx))"

definition resume_tunnel_operation ::
    "'w ports \<Rightarrow> 'w tunnel_ports \<Rightarrow> string \<Rightarrow> string option
     \<Rightarrow> ('w, 'm, tunnel_connection operation_result) tunnel_io" where
  "resume_tunnel_operation P T i mfa_code = resume_operation P (tunnel_action P T) i mfa_code"

definition stop_tunnel_operation ::
    "'w ports \<Rightarrow> 'w tunnel_ports \<Rightarrow> string \<Rightarrow> nat option \<Rightarrow> bool
     \<Rightarrow> ('w, 'm, tunnel_handle operation_result) tunnel_io" where
  "stop_tunnel_operation P T i cancellation progress =
     bind (operation_context P (Some i) cancellation progress) (\<lambda>cx.
       execute_operation P (\<lambda>current. stop_tunnel P T i (Some current) None) (Some cx))"

subsection \<open>The endpoint catalog\<close>

text \<open>\<open>application/rds_endpoint_service.py\<close>: the endpoints of an account, through its gateway.\<close>

record rds_endpoint =
  re_identifier :: string
  re_host :: string
  re_port :: int
  re_engine :: string

definition list_endpoints ::
    "'w ports \<Rightarrow> (plain_credentials \<Rightarrow> string \<Rightarrow> 'w \<Rightarrow> (exn + rds_endpoint list) \<times> 'w) \<Rightarrow> selector
     \<Rightarrow> ('w, 'm, rds_endpoint list) io" where
  "list_endpoints P gateway profile =
     bind (resolve_profile profile) (\<lambda>p.
     bind (of_app (require_profile_id p)) (\<lambda>i.
     bind (require_credentials P i) (\<lambda>c. call_out (gateway c (ap_region p)))))"

end
