(* ===== verification/Store_Reads.thy ===== *)
theory Store_Reads
  imports Store_Contract
begin

text \<open>
  What a read of the store says about the rows: an object that is read stems from a row of its
  table, and an update that returns has changed that one row.
\<close>

context item_table
begin

lemma get_InrD:
  assumes "get_item tbl load i d = (Inr (Some q), d')" "db_ok d"
  obtains r where "tb_get (tbl d) i = Some r" "row_ok r" "load (i, r) = Inr q"
proof (cases "tb_get (tbl d) i")
  case None
  from get_item_range [of tbl load i d "Some q"] assms(1) have "i \<in> {- (2 ^ 63) .. max_rowid}" by simp
  from get_absent [OF None this] assms(1) show ?thesis by simp
next
  case (Some r)
  with get_present [OF assms(2) Some] assms inv_get [OF assms(2)] that show ?thesis
    by (auto dest: rows_okD)
qed

lemma find_InrD:
  assumes "find_item tbl load key p n d = (Inr (Some q), d')" "db_ok d"
  obtains i r where "tb_get (tbl d) i = Some r" "row_ok r" "key r = (p, n)" "load (i, r) = Inr q"
proof -
  have ok: "tb_ok key (tbl d)" "rows_ok row_ok (tbl d)" using inv_get [OF assms(2)] by auto
  obtain i r where f: "tb_find (\<lambda>r. key r = (p, n)) (tbl d) = Some (i, r)" and "load (i, r) = Inr q"
    using assms(1) unfolding find_item_def
    by (auto simp: bind_def transact_def load_opt_def of_app_def split: if_splits option.splits sum.splits)
  moreover from tb_find_SomeD [OF f] have "tb_get (tbl d) i = Some r" "key r = (p, n)"
    using tb_ok_get_iff [OF ok(1)] by auto
  ultimately show ?thesis using that rows_okD [OF ok(2)] by blast
qed

end

lemma get_tunnel_InrD:
  assumes "get_tunnel i d = (Inr (Some t), d')" "db_ok d"
  obtains r where "tb_get (db_tunnels d) i = Some r" "tunnel_ok r" "t = r\<lparr>ts_id := Some i\<rparr>"
  using assms unfolding get_tunnel_def by (auto elim!: tunnels.get_InrD)

lemma get_tunnel_by_name_InrD:
  assumes "get_tunnel_by_name p n d = (Inr (Some t), d')" "db_ok d"
  obtains i r where "tb_get (db_tunnels d) i = Some r" "tunnel_ok r" "t = r\<lparr>ts_id := Some i\<rparr>"
  using assms unfolding get_tunnel_by_name_def by (auto elim!: tunnels.find_InrD)

lemma get_tunnel_present:
  assumes "db_ok d" "tb_get (db_tunnels d) i = Some r"
  shows "get_tunnel i d = (Inr (Some (r\<lparr>ts_id := Some i\<rparr>)), d)" "tunnel_ok r"
proof -
  show ok: "tunnel_ok r" using tunnels.inv_get [OF assms(1)] assms(2) by (blast dest: rows_okD)
  from tunnels.get_present [OF assms] ok show "get_tunnel i d = (Inr (Some (r\<lparr>ts_id := Some i\<rparr>)), d)"
    by (auto simp: get_tunnel_def)
qed

lemma update_tunnel_InrD:
  assumes "update_tunnel now t d = (Inr u, d')" "db_ok d" "tunnel_ok t" "ts_id t = Some i"
  obtains r where "tb_get (db_tunnels d) i = Some r" "ts_profile_id r = ts_profile_id t" "db_ok d'"
    "u = (r\<lparr>ts_id := Some i, ts_name := ts_name t, ts_host := ts_host t,
            ts_remote_port := ts_remote_port t, ts_local_port := ts_local_port t,
            ts_target_mode := ts_target_mode t, ts_target_instance_id := ts_target_instance_id t,
            ts_session_duration_hours := ts_session_duration_hours t, ts_updated_at := Some now\<rparr>)"
    "\<And>j. j \<noteq> i \<Longrightarrow> fst (get_tunnel j d') = fst (get_tunnel j d)"
proof -
  let ?f = "\<lambda>r. r\<lparr>ts_name := ts_name t, ts_host := ts_host t,
                 ts_remote_port := ts_remote_port t, ts_local_port := ts_local_port t,
                 ts_target_mode := ts_target_mode t,
                 ts_target_instance_id := ts_target_instance_id t,
                 ts_session_duration_hours := ts_session_duration_hours t,
                 ts_updated_at := Some now\<rparr>"
  obtain d1 where upd: "update_item db_tunnels put_tunnels tunnel_key tunnel_columns [i, ts_profile_id t] i
        (\<lambda>r. ts_profile_id r = ts_profile_id t) ?f (store_error ''rds.session.not_found'') d = (Inr (), d1)"
    and get: "reread ''rds.session.update.failed'' (get_tunnel i) d1 = (Inr u, d')"
    using assms(1,4) unfolding update_tunnel_def require_tunnel_id_def
    by (auto elim!: bind_eq_InrE)
  have keep: "tunnel_ok r \<Longrightarrow> ts_profile_id r = ts_profile_id t \<Longrightarrow>
      tunnel_ok (?f r) \<and> ts_profile_id (?f r) = ts_profile_id r" for r
    using tunnel_ok_update [OF assms(3)] by simp
  note facts = tunnels.update_item_Inr [OF upd assms(2)]
  obtain r where r: "tb_get (db_tunnels d) i = Some r" "ts_profile_id r = ts_profile_id t"
      "tb_get (db_tunnels d1) = (tb_get (db_tunnels d))(i \<mapsto> ?f r)" and ok: "db_ok d1"
    using facts keep by blast
  have "tb_get (db_tunnels d1) i = Some (?f r)" using r(3) by simp
  note present = get_tunnel_present(1) [OF ok this]
  with get have u: "u = (?f r)\<lparr>ts_id := Some i\<rparr>" "d' = d1"
    by (auto simp: reread_def bind_def)
  have "fst (get_tunnel j d') = fst (get_tunnel j d)" if "j \<noteq> i" for j
    unfolding get_tunnel_def using that by (intro get_item_cong) (simp add: r(3) u(2))
  then show ?thesis using that r(1,2) ok u by simp
qed

end
