(* ===== verification/Tunnel_Facts.thy ===== *)
theory Tunnel_Facts
  imports Tunnel_Service Store_Reads
begin

text \<open>
  What the tunnel operations leave alone and keep: the saved sessions are only read by
  \<open>show\<close>, every operation keeps the database well formed, the session runner does not touch
  the dictionary of managed tunnels, and polling or stopping only removes entries from it.
\<close>

subsection \<open>Reading\<close>

lemma reads_on_get_tunnel [simp]:
  "frames (\<lambda>s. s) (on_db (get_tunnel i))" "frames (\<lambda>s. s) (on_db (get_tunnel_by_name j n))"
  by (auto intro!: reads_on_db frames_bind frames_transact simp: get_tunnel_def get_tunnel_by_name_def find_item_def
      split: option.split)

lemma reads_profile_id_of [simp]: "frames (\<lambda>s. s) (profile_id_of sel)"
  unfolding profile_id_of_def by (intro frames_bind) auto

lemma reads_resolve_tunnel [simp]: "frames (\<lambda>s. s) (resolve_tunnel sel i)"
  unfolding resolve_tunnel_def
  by (intro frames_bind) (auto split: sum.split option.split intro!: frames_bind)

lemma reads_show_tunnel [simp]: "frames (\<lambda>s. s) (show_tunnel sel profile)"
  unfolding show_tunnel_def by (intro frames_bind) auto

lemma outside_show_tunnel [outside_rules, simp]:
  "outside_only (profile_id_of p)" "outside_only (resolve_tunnel sel i)" "outside_only (show_tunnel sel p)"
  by (simp_all add: outside_reads)

lemma reads_state: "frames (\<lambda>s. s) m \<Longrightarrow> m s = (r, t) \<Longrightarrow> t = s"
  by (drule framesD) auto

lemma reads_tunnel_from_request [simp]: "frames (\<lambda>s. s) (tunnel_from_request r current)"
  unfolding tunnel_from_request_def by (intro frames_bind) auto

lemma outside_tunnel_from_request [outside_rules, simp]: "outside_only (tunnel_from_request r current)"
  by (simp add: outside_reads)

lemma tunnel_from_request_ok:
  "tunnel_from_request r current s = (Inr t, s') \<Longrightarrow> tunnel_ok t"
  unfolding tunnel_from_request_def of_app_def
  by (auto elim!: bind_eq_InrE intro: tunnel_session_init_ok split: sum.splits)

lemma outside_local_port_available [outside_rules, simp]: "outside_only (local_port_available T p)"
  by (simp add: local_port_available_def outside_bind)

lemma outside_require_online_target [outside_rules, simp]:
  "outside_only (require_online_target S c r t)"
  by (simp add: require_online_target_def outside_bind)

lemma outside_log_tunnel_started [outside_rules, simp]: "outside_only (log_tunnel_started P pr op)"
  by (simp add: log_tunnel_started_def)

lemma outside_show_prepared [outside_rules, simp]: "outside_only (show_prepared pr)"
  by (simp add: show_prepared_def outside_bind)

lemma outside_finish_stop [outside_rules, simp]: "outside_only (finish_stop P cx i t reason m)"
  by (auto simp: finish_stop_def intro!: outside_bind split: option.split)

lemma outside_operation_context [outside_rules, simp]: "outside_only (operation_context P i c p)"
  by (simp add: operation_context_def outside_bind)

subsection \<open>The database\<close>

lemma keeps_bind_checked:
  \<comment> \<open>a continuation that needs a fact about the value of a reading step\<close>
  assumes "outside_only m" "\<And>s x t. m s = (Inr x, t) \<Longrightarrow> Q x" "\<And>x. Q x \<Longrightarrow> keeps world_ok (f x)"
  shows "keeps world_ok (bind m f)"
proof (rule keepsI)
  fix s :: "('a, 'b) world_scheme" assume s: "world_ok s"
  obtain r t where m: "m s = (r, t)" by (cases "m s")
  have t: "world_ok t" by (rule keepsD [OF keeps_world_outside [OF assms(1)] s m])
  with m assms(2,3) show "world_ok (snd (bind m f s))" by (cases r) (auto simp: keeps_def)
qed

lemma keeps_create_tunnel_use_case: "keeps world_ok (create_tunnel_use_case now r)"
  unfolding create_tunnel_use_case_def
  by (rule keeps_bind_checked [OF outside_tunnel_from_request tunnel_from_request_ok])
    (auto intro: keeps_world_db keeps_create_tunnel)

lemma keeps_update_from_request:
  "keeps world_ok (bind (tunnel_from_request r current) (\<lambda>t. on_db (update_tunnel now t)))"
  by (rule keeps_bind_checked [OF outside_tunnel_from_request tunnel_from_request_ok])
    (auto intro: keeps_world_db keeps_update_tunnel)

lemma keeps_update_tunnel_use_case: "keeps world_ok (update_tunnel_use_case now r)"
  unfolding update_tunnel_use_case_def
  by (auto split: option.split
      intro: keeps_bind [OF keeps_world_outside [OF outside_show_tunnel(3)] keeps_update_from_request])

lemma keeps_rename_tunnel: "keeps world_ok (rename_tunnel now sel name profile)"
  unfolding rename_tunnel_def
  by (intro keeps_bind keeps_update_tunnel_use_case) (auto simp: keeps_world_outside)

lemma keeps_clone_tunnel: "keeps world_ok (clone_tunnel now sel name profile)"
  unfolding clone_tunnel_def
  by (intro keeps_bind keeps_create_tunnel_use_case) (auto simp: keeps_world_outside)

lemma keeps_delete_tunnel_use_case: "keeps world_ok (delete_tunnel_use_case sel profile)"
  unfolding delete_tunnel_use_case_def
  by (intro keeps_bind keeps_world_db keeps_delete_tunnel) (auto simp: keeps_world_outside)

lemma keeps_prepare_tunnel: "keeps world_ok (prepare_tunnel P T r)"
  unfolding prepare_tunnel_def
  by (intro keeps_bind keeps_require_credentials) (auto simp: keeps_world_outside)

lemma keeps_touch_prepared: "keeps world_ok (touch_prepared P T pr)"
  unfolding touch_prepared_def
  by (intro keeps_bind keeps_world_db keeps_touch_tunnel) (auto simp: keeps_world_outside)

lemma keeps_start_tunnel_body: "keeps world_ok (start_tunnel_body P T r context)"
  unfolding start_tunnel_body_def
  by (intro keeps_bind keeps_prepare_tunnel keeps_touch_prepared)
    (auto simp: keeps_world_outside split: option.split)

lemma keeps_start_tunnel: "keeps world_ok (start_tunnel P T r context)"
  unfolding start_tunnel_def by (intro keeps_logged keeps_start_tunnel_body) simp

subsection \<open>The runner and the database\<close>

lemma db_outside: "outside_only m \<Longrightarrow> frames w_db m"
  by (rule outside_frames) simp_all

lemma db_require_owned [simp]: "frames w_db (require_owned i)"
  unfolding require_owned_def by (intro frames_bind) (auto split: option.split)

lemma db_forget_owned [simp]: "frames w_db (forget_owned i)"
  unfolding forget_owned_def by (rule frames_modify) simp

lemma db_capture_end_error [simp]: "frames w_db (capture_end_error S i ow)"
  unfolding capture_end_error_def end_once_def mark_ended_def
  by (auto intro!: frames_bind frames_catching frames_modify simp: db_outside)

lemma db_session_status [simp]: "frames w_db (session_status S i)"
  unfolding session_status_def status_failed_def status_finished_def Let_def
  by (intro frames_bind)
    (auto intro!: frames_bind frames_catching simp: db_outside split: sum.split option.split prod.split)

lemma db_session_stop [simp]: "frames w_db (session_stop S i)"
  unfolding session_stop_def stop_owned_def Let_def
  by (intro frames_bind)
    (auto intro!: frames_bind frames_catching simp: db_outside split: sum.split option.split prod.split)

lemma db_own_session [simp]: "frames w_db (own_session P S cx ow target)"
  unfolding own_session_def Let_def
  by (intro frames_bind frames_try_except frames_modify) (auto intro!: frames_bind simp: db_outside)

lemma db_session_start [simp]: "frames w_db (session_start P S c r t d p x context)"
  unfolding session_start_def
  by (intro frames_bind frames_attempt) (auto simp: db_outside split: sum.split)

lemma keeps_db: "frames w_db m \<Longrightarrow> keeps world_ok m"
  by (rule frames_imp_keeps) auto

lemma db_manage [simp]: "frames w_db (manage_tunnel i m)" "frames w_db (forget_tunnel i)"
  by (simp_all add: manage_tunnel_def forget_tunnel_def frames_modify)

lemma keeps_start_managed: "keeps world_ok (start_managed P T r context)"
  unfolding start_managed_def start_managed_body_def
  by (intro keeps_logged)
    (auto intro!: keeps_bind keeps_prepare_tunnel keeps_touch_prepared simp: keeps_world_outside keeps_db)

lemma db_stop_tunnel_body [simp]: "frames w_db (stop_tunnel_body P T i reason context)"
  unfolding stop_tunnel_body_def Let_def
  by (auto intro!: frames_bind frames_try_finally simp: db_outside split: option.split)

lemma db_stop_tunnel [simp]: "frames w_db (stop_tunnel P T i context reason)"
  unfolding stop_tunnel_def by (intro frames_logged) simp_all

lemma db_poll_tunnel [simp]: "frames w_db (poll_tunnel P T x)"
  unfolding poll_tunnel_def probe_tunnel_def Let_def
  by (auto intro!: frames_bind frames_attempt simp: db_outside split: sum.split exn.split prod.split)

lemma db_active_tunnels [simp]: "frames w_db (active_tunnels P T i)"
  unfolding active_tunnels_def by (auto intro!: frames_bind frames_map_each)

lemma db_stop_each [simp]: "frames w_db (stop_each P T i)"
  unfolding stop_each_def
  by (intro frames_bind frames_attempt) (auto split: sum.split exn.split)

lemma db_stop_all [simp]: "frames w_db (stop_all P T i)"
  unfolding stop_all_def
  by (intro frames_bind frames_map_each) (auto split: list.split sum.split)

subsection \<open>The managed tunnels\<close>

lemma inner_session_more [simp]: "inner session_world.more"
  by (simp add: inner_def)

lemma session_more_outside: "outside_only m \<Longrightarrow> frames session_world.more m"
  by (rule frames_outside) simp_all

lemma session_more_simple [simp]:
  "frames session_world.more (require_owned i)" "frames session_world.more (forget_owned i)"
  "frames session_world.more (mark_ended i ow)"
  by (auto simp: require_owned_def forget_owned_def mark_ended_def intro!: frames_bind frames_modify
      split: option.split)

lemma session_more_capture [simp]: "frames session_world.more (capture_end_error S i ow)"
  unfolding capture_end_error_def end_once_def
  by (auto intro!: frames_bind frames_catching simp: session_more_outside)

lemma session_more_status [simp]: "frames session_world.more (session_status S i)"
  unfolding session_status_def status_failed_def status_finished_def Let_def
  by (intro frames_bind) (auto intro!: frames_bind frames_catching simp: session_more_outside
      split: sum.split option.split prod.split)

lemma session_more_stop [simp]: "frames session_world.more (session_stop S i)"
  unfolding session_stop_def stop_owned_def Let_def
  by (intro frames_bind) (auto intro!: frames_bind frames_catching simp: session_more_outside
      split: sum.split option.split prod.split)

lemma frames_tw_managed: "frames session_world.more m \<Longrightarrow> frames tw_managed m"
proof -
  have "tw_managed s = tw_managed t" if "session_world.more s = session_world.more t"
    for s t :: "('w, 'r, 'm) tunnel_world_scheme"
    using that by (cases s, cases t) simp
  then show "frames session_world.more m \<Longrightarrow> frames tw_managed m" unfolding frames_def by blast
qed

lemma tw_managed_outside: "outside_only m \<Longrightarrow> frames tw_managed m"
  by (rule frames_tw_managed [OF session_more_outside])

definition unmanaged :: "string \<Rightarrow> ('w, 'r, 'm) tunnel_world_scheme \<Rightarrow> bool" where
  "unmanaged i s \<longleftrightarrow> dict_get (tw_managed s) i = None"

definition managed_within :: "(string \<times> managed_tunnel) set \<Rightarrow> ('w, 'r, 'm) tunnel_world_scheme \<Rightarrow> bool" where
  "managed_within D s \<longleftrightarrow> set (tw_managed s) \<subseteq> D"

definition shrinks :: "('w, 'r, 'm, 'a) tw_io \<Rightarrow> bool" where
  \<comment> \<open>entries may go, none comes\<close>
  "shrinks m \<longleftrightarrow> (\<forall>i. keeps (unmanaged i) m) \<and> (\<forall>D. keeps (managed_within D) m)"

lemma inner_unmanaged [simp]: "inner (unmanaged i)" "inner (managed_within D)"
  by (simp_all add: inner_def unmanaged_def managed_within_def)

lemma shrinks_frames: "frames tw_managed m \<Longrightarrow> shrinks m"
  unfolding shrinks_def by (auto intro: frames_imp_keeps simp: unmanaged_def managed_within_def)

lemma shrinks_bind: "shrinks m \<Longrightarrow> (\<And>x. shrinks (f x)) \<Longrightarrow> shrinks (bind m f)"
  unfolding shrinks_def by (auto intro: keeps_bind)

lemma shrinks_try_finally: "shrinks m \<Longrightarrow> shrinks f \<Longrightarrow> shrinks (try_finally m f)"
  unfolding shrinks_def by (auto intro: keeps_try_finally)

lemma shrinks_attempt: "shrinks m \<Longrightarrow> shrinks (attempt m)"
  unfolding shrinks_def by (auto intro: keeps_attempt)

lemma shrinks_map_each: "(\<And>x. shrinks (f x)) \<Longrightarrow> shrinks (map_each f xs)"
  unfolding shrinks_def by (auto intro: keeps_map_each)

lemma shrinks_forget_tunnel [simp]: "shrinks (forget_tunnel i)"
  unfolding shrinks_def forget_tunnel_def
  by (auto intro!: keeps_modify simp: unmanaged_def managed_within_def AList.delete_eq map_of_filter_in
      map_of_eq_None_iff)

lemma shrinks_outside [simp]: "outside_only m \<Longrightarrow> shrinks m"
  by (rule shrinks_frames [OF tw_managed_outside])

lemma shrinks_runner [simp]: "shrinks (session_stop S i)" "shrinks (session_status S i)"
  by (simp_all add: shrinks_frames frames_tw_managed)

lemma shrinks_stop_tunnel [simp]: "shrinks (stop_tunnel P T i context reason)"
proof -
  have "shrinks (stop_tunnel_body P T i reason cx)" for cx
    unfolding stop_tunnel_body_def Let_def
    by (auto intro!: shrinks_bind shrinks_try_finally split: option.split)
  then show ?thesis
    unfolding stop_tunnel_def shrinks_def by (auto intro!: keeps_logged)
qed

lemma shrinks_poll_tunnel [simp]: "shrinks (poll_tunnel P T x)"
  unfolding poll_tunnel_def probe_tunnel_def Let_def
  by (auto intro!: shrinks_bind shrinks_attempt split: sum.split exn.split prod.split)

lemma shrinks_stop_each [simp]: "shrinks (stop_each P T i)"
  unfolding stop_each_def by (intro shrinks_bind shrinks_attempt) (auto split: sum.split exn.split)

lemma unmanaged_keeps: "shrinks m \<Longrightarrow> unmanaged i s \<Longrightarrow> m s = (r, t) \<Longrightarrow> unmanaged i t"
  unfolding shrinks_def by (blast dest: keepsD)

lemma managed_subset:
  assumes "shrinks m" "m s = (r, t)" shows "set (tw_managed t) \<subseteq> set (tw_managed s)"
proof -
  have "managed_within (set (tw_managed s)) t"
    using assms unfolding shrinks_def by (blast dest: keepsD [of _ m s r t] intro: managed_within_def [THEN iffD2])
  then show ?thesis by (simp add: managed_within_def)
qed

end
