(* ===== verification/Session_Properties.thy ===== *)
theory Session_Properties
  imports Session_Books Auth_Properties
begin

text \<open>
  The properties of Session Manager sessions.  The sample outside of the witnesses keeps the
  books as two lists and has a plugin whose process runs until it is terminated.
\<close>

record desk =
  dk_now :: int
  dk_ids :: nat
  dk_opened :: "string list"
  dk_closed :: "string list"
  dk_running :: bool
  dk_history :: bool  \<comment> \<open>whether history entries can be written\<close>

definition desk_ports :: "desk ports" where
  "desk_ports = \<lparr>
     pt_now = (\<lambda>w. (dk_now w, w)),
     pt_uuid = (\<lambda>w. (''op'' @ digits_of (dk_ids w), w\<lparr>dk_ids := dk_ids w + 1\<rparr>)),
     pt_protect = (\<lambda>s w. (Inr (CHR ''#'' # s), w)),
     pt_unprotect = (\<lambda>b w. (Inr (tl b), w)),
     pt_get_identity = (\<lambda>c r w. (Inr \<lparr>id_account_id = ''123456789012'', id_user_id = ''ann'', id_arn = ''arn''\<rparr>, w)),
     pt_get_session_token = (\<lambda>c r a m d w. (Inl OperationCancelled, w)),
     pt_shared_credentials = None,
     pt_recorder = Some (\<lambda>who c w. (if dk_history w then Inr ()
        else Inl (AppExn (config_error_because ''logs.storage.failed'' ''OperationalError'')), w)),
     pt_cancelled = (\<lambda>t w. (False, w)),
     pt_progress = (\<lambda>e w. (Inr (), w))\<rparr>"

definition desk_sessions :: "desk session_ports" where
  "desk_sessions = \<lparr>
     sp_list_online = (\<lambda>c r w. (Inr [\<lparr>mi_instance_id = ''i-0123456789abcdef0'', mi_ping_status = ''Online'',
        mi_ip_address = None, mi_platform_name = None\<rparr>], w)),
     sp_list_managed = (\<lambda>c r w. (Inr [], w)),
     sp_start_session = (\<lambda>c r t d p w. (Inr \<lparr>st_session_id = ''s'' @ digits_of (length (dk_opened w)),
        st_stream_url = ''u'', st_token_value = ''t''\<rparr>,
        w\<lparr>dk_opened := dk_opened w @ [''s'' @ digits_of (length (dk_opened w))], dk_running := True\<rparr>)),
     sp_end_session = (\<lambda>c r i w. (Inr (), w\<lparr>dk_closed := dk_closed w @ [i]\<rparr>)),
     sp_diagnose = (\<lambda>w. (Inr \<lparr>pd_path = ''p'', pd_exists = True, pd_version = None, pd_supported = True,
        pd_environment_ready = True\<rparr>, w)),
     sp_run = (\<lambda>j w. (Inr 0, w)),
     sp_launch = (\<lambda>j x w. (Inr \<lparr>ph_handle = 0, ph_pid = 7\<rparr>, w)),
     sp_poll = (\<lambda>p w. (Inr (if dk_running w then None else Some 0), w)),
     sp_wait = (\<lambda>p n w. (Inr 0, w)),
     sp_terminate = (\<lambda>p w. (Inr (), w\<lparr>dk_running := False\<rparr>)),
     sp_kill = (\<lambda>p w. (Inr (), w\<lparr>dk_running := False\<rparr>)),
     sp_text = (\<lambda>e. [])\<rparr>"

definition desk_start :: desk where
  "desk_start = \<lparr>dk_now = hours 1, dk_ids = 0, dk_opened = [], dk_closed = [], dk_running = False,
     dk_history = True\<rparr>"

lemma desk_books:
  "books_kept desk_ports desk_sessions (\<lambda>w. mset (dk_opened w)) (\<lambda>w. mset (dk_closed w))"
  by (simp add: books_kept_def context_quiet_def plugin_quiet_def quiet_def desk_ports_def desk_sessions_def)

definition desk_key :: plain_credentials where
  "desk_key = \<lparr>pc_access_key = ''AKIA0123456789ABCDEF'', pc_secret_key = ''0123456789abcdef'',
     pc_session_token = None\<rparr>"

subsection \<open>Sessions are ended\<close>

text \<open>
  C19: a foreground run ends what it starts: whether it returns or raises, at whatever step and
  with whatever exception, every session AWS has started for it has been asked to end exactly
  once, for any observers that count the starts and the ends.
\<close>

theorem foreground_session_ended:
  fixes s :: "('w, 'm) world_scheme"
  assumes "books_kept P S opened closed" "opened (w_out s) = closed (w_out s) + outstanding"
    "run_session P S c region target doc params context timeout s = (r, t)"
  shows "opened (w_out t) = closed (w_out t) + outstanding"
proof -
  have "accounted opened closed (\<lambda>_. {#}) outstanding s" using assms(2) by (simp add: accounted_def)
  from keepsD [OF run_session_books [OF assms(1) inert_const] this assms(3)]
  show ?thesis by (simp add: accounted_def)
qed

definition desk_world :: "desk world" where
  "desk_world = \<lparr>w_db = empty_database, w_exec = None, w_out = desk_start\<rparr>"

theorem foreground_session_ended_witness:
  "\<exists>t. mset (dk_opened (w_out t)) = mset (dk_closed (w_out t)) \<and>
     snd (run_session desk_ports desk_sessions desk_key ''eu'' ''i'' None None None (Some 5) desk_world) = t"
proof -
  obtain r t where run: "run_session desk_ports desk_sessions desk_key ''eu'' ''i'' None None None (Some 5)
      desk_world = (r, t)" by fastforce
  have "mset (dk_opened (w_out t)) = mset (dk_closed (w_out t)) + {#}"
    by (rule foreground_session_ended [OF desk_books _ run]) (simp add: desk_world_def desk_start_def)
  with run show ?thesis by simp
qed


definition desk_sessions_world :: "(desk, string) session_world" where
  "desk_sessions_world = \<lparr>w_db = empty_database, w_exec = None, w_out = desk_start, aw_pending = [],
     ow_pending = [], sw_owned = []\<rparr>"

definition desk_calls :: "session_call list" where
  "desk_calls = [StartSession desk_key ''eu'' ''i'' None None False (own_context ''a'' ''c''),
     StartSession desk_key ''eu'' ''i'' None None False (own_context ''b'' ''c''),
     StatusSession ''a'', StopSession ''a'', StopSession ''a'']"


subsection \<open>Polling and stopping\<close>

lemma combine_errors_None [simp]: "combine_errors es = None \<longleftrightarrow> (\<forall>e \<in> set es. e = None)"
proof -
  have "combine_errors es = None \<longleftrightarrow> List.map_filter id es = []"
    by (auto simp: combine_errors_def split: list.split)
  also have "\<dots> \<longleftrightarrow> (\<forall>e \<in> set es. e = None)" by (induction es) (auto simp: List.map_filter_def)
  finally show ?thesis .
qed

lemma exit_error_None [simp]: "exit_error st c = None \<longleftrightarrow> st \<noteq> OpFailed"
  by (simp add: exit_error_def)

lemma some_error [simp]:
  "(\<exists>e. combine_errors es = Some e) \<longleftrightarrow> (\<exists>e \<in> set es. e \<noteq> None)"
  "(\<exists>e. exit_error st c = Some e) \<longleftrightarrow> st = OpFailed"
  by (simp_all flip: not_None_eq)

definition snapshot_of :: "string \<Rightarrow> managed_session \<Rightarrow> ('w, 'r, 'm) session_world_scheme \<Rightarrow> bool" where
  \<comment> \<open>what a poll or a stop reports, and whether the session is still held\<close>
  "snapshot_of i m s \<longleftrightarrow> ms_operation_id m = i \<and> (ms_state m = OpFailed \<longleftrightarrow> ms_error m \<noteq> None) \<and>
     ms_state m \<in> {OpRunning, OpSucceeded, OpFailed, OpCancelled} \<and>
     (ms_state m = OpRunning \<longleftrightarrow> dict_get (sw_owned s) i \<noteq> None)"

lemma snapshot_simps [simp]:
  "ms_operation_id (snapshot i ow st c e w) = i" "ms_state (snapshot i ow st c e w) = st"
  "ms_error (snapshot i ow st c e w) = e"
  by (simp_all add: snapshot_def)

definition final_snapshot :: "string \<Rightarrow> managed_session \<Rightarrow> ('w, 'r, 'm) session_world_scheme \<Rightarrow> bool" where
  "final_snapshot i m s \<longleftrightarrow> snapshot_of i m s \<and> dict_get (sw_owned s) i = None"

lemma yields_forget:
  assumes "ms_operation_id m = i" "ms_state m = OpFailed \<longleftrightarrow> ms_error m \<noteq> None"
    "ms_state m \<in> {OpSucceeded, OpFailed, OpCancelled}"
  shows "yields (final_snapshot i) (seq (forget_owned i) (ret m))"
  using assms by (auto simp: yields_def final_snapshot_def snapshot_of_def forget_owned_def bind_def)

lemma yields_stop_owned: "yields (final_snapshot i) (stop_owned S i ow by_itself r)"
  unfolding stop_owned_def Let_def split_def
  by (rule yields_bind, rule yields_forget) (auto simp: finished_state_def)

lemma yields_session_stop: "yields (final_snapshot i) (session_stop S i)"
  unfolding session_stop_def
  by (intro yields_bind) (auto split: sum.split option.split prod.split intro!: yields_bind yields_stop_owned)

lemma yields_status_failed: "yields (final_snapshot i) (status_failed S i ow e)"
  unfolding status_failed_def Let_def split_def
  by (rule yields_bind, rule yields_bind, rule yields_forget) auto

lemma yields_status_finished: "yields (final_snapshot i) (status_finished S i ow c)"
  unfolding status_finished_def Let_def
  by (rule yields_bind, rule yields_forget) (auto simp: finished_state_def)

lemma session_status_running:
  fixes s :: "('w, 'r, 'm) session_world_scheme"
  assumes "session_status S i s = (Inr m, t)" shows "snapshot_of i m t"
proof -
  obtain ow where own: "dict_get (sw_owned s) i = Some ow"
    using assms by (cases "dict_get (sw_owned s) i") (auto simp: session_status_def require_owned_def bind_def)
  obtain x u where poll: "catching (call_out (sp_poll S (os_process ow))) s = (x, u)"
    by (cases "catching (call_out (sp_poll S (os_process ow))) s")
  have "frames sw_owned (catching (call_out (sp_poll S (os_process ow))) :: ('w, 'r, 'm, exn + int option) sw_io)"
    by (intro frames_sw_owned outside_catching) simp
  from framesD [OF this poll] have u: "sw_owned u = sw_owned s" .
  show ?thesis
  proof (cases x)
    case (Inl e)
    with assms own poll show ?thesis by (simp add: session_status_def require_owned_def bind_def)
  next
    case (Inr r)
    consider e where "r = Inl e" | "r = Inr None" | c where "r = Inr (Some c)"
      by (cases r) (auto simp: option.split_sel)
    then show ?thesis
    proof cases
      case 1
      with assms own poll Inr have "status_failed S i ow e u = (Inr m, t)"
        by (simp add: session_status_def require_owned_def bind_def)
      from yieldsD [OF yields_status_failed this] show ?thesis by (simp add: final_snapshot_def)
    next
      case 2
      with assms own poll Inr u show ?thesis
        by (auto simp: session_status_def require_owned_def bind_def snapshot_of_def)
    next
      case 3
      with assms own poll Inr have "status_finished S i ow c u = (Inr m, t)"
        by (simp add: session_status_def require_owned_def bind_def)
      from yieldsD [OF yields_status_finished this] show ?thesis by (simp add: final_snapshot_def)
    qed
  qed
qed

text \<open>
  C21: polling or stopping a managed session reports a state that tells the truth: it is failed
  exactly when there is an error, running exactly when the runner still holds the session, and a
  stop that returns never leaves the session held.
\<close>

theorem session_report_is_true:
  fixes s :: "('w, 'r, 'm) session_world_scheme"
  assumes "(if stopping then session_stop S i s else session_status S i s) = (Inr m, t)"
  shows "ms_operation_id m = i \<and> (ms_state m = OpFailed \<longleftrightarrow> ms_error m \<noteq> None) \<and>
    (ms_state m = OpRunning \<longleftrightarrow> dict_get (sw_owned t) i \<noteq> None) \<and>
    (stopping \<longrightarrow> dict_get (sw_owned t) i = None)"
proof (cases stopping)
  case True
  with assms have run: "session_stop S i s = (Inr m, t)" by simp
  show ?thesis using yieldsD [OF yields_session_stop run]
    by (auto simp: final_snapshot_def snapshot_of_def)
next
  case False
  with assms have "session_status S i s = (Inr m, t)" by simp
  from session_status_running [OF this] False show ?thesis by (simp add: snapshot_of_def)
qed

theorem session_report_is_true_witness:
  "\<exists>m t. session_stop desk_sessions ''a'' (fold (run_session_call desk_ports desk_sessions)
       (take 1 desk_calls) desk_sessions_world) = (Inr m, t) \<and> ms_state m = OpCancelled \<and>
     ms_error m = None \<and> dict_get (sw_owned t) ''a'' = None"
proof -
  let ?s = "fold (run_session_call desk_ports desk_sessions) (take 1 desk_calls) desk_sessions_world"
  have run: "map_sum id ms_state (fst (session_stop desk_sessions ''a'' ?s)) = (Inr OpCancelled :: exn + _)"
    by code_simp
  then obtain m t where "session_stop desk_sessions ''a'' ?s = (Inr m, t)" "ms_state m = OpCancelled"
    by (cases "session_stop desk_sessions ''a'' ?s"; cases "fst (session_stop desk_sessions ''a'' ?s)") auto
  with session_report_is_true [of True desk_sessions "''a''" ?s m t] show ?thesis by auto
qed

end
