(* ===== verification/Tunnel_Properties.thy ===== *)
theory Tunnel_Properties
  imports Tunnel_Facts Session_Properties
begin

text \<open>
  The properties of saved tunnel sessions and of running tunnels.
\<close>

subsection \<open>Saved sessions\<close>

lemma show_tunnel_InrD:
  assumes "show_tunnel sel profile s = (Inr t, s')"
  shows "s' = s \<and> (\<exists>p. resolve_profile profile s = (Inr p, s) \<and> ap_id p = Some (ts_profile_id t))"
proof -
  have s': "s' = s" by (rule reads_state [OF reads_show_tunnel assms])
  obtain i u where i: "profile_id_of profile s = (Inr i, u)" and t: "ts_profile_id t = i"
    using assms unfolding show_tunnel_def by (auto elim!: bind_eq_InrE split: if_splits)
  obtain p v where p: "resolve_profile profile s = (Inr p, v)" "require_profile_id p = Inr i"
    using i unfolding profile_id_of_def by (auto elim!: bind_eq_InrE simp: of_app_def split: sum.splits)
  have "v = s" by (rule reads_state [OF reads_resolve_profile p(1)])
  with p t s' show ?thesis by (auto simp: require_profile_id_def split: option.splits)
qed

lemma show_tunnel_row:
  assumes "show_tunnel sel profile s = (Inr t, s')" "world_ok s"
  obtains i r where "tb_get (db_tunnels (w_db s)) i = Some r" "tunnel_ok r" "t = r\<lparr>ts_id := Some i\<rparr>"
proof -
  obtain i u where i: "profile_id_of profile s = (Inr i, u)" "resolve_tunnel sel i u = (Inr t, s')"
    using assms(1) unfolding show_tunnel_def by (auto elim!: bind_eq_InrE split: if_splits)
  have "u = s" by (rule reads_state [OF reads_profile_id_of i(1)])
  with i(2) obtain v where "(\<exists>j. get_tunnel j (w_db s) = (Inr (Some t), v)) \<or>
      (\<exists>n. get_tunnel_by_name i n (w_db s) = (Inr (Some t), v))"
    unfolding resolve_tunnel_def
    by (auto elim!: bind_eq_InrE simp: bind_def split: sum.splits option.splits if_splits)
      (metis prod.collapse)+
  with assms(2) that show ?thesis by (metis get_tunnel_InrD get_tunnel_by_name_InrD)
qed

lemma request_of_saved:
  assumes "tunnel_from_request (saved_request t name i None) (Some t) s = (Inr v, s')"
  obtains k where "v = t\<lparr>ts_profile_id := k, ts_name := name\<rparr>" "tunnel_ok v"
proof -
  obtain k where "v = t\<lparr>ts_profile_id := k, ts_name := name\<rparr>"
    using assms by (cases t) (auto simp: tunnel_from_request_def saved_request_def of_app_def
        elim!: bind_eq_InrE dest!: tunnel_session_init_same split: sum.splits)
  with tunnel_from_request_ok [OF assms] that show ?thesis by simp
qed

text \<open>
  Renaming a saved tunnel session changes its name and the time of the update and nothing
  else: not its connection settings, duration or last use, and no other tunnel session.
\<close>

theorem rename_changes_the_name:
  fixes s :: "('w, 'm) world_scheme"
  assumes "db_ok (w_db s)" "show_tunnel sel profile s = (Inr t, s)"
    "rename_tunnel now sel name profile s = (Inr u, s')"
  shows "u = t\<lparr>ts_name := name, ts_updated_at := Some now\<rparr> \<and>
    (\<forall>j. ts_id t = Some j \<or> fst (get_tunnel j (w_db s')) = fst (get_tunnel j (w_db s)))"
proof -
  obtain i r where row: "tb_get (db_tunnels (w_db s)) i = Some r" "tunnel_ok r" "t = r\<lparr>ts_id := Some i\<rparr>"
    by (rule show_tunnel_row [OF assms(2,1)])
  let ?r = "saved_request t name (Some i) None"
  have "update_tunnel_use_case now ?r s = (Inr u, s')"
    using assms(2,3) row(3) by (simp add: rename_tunnel_def require_tunnel_id_def)
  then obtain c s1 where c: "show_tunnel (Inl i) (SelInt (ts_profile_id t)) s = (Inr c, s1)"
    and rest: "bind (tunnel_from_request ?r (Some c)) (\<lambda>t. on_db (update_tunnel now t)) s1 = (Inr u, s')"
    by (auto simp: update_tunnel_use_case_def saved_request_def elim!: bind_eq_InrE)
  obtain j q where c_row: "tb_get (db_tunnels (w_db s)) j = Some q" "c = q\<lparr>ts_id := Some j\<rparr>"
    by (rule show_tunnel_row [OF c assms(1)])
  have s1: "s1 = s" using show_tunnel_InrD [OF c] by simp
  have "c = t"
  proof -
    obtain k where k: "resolve_tunnel (Inl i) k s = (Inr c, s)"
      using c s1 unfolding show_tunnel_def
      by (auto elim!: bind_eq_InrE dest!: reads_state [OF reads_profile_id_of] split: if_splits)
    then show ?thesis
      using get_tunnel_present(1) [OF assms(1) row(1)] row(3)
      by (auto simp: resolve_tunnel_def bind_def split: sum.splits)
  qed
  with rest s1 obtain v s2 where built: "tunnel_from_request ?r (Some t) s = (Inr v, s2)"
    and upd: "on_db (update_tunnel now v) s2 = (Inr u, s')"
    by (auto elim!: bind_eq_InrE)
  have s2: "s2 = s" by (rule reads_state [OF reads_tunnel_from_request built])
  obtain k where v: "v = t\<lparr>ts_profile_id := k, ts_name := name\<rparr>" "tunnel_ok v"
    using built unfolding \<open>c = t\<close> by (rule request_of_saved)
  have id: "ts_id v = Some i" using v(1) row(3) by simp
  have upd: "update_tunnel now v (w_db s) = (Inr u, w_db s')"
    using upd s2 by (cases "update_tunnel now v (w_db s)") auto
  obtain p where p: "tb_get (db_tunnels (w_db s)) i = Some p" "ts_profile_id p = ts_profile_id v"
    "u = (p\<lparr>ts_id := Some i, ts_name := ts_name v, ts_host := ts_host v,
            ts_remote_port := ts_remote_port v, ts_local_port := ts_local_port v,
            ts_target_mode := ts_target_mode v, ts_target_instance_id := ts_target_instance_id v,
            ts_session_duration_hours := ts_session_duration_hours v, ts_updated_at := Some now\<rparr>)"
    and others: "\<And>j. j \<noteq> i \<Longrightarrow> fst (get_tunnel j (w_db s')) = fst (get_tunnel j (w_db s))"
    by (rule update_tunnel_InrD [OF upd assms(1) v(2) id]) blast
  have "u = t\<lparr>ts_name := name, ts_updated_at := Some now\<rparr>"
    using p row(1,3) v(1) by (cases r) simp
  moreover have "ts_id t = Some j \<or> fst (get_tunnel j (w_db s')) = fst (get_tunnel j (w_db s))" for j
    using others [of j] row(3) by (cases "j = i") simp_all
  ultimately show ?thesis by blast
qed

definition desk_tunnels :: "(desk, tunnel_request) tunnel_world" where
  "desk_tunnels = \<lparr>w_db = two_profiles, w_exec = None, w_out = desk_start, aw_pending = [],
     ow_pending = [], sw_owned = [], tw_managed = []\<rparr>"

lemma desk_tunnels_ok: "db_ok (w_db desk_tunnels)"
  by (simp add: desk_tunnels_def two_profiles_ok)

lemma returned:
  assumes "map_sum (\<lambda>_. ()) f (fst (m s)) = Inr y" obtains x t where "m s = (Inr x, t)" "f x = y"
  using assms by (cases "m s"; cases "fst (m s)") auto

lemma desk_shown:
  obtains t where "show_tunnel (Inl 1) (SelInt 1) desk_tunnels = (Inr t, desk_tunnels)"
    "ts_name t = ''rds''" "ts_session_duration_hours t = 12"
proof -
  have "map_sum (\<lambda>_. ()) (\<lambda>t. (ts_name t, ts_session_duration_hours t))
      (fst (show_tunnel (Inl 1) (SelInt 1) desk_tunnels)) = Inr (''rds'', 12)"
    by code_simp
  then obtain t s where "show_tunnel (Inl 1) (SelInt 1) desk_tunnels = (Inr t, s)"
      "(ts_name t, ts_session_duration_hours t) = (''rds'', 12)"
    by (rule returned)
  with show_tunnel_InrD [of "Inl 1" "SelInt 1" desk_tunnels t s] that show ?thesis by simp
qed

theorem rename_changes_the_name_witness:
  "\<exists>t u s'. rename_tunnel 9 (Inl 1) ''new'' (SelInt 1) desk_tunnels = (Inr u, s') \<and>
     ts_name t = ''rds'' \<and> u = t\<lparr>ts_name := ''new'', ts_updated_at := Some 9\<rparr>"
proof -
  obtain t where t: "show_tunnel (Inl 1) (SelInt 1) desk_tunnels = (Inr t, desk_tunnels)" "ts_name t = ''rds''"
    by (rule desk_shown)
  have "map_sum (\<lambda>_. ()) ts_name (fst (rename_tunnel 9 (Inl 1) ''new'' (SelInt 1) desk_tunnels)) = Inr ''new''"
    by code_simp
  then obtain u s' where "rename_tunnel 9 (Inl 1) ''new'' (SelInt 1) desk_tunnels = (Inr u, s')"
    by (rule returned)
  with rename_changes_the_name [OF desk_tunnels_ok t(1) this] t(2) show ?thesis by blast
qed

text \<open>
  C23: a profile's use cases reach its own tunnel sessions only: a session that is shown, or
  deleted, by whatever selector, belongs to the selected profile, and showing changes nothing.
\<close>

theorem tunnels_of_own_profile:
  fixes s :: "('w, 'm) world_scheme"
  assumes "db_ok (w_db s)" "delete_tunnel_use_case sel profile s = (Inr u, s')"
  shows "\<exists>t i. show_tunnel sel profile s = (Inr t, s) \<and> ts_id t = Some i \<and>
    (\<exists>p. resolve_profile profile s = (Inr p, s) \<and> ap_id p = Some (ts_profile_id t)) \<and>
    fst (get_tunnel i (w_db s')) = Inr None \<and>
    (\<forall>j. j = i \<or> fst (get_tunnel j (w_db s')) = fst (get_tunnel j (w_db s)))"
proof -
  obtain t s1 where t: "show_tunnel sel profile s = (Inr t, s1)"
    and rest: "bind (of_app (require_tunnel_id t)) (\<lambda>i. on_db (delete_tunnel i)) s1 = (Inr u, s')"
    using assms(2) unfolding delete_tunnel_use_case_def by (auto elim!: bind_eq_InrE)
  note own = show_tunnel_InrD [OF t]
  with rest obtain i where i: "ts_id t = Some i" "on_db (delete_tunnel i) s = (Inr u, s')"
    by (auto simp: require_tunnel_id_def split: option.splits)
  then have "delete_tunnel i (w_db s) = (Inr u, w_db s')"
    by (cases "delete_tunnel i (w_db s)") auto
  from tunnel_store.remove_Inr [OF assms(1) this] tunnel_store.remove_keeps [OF assms(1) this]
  have "fst (get_tunnel i (w_db s')) = Inr None"
    "\<forall>j. j = i \<or> fst (get_tunnel j (w_db s')) = fst (get_tunnel j (w_db s))" by blast+
  with t i(1) own show ?thesis by auto
qed

theorem tunnels_of_own_profile_witness:
  "\<exists>t. show_tunnel (Inr ''rds'') (SelInt 2) desk_tunnels = (Inr t, desk_tunnels) \<and> ts_profile_id t = 2 \<and>
     fst (get_tunnel (the (ts_id t)) (w_db (snd (delete_tunnel_use_case (Inr ''rds'') (SelInt 2) desk_tunnels)))) = Inr None"
proof -
  have "map_sum (\<lambda>_. ()) id (fst (delete_tunnel_use_case (Inr ''rds'') (SelInt 2) desk_tunnels)) = Inr ()"
    by code_simp
  then obtain u s' where del: "delete_tunnel_use_case (Inr ''rds'') (SelInt 2) desk_tunnels = (Inr u, s')"
    by (rule returned)
  from tunnels_of_own_profile [OF desk_tunnels_ok del] obtain t i where
    "show_tunnel (Inr ''rds'') (SelInt 2) desk_tunnels = (Inr t, desk_tunnels)" "ts_id t = Some i"
    "fst (get_tunnel i (w_db s')) = Inr None" by blast
  moreover have "map_sum (\<lambda>_. ()) ts_profile_id (fst (show_tunnel (Inr ''rds'') (SelInt 2) desk_tunnels)) = Inr 2"
    by code_simp
  ultimately show ?thesis using del by simp
qed

subsection \<open>Starting\<close>

text \<open>
  C24: a local port that is in use is found before anything else is touched: the start fails with
  its own error, and the only thing that has happened is the probe of the port, no credential was
  read and AWS was not called.
\<close>

theorem port_checked_first:
  fixes s :: "('w, 'm) world_scheme"
  assumes "resolve_profile (st_profile r) s = (Inr p, s)" "ap_id p = Some i"
    "show_tunnel (st_tunnel r) (SelInt i) s = (Inr t, s)" "1 \<le> ts_local_port t" "ts_local_port t \<le> 65535"
    "tp_port_available T (ts_local_port t) (w_out s) = (Inr False, w)"
  shows "prepare_tunnel P T r s = (Inl (AppExn (port_in_use (ts_local_port t))), s\<lparr>w_out := w\<rparr>)"
  using assms by (simp add: prepare_tunnel_def require_profile_id_def local_port_available_def
      validate_local_port_def bind_def)

definition desk_ports_of :: "bool \<Rightarrow> desk tunnel_ports" where
  "desk_ports_of free = \<lparr>tp_sessions = desk_sessions, tp_port_available = (\<lambda>p w. (Inr free, w)),
     tp_store_now = (\<lambda>w. (dk_now w, w)), tp_managed = True\<rparr>"

definition desk_request :: start_tunnel_request where
  "desk_request = \<lparr>st_tunnel = Inl 1, st_profile = SelInt 1, st_selected_instance_id = None\<rparr>"

theorem port_checked_first_witness:
  "prepare_tunnel desk_ports (desk_ports_of False) desk_request desk_tunnels
     = (Inl (AppExn (port_in_use 15432)), desk_tunnels\<lparr>w_out := w_out desk_tunnels\<rparr>)"
proof -
  have "map_sum (\<lambda>_. ()) ts_local_port (fst (show_tunnel (Inl 1) (SelInt 1) desk_tunnels)) = Inr 15432"
    by code_simp
  then obtain t s where t: "show_tunnel (Inl 1) (SelInt 1) desk_tunnels = (Inr t, s)" "ts_local_port t = 15432"
    by (rule returned)
  have "map_sum (\<lambda>_. ()) ap_id (fst (resolve_profile (SelInt 1) desk_tunnels)) = Inr (Some 1)"
    by code_simp
  then obtain p s2 where p: "resolve_profile (SelInt 1) desk_tunnels = (Inr p, s2)" "ap_id p = Some 1"
    by (rule returned)
  have "resolve_profile (SelInt 1) desk_tunnels = (Inr p, desk_tunnels)"
    using p(1) reads_state [OF reads_resolve_profile p(1)] by simp
  moreover have "show_tunnel (Inl 1) (SelInt 1) desk_tunnels = (Inr t, desk_tunnels)"
    using t(1) show_tunnel_InrD [OF t(1)] by simp
  ultimately show ?thesis
    using port_checked_first [of desk_request desk_tunnels p 1 t "desk_ports_of False" "w_out desk_tunnels" desk_ports]
      p(2) t(2) by (simp add: desk_request_def desk_ports_of_def)
qed

subsection \<open>Polling\<close>

definition gone :: "string \<Rightarrow> string option \<Rightarrow> ('w, 'r, 'm) tunnel_world_scheme \<Rightarrow> bool" where
  "gone i j s \<longleftrightarrow> j = Some i \<and> unmanaged i s"

lemma unmanaged_forget: "forget_tunnel i s = (r, t) \<Longrightarrow> unmanaged i t"
  by (auto simp: forget_tunnel_def unmanaged_def)

lemma stop_and_forget_Inr:
  assumes "try_finally (session_stop S i) (forget_tunnel i) s = (Inr m, t)"
  shows "ms_operation_id m = i \<and> unmanaged i t"
proof -
  obtain u where "session_stop S i s = (Inr m, u)" "t = snd (forget_tunnel i u)"
    using assms by (auto simp: try_finally_def forget_tunnel_def split: prod.splits)
  with yieldsD [OF yields_session_stop this(1)] unmanaged_forget [of i u] show ?thesis
    by (cases "forget_tunnel i u") (auto simp: final_snapshot_def snapshot_of_def)
qed

lemma finish_stop_Inr:
  assumes "finish_stop P cx i t reason m s = (Inr h, s')"
  shows "h = managed_handle t m reason"
  using assms unfolding finish_stop_def
  by (auto elim!: bind_eq_InrE split: option.splits)

lemma yields_stop_body:
  "yields (\<lambda>h. gone i (th_operation_id h)) (stop_tunnel_body P T i reason context :: ('w, 'r, 'm, tunnel_handle) tw_io)"
  unfolding yields_def
proof (intro allI impI)
  fix s t :: "('w, 'r, 'm) tunnel_world_scheme" and h
  assume "stop_tunnel_body P T i reason context s = (Inr h, t)"
  then obtain e cx m u v where stop: "try_finally (session_stop (tp_sessions T) i) (forget_tunnel i) u = (Inr m, v)"
    and fin: "finish_stop P cx i e reason m v = (Inr h, t)"
    unfolding stop_tunnel_body_def Let_def by (auto elim!: bind_eq_InrE split: if_splits option.splits)
  note m = stop_and_forget_Inr [OF stop]
  have "unmanaged i t" using unmanaged_keeps [OF shrinks_outside [OF outside_finish_stop] _ fin] m by blast
  with m finish_stop_Inr [OF fin] show "gone i (th_operation_id h) t"
    by (simp add: gone_def managed_handle_def)
qed

lemma inner_gone [simp]: "inner (gone i j)"
  by (simp add: inner_def gone_def unmanaged_def)

lemma yields_stop_tunnel: "yields (\<lambda>h. gone i (th_operation_id h)) (stop_tunnel P T i context reason)"
  unfolding stop_tunnel_def by (intro yields_logged yields_stop_body) simp

definition polled :: "string \<Rightarrow> tunnel_connection \<Rightarrow> ('w, 'r, 'm) tunnel_world_scheme \<Rightarrow> bool" where
  "polled i c s \<longleftrightarrow> th_operation_id (tc_handle c) = Some i \<and>
     (th_state (tc_handle c) = OpRunning \<or> unmanaged i s)"

lemma poll_tunnel_Inr:
  fixes s :: "('w, 'r, 'm) tunnel_world_scheme"
  assumes "poll_tunnel P T (i, entry) s = (Inr c, t)" shows "polled i c t"
proof -
  obtain x u where probe: "probe_tunnel P T i entry s = (x, u)" by (cases "probe_tunnel P T i entry s")
  consider h where "x = Inr (Inl h)" | m where "x = Inr (Inr m)" | err where "x = Inl (AppExn err)"
    using assms probe by (cases x) (auto simp: poll_tunnel_def Let_def bind_def split: exn.splits sum.splits)
  then show ?thesis
  proof cases
    case 1
    then obtain v where "stop_tunnel P T i None (Some MaxDuration) v = (Inr h, u)"
      using probe unfolding probe_tunnel_def by (auto elim!: bind_eq_InrE split: if_splits)
    from yieldsD [OF yields_stop_tunnel this] assms probe 1 show ?thesis
      by (auto simp: poll_tunnel_def Let_def bind_def polled_def gone_def)
  next
    case 2
    then obtain v where "session_status (tp_sessions T) i v = (Inr m, u)"
      using probe unfolding probe_tunnel_def by (auto elim!: bind_eq_InrE split: if_splits)
    from session_status_running [OF this] assms probe 2 show ?thesis
      by (auto simp: poll_tunnel_def Let_def bind_def polled_def snapshot_of_def managed_handle_def
          forget_tunnel_def unmanaged_def split: if_splits)
  next
    case 3
    with assms probe show ?thesis
      by (auto simp: poll_tunnel_def Let_def bind_def polled_def lost_session_def managed_handle_def
          forget_tunnel_def unmanaged_def)
  qed
qed

lemma polled_later: "shrinks m \<Longrightarrow> polled i c s \<Longrightarrow> m s = (r, t) \<Longrightarrow> polled i c t"
  unfolding polled_def using unmanaged_keeps by blast

lemma map_each_polled:
  assumes "map_each (poll_tunnel P T) es s = (Inr cs, t)"
  shows "list_all2 (\<lambda>(i, entry) c. polled i c t) es cs"
  using assms
proof (induction es arbitrary: s cs)
  case (Cons e es)
  obtain i entry where e: "e = (i, entry)" by (cases e)
  obtain c ds u where c: "poll_tunnel P T e s = (Inr c, u)" and ds: "map_each (poll_tunnel P T) es u = (Inr ds, t)"
    and cs: "cs = c # ds"
    using Cons.prems by (auto elim!: bind_eq_InrE)
  have "polled i c t"
    by (rule polled_later [OF shrinks_map_each [OF shrinks_poll_tunnel] poll_tunnel_Inr ds]) (use c e in simp)
  with Cons.IH [OF ds] show ?case by (simp add: cs e)
qed simp

text \<open>
  C25: polling the tunnels of a profile reports each of them once, in the order they were started,
  and keeps only those it reports as running: every tunnel reported as ended, failed or expired is
  no longer managed, and no tunnel appears that was not there.
\<close>

theorem polled_tunnels_reported:
  fixes s :: "('w, 'r, 'm) tunnel_world_scheme"
  assumes "tp_managed T" "active_tunnels P T profile_id s = (Inr reports, t)"
  shows "map (th_operation_id \<circ> tc_handle) reports = map (Some \<circ> fst) (owned_tunnels profile_id (tw_managed s)) \<and>
    set (tw_managed t) \<subseteq> set (tw_managed s) \<and>
    (\<forall>c \<in> set reports. th_state (tc_handle c) = OpRunning \<or>
       dict_get (tw_managed t) (the (th_operation_id (tc_handle c))) = None)"
proof -
  let ?es = "owned_tunnels profile_id (tw_managed s)"
  have run: "map_each (poll_tunnel P T) ?es s = (Inr reports, t)"
    using assms by (simp add: active_tunnels_def)
  note all = map_each_polled [OF run]
  have "map (th_operation_id \<circ> tc_handle) reports = map (Some \<circ> fst) ?es"
    using all by (induction rule: list_all2_induct) (auto simp: polled_def)
  moreover have "th_state (tc_handle c) = OpRunning \<or>
       dict_get (tw_managed t) (the (th_operation_id (tc_handle c))) = None" if "c \<in> set reports" for c
    using all that by (auto simp: list_all2_conv_all_nth polled_def unmanaged_def in_set_conv_nth split_def)
  moreover have "set (tw_managed t) \<subseteq> set (tw_managed s)"
    by (rule managed_subset [OF shrinks_map_each [OF shrinks_poll_tunnel] run])
  ultimately show ?thesis by (intro conjI ballI)
qed

definition desk_quiet :: "desk ports" where
  \<comment> \<open>without a history\<close>
  "desk_quiet = desk_ports\<lparr>pt_recorder := None\<rparr>"

definition desk_started :: "(desk, tunnel_request) tunnel_world" where
  \<comment> \<open>one tunnel runs that ends at hour 13, one that ends at hour 2\<close>
  "desk_started = (let o1 = \<lparr>os_credentials = desk_key, os_region = ''eu'', os_session_id = ''s0'',
        os_process = \<lparr>ph_handle = 0, ph_pid = 7\<rparr>, os_ended = False, os_external_terminal = False\<rparr>;
      m1 = \<lparr>mt_tunnel = sample_tunnel 1 ''rds'', mt_target_instance_id = ''i-0123456789abcdef0'',
        mt_process_id = 7, mt_session_id = ''s0'', mt_expires_at = hours 13\<rparr>
    in desk_tunnels\<lparr>w_out := desk_start\<lparr>dk_now := hours 3, dk_running := True\<rparr>,
         sw_owned := [(''a'', o1), (''b'', o1\<lparr>os_session_id := ''s1''\<rparr>)],
         tw_managed := [(''a'', m1), (''b'', m1\<lparr>mt_session_id := ''s1'', mt_expires_at := hours 2\<rparr>)]\<rparr>)"

theorem polled_tunnels_reported_witness:
  "\<exists>reports t. active_tunnels desk_ports (desk_ports_of True) (Some 1) desk_started = (Inr reports, t) \<and>
     map (th_operation_id \<circ> tc_handle) reports = [Some ''a'', Some ''b''] \<and>
     map (th_state \<circ> tc_handle) reports = [OpRunning, OpCancelled] \<and> dict_get (tw_managed t) ''b'' = None"
proof -
  let ?m = "active_tunnels desk_ports (desk_ports_of True) (Some 1)"
  have "map_sum (\<lambda>_. ()) (map (th_state \<circ> tc_handle)) (fst (?m desk_started)) = Inr [OpRunning, OpCancelled]"
    by code_simp
  then obtain reports t where run: "?m desk_started = (Inr reports, t)"
    and states: "map (th_state \<circ> tc_handle) reports = [OpRunning, OpCancelled]" by (rule returned)
  have "map (Some \<circ> fst) (owned_tunnels (Some 1) (tw_managed desk_started)) = [Some ''a'', Some ''b'']"
    by code_simp
  with polled_tunnels_reported [OF _ run]
  have ids: "map (th_operation_id \<circ> tc_handle) reports = [Some ''a'', Some ''b'']"
    and all: "\<forall>c \<in> set reports. th_state (tc_handle c) = OpRunning \<or>
       dict_get (tw_managed t) (the (th_operation_id (tc_handle c))) = None"
    by (simp_all add: desk_ports_of_def)
  from ids obtain c d where "reports = [c, d]" by auto
  with states ids all have "dict_get (tw_managed t) ''b'' = None" by auto
  with run ids states show ?thesis by (intro exI conjI)
qed

subsection \<open>Stopping\<close>

lemma ends_stop_forget: "ends (unmanaged i) (try_finally (session_stop S i) (forget_tunnel i))"
  by (rule ends_try_finally) (simp add: ends_def unmanaged_def forget_tunnel_def)

lemma ends_stop_body:
  assumes "tp_managed T" "idle_context context"
  shows "ends (unmanaged i) (stop_tunnel_body P T i reason context :: ('w, 'r, 'm, tunnel_handle) tw_io)"
  unfolding ends_def
proof
  fix s :: "('w, 'r, 'm) tunnel_world_scheme"
  have stop: "ends (unmanaged i) (seq (raise_if_cancelled P cx)
      (seq (report_progress P cx ''stopping'' ''rds.tunnel.stop'' None None (Some n))
        (bind (try_finally (session_stop (tp_sessions T) i) (forget_tunnel i)) (finish_stop P cx i t reason)))
      :: ('w, 'r, 'm, tunnel_handle) tw_io)" if "idle_context (Some cx)" for cx n t
    using idle_quiet [OF that]
    by (intro ends_bind ends_bind_keeps ends_stop_forget) (auto intro: keeps_outside)
  show "unmanaged i (snd (stop_tunnel_body P T i reason context s))"
  proof (cases "dict_get (tw_managed s) i")
    case None
    with assms(1) show ?thesis by (simp add: stop_tunnel_body_def bind_def unmanaged_def)
  next
    case (Some e)
    let ?m = "(case context of Some cx \<Rightarrow> ret cx | None \<Rightarrow> new_context P (Some i)) :: ('w, 'r, 'm, op_context) tw_io"
    have "returns ?m" "yields (\<lambda>cx s. idle_context (Some cx)) ?m"
      using assms(2) by (auto simp: yields_new_context yields_def [of _ "ret _"] split: option.split)
    from ends_bind_value [OF this stop] Some assms(1) show ?thesis
      by (simp add: stop_tunnel_body_def Let_def bind_gets ends_def)
  qed
qed

lemma ends_stop_tunnel:
  assumes "tp_managed T" "recorder_returns P"
  shows "ends (unmanaged i) (stop_tunnel P T i None reason)"
  unfolding stop_tunnel_def
  by (intro ends_logged assms inner_unmanaged ends_stop_body)

lemma stop_each_ends:
  assumes "tp_managed T" "recorder_returns P" "stop_each P T i s = (r, t)"
  shows "unmanaged i t" "\<nexists>err. r = Inl (AppExn err)"
proof -
  obtain x u where x: "stop_tunnel P T i None None s = (x, u)" by (cases "stop_tunnel P T i None None s")
  with ends_stop_tunnel [OF assms(1,2)] have "unmanaged i u" unfolding ends_def by (metis snd_conv)
  with assms(3) x show "unmanaged i t" "\<nexists>err. r = Inl (AppExn err)"
    by (auto simp: stop_each_def bind_def split: sum.splits exn.splits)
qed

lemma map_each_stop:
  assumes "tp_managed T" "recorder_returns P" "map_each (stop_each P T) is s = (r, t)"
  shows "(\<nexists>err. r = Inl (AppExn err)) \<and> (isl r \<or> (\<forall>i \<in> set is. unmanaged i t))"
  using assms(3)
proof (induction "is" arbitrary: s r t)
  case (Cons i js)
  obtain x u where x: "stop_each P T i s = (x, u)" by (cases "stop_each P T i s")
  obtain y v where y: "map_each (stop_each P T) js u = (y, v)" by (cases "map_each (stop_each P T) js u")
  note i = stop_each_ends [OF assms(1,2) x]
  note js = Cons.IH [OF y]
  have "unmanaged i v" by (rule unmanaged_keeps [OF shrinks_map_each [OF shrinks_stop_each] i(1) y])
  with Cons.prems x y i(2) js show ?case by (cases x; cases y) (auto simp: bind_def)
qed auto

text \<open>
  C26: stopping all tunnels of a profile reaches every one of them: if the history can be written,
  then after \<open>stop_all\<close> has returned, or has raised the first of the errors of single tunnels, none
  of the tunnels it was asked to stop is managed any more.
\<close>

theorem stop_all_reaches_every_tunnel:
  fixes s :: "('w, 'r, 'm) tunnel_world_scheme"
  assumes "tp_managed T" "recorder_returns P" "stop_all P T profile_id s = (r, t)"
    "case r of Inr _ \<Rightarrow> True | Inl e \<Rightarrow> exn_code e \<noteq> None"
  shows "owned_tunnels profile_id (tw_managed t) = []"
proof -
  let ?ids = "map fst (owned_tunnels profile_id (tw_managed s))"
  obtain x u where x: "map_each (stop_each P T) ?ids s = (x, u)" by (cases "map_each (stop_each P T) ?ids s")
  note stop = map_each_stop [OF assms(1,2) x]
  have t: "t = u" using assms(3) x by (auto simp: stop_all_def bind_def split: sum.splits list.splits)
  have "\<not> isl x"
  proof
    assume "isl x"
    then obtain e where "x = Inl e" by (auto simp: isl_def)
    with assms(3,4) x stop show False by (cases e) (auto simp: stop_all_def bind_def)
  qed
  then have all: "\<forall>i \<in> set ?ids. unmanaged i t" using stop t by blast
  have sub: "set (tw_managed t) \<subseteq> set (tw_managed s)"
    unfolding t by (rule managed_subset [OF shrinks_map_each [OF shrinks_stop_each] x])
  have False if "(i, m) \<in> set (owned_tunnels profile_id (tw_managed t))" for i m
  proof -
    from that have mem: "(i, m) \<in> set (tw_managed t)" and "i \<in> set ?ids"
      using sub by (force simp: owned_tunnels_def)+
    with all have "dict_get (tw_managed t) i = None" by (auto simp: unmanaged_def)
    with mem show False by (simp add: map_of_eq_None_iff rev_image_eqI)
  qed
  then show ?thesis by (cases "owned_tunnels profile_id (tw_managed t)") force+
qed

theorem stop_all_reaches_every_tunnel_witness:
  "owned_tunnels None (tw_managed (snd (stop_all desk_quiet (desk_ports_of True) None desk_started))) = []"
proof -
  have "map_sum (\<lambda>_. ()) length (fst (stop_all desk_quiet (desk_ports_of True) None desk_started)) = Inr 2"
    by code_simp
  then obtain hs t where "stop_all desk_quiet (desk_ports_of True) None desk_started = (Inr hs, t)"
    by (rule returned)
  with stop_all_reaches_every_tunnel [of "desk_ports_of True" desk_quiet None desk_started "Inr hs" t]
  show ?thesis by (simp add: desk_ports_of_def recorder_returns_def desk_quiet_def)
qed

lemma unwritable_logged:
  assumes "pt_recorder P = Some r" "r = (\<lambda>who c w. (Inl (AppExn err), w))"
  shows "\<exists>w. \<forall>body. logged P f a c tg k None body s = (Inl (AppExn err), s\<lparr>w_out := w\<rparr>)"
  using assms
  by (cases s; cases "w_exec s") (auto simp: logged_def execution_scope_def given_def new_uuid_def
      bind_def record_log_def try_finally_def Let_def split: prod.splits)

text \<open>
  C27: when the history cannot be written, polling an expired tunnel gives it up without stopping
  it: the tunnel is reported as failed and forgotten, while its session is still held by the
  runner, and neither the plugin nor AWS has been called.
\<close>

theorem unlogged_expiry_leaks_tunnel:
  fixes s :: "('w, 'r, 'm) tunnel_world_scheme"
  assumes "tp_managed T" "pt_recorder P = Some r" "r = (\<lambda>who c w. (Inl (AppExn err), w))"
    "mt_expires_at m \<le> fst (pt_now P (w_out s))" "tw_managed s = [(i, m)]"
  shows "\<exists>report t. (\<forall>S. active_tunnels P (T\<lparr>tp_sessions := S\<rparr>) None s = (Inr [report], t)) \<and>
    th_state (tc_handle report) = OpFailed \<and> tw_managed t = [] \<and> sw_owned t = sw_owned s"
proof -
  let ?now = "pt_now P (w_out s)"
  let ?s = "s\<lparr>w_out := snd ?now\<rparr>"
  obtain w where "\<forall>body :: op_context option \<Rightarrow> ('w, 'r, 'm, tunnel_handle) tw_io.
      logged P ''rds'' ''stop'' False ''-'' True None body ?s = (Inl (AppExn err), ?s\<lparr>w_out := w\<rparr>)"
    using unwritable_logged [OF assms(2,3)] by blast
  then have stop: "stop_tunnel P U i None reason ?s = (Inl (AppExn err), ?s\<lparr>w_out := w\<rparr>)" for U reason
    by (simp add: stop_tunnel_def)
  let ?lost = "lost_session i m err"
  let ?report = "\<lparr>tc_tunnel = mt_tunnel m, tc_target_instance_id = mt_target_instance_id m,
    tc_handle = managed_handle (mt_tunnel m) ?lost None, tc_plugin_exit_code = ms_exit_code ?lost,
    tc_error = ms_error ?lost\<rparr>"
  let ?t = "s\<lparr>w_out := w, tw_managed := []\<rparr>"
  have "active_tunnels P (T\<lparr>tp_sessions := S\<rparr>) None s = (Inr [?report], ?t)" for S
  proof -
    have "probe_tunnel P (T\<lparr>tp_sessions := S\<rparr>) i m s = (Inl (AppExn err), s\<lparr>w_out := w\<rparr>)"
      using assms(4) stop by (simp add: probe_tunnel_def clock_now_def bind_def split_def)
    then have "poll_tunnel P (T\<lparr>tp_sessions := S\<rparr>) (i, m) s = (Inr ?report, ?t)"
      using assms(5) by (simp add: poll_tunnel_def bind_def lost_session_def forget_tunnel_def)
    then show ?thesis
      using assms(1,5) by (simp add: active_tunnels_def owned_tunnels_def bind_def)
  qed
  then show ?thesis
    by (intro exI [of _ ?report] exI [of _ ?t]) (simp add: managed_handle_def lost_session_def)
qed

definition desk_full :: "(desk, tunnel_request) tunnel_world" where
  \<comment> \<open>the tunnel \<open>b\<close> has expired and the disk is full\<close>
  "desk_full = desk_started\<lparr>tw_managed := tl (tw_managed desk_started)\<rparr>"

theorem unlogged_expiry_leaks_tunnel_witness:
  "\<exists>report t. active_tunnels (desk_ports\<lparr>pt_recorder := Some (\<lambda>who c w. (Inl (AppExn (config_error ''logs.storage.failed'')), w))\<rparr>)
       (desk_ports_of True\<lparr>tp_sessions := desk_sessions\<rparr>) None desk_full = (Inr [report], t) \<and>
     tw_managed t = [] \<and> map fst (sw_owned t) = [''a'', ''b'']"
proof -
  let ?P = "desk_ports\<lparr>pt_recorder := Some (\<lambda>who c w. (Inl (AppExn (config_error ''logs.storage.failed'')), w))\<rparr>"
  obtain m where m: "tw_managed desk_full = [(''b'', m)]" "mt_expires_at m = hours 2"
    by (simp add: desk_full_def desk_started_def Let_def)
  have now: "mt_expires_at m \<le> fst (pt_now ?P (w_out desk_full))"
    unfolding m(2) by code_simp
  have "map fst (sw_owned desk_full) = [''a'', ''b'']" by code_simp
  with unlogged_expiry_leaks_tunnel [OF _ _ refl now m(1), of "desk_ports_of True"] show ?thesis
    by (fastforce simp: desk_ports_of_def)
qed

end
