(* ===== verification/Masking.thy ===== *)
theory Masking
  imports Domain_Errors
begin

text \<open>
  The redaction of free text (\<open>infrastructure/masking.py\<close>).  The three patterns are written as
  matchers that read the character before a position and the text after it and answer how much
  they consume and what they put in its place; \<open>sub_all\<close> is \<open>re.sub\<close>: it goes through the text
  from the left and replaces the matches that do not overlap.  All three patterns are
  deterministic: no alternative is a prefix of another and no class overlaps what follows it, so
  the order in which \<open>re\<close> tries them does not matter.  The main fact: no access key survives.
\<close>

subsection \<open>Word characters and boundaries\<close>

definition is_word_char :: "char \<Rightarrow> bool" where
  \<comment> \<open>\<open>\w\<close>: the letters, digits and numerals of Latin-1 and the underscore\<close>
  "is_word_char c \<longleftrightarrow> is_alnum_ascii c \<or> c = CHR ''_'' \<or>
     (let n = code c in n \<in> {170, 178, 179, 181, 185, 186, 188, 189, 190} \<or>
        (192 \<le> n \<and> n \<noteq> 215 \<and> n \<noteq> 247))"

definition starts_word :: "string \<Rightarrow> bool" where
  "starts_word s \<longleftrightarrow> s \<noteq> [] \<and> is_word_char (hd s)"

definition word_before :: "char option \<Rightarrow> bool" where
  "word_before p \<longleftrightarrow> (case p of None \<Rightarrow> False | Some c \<Rightarrow> is_word_char c)"

definition boundary :: "char option \<Rightarrow> string \<Rightarrow> bool" where
  "boundary p s \<longleftrightarrow> word_before p \<noteq> starts_word s"

definition drop_word :: "string list \<Rightarrow> string \<Rightarrow> string option" where
  \<comment> \<open>the rest after the first of the words the text starts with, in any case\<close>
  "drop_word ws s =
     (case find (\<lambda>w. str_lower (take (length w) s) = w) ws of
        None \<Rightarrow> None | Some w \<Rightarrow> Some (drop (length w) s))"

definition skip_spaces :: "string \<Rightarrow> string" where
  "skip_spaces s = dropWhile is_space s"

subsection \<open>Substitution\<close>

type_synonym matcher = "char option \<Rightarrow> string \<Rightarrow> (string \<times> nat) option"
  \<comment> \<open>what stands for the match, and the number of characters of the match (at least one)\<close>

function (sequential) sub_all :: "matcher \<Rightarrow> char option \<Rightarrow> string \<Rightarrow> string" where
  "sub_all m p [] = []"
| "sub_all m p (c # s) =
     (case m p (c # s) of
        None \<Rightarrow> c # sub_all m (Some c) s
      | Some (out, n) \<Rightarrow> out @ sub_all m (Some ((c # s) ! (n - 1))) (drop (n - 1) s))"
  by pat_completeness auto
termination
  by (relation "measure (\<lambda>(m, p, s). length s)") auto

fun str_replace :: "string \<Rightarrow> string \<Rightarrow> string \<Rightarrow> string" where
  \<comment> \<open>\<open>s.replace(old, new)\<close> for a nonempty \<open>old\<close>\<close>
  "str_replace old new s =
     sub_all (\<lambda>_ t. if startswith t old then Some (new, length old) else None) None s"

definition access_key_shape :: "string \<Rightarrow> bool" where
  "access_key_shape w \<longleftrightarrow> length w = 20 \<and> str_lower (take 4 w) \<in> {''akia'', ''asia''} \<and>
     list_all is_alnum_ascii (drop 4 w)"

definition access_key_match :: matcher where
  \<comment> \<open>\<open>(?i)\b(?:AKIA|ASIA)[0-9A-Z]{16}\b\<close>\<close>
  "access_key_match p s =
     (if boundary p s \<and> access_key_shape (take 20 s) \<and> \<not> starts_word (drop 20 s)
      then Some (redacted, 20) else None)"

definition secret_names :: "string list" where
  "secret_names = [''secret_access_key'', ''secret_key'', ''session_token'', ''tokenvalue'',
     ''streamurl'', ''password'', ''mfa_code'']"

definition bare_value_char :: "char \<Rightarrow> bool" where
  \<comment> \<open>\<open>[^\s,;}"']\<close>\<close>
  "bare_value_char c \<longleftrightarrow> \<not> is_space c \<and> c \<notin> set '',;}'' \<and> code c \<noteq> 34 \<and> code c \<noteq> 39"

definition after_quoted :: "char \<Rightarrow> string \<Rightarrow> string option" where
  \<comment> \<open>the rest after \<open>"[^"]*"\<close>, with the quote as an argument\<close>
  "after_quoted q s =
     (if s \<noteq> [] \<and> hd s = q \<and> q \<in> set (tl s) then Some (tl (dropWhile (\<lambda>c. c \<noteq> q) (tl s))) else None)"

definition after_value :: "string \<Rightarrow> string option" where
  "after_value s =
     (if s = [] then None
      else if code (hd s) = 34 \<or> code (hd s) = 39 then after_quoted (hd s) s
      else if bare_value_char (hd s) then Some (dropWhile bare_value_char s) else None)"

definition replaced_value :: "string \<Rightarrow> string \<Rightarrow> string option \<Rightarrow> (string \<times> nat) option" where
  \<comment> \<open>the match of \<open>s\<close> whose group ends where \<open>v\<close> starts and which ends where \<open>r\<close> starts\<close>
  "replaced_value s v r =
     (case r of None \<Rightarrow> None
      | Some r \<Rightarrow> Some (take (length s - length v) s @ redacted, length s - length r))"

definition assignment_match :: matcher where
  \<comment> \<open>\<open>(?i)(\b(?:aws_)?(?:secret_access_key|...)\b\s*[=:]\s*)("[^"]*"|'[^']*'|[^\s,;}"']+)\<close>\<close>
  "assignment_match p s =
     (if \<not> boundary p s then None else
      case drop_word secret_names (case drop_word [''aws_''] s of None \<Rightarrow> s | Some t \<Rightarrow> t) of
        None \<Rightarrow> None
      | Some t \<Rightarrow>
          if starts_word t then None else
          (case skip_spaces t of
             [] \<Rightarrow> None
           | c # u \<Rightarrow>
               if c = CHR ''='' \<or> c = CHR '':''
               then (let v = skip_spaces u in replaced_value s v (after_value v)) else None))"

definition json_names :: "string list" where
  "json_names = [''tokenvalue'', ''streamurl'', ''secretaccesskey'', ''sessiontoken'']"

definition json_match :: matcher where
  \<comment> \<open>\<open>(?i)("(?:TokenValue|StreamUrl|SecretAccessKey|SessionToken)"\s*:\s*)"[^"]*"\<close>\<close>
  "json_match p s =
     (if s = [] \<or> code (hd s) \<noteq> 34 then None else
      case drop_word json_names (tl s) of
        None \<Rightarrow> None
      | Some t \<Rightarrow>
          if t = [] \<or> code (hd t) \<noteq> 34 then None else
          (case skip_spaces (tl t) of
             [] \<Rightarrow> None
           | c # u \<Rightarrow>
               if c = CHR '':''
               then (let v = skip_spaces u in replaced_value s v (after_quoted (char_of (34::nat)) v))
               else None))"

definition mask_text :: "string \<Rightarrow> string list \<Rightarrow> string" where
  "mask_text s known_secrets =
     (let result = fold (\<lambda>secret r. if secret \<noteq> [] then str_replace secret redacted r else r)
                     known_secrets s in
      sub_all json_match None (sub_all assignment_match None (sub_all access_key_match None result)))"

subsection \<open>No access key survives\<close>

fun clean :: "matcher \<Rightarrow> char option \<Rightarrow> string \<Rightarrow> bool" where
  \<comment> \<open>the pattern matches nowhere in the text\<close>
  "clean m p [] = True"
| "clean m p (c # s) = (m p (c # s) = None \<and> clean m (Some c) s)"

definition word_run :: "string \<Rightarrow> string" where
  "word_run s = takeWhile is_word_char s"

lemma word_run_simps [simp]:
  "word_run [] = []" "word_run (c # s) = (if is_word_char c then c # word_run s else [])"
  by (simp_all add: word_run_def)

lemma starts_word_simps [simp]: "\<not> starts_word []" "starts_word (c # s) = is_word_char c"
  by (simp_all add: starts_word_def)

lemma word_before_simps [simp]: "\<not> word_before None" "word_before (Some c) = is_word_char c"
  by (simp_all add: word_before_def)

lemma word_run_empty: "\<not> starts_word s \<Longrightarrow> word_run s = []"
  by (cases s) auto

lemma word_run_append_stop: "u \<noteq> [] \<Longrightarrow> \<not> is_word_char (last u) \<Longrightarrow> word_run (u @ v) = word_run u"
  by (induction u) (auto split: if_splits)

lemma word_run_append_none: "u \<noteq> [] \<Longrightarrow> \<not> is_word_char (hd u) \<Longrightarrow> word_run (u @ v) = []"
  by (cases u) auto

lemma alnum_is_word: "is_alnum_ascii c \<Longrightarrow> is_word_char c"
  by (simp add: is_word_char_def)

lemma lower_az_word: "is_lower_az (lower_char c) \<Longrightarrow> is_word_char c"
  by (cases "is_upper_az c") (auto simp: is_word_char_def is_alnum_ascii_def lower_char_def Let_def
      is_lower_az_def split: if_splits)

lemma access_key_words: "access_key_shape w \<Longrightarrow> list_all is_word_char w"
proof -
  assume w: "access_key_shape w"
  then have "list_all (\<lambda>c. is_lower_az c) (map lower_char (take 4 w))"
    unfolding access_key_shape_def str_lower_def by (auto simp: py_char_defs)
  then have "list_all is_word_char (take 4 w)"
    by (auto simp: list_all_iff intro: lower_az_word)
  moreover have "list_all is_word_char (drop 4 w)"
    using w by (auto simp: access_key_shape_def list_all_iff alnum_is_word)
  ultimately show ?thesis by (metis append_take_drop_id list_all_append)
qed

lemma access_key_match_run:
  "access_key_match p s = None \<longleftrightarrow> word_before p \<or> \<not> access_key_shape (word_run s)"
proof -
  have "\<not> word_before p \<and> access_key_shape (word_run s)" if "access_key_match p s \<noteq> None"
  proof -
  from that
  have b: "boundary p s" and k: "access_key_shape (take 20 s)" and e: "\<not> starts_word (drop 20 s)"
    by (auto simp: access_key_match_def split: if_splits)
  have words: "list_all is_word_char (take 20 s)" by (rule access_key_words [OF k])
  have "length (take 20 s) = 20" using k by (simp add: access_key_shape_def)
  then have "starts_word s" using words by (cases s) (auto simp: take_Cons')
  have "word_run (take 20 s @ drop 20 s) = take 20 s @ word_run (drop 20 s)"
    using words unfolding word_run_def by (simp add: takeWhile_append list_all_iff del: append_take_drop_id)
  then have "word_run s = take 20 s" using word_run_empty [OF e] by simp
  with b k \<open>starts_word s\<close> show ?thesis by (simp add: boundary_def)
  qed
  moreover have "access_key_match p s \<noteq> None"
    if r: "\<not> word_before p \<and> access_key_shape (word_run s)"
  proof -
  from r have len: "length (word_run s) = 20" by (simp add: access_key_shape_def)
  have split: "s = word_run s @ dropWhile is_word_char s" by (simp add: word_run_def)
  have "take 20 s = word_run s" "drop 20 s = dropWhile is_word_char s"
    using len by (subst split, simp)+
  moreover have "starts_word s" using len by (cases s) (auto split: if_splits)
  moreover have "\<not> starts_word (dropWhile is_word_char s)"
    unfolding starts_word_def using hd_dropWhile_head by blast
  ultimately show ?thesis using r by (simp add: access_key_match_def boundary_def)
  qed
  ultimately show ?thesis by blast
qed

abbreviation keyless :: "char option \<Rightarrow> string \<Rightarrow> bool" where
  "keyless \<equiv> clean access_key_match"

lemma access_key_match_cong:
  assumes "word_run s = word_run t" "starts_word s \<Longrightarrow> word_before p = word_before q"
    and "access_key_match p s = None"
  shows "access_key_match q t = None"
proof -
  have "\<not> access_key_shape []" by (simp add: access_key_shape_def)
  then have "access_key_shape (word_run t) \<Longrightarrow> starts_word s"
    using assms(1) word_run_empty by metis
  with assms show ?thesis by (auto simp: access_key_match_run)
qed

lemma keyless_before:
  "keyless q s \<Longrightarrow> (starts_word s \<Longrightarrow> word_before q = word_before r) \<Longrightarrow> keyless r s"
  using access_key_match_cong [of s s q r] by (cases s) auto

lemma keyless_append:
  assumes "u \<noteq> []" "\<not> is_word_char (last u)"
  shows "keyless q (u @ v) \<longleftrightarrow> keyless q u \<and> keyless (Some (last u)) v"
  using assms
proof (induction u arbitrary: q)
  case (Cons c u)
  have run: "word_run ((c # u) @ v) = word_run (c # u)"
    by (rule word_run_append_stop) (use Cons.prems in auto)
  then have "access_key_match q (c # u @ v) = None \<longleftrightarrow> access_key_match q (c # u) = None"
    by (simp add: access_key_match_run del: word_run_simps)
  with Cons show ?case by (cases "u = []") auto
qed simp

lemma redacted_facts:
  "redacted \<noteq> []" "\<not> is_word_char (last redacted)" "\<not> is_word_char (hd redacted)" "keyless q redacted"
proof -
  show "redacted \<noteq> []" "\<not> is_word_char (last redacted)" "\<not> is_word_char (hd redacted)"
    by (simp_all add: redacted_def is_word_char_def Let_def py_char_defs)
  have "list_all (\<lambda>w. length (word_run w) \<noteq> 20) (suffixes redacted)"
    by (simp add: redacted_def is_word_char_def Let_def py_char_defs)
  then have "suffix w redacted \<Longrightarrow> \<not> access_key_shape (word_run w)" for w
    by (auto simp: list_all_iff access_key_shape_def)
  moreover have "(\<And>w. suffix w t \<Longrightarrow> \<not> access_key_shape (word_run w)) \<Longrightarrow> keyless q t" for t
  proof (induction t arbitrary: q)
    case (Cons c t)
    have "access_key_match q (c # t) = None"
      using Cons.prems [of "c # t"] access_key_match_run [of q "c # t"] by auto
    with Cons.IH [of "Some c"] Cons.prems show ?case by (simp add: suffix_Cons)
  qed simp
  ultimately show "keyless q redacted" by blast
qed

lemma access_key_match_Some:
  "access_key_match p s = Some (out, n) \<Longrightarrow> out = redacted \<and> n = 20 \<and> \<not> starts_word (drop 20 s)"
  by (auto simp: access_key_match_def split: if_splits)

lemma sub_all_step: "m p s = Some (out, n) \<Longrightarrow> s \<noteq> [] \<Longrightarrow> 0 < n \<Longrightarrow>
    sub_all m p s = out @ sub_all m (Some (s ! (n - 1))) (drop n s)"
  by (cases s; cases n) auto

lemma access_key_sub_run:
  "word_run (sub_all access_key_match p s) =
     (if access_key_match p s = None then word_run s else [])"
proof (induction access_key_match p s rule: sub_all.induct)
  case (2 p c s)
  show ?case
  proof (cases "access_key_match p (c # s)")
    case None
    have "is_word_char c \<Longrightarrow> access_key_match (Some c) s = None"
      using access_key_match_run [of "Some c" s] by auto
    with None 2(1) [OF None] show ?thesis by simp
  next
    case (Some r)
    obtain n where "r = (redacted, n)" using access_key_match_Some Some by (cases r) auto
    with Some redacted_facts show ?thesis by (simp add: word_run_append_none)
  qed
qed simp

lemma access_key_sub_keyless:
  "(starts_word s \<Longrightarrow> word_before q = word_before p) \<Longrightarrow> keyless q (sub_all access_key_match p s)"
proof (induction access_key_match p s arbitrary: q rule: sub_all.induct)
  case (2 p c s)
  show ?case
  proof (cases "access_key_match p (c # s)")
    case None
    have "word_run (c # s) = word_run (sub_all access_key_match p (c # s))"
      using access_key_sub_run [of p "c # s"] None by simp
    then have "access_key_match q (sub_all access_key_match p (c # s)) = None"
      by (rule access_key_match_cong [of "c # s" _ p q]) (use 2(3) None in simp_all)
    with None 2(1) [OF None, of "Some c"] show ?thesis by simp
  next
    case (Some r)
    then obtain out n where r: "r = (out, n)" by fastforce
    with Some have *: "out = redacted" "n = 20" "\<not> starts_word (drop 20 (c # s))"
      using access_key_match_Some by auto
    have "keyless (Some (last redacted)) (sub_all access_key_match (Some ((c # s) ! (n - 1))) (drop (n - 1) s))"
      by (rule 2(2) [OF Some r [symmetric]]) (use * in simp)
    with Some r * show ?thesis by (simp add: keyless_append redacted_facts)
  qed
qed simp

text \<open>The other two patterns keep the start of the match and leave no new word.\<close>

definition replaces_value :: "matcher \<Rightarrow> bool" where
  "replaces_value m \<longleftrightarrow> (\<forall>p s out n. m p s = Some (out, n) \<longrightarrow>
     (\<exists>g v r. s = g @ v @ r \<and> out = g @ redacted \<and> n = length (g @ v) \<and> g \<noteq> [] \<and> v \<noteq> [] \<and>
        \<not> is_word_char (last g) \<and> (starts_word r \<longrightarrow> \<not> is_word_char (last v))))"

lemma replaces_valueE:
  assumes "replaces_value m" "m p s = Some (out, n)"
  obtains g v r where "s = g @ v @ r" "out = g @ redacted" "n = length (g @ v)" "g \<noteq> []" "v \<noteq> []"
    "\<not> is_word_char (last g)" "starts_word r \<Longrightarrow> \<not> is_word_char (last v)"
proof -
  from assms(1) [unfolded replaces_value_def, rule_format, OF assms(2)] obtain g v r where
    "s = g @ v @ r \<and> out = g @ redacted \<and> n = length (g @ v) \<and> g \<noteq> [] \<and> v \<noteq> [] \<and>
     \<not> is_word_char (last g) \<and> (starts_word r \<longrightarrow> \<not> is_word_char (last v))" by (elim exE)
  then show ?thesis by (intro that [of g v r]) simp_all
qed

lemma replaces_value_run: "replaces_value m \<Longrightarrow> word_run (sub_all m p s) = word_run s"
proof (induction m p s rule: sub_all.induct)
  case (2 m p c s)
  show ?case
  proof (cases "m p (c # s)")
    case None
    with 2 show ?thesis by simp
  next
    case (Some x)
    then obtain out n where x: "m p (c # s) = Some (out, n)" by fastforce
    from replaces_valueE [OF \<open>replaces_value m\<close> x] obtain g v r where
      g: "c # s = g @ v @ r" "out = g @ redacted" "g \<noteq> []" "\<not> is_word_char (last g)" by metis
    then have "word_run (c # s) = word_run g" by (simp add: word_run_append_stop)
    moreover have "sub_all m p (c # s) = g @ redacted @ sub_all m (Some ((c # s) ! (n - 1))) (drop (n - 1) s)"
      using x g(2) by simp
    then have "word_run (sub_all m p (c # s)) = word_run g"
      using g(3,4) by (simp add: word_run_append_stop del: sub_all.simps)
    ultimately show ?thesis by simp
  qed
qed simp

lemma replaces_value_keyless:
  assumes "replaces_value m"
  shows "keyless q s \<Longrightarrow> (starts_word s \<Longrightarrow> word_before q = word_before q') \<Longrightarrow>
    keyless q' (sub_all m p s)"
  using assms
proof (induction m p s arbitrary: q q' rule: sub_all.induct)
  case (2 m p c s)
  show ?case
  proof (cases "m p (c # s)")
    case None
    have "word_run (c # s) = word_run (sub_all m p (c # s))"
      using replaces_value_run [OF 2(5)] by (simp del: sub_all.simps word_run_simps)
    then have "access_key_match q' (sub_all m p (c # s)) = None"
      by (rule access_key_match_cong [of "c # s" _ q]) (use 2(3,4) in simp_all)
    with None 2(1) [OF None, of "Some c" "Some c"] 2(3,5) show ?thesis by simp
  next
    case (Some x)
    then obtain out n where x: "m p (c # s) = Some (out, n)" by fastforce
    from replaces_valueE [OF 2(5) x] obtain g v r where
      g: "c # s = g @ v @ r" "out = g @ redacted" "n = length (g @ v)" "g \<noteq> []" "v \<noteq> []"
        "\<not> is_word_char (last g)" "starts_word r \<Longrightarrow> \<not> is_word_char (last v)" by blast
    obtain k where "length v = Suc k" using g(5) by (cases v) auto
    then have rest: "drop n (c # s) = r" "(c # s) ! (n - 1) = last v"
      unfolding g(1) using g(3,5) by (simp_all add: nth_append last_conv_nth)
    have "keyless q g" "keyless (Some (last g)) (v @ r)"
      using 2(3) unfolding g(1) by (simp_all add: keyless_append g)
    moreover have "starts_word g \<Longrightarrow> word_before q = word_before q'"
      using 2(4) g(1,4) by (cases g) auto
    ultimately have "keyless q' g" using keyless_before by blast
    moreover have "keyless (Some (last redacted)) (sub_all m (Some (last v)) r)"
    proof -
      have *: "keyless a (t @ u) \<Longrightarrow> t \<noteq> [] \<Longrightarrow> keyless (Some (last t)) u" for a t u
        by (induction t arbitrary: a) (auto split: if_splits)
      have "keyless (Some (last v)) r"
        using * [OF \<open>keyless (Some (last g)) (v @ r)\<close>] g(5) by simp
      moreover have "0 < n" using g(3,4) by simp
      then obtain j where "n = Suc j" using gr0_implies_Suc by blast
      then have "drop (n - 1) s = r" using rest(1) by simp
      ultimately show ?thesis
        using 2(2) [of "(out, n)" out n "Some (last v)" "Some (last redacted)"] x rest g(7) 2(5)
          redacted_facts(2) by auto
    qed
    ultimately show ?thesis
      using x g rest sub_all_step [of m p "c # s" out n, OF x] by (simp add: keyless_append redacted_facts)
  qed
qed simp

lemma drop_word_suffix: "drop_word ws s = Some t \<Longrightarrow> \<exists>u. s = u @ t"
  unfolding drop_word_def by (auto split: option.splits) (metis append_take_drop_id)

lemma drop_word_if: "\<exists>u. s = u @ (case drop_word ws s of None \<Rightarrow> s | Some t \<Rightarrow> t)"
  using drop_word_suffix [of ws s] by (auto split: option.split)

lemma skip_spaces_suffix: "\<exists>u. s = u @ skip_spaces s \<and> list_all is_space u"
  unfolding skip_spaces_def
  by (intro exI [of _ "takeWhile is_space s"]) (auto simp: list_all_iff dest: set_takeWhileD)

lemma space_no_word: "is_space c \<Longrightarrow> \<not> is_word_char c"
  by (auto simp: is_word_char_def py_char_defs Let_def)

lemma bare_stops_word: "\<not> bare_value_char c \<Longrightarrow> \<not> is_word_char c"
  by (auto simp: bare_value_char_def is_word_char_def py_char_defs Let_def)

lemma after_quoted_value:
  assumes "after_quoted q s = Some r" "\<not> is_word_char q"
  shows "\<exists>v. s = v @ r \<and> v \<noteq> [] \<and> \<not> is_word_char (last v)"
proof -
  obtain t where s: "s = q # t" and q: "q \<in> set t" and r: "r = tl (dropWhile (\<lambda>c. c \<noteq> q) t)"
    using assms(1) by (cases s) (auto simp: after_quoted_def split: if_splits)
  have "dropWhile (\<lambda>c. c \<noteq> q) t = q # r"
    using q hd_dropWhile_head [of "\<lambda>c. c \<noteq> q" t] r by (cases "dropWhile (\<lambda>c. c \<noteq> q) t") auto
  then have "s = (q # takeWhile (\<lambda>c. c \<noteq> q) t @ [q]) @ r"
    using takeWhile_dropWhile_id [of "\<lambda>c. c \<noteq> q" t] s by simp
  then show ?thesis using assms(2) by (intro exI [of _ "q # takeWhile (\<lambda>c. c \<noteq> q) t @ [q]"]) simp
qed

lemma quote_no_word: "code c = 34 \<or> code c = 39 \<Longrightarrow> \<not> is_word_char c"
  by (auto simp: is_word_char_def py_char_defs Let_def)

lemma after_value_value:
  assumes "after_value s = Some r"
  shows "\<exists>v. s = v @ r \<and> v \<noteq> [] \<and> (starts_word r \<longrightarrow> \<not> is_word_char (last v))"
proof (cases "code (hd s) = 34 \<or> code (hd s) = 39")
  case True
  with assms after_quoted_value [of "hd s" s r] quote_no_word [of "hd s"] show ?thesis
    by (auto simp: after_value_def split: if_splits)
next
  case False
  with assms have s: "s \<noteq> []" "bare_value_char (hd s)" and r: "r = dropWhile bare_value_char s"
    by (auto simp: after_value_def split: if_splits)
  have "\<not> starts_word r"
    unfolding r starts_word_def using hd_dropWhile_head bare_stops_word by blast
  moreover have "s = takeWhile bare_value_char s @ r" "takeWhile bare_value_char s \<noteq> []"
    using s by (simp_all add: r) (cases s, auto)
  ultimately show ?thesis by blast
qed

lemma replaced_value_split:
  assumes "replaced_value s v rest = Some (out, n)" "s = g @ v" "g \<noteq> []" "\<not> is_word_char (last g)"
    and after: "\<And>r. rest = Some r \<Longrightarrow>
      \<exists>u. v = u @ r \<and> u \<noteq> [] \<and> (starts_word r \<longrightarrow> \<not> is_word_char (last u))"
  shows "\<exists>g v r. s = g @ v @ r \<and> out = g @ redacted \<and> n = length (g @ v) \<and> g \<noteq> [] \<and> v \<noteq> [] \<and>
        \<not> is_word_char (last g) \<and> (starts_word r \<longrightarrow> \<not> is_word_char (last v))"
proof -
  obtain r where r: "rest = Some r" and n: "n = length s - length r"
    and out: "out = take (length s - length v) s @ redacted"
    using assms(1) by (auto simp: replaced_value_def split: option.splits)
  obtain u where "v = u @ r" "u \<noteq> []" "starts_word r \<longrightarrow> \<not> is_word_char (last u)"
    using after [OF r] by blast
  with assms(2-4) n out show ?thesis by (intro exI [of _ g] exI [of _ u] exI [of _ r]) simp
qed

lemma sep_group:
  assumes "s = a @ t" "skip_spaces t = c # u" "\<not> is_word_char c"
  shows "\<exists>g. s = g @ skip_spaces u \<and> g \<noteq> [] \<and> \<not> is_word_char (last g)"
proof -
  obtain b where b: "t = b @ c # u" using skip_spaces_suffix [of t] assms(2) by metis
  obtain w where w: "u = w @ skip_spaces u" "list_all is_space w" using skip_spaces_suffix by blast
  have "s = (a @ b @ c # w) @ skip_spaces u" using assms(1) b w(1) by simp
  moreover have "\<not> is_word_char (last (a @ b @ c # w))"
    using w(2) assms(3) space_no_word by (auto simp: list_all_iff)
  ultimately show ?thesis by (intro exI [of _ "a @ b @ c # w"]) simp
qed

lemma assignment_replaces_value: "replaces_value assignment_match"
  unfolding replaces_value_def
proof (intro allI impI)
  fix p s out n
  assume m: "assignment_match p s = Some (out, n)"
  define s' where "s' = (case drop_word [''aws_''] s of None \<Rightarrow> s | Some t \<Rightarrow> t)"
  from m obtain t c u where t: "drop_word secret_names s' = Some t"
    and c: "skip_spaces t = c # u" "c = CHR ''='' \<or> c = CHR '':''"
    and r: "replaced_value s (skip_spaces u) (after_value (skip_spaces u)) = Some (out, n)"
    by (auto simp: assignment_match_def s'_def Let_def split: option.splits list.splits if_splits)
  obtain a where "s = a @ t"
    using drop_word_suffix [OF t] drop_word_if [of s "[''aws_'']"] unfolding s'_def by (metis append.assoc)
  moreover have "\<not> is_word_char c" using c(2) by (auto simp: is_word_char_def py_char_defs Let_def)
  ultimately obtain g where "s = g @ skip_spaces u" "g \<noteq> []" "\<not> is_word_char (last g)"
    using sep_group [OF _ c(1)] by blast
  then show "\<exists>g v r. s = g @ v @ r \<and> out = g @ redacted \<and> n = length (g @ v) \<and> g \<noteq> [] \<and> v \<noteq> [] \<and>
        \<not> is_word_char (last g) \<and> (starts_word r \<longrightarrow> \<not> is_word_char (last v))"
    by (intro replaced_value_split [OF r] after_value_value)
qed

lemma json_replaces_value: "replaces_value json_match"
  unfolding replaces_value_def
proof (intro allI impI)
  fix p s out n
  assume m: "json_match p s = Some (out, n)"
  define q where "q = (char_of (34::nat) :: char)"
  from m obtain t c u where s: "s \<noteq> []" "t \<noteq> []" and t: "drop_word json_names (tl s) = Some t"
    and c: "skip_spaces (tl t) = c # u" "c = CHR '':''"
    and r: "replaced_value s (skip_spaces u) (after_quoted q (skip_spaces u)) = Some (out, n)"
    by (auto simp: json_match_def q_def Let_def split: option.splits list.splits if_splits)
  obtain b where "tl s = b @ t" using drop_word_suffix [OF t] by blast
  then have "s = (hd s # b @ [hd t]) @ tl t"
    using s by (cases s; cases t) auto
  moreover have "\<not> is_word_char c" using c(2) by (auto simp: is_word_char_def py_char_defs Let_def)
  ultimately obtain g where "s = g @ skip_spaces u" "g \<noteq> []" "\<not> is_word_char (last g)"
    using sep_group [OF _ c(1)] by blast
  moreover have "\<not> is_word_char q" by (rule quote_no_word) (simp add: q_def)
  ultimately show "\<exists>g v r. s = g @ v @ r \<and> out = g @ redacted \<and> n = length (g @ v) \<and> g \<noteq> [] \<and> v \<noteq> [] \<and>
        \<not> is_word_char (last g) \<and> (starts_word r \<longrightarrow> \<not> is_word_char (last v))"
    using after_quoted_value by (intro replaced_value_split [OF r]) blast+
qed


end
