(* ===== verification/Aws_Errors.thy ===== *)
theory Aws_Errors
  imports Masking Operations
begin

text \<open>
  The translation of \<open>botocore\<close> failures and the identity gateway
  (\<open>infrastructure/aws_identity_gateway.py\<close>).  The STS client of boto3 is a record of ports; what
  the code reads of its responses is a record of optional fields, since a missing key raises
  \<open>KeyError\<close>.
\<close>

subsection \<open>Translation of failures\<close>

definition aws_error :: "error_class \<Rightarrow> string \<Rightarrow> string \<Rightarrow> string \<Rightarrow> string \<Rightarrow> app_error" where
  "aws_error cls service action msg cause = on_aws service action (mk_error cls msg cause)"

definition client_code :: "string option \<Rightarrow> string" where
  "client_code c = (case c of None \<Rightarrow> ''Unknown'' | Some x \<Rightarrow> x)"

definition classify_aws_error :: "exn \<Rightarrow> string \<Rightarrow> string \<Rightarrow> app_error" where
  "classify_aws_error e service action =
     (let err = (\<lambda>cls. aws_error cls service action);
          network = (err AwsNetworkError ''aws.network.error'' (class_name e))\<lparr>ae_retryable := True\<rparr> in
      case e of
        ClientError _ c _ \<Rightarrow>
          let k = client_code c in
          if k \<in> {''AccessDenied'', ''AccessDeniedException'', ''UnauthorizedOperation''}
          then err AwsPermissionError ''aws.permission.denied'' k
          else if k \<in> {''MultiFactorAuthenticationFailed'', ''InvalidAuthenticationCode''}
          then err MfaValidationError ''mfa.code.rejected'' k
          else if k \<in> {''InvalidClientTokenId'', ''SignatureDoesNotMatch'', ''UnrecognizedClientException''}
          then err CredentialValidationError
                 (if k = ''InvalidClientTokenId'' then ''credentials.access_key.inactive''
                  else ''credentials.invalid'') k
          else if k \<in> {''ExpiredToken'', ''ExpiredTokenException''}
          then err CredentialValidationError ''credentials.session.expired'' k
          else if k \<in> {''TargetNotConnected'', ''InvalidInstanceId''}
          then err TargetNotConnectedError ''ec2.target.not_online'' k
          else network
      | _ \<Rightarrow> network)"

definition transient_codes :: "string list" where
  "transient_codes = [''Throttling'', ''ThrottlingException'', ''TooManyRequestsException'',
     ''SlowDown'', ''ServiceUnavailable'', ''ServiceUnavailableException'', ''InternalError'',
     ''InternalFailure'', ''RequestTimeout'', ''RequestTimeoutException'']"

definition masked_160 :: "string \<Rightarrow> string" where
  "masked_160 s = take 160 (mask_text s [])"

definition with_error_code :: "exn \<Rightarrow> string \<Rightarrow> string \<Rightarrow> app_error \<Rightarrow> app_error" where
  "with_error_code e service action t =
     (case e of
        ClientError _ c request_id \<Rightarrow>
          let k = masked_160 (client_code c);
              u = (if ae_class t = AwsNetworkError \<and> k \<notin> set transient_codes
                   then (aws_error ApplicationError service action ''aws.request.failed''
                           (if k = [] then ''Unknown'' else k))\<lparr>ae_error_category := Some CatResource\<rparr>
                   else t) in
          u\<lparr>ae_error_code := Some k, ae_aws_request_id := map_option masked_160 (given request_id)\<rparr>
      | _ \<Rightarrow> t\<lparr>ae_error_code := Some (class_name e)\<rparr>)"

definition permission_action :: "string \<Rightarrow> string \<Rightarrow> string" where
  "permission_action service action =
     (if service \<noteq> ''s3'' then action
      else case map_of [(''ListObjectsV2'', ''ListBucket''), (''HeadObject'', ''GetObject''),
             (''CreateMultipartUpload'', ''PutObject''), (''UploadPart'', ''PutObject''),
             (''CompleteMultipartUpload'', ''PutObject''), (''ListBuckets'', ''ListAllMyBuckets'')] action
           of None \<Rightarrow> action | Some a \<Rightarrow> a)"

definition with_error_category :: "exn \<Rightarrow> string \<Rightarrow> string \<Rightarrow> app_error \<Rightarrow> app_error" where
  "with_error_category e service action t =
     (if ae_class t = AwsPermissionError
      then t\<lparr>ae_error_category := Some CatPermission,
             ae_required_permission := Some (service @ '':'' @ permission_action service action)\<rparr>
      else if ae_class t = AwsNetworkError
      then t\<lparr>ae_error_category := Some
             (if class_name e \<in> {''ReadTimeoutError'', ''ConnectTimeoutError''}
                 \<or> ae_error_code t \<in> {Some ''RequestTimeout'', Some ''RequestTimeoutException''}
              then CatTimeout else CatNetwork)\<rparr>
      else t)"

definition translate_aws_error :: "exn \<Rightarrow> string \<Rightarrow> string \<Rightarrow> app_error" where
  "translate_aws_error e service action =
     with_error_category e service action
       (with_error_code e service action (classify_aws_error e service action))"

definition is_aws_failure :: "exn \<Rightarrow> bool" where
  \<comment> \<open>\<open>except (ClientError, BotoCoreError)\<close>\<close>
  "is_aws_failure e = (case e of ClientError _ _ _ \<Rightarrow> True | BotoCoreError _ \<Rightarrow> True | _ \<Rightarrow> False)"

definition translating :: "string \<Rightarrow> string \<Rightarrow> ('s, exn, 'a) eff \<Rightarrow> ('s, exn, 'a) eff" where
  \<comment> \<open>the \<open>except\<close> clause the gateways put around a call\<close>
  "translating service action m =
     try_except m (\<lambda>e. if is_aws_failure e then raise_app (translate_aws_error e service action)
                       else throw e)"

subsection \<open>The identity gateway\<close>

definition key_of :: "'a option \<Rightarrow> ('s, exn, 'a) eff" where
  \<comment> \<open>\<open>response[key]\<close>\<close>
  "key_of x = (case x of None \<Rightarrow> throw (PyExn ''KeyError'') | Some v \<Rightarrow> ret v)"

record identity_response =
  ir_arn :: "string option"
  ir_account :: "string option"

record token_response =
  \<comment> \<open>\<open>response["Credentials"]\<close>; the outer \<open>None\<close> of the expiration is a missing key, the
    inner one a value that is no \<open>datetime\<close>\<close>
  tr_expiration :: "instant option option"
  tr_access_key :: "string option"
  tr_secret_key :: "string option"
  tr_session_token :: "string option"

record token_request =
  tq_duration_seconds :: int
  tq_mfa :: "(string \<times> string) option"

record 'w sts_client =
  sts_open :: "plain_credentials \<Rightarrow> string \<Rightarrow> 'w \<Rightarrow> (exn + nat) \<times> 'w"
  sts_get_caller_identity :: "nat \<Rightarrow> 'w \<Rightarrow> (exn + identity_response) \<times> 'w"
  sts_get_session_token :: "nat \<Rightarrow> token_request \<Rightarrow> 'w \<Rightarrow> (exn + token_response option) \<times> 'w"

fun partition_after :: "string \<Rightarrow> string \<Rightarrow> string" where
  \<comment> \<open>\<open>s.partition(sep)[2]\<close>: what stands after the first \<open>sep\<close>, empty without one\<close>
  "partition_after sep [] = []"
| "partition_after sep (c # s) =
     (if startswith (c # s) sep then drop (length sep) (c # s) else partition_after sep s)"

definition user_from_arn :: "string \<Rightarrow> string" where
  "user_from_arn arn =
     (let resource = partition_after '':user/'' arn; assumed = partition_after '':assumed-role/'' arn in
      if resource \<noteq> [] then rsplit_last (CHR ''/'') resource
      else if assumed \<noteq> [] then rsplit_last (CHR ''/'') assumed
      else rsplit_last (CHR ''/'') arn)"

definition sts_identity ::
    "'w sts_client \<Rightarrow> plain_credentials \<Rightarrow> string \<Rightarrow> ('w, exn, aws_identity) eff" where
  "sts_identity C c region =
     bind (sts_open C c region) (\<lambda>client.
     bind (translating ''sts'' ''GetCallerIdentity'' (sts_get_caller_identity C client)) (\<lambda>response.
     bind (key_of (ir_arn response)) (\<lambda>arn.
     bind (key_of (ir_account response)) (\<lambda>account.
       ret \<lparr>id_account_id = account, id_user_id = user_from_arn arn, id_arn = arn\<rparr>))))"

definition invalid_expiration :: app_error where
  "invalid_expiration = aws_error CredentialValidationError ''sts'' ''GetSessionToken''
     ''credentials.expiration.invalid'' ''STS returned a non-datetime Expiration''"

definition sts_session_token ::
    "'w sts_client \<Rightarrow> plain_credentials \<Rightarrow> string \<Rightarrow> string option \<Rightarrow> string option \<Rightarrow> int
     \<Rightarrow> ('w, exn, issued_session) eff" where
  "sts_session_token C c region mfa_arn mfa_code seconds =
     bind (sts_open C c region) (\<lambda>client.
     bind (translating ''sts'' ''GetSessionToken'' (sts_get_session_token C client
             \<lparr>tq_duration_seconds = seconds,
              tq_mfa = (case (mfa_arn, mfa_code) of (Some a, Some m) \<Rightarrow> Some (a, m) | _ \<Rightarrow> None)\<rparr>)) (\<lambda>response.
     bind (key_of response) (\<lambda>raw.
     bind (key_of (tr_expiration raw)) (\<lambda>expiration.
       case expiration of
         None \<Rightarrow> raise_app invalid_expiration
       | Some expires \<Rightarrow>
           bind (key_of (tr_access_key raw)) (\<lambda>access.
           bind (key_of (tr_secret_key raw)) (\<lambda>secret.
           bind (key_of (tr_session_token raw)) (\<lambda>token.
           bind (of_app (plain_credentials_init access secret (Some token))) (\<lambda>issued.
             ret \<lparr>iss_credentials = issued, iss_expires_at_utc = expires\<rparr>))))))))"

subsection \<open>Facts\<close>

lemma aws_error_simps [simp]:
  "ae_class (aws_error cls s a m c) = cls" "ae_retryable (aws_error cls s a m c) = False"
  "ae_aws_service (aws_error cls s a m c) = Some s" "ae_aws_action (aws_error cls s a m c) = Some a"
  "ae_required_permission (aws_error cls s a m c) = None"
  by (simp_all add: aws_error_def on_aws_def mk_error_def)

lemma classify_facts:
  "ae_retryable (classify_aws_error e s a) \<longleftrightarrow> ae_class (classify_aws_error e s a) = AwsNetworkError"
  "ae_required_permission (classify_aws_error e s a) = None"
  "ae_aws_service (classify_aws_error e s a) = Some s" "ae_aws_action (classify_aws_error e s a) = Some a"
  by (cases e; simp add: classify_aws_error_def Let_def)+

lemma with_error_code_facts:
  "ae_retryable (with_error_code e s a t) \<longleftrightarrow> ae_class (with_error_code e s a t) = AwsNetworkError"
  "ae_required_permission (with_error_code e s a t) = None"
  "ae_aws_service (with_error_code e s a t) = Some s" "ae_aws_action (with_error_code e s a t) = Some a"
  if "ae_retryable t \<longleftrightarrow> ae_class t = AwsNetworkError" "ae_required_permission t = None"
    "ae_aws_service t = Some s" "ae_aws_action t = Some a"
  using that by (cases e; auto simp: with_error_code_def Let_def)+

text \<open>
  C29: A translated AWS failure may be retried exactly when it is a network error; a response
  with an error code is one only when that code is transient.  It names a missing permission
  exactly when access was denied, and always the service and the action.
\<close>

theorem translated_failure_typed:
  fixes e service action
  defines "t \<equiv> translate_aws_error e service action"
  shows "(ae_retryable t \<longleftrightarrow> ae_class t = AwsNetworkError) \<and>
    (\<forall>n c r. e = ClientError n c r \<and> ae_class t = AwsNetworkError \<longrightarrow>
       (\<exists>k \<in> set transient_codes. ae_error_code t = Some k)) \<and>
    ae_required_permission t =
      (if ae_class t = AwsPermissionError
       then Some (service @ '':'' @ permission_action service action) else None) \<and>
    ae_aws_service t = Some service \<and> ae_aws_action t = Some action"
  using with_error_code_facts [OF classify_facts [of e service action], of e]
  by (auto simp: t_def translate_aws_error_def with_error_category_def with_error_code_def Let_def
      split: if_splits)

lemma translated_failure_typed_witness:
  "\<exists>k \<in> set transient_codes. ae_error_code
     (translate_aws_error (ClientError ''ClientError'' (Some ''SlowDown'') None) ''s3'' ''PutObject'') = Some k"
proof -
  have "ae_class (translate_aws_error (ClientError ''ClientError'' (Some ''SlowDown'') None) ''s3''
      ''PutObject'') = AwsNetworkError"
    by code_simp
  then show ?thesis
    using translated_failure_typed [of "ClientError ''ClientError'' (Some ''SlowDown'') None" "''s3''"
        "''PutObject''"] by blast
qed

end
