(* ===== verification/Py_Paths.thy ===== *)
theory Py_Paths
  imports App_World
begin

text \<open>
  Paths and files.  \<open>PurePosixPath\<close> is a root and its parts.  A local \<open>Path\<close> is its text: its
  flavour depends on the platform, so what \<open>pathlib\<close> computes from the text alone and what it
  asks the operating system are the fields of the record \<open>file_system\<close>.
\<close>

subsection \<open>Posix paths\<close>

record posix_path =
  px_root :: string
  px_parts :: "string list"

definition posix_root :: "string \<Rightarrow> string" where
  "posix_root s =
     (if startswith s ''//'' \<and> \<not> startswith s ''///'' then ''//''
      else if startswith s ''/'' then ''/'' else [])"

definition posix :: "string \<Rightarrow> posix_path" where
  \<comment> \<open>\<open>PurePosixPath(s)\<close>\<close>
  "posix s = \<lparr>px_root = posix_root s,
     px_parts = filter (\<lambda>p. p \<noteq> [] \<and> p \<noteq> ''.'') (split_on (CHR ''/'') s)\<rparr>"

definition posix_join :: "posix_path \<Rightarrow> posix_path \<Rightarrow> posix_path" where
  \<comment> \<open>\<open>p / q\<close>\<close>
  "posix_join p q = (if px_root q \<noteq> [] then q else p\<lparr>px_parts := px_parts p @ px_parts q\<rparr>)"

definition posix_text :: "posix_path \<Rightarrow> string" where
  "posix_text p =
     (if px_root p = [] \<and> px_parts p = [] then ''.'' else px_root p @ join_with ''/'' (px_parts p))"

definition posix_parts :: "posix_path \<Rightarrow> string list" where
  \<comment> \<open>\<open>p.parts\<close>: an absolute path has its root as the first part\<close>
  "posix_parts p = (if px_root p = [] then px_parts p else px_root p # px_parts p)"

definition posix_name :: "posix_path \<Rightarrow> string" where
  "posix_name p = (if px_parts p = [] then [] else last (px_parts p))"

definition posix_absolute :: "posix_path \<Rightarrow> bool" where
  "posix_absolute p \<longleftrightarrow> px_root p \<noteq> []"

subsection \<open>Local files\<close>

type_synonym path = string

record 'w file_system =
  fs_name :: "path \<Rightarrow> string"
  fs_parent :: "path \<Rightarrow> path"
  fs_join :: "path \<Rightarrow> string list \<Rightarrow> path"
  fs_relative_posix :: "path \<Rightarrow> path \<Rightarrow> string"  \<comment> \<open>\<open>p.relative_to(q).as_posix()\<close>\<close>
  fs_is_relative_to :: "path \<Rightarrow> path \<Rightarrow> bool"
  fs_windows :: bool  \<comment> \<open>\<open>os.name == "nt"\<close>\<close>
  fs_expanduser :: "path \<Rightarrow> 'w \<Rightarrow> (exn + path) \<times> 'w"
  fs_resolve :: "path \<Rightarrow> 'w \<Rightarrow> (exn + path) \<times> 'w"
  fs_is_symlink :: "path \<Rightarrow> 'w \<Rightarrow> (exn + bool) \<times> 'w"
  fs_is_file :: "path \<Rightarrow> 'w \<Rightarrow> (exn + bool) \<times> 'w"
  fs_is_dir :: "path \<Rightarrow> 'w \<Rightarrow> (exn + bool) \<times> 'w"
  fs_exists :: "path \<Rightarrow> 'w \<Rightarrow> (exn + bool) \<times> 'w"
  fs_descendants :: "path \<Rightarrow> 'w \<Rightarrow> (exn + path list) \<times> 'w"  \<comment> \<open>\<open>sorted(p.rglob("*"))\<close>\<close>
  fs_size :: "path \<Rightarrow> 'w \<Rightarrow> (exn + int) \<times> 'w"  \<comment> \<open>\<open>p.stat().st_size\<close>\<close>
  fs_make_dirs :: "path \<Rightarrow> 'w \<Rightarrow> (exn + unit) \<times> 'w"
  fs_temporary :: "path \<Rightarrow> 'w \<Rightarrow> (exn + path) \<times> 'w"  \<comment> \<open>a new temporary file in the folder\<close>
  fs_replace :: "path \<Rightarrow> path \<Rightarrow> 'w \<Rightarrow> (exn + unit) \<times> 'w"
  fs_rename :: "path \<Rightarrow> path \<Rightarrow> 'w \<Rightarrow> (exn + unit) \<times> 'w"
  fs_link :: "path \<Rightarrow> path \<Rightarrow> 'w \<Rightarrow> (exn + unit) \<times> 'w"
  fs_unlink :: "path \<Rightarrow> 'w \<Rightarrow> (exn + unit) \<times> 'w"
  fs_unlink_if_present :: "path \<Rightarrow> 'w \<Rightarrow> (exn + unit) \<times> 'w"
  fs_open :: "path \<Rightarrow> 'w \<Rightarrow> (exn + nat) \<times> 'w"
  fs_read :: "nat \<Rightarrow> int \<Rightarrow> 'w \<Rightarrow> (exn + bytes) \<times> 'w"
  fs_close :: "nat \<Rightarrow> 'w \<Rightarrow> (exn + unit) \<times> 'w"

definition os_error_names :: "string list" where
  "os_error_names = [''OSError'', ''BlockingIOError'', ''ChildProcessError'', ''ConnectionError'',
     ''BrokenPipeError'', ''ConnectionAbortedError'', ''ConnectionRefusedError'',
     ''ConnectionResetError'', ''FileExistsError'', ''FileNotFoundError'', ''InterruptedError'',
     ''IsADirectoryError'', ''NotADirectoryError'', ''PermissionError'', ''ProcessLookupError'',
     ''TimeoutError'']"

definition is_os_error :: "exn \<Rightarrow> bool" where
  \<comment> \<open>\<open>except OSError\<close>\<close>
  "is_os_error e = (case e of PyExn n \<Rightarrow> n \<in> set os_error_names | _ \<Rightarrow> False)"

definition os_failure_as :: "app_error \<Rightarrow> ('s, exn, 'a) eff \<Rightarrow> ('s, exn, 'a) eff" where
  \<comment> \<open>\<open>try: ... except OSError as error: raise err from error\<close>\<close>
  "os_failure_as err m = try_except m (\<lambda>e. if is_os_error e then raise_app err else throw e)"

subsection \<open>Facts\<close>

lemma outside_os_failure_as [outside_rules]: "outside_only m \<Longrightarrow> outside_only (os_failure_as err m)"
  unfolding os_failure_as_def by (rule outside_try_except) auto

lemma posix_part_chars: "p \<in> set (px_parts (posix s)) \<Longrightarrow> p \<noteq> [] \<and> p \<noteq> ''.'' \<and> CHR ''/'' \<notin> set p"
  by (auto simp: posix_def dest: split_on_parts)

lemma posix_join_relative:
  "px_root q = [] \<Longrightarrow> px_parts (posix_join p q) = px_parts p @ px_parts q \<and> px_root (posix_join p q) = px_root p"
  by (simp add: posix_join_def)

end
