(* ===== verification/Transfers.thy ===== *)
theory Transfers
  imports Operations Py_Paths
begin

text \<open>
  Code that calls back.  A gateway is handed functions by its caller (progress, cancelled) and
  hands some to boto3 in turn; which of them it calls and when may depend on the outside.  Such
  code is a tree of what it does: it ends, changes the outside and goes on with what it saw, or
  calls back and goes on with what the call gave.  \<open>pthen\<close> continues with the outcome and gives
  sequencing and the \<open>try\<close> statements, \<open>handled\<close> answers the calls back by code of the same
  kind and \<open>run_prog\<close> by code of the caller, which may change the caller's state.
\<close>

datatype ('w, 'q, 'p, 'e, 'a) prog =
    Done "'e + 'a"
  | Act "'w \<Rightarrow> 'w" "'w \<Rightarrow> ('w, 'q, 'p, 'e, 'a) prog"
  | Event 'q "exn + 'p \<Rightarrow> ('w, 'q, 'p, 'e, 'a) prog"

primrec pthen ::
    "('w, 'q, 'p, 'e, 'a) prog \<Rightarrow> ('e + 'a \<Rightarrow> ('w, 'q, 'p, 'f, 'b) prog) \<Rightarrow> ('w, 'q, 'p, 'f, 'b) prog" where
  "pthen (Done r) f = f r"
| "pthen (Act g k) f = Act g (\<lambda>w. pthen (k w) f)"
| "pthen (Event q k) f = Event q (\<lambda>r. pthen (k r) f)"

abbreviation pret :: "'a \<Rightarrow> ('w, 'q, 'p, 'e, 'a) prog" where
  "pret x \<equiv> Done (Inr x)"

abbreviation praise :: "'e \<Rightarrow> ('w, 'q, 'p, 'e, 'a) prog" where
  "praise e \<equiv> Done (Inl e)"

definition pbind ::
    "('w, 'q, 'p, 'e, 'a) prog \<Rightarrow> ('a \<Rightarrow> ('w, 'q, 'p, 'e, 'b) prog) \<Rightarrow> ('w, 'q, 'p, 'e, 'b) prog" where
  "pbind m f = pthen m (\<lambda>r. case r of Inl e \<Rightarrow> praise e | Inr x \<Rightarrow> f x)"

definition pcatch ::
    "('w, 'q, 'p, 'e, 'a) prog \<Rightarrow> ('e \<Rightarrow> ('w, 'q, 'p, 'f, 'a) prog) \<Rightarrow> ('w, 'q, 'p, 'f, 'a) prog" where
  "pcatch m h = pthen m (\<lambda>r. case r of Inl e \<Rightarrow> h e | Inr x \<Rightarrow> pret x)"

definition pfinally ::
    "('w, 'q, 'p, 'e, 'a) prog \<Rightarrow> ('w, 'q, 'p, 'e, unit) prog \<Rightarrow> ('w, 'q, 'p, 'e, 'a) prog" where
  "pfinally m f = pthen m (\<lambda>r. pthen f (\<lambda>u. case u of Inl e \<Rightarrow> praise e | Inr _ \<Rightarrow> Done r))"

definition pcall :: "('w \<Rightarrow> ('e + 'a) \<times> 'w) \<Rightarrow> ('w, 'q, 'p, 'e, 'a) prog" where
  \<comment> \<open>a call of a port\<close>
  "pcall f = Act (\<lambda>w. snd (f w)) (\<lambda>w. Done (fst (f w)))"

definition pevent :: "'q \<Rightarrow> ('w, 'q, 'p, exn, 'p) prog" where
  "pevent q = Event q Done"

primrec handled ::
    "('q \<Rightarrow> ('w, 'r, 't, exn, 'p) prog) \<Rightarrow> ('w, 'q, 'p, 'e, 'a) prog \<Rightarrow> ('w, 'r, 't, 'e, 'a) prog" where
  "handled h (Done r) = Done r"
| "handled h (Act g k) = Act g (\<lambda>w. handled h (k w))"
| "handled h (Event q k) = pthen (h q) (\<lambda>r. handled h (k r))"

primrec run_prog ::
    "('q \<Rightarrow> ('w, 'm, 'p) io) \<Rightarrow> ('w, 'q, 'p, 'e, 'a) prog \<Rightarrow> (('w, 'm) world_scheme, 'e, 'a) eff" where
  "run_prog h (Done r) = (\<lambda>s. (r, s))"
| "run_prog h (Act g k) = (\<lambda>s. run_prog h (k (w_out s)) (s\<lparr>w_out := g (w_out s)\<rparr>))"
| "run_prog h (Event q k) = (\<lambda>s. case h q s of (r, t) \<Rightarrow> run_prog h (k r) t)"

subsection \<open>Facts\<close>

lemma pthen_assoc: "pthen (pthen m f) g = pthen m (\<lambda>r. pthen (f r) g)"
  by (induction m) auto

lemma pthen_Done [simp]: "pthen m Done = m"
  by (induction m) auto

lemma run_pthen:
  "run_prog h (pthen m f) s = (case run_prog h m s of (r, t) \<Rightarrow> run_prog h (f r) t)"
  by (induction m arbitrary: s) (auto split: prod.split)

lemma run_pbind: "run_prog h (pbind m f) = bind (run_prog h m) (\<lambda>x. run_prog h (f x))"
  by (rule ext) (simp add: pbind_def run_pthen bind_apply split: prod.split sum.split)

lemma run_pcatch: "run_prog h (pcatch m f) = try_except (run_prog h m) (\<lambda>e. run_prog h (f e))"
  by (rule ext) (simp add: pcatch_def run_pthen try_except_apply split: prod.split sum.split)

lemma run_pfinally: "run_prog h (pfinally m f) = try_finally (run_prog h m) (run_prog h f)"
  by (rule ext) (simp add: pfinally_def run_pthen try_finally_apply split: prod.split sum.split)

lemma run_pcall [simp]: "run_prog h (pcall f) = call_out f"
  by (rule ext) (simp add: pcall_def)

lemma run_pevent [simp]: "run_prog h (pevent q) = h q"
  by (rule ext) (simp add: pevent_def split: prod.split)

lemma frames_run_prog:
  assumes "inner g" "\<And>q. frames g (h q)"
  shows "frames g (run_prog h m)"
proof (induction m)
  case (Done r)
  show ?case by (simp add: frames_def)
next
  case (Act f k)
  then show ?case by (simp add: frames_def innerD [OF assms(1)])
next
  case (Event q k)
  have "g (snd (run_prog h (k r) t)) = g t" for r t using Event.IH by (simp add: frames_def)
  moreover have "g (snd (h q s)) = g s" for s using assms(2) by (simp add: frames_def)
  ultimately show ?case by (simp add: frames_def split: prod.split) (metis snd_conv)
qed

lemma keeps_run_prog:
  assumes "inner Q" "\<And>q. keeps Q (h q)"
  shows "keeps Q (run_prog h m)"
proof (induction m)
  case (Done r)
  show ?case by (simp add: keeps_def)
next
  case (Act f k)
  then show ?case by (simp add: keeps_def innerD [OF assms(1)])
next
  case (Event q k)
  have "Q t \<Longrightarrow> Q (snd (run_prog h (k r) t))" for r t using Event.IH by (simp add: keeps_def)
  moreover have "Q s \<Longrightarrow> Q (snd (h q s))" for s using assms(2) by (simp add: keeps_def)
  ultimately show ?case by (simp add: keeps_def split: prod.split) (metis snd_conv)
qed

text \<open>A part of the outside that no port of a program changes and no answer to its calls.\<close>

lemma frames_call_out_port: "frames p f \<Longrightarrow> frames (\<lambda>s. p (w_out s)) (call_out f)"
  by (simp add: frames_def)

lemma frames_pcall: "frames p f \<Longrightarrow> frames (\<lambda>s. p (w_out s)) (run_prog h (pcall f))"
  by (simp add: frames_def pcall_def)

lemma frames_pthen:
  assumes "frames g (run_prog h m)" "\<And>r. frames g (run_prog h (f r))"
  shows "frames g (run_prog h (pthen m f))"
  using assms unfolding frames_def run_pthen by (simp split: prod.split) (metis snd_conv)

lemma frames_pbind:
  "frames g (run_prog h m) \<Longrightarrow> (\<And>x. frames g (run_prog h (f x))) \<Longrightarrow> frames g (run_prog h (pbind m f))"
  unfolding run_pbind by (rule frames_bind)

lemma frames_Pair [simp]: "frames g (Pair r)"
  by (simp add: frames_def)

text \<open>A property of the outside that a program keeps, whatever its calls are answered.\<close>

primrec prog_keeps :: "('w \<Rightarrow> bool) \<Rightarrow> ('w, 'q, 'p, 'e, 'a) prog \<Rightarrow> bool" where
  "prog_keeps R (Done r) \<longleftrightarrow> True"
| "prog_keeps R (Act g k) \<longleftrightarrow> (\<forall>w. R w \<longrightarrow> R (g w) \<and> prog_keeps R (k w))"
| "prog_keeps R (Event q k) \<longleftrightarrow> (\<forall>r. prog_keeps R (k r))"

lemma prog_keeps_pthen:
  "prog_keeps R m \<Longrightarrow> (\<And>r. prog_keeps R (f r)) \<Longrightarrow> prog_keeps R (pthen m f)"
  by (induction m) auto

lemma prog_keeps_pbind:
  "prog_keeps R m \<Longrightarrow> (\<And>x. prog_keeps R (f x)) \<Longrightarrow> prog_keeps R (pbind m f)"
  unfolding pbind_def by (rule prog_keeps_pthen) (auto split: sum.split)

lemma prog_keeps_pcatch:
  "prog_keeps R m \<Longrightarrow> (\<And>e. prog_keeps R (f e)) \<Longrightarrow> prog_keeps R (pcatch m f)"
  unfolding pcatch_def by (rule prog_keeps_pthen) (auto split: sum.split)

lemma prog_keeps_pcall [simp]: "prog_keeps R (pcall f) \<longleftrightarrow> keeps R f"
  by (simp add: pcall_def keeps_def)

lemma prog_keeps_pevent [simp]: "prog_keeps R (pevent q)"
  by (simp add: pevent_def)

lemma prog_keeps_handled:
  "prog_keeps R m \<Longrightarrow> (\<And>q. prog_keeps R (h q)) \<Longrightarrow> prog_keeps R (handled h m)"
  by (induction m) (auto intro: prog_keeps_pthen)

lemma prog_keeps_call_then:
  assumes "\<And>w. R w \<Longrightarrow> R (snd (f w)) \<and> prog_keeps R (k (fst (f w)))"
  shows "prog_keeps R (pthen (pcall f) k)"
  using assms by (simp add: pcall_def)

lemma keeps_run_outside:
  assumes "prog_keeps R m" "\<And>q. keeps (\<lambda>s. R (w_out s)) (h q)"
  shows "keeps (\<lambda>s. R (w_out s)) (run_prog h m)"
  using assms(1)
proof (induction m)
  case (Event q k)
  have "R (w_out t) \<Longrightarrow> R (w_out (snd (run_prog h (k r) t)))" for r t
    using Event by (simp add: keeps_def)
  moreover have "R (w_out s) \<Longrightarrow> R (w_out (snd (h q s)))" for s using assms(2) by (simp add: keeps_def)
  ultimately show ?case by (simp add: keeps_def split: prod.split) (metis snd_conv)
qed (simp_all add: keeps_def)

end
