(* ===== verification/S3_Gateway.thy ===== *)
theory S3_Gateway
  imports Aws_Errors Transfers
begin

text \<open>
  The S3 gateway (\<open>infrastructure/aws_s3_gateway.py\<close>) over a boto3 client, which is a record of
  ports.  The loop over the pages of a listing may not end and is a partial function: \<open>None\<close>
  means that it does not return.  A transfer is a tree of calls (theory \<open>Transfers\<close>): the
  gateway calls back \<open>Report\<close> (progress) and \<open>Poll\<close> (cancelled), the client calls back the
  reader or the callback the gateway gives it.
\<close>

subsection \<open>The client\<close>

record s3_object =
  so_key :: string
  so_size :: int
  so_last_modified :: "instant option"
  so_is_prefix :: bool

record listed_content =
  \<comment> \<open>an entry of \<open>Contents\<close>; a modification time that is no \<open>datetime\<close> is \<open>None\<close>\<close>
  lc3_key :: "string option"
  lc3_size :: "int option"
  lc3_last_modified :: "instant option"

record list_page =
  pg_common_prefixes :: "string option list"
  pg_contents :: "listed_content list"
  pg_next_token :: "string option"  \<comment> \<open>\<open>None\<close> for no text\<close>

record list_request =
  lq_bucket :: string
  lq_prefix :: string
  lq_delimiter :: "string option"
  lq_max_keys :: "int option"
  lq_token :: "string option"

type_synonym ('w, 'a) port = "'w \<Rightarrow> (exn + 'a) \<times> 'w"

record 'w s3_client =
  c3_open :: "plain_credentials \<Rightarrow> string \<Rightarrow> ('w, nat) port"
  c3_list_buckets :: "nat \<Rightarrow> ('w, string option list) port"
  c3_list_objects :: "nat \<Rightarrow> list_request \<Rightarrow> ('w, list_page) port"
  c3_delete_object :: "nat \<Rightarrow> string \<Rightarrow> string \<Rightarrow> string option \<Rightarrow> ('w, unit) port"
  c3_head_object :: "nat \<Rightarrow> string \<Rightarrow> string \<Rightarrow> ('w, int \<times> string) port"
    \<comment> \<open>\<open>ContentLength\<close> and \<open>ETag\<close>\<close>
  c3_copy_object :: "nat \<Rightarrow> string \<Rightarrow> string \<Rightarrow> string \<Rightarrow> string \<Rightarrow> ('w, unit) port"
    \<comment> \<open>only when the source has the tag and the target is absent\<close>
  c3_download_file :: "nat \<Rightarrow> string \<Rightarrow> string \<Rightarrow> path \<Rightarrow> ('w, int, unit, exn, unit) prog"
  c3_put_object :: "nat \<Rightarrow> string \<Rightarrow> string \<Rightarrow> int \<Rightarrow> ('w, int, bytes, exn, unit) prog"
    \<comment> \<open>calls back \<open>Body.read(n)\<close>\<close>
  c3_create_multipart :: "nat \<Rightarrow> string \<Rightarrow> string \<Rightarrow> ('w, string option) port"
  c3_upload_part :: "nat \<Rightarrow> string \<Rightarrow> string \<Rightarrow> string \<Rightarrow> int \<Rightarrow> bytes \<Rightarrow> ('w, string option) port"
  c3_complete_multipart :: "nat \<Rightarrow> string \<Rightarrow> string \<Rightarrow> string \<Rightarrow> (string \<times> int) list \<Rightarrow> ('w, unit) port"
  c3_abort_multipart :: "nat \<Rightarrow> string \<Rightarrow> string \<Rightarrow> string \<Rightarrow> ('w, unit) port"

subsection \<open>Listings\<close>

definition gateway_list_buckets ::
    "'w s3_client \<Rightarrow> plain_credentials \<Rightarrow> string \<Rightarrow> ('w, exn, string list) eff" where
  "gateway_list_buckets C c region =
     bind (c3_open C c region) (\<lambda>client.
     bind (translating ''s3'' ''ListBuckets'' (c3_list_buckets C client)) (\<lambda>names.
       ret (sort [n. Some n \<leftarrow> names, n \<noteq> []])))"

definition page_objects :: "string \<Rightarrow> list_page \<Rightarrow> exn + s3_object list" where
  \<comment> \<open>what one page adds to the result: its common prefixes, then its objects but the prefix
    itself\<close>
  "page_objects pfx page =
     (let contents = filter (\<lambda>i. lc3_key i \<noteq> Some pfx \<and> \<not> (lc3_key i = None \<and> pfx = []))
                       (pg_contents page) in
      if None \<in> set (pg_common_prefixes page) \<or> (\<exists>i \<in> set contents. lc3_key i = None)
      then Inl (PyExn ''KeyError'')
      else Inr (map (\<lambda>p. \<lparr>so_key = the p, so_size = 0, so_last_modified = None, so_is_prefix = True\<rparr>)
                  (pg_common_prefixes page) @
                map (\<lambda>i. \<lparr>so_key = the (lc3_key i),
                          so_size = (case lc3_size i of None \<Rightarrow> 0 | Some n \<Rightarrow> n),
                          so_last_modified = lc3_last_modified i,
                          so_is_prefix = endswith (the (lc3_key i)) ''/''\<rparr>) contents))"

partial_function (option) list_pages ::
    "'w s3_client \<Rightarrow> nat \<Rightarrow> list_request \<Rightarrow> s3_object list \<Rightarrow> 'w
     \<Rightarrow> ((exn + s3_object list) \<times> 'w) option" where
  [code]: "list_pages C client request found w =
     (case translating ''s3'' ''ListObjectsV2'' (c3_list_objects C client request) w of
        (Inl e, w') \<Rightarrow> Some (Inl e, w')
      | (Inr page, w') \<Rightarrow>
          (case page_objects (lq_prefix request) page of
             Inl e \<Rightarrow> Some (Inl e, w')
           | Inr objects \<Rightarrow>
               (case pg_next_token page of
                  None \<Rightarrow> Some (Inr (found @ objects), w')
                | Some token \<Rightarrow>
                    list_pages C client (request\<lparr>lq_token := Some token\<rparr>) (found @ objects) w')))"

definition gateway_list_objects ::
    "'w s3_client \<Rightarrow> plain_credentials \<Rightarrow> string \<Rightarrow> string \<Rightarrow> string \<Rightarrow> string option \<Rightarrow> 'w
     \<Rightarrow> ((exn + s3_object list) \<times> 'w) option" where
  \<comment> \<open>\<open>list_objects\<close> with the delimiter \<open>/\<close>, \<open>list_objects_recursive\<close> without one\<close>
  "gateway_list_objects C c region bucket pfx delimiter w =
     (case c3_open C c region w of
        (Inl e, w') \<Rightarrow> Some (Inl e, w')
      | (Inr client, w') \<Rightarrow> list_pages C client
          \<lparr>lq_bucket = bucket, lq_prefix = pfx, lq_delimiter = delimiter, lq_max_keys = None,
           lq_token = None\<rparr> [] w')"

definition gateway_object_exists ::
    "'w s3_client \<Rightarrow> plain_credentials \<Rightarrow> string \<Rightarrow> string \<Rightarrow> string \<Rightarrow> ('w, exn, bool) eff" where
  "gateway_object_exists C c region bucket key =
     bind (c3_open C c region) (\<lambda>client.
     bind (translating ''s3'' ''ListObjectsV2'' (c3_list_objects C client
             \<lparr>lq_bucket = bucket, lq_prefix = key, lq_delimiter = None, lq_max_keys = Some 1,
              lq_token = None\<rparr>)) (\<lambda>page.
       ret (list_ex (\<lambda>i. (case lc3_key i of None \<Rightarrow> [] | Some k \<Rightarrow> k) = key) (pg_contents page))))"

subsection \<open>Deletion and renaming\<close>

definition gateway_delete_object ::
    "'w s3_client \<Rightarrow> plain_credentials \<Rightarrow> string \<Rightarrow> string \<Rightarrow> string \<Rightarrow> ('w, exn, unit) eff" where
  "gateway_delete_object C c region bucket key =
     bind (c3_open C c region) (\<lambda>client.
       translating ''s3'' ''DeleteObject'' (c3_delete_object C client bucket key None))"

definition rename_size_limit :: int where
  "rename_size_limit = 5 * 1024 ^ 3"

definition transfer_error :: "string \<Rightarrow> string \<Rightarrow> app_error" where
  "transfer_error msg cause = mk_error S3TransferError msg cause"

definition changed_codes :: "string list" where
  "changed_codes = [''PreconditionFailed'', ''ConditionalRequestConflict'']"

definition gateway_rename_object ::
    "'w s3_client \<Rightarrow> plain_credentials \<Rightarrow> string \<Rightarrow> string \<Rightarrow> string \<Rightarrow> string \<Rightarrow> ('w, exn, unit) eff" where
  "gateway_rename_object C c region bucket key target =
     bind (c3_open C c region) (\<lambda>client.
     bind (translating ''s3'' ''HeadObject'' (c3_head_object C client bucket key)) (\<lambda>source.
     seq (raise_when (fst source > rename_size_limit)
            (AppExn (transfer_error ''s3.rename.too_large'' ''objects above 5 GiB are kept'')))
     (seq (try_except (c3_copy_object C client bucket target key (snd source))
            (\<lambda>e. case e of
               ClientError _ (Some k) _ \<Rightarrow>
                 if k \<in> set changed_codes
                 then raise_app (transfer_error ''s3.rename.changed'' ''source or target changed'')
                 else raise_app (translate_aws_error e ''s3'' ''CopyObject'')
             | _ \<Rightarrow> if is_aws_failure e then raise_app (translate_aws_error e ''s3'' ''CopyObject'')
                   else throw e))
       (try_except (c3_delete_object C client bucket key (Some (snd source)))
          (\<lambda>e. if is_aws_failure e
               then raise_app (on_aws ''s3'' ''DeleteObject''
                      (transfer_error ''s3.rename.partial'' ''copied but not deleted''))
               else throw e)))))"

subsection \<open>Transfers\<close>

datatype xfer_event = Report int | Poll

type_synonym ('w, 'e, 'a) xfer = "('w, xfer_event, bool, 'e, 'a) prog"
  \<comment> \<open>a report is answered by any Boolean\<close>

definition cancelled_signal :: exn where
  "cancelled_signal = PyExn ''_Cancelled''"

definition raise_if_polled :: "('w, exn, unit) xfer" where
  \<comment> \<open>\<open>if cancelled(): raise _Cancelled\<close>\<close>
  "raise_if_polled = pbind (pevent Poll) (\<lambda>c. if c then praise cancelled_signal else pret ())"

definition report_delta :: "int \<Rightarrow> ('w, exn, unit) xfer" where
  "report_delta n = pbind (pevent (Report n)) (\<lambda>_. pret ())"

definition is_cancel :: "exn \<Rightarrow> bool" where
  "is_cancel e \<longleftrightarrow> e = cancelled_signal \<or> e = BaseExn ''KeyboardInterrupt''"

definition translate_transfer :: "exn \<Rightarrow> string \<Rightarrow> app_error" where
  "translate_transfer e action =
     (if is_aws_failure e then translate_aws_error e ''s3'' action
      else (on_aws ''s3'' action (transfer_error ''s3.transfer.failed'' (class_name e)))
             \<lparr>ae_retryable := True\<rparr>)"

definition download_exn :: "exn \<Rightarrow> exn" where
  "download_exn e =
     (if is_cancel e
      then AppExn (on_aws ''s3'' ''GetObject'' (transfer_error ''s3.download.cancelled''
             ''Download cancelled before GetObject completed''))
      else if e = PyExn ''FileExistsError''
      then AppExn (on_aws ''s3'' ''GetObject'' (transfer_error ''s3.download.destination.exists''
             ''Destination appeared before download completed; retry to confirm overwrite''))
      else if is_exception e then AppExn (translate_transfer e ''GetObject'') else e)"

definition place_download :: "'w file_system \<Rightarrow> path \<Rightarrow> path \<Rightarrow> bool \<Rightarrow> ('w, exn, unit) xfer" where
  "place_download F temporary destination overwrite =
     (if overwrite then pcall (fs_replace F temporary destination)
      else if fs_windows F then pcall (fs_rename F temporary destination)
      else pbind (pcall (fs_link F temporary destination)) (\<lambda>_. pcall (fs_unlink F temporary)))"

definition poll_if :: "bool \<Rightarrow> ('w, exn, unit) xfer" where
  \<comment> \<open>\<open>if is_cancelled(): raise _Cancelled\<close>, where the caller may have given no function\<close>
  "poll_if watched = (if watched then raise_if_polled else pret ())"

definition transferred :: "bool \<Rightarrow> int \<Rightarrow> ('w, exn, unit) xfer" where
  "transferred watched delta =
     (if watched then pbind raise_if_polled (\<lambda>_. report_delta delta) else pret ())"

definition fill_and_place ::
    "'w s3_client \<Rightarrow> 'w file_system \<Rightarrow> nat \<Rightarrow> string \<Rightarrow> string \<Rightarrow> path \<Rightarrow> bool \<Rightarrow> bool \<Rightarrow> path
     \<Rightarrow> ('w, exn, unit) xfer" where
  "fill_and_place C F client bucket key destination watched overwrite temporary =
     pbind (handled (transferred watched) (c3_download_file C client bucket key temporary)) (\<lambda>_.
     pbind (poll_if watched) (\<lambda>_. place_download F temporary destination overwrite))"

definition gateway_download_file ::
    "'w s3_client \<Rightarrow> 'w file_system \<Rightarrow> plain_credentials \<Rightarrow> string \<Rightarrow> string \<Rightarrow> string \<Rightarrow> path
     \<Rightarrow> bool \<Rightarrow> bool \<Rightarrow> ('w, exn, unit) xfer" where
  \<comment> \<open>\<open>watched\<close>: the caller gives \<open>progress\<close> and \<open>cancelled\<close>; the temporary file is removed
    unless it has become the destination\<close>
  "gateway_download_file C F c region bucket key destination watched overwrite =
     pbind (pcall (c3_open C c region)) (\<lambda>client.
     pthen (poll_if watched) (\<lambda>polled.
       case polled of
         Inl e \<Rightarrow> praise (download_exn e)
       | Inr _ \<Rightarrow>
           pthen (pcall (fs_temporary F (fs_parent F destination))) (\<lambda>created.
             case created of
               Inl e \<Rightarrow> praise (download_exn e)
             | Inr temporary \<Rightarrow>
                 pthen (fill_and_place C F client bucket key destination watched overwrite temporary) (\<lambda>r.
                   case r of
                     Inr _ \<Rightarrow> pret ()
                   | Inl e \<Rightarrow> pbind (pcall (fs_unlink_if_present F temporary)) (\<lambda>_.
                       praise (download_exn e))))))"

definition read_body :: "'w file_system \<Rightarrow> nat \<Rightarrow> int \<Rightarrow> ('w, exn, bytes) xfer" where
  \<comment> \<open>\<open>_ProgressReader.read\<close>\<close>
  "read_body F raw n =
     pbind raise_if_polled (\<lambda>_.
     pbind (pcall (fs_read F raw n)) (\<lambda>body.
       if body = [] then pret body
       else pbind (report_delta (int (length body))) (\<lambda>_. pret body)))"

definition with_open ::
    "'w file_system \<Rightarrow> path \<Rightarrow> (nat \<Rightarrow> ('w, exn, 'a) xfer) \<Rightarrow> ('w, exn, 'a) xfer" where
  \<comment> \<open>\<open>with source.open("rb") as raw\<close>\<close>
  "with_open F source body =
     pbind (pcall (fs_open F source)) (\<lambda>raw. pfinally (body raw) (pcall (fs_close F raw)))"

definition put_exn :: "exn \<Rightarrow> exn" where
  "put_exn e =
     (if is_cancel e
      then AppExn (on_aws ''s3'' ''PutObject'' (transfer_error ''s3.upload.cancelled''
             ''Upload cancelled before PutObject completed''))
      else if is_exception e then AppExn (translate_transfer e ''PutObject'') else e)"

definition gateway_put_file ::
    "'w s3_client \<Rightarrow> 'w file_system \<Rightarrow> plain_credentials \<Rightarrow> string \<Rightarrow> string \<Rightarrow> string \<Rightarrow> path
     \<Rightarrow> ('w, exn, unit) xfer" where
  "gateway_put_file C F c region bucket key source =
     pbind (pcall (c3_open C c region)) (\<lambda>client.
       pcatch (with_open F source (\<lambda>raw.
                 pbind (pcall (fs_size F source)) (\<lambda>size.
                   handled (read_body F raw) (c3_put_object C client bucket key size))))
         (\<lambda>e. praise (put_exn e)))"

subsection \<open>Multipart uploads\<close>

text \<open>The failures of the body carry the AWS action that was current when they were raised.\<close>

definition tagged :: "string \<Rightarrow> ('w, exn, 'a) xfer \<Rightarrow> ('w, string \<times> exn, 'a) xfer" where
  "tagged action m = pcatch m (\<lambda>e. praise (action, e))"

record multipart =
  mp_bucket :: string
  mp_key :: string
  mp_upload_id :: string

fun upload_parts ::
    "'w s3_client \<Rightarrow> 'w file_system \<Rightarrow> nat \<Rightarrow> multipart \<Rightarrow> nat \<Rightarrow> int \<Rightarrow> string \<Rightarrow> int list
     \<Rightarrow> (string \<times> int) list \<Rightarrow> ('w, string \<times> exn, string \<times> (string \<times> int) list) xfer" where
  "upload_parts C F client mp raw part_size action [] parts = pret (action, parts)"
| "upload_parts C F client mp raw part_size action (k # ks) parts =
     pbind (tagged action raise_if_polled) (\<lambda>_.
     pbind (tagged action (pcall (fs_read F raw part_size))) (\<lambda>body.
     pbind (tagged ''UploadPart''
              (pcall (c3_upload_part C client (mp_bucket mp) (mp_key mp) (mp_upload_id mp) k body))) (\<lambda>etag.
       case etag of
         None \<Rightarrow> praise (''UploadPart'', PyExn ''KeyError'')
       | Some tag \<Rightarrow>
           pbind (tagged ''UploadPart'' (report_delta (int (length body)))) (\<lambda>_.
             upload_parts C F client mp raw part_size ''UploadPart'' ks (parts @ [(tag, k)])))))"

definition part_count :: "int \<Rightarrow> int \<Rightarrow> int" where
  \<comment> \<open>\<open>math.ceil(size / part_size)\<close>, which is exact for the sizes of objects\<close>
  "part_count n part_size = (n + part_size - 1) div part_size"

definition with_open_tagged ::
    "'w file_system \<Rightarrow> path \<Rightarrow> string \<Rightarrow> (nat \<Rightarrow> ('w, string \<times> exn, string \<times> 'a) xfer)
     \<Rightarrow> ('w, string \<times> exn, string \<times> 'a) xfer" where
  \<comment> \<open>\<open>with source.open("rb")\<close>; a failure of closing has the action that is current then\<close>
  "with_open_tagged F source action body =
     pbind (tagged action (pcall (fs_open F source))) (\<lambda>raw.
     pthen (body raw) (\<lambda>r.
       pthen (pcall (fs_close F raw)) (\<lambda>u.
         case u of
           Inr _ \<Rightarrow> Done r
         | Inl e \<Rightarrow> praise (case r of Inl (a, _) \<Rightarrow> a | Inr (a, _) \<Rightarrow> a, e))))"

definition multipart_parts ::
    "'w s3_client \<Rightarrow> 'w file_system \<Rightarrow> nat \<Rightarrow> multipart \<Rightarrow> path \<Rightarrow> int
     \<Rightarrow> ('w, string \<times> exn, string \<times> (string \<times> int) list) xfer" where
  "multipart_parts C F client mp source part_size =
     with_open_tagged F source ''CreateMultipartUpload'' (\<lambda>raw.
       pbind (tagged ''CreateMultipartUpload'' (pcall (fs_size F source))) (\<lambda>len.
         upload_parts C F client mp raw part_size ''CreateMultipartUpload''
           [1..part_count len part_size] []))"

definition multipart_body ::
    "'w s3_client \<Rightarrow> 'w file_system \<Rightarrow> nat \<Rightarrow> multipart \<Rightarrow> path \<Rightarrow> int \<Rightarrow> ('w, string \<times> exn, unit) xfer" where
  \<comment> \<open>what follows the creation of the upload\<close>
  "multipart_body C F client mp source part_size =
     pbind (multipart_parts C F client mp source part_size) (\<lambda>(action, parts).
     pbind (tagged action raise_if_polled) (\<lambda>_.
       tagged ''CompleteMultipartUpload''
         (pcall (c3_complete_multipart C client (mp_bucket mp) (mp_key mp) (mp_upload_id mp) parts))))"

definition multipart_error :: "string \<Rightarrow> exn \<Rightarrow> app_error" where
  "multipart_error action e =
     (if is_cancel e
      then on_aws ''s3'' action (transfer_error ''s3.upload.cancelled'' ''Multipart upload cancelled'')
      else translate_transfer e action)"

definition multipart_caught :: "exn \<Rightarrow> bool" where
  \<comment> \<open>\<open>except (Exception, KeyboardInterrupt)\<close>\<close>
  "multipart_caught e \<longleftrightarrow> is_exception e \<or> e = BaseExn ''KeyboardInterrupt''"

definition abort_multipart ::
    "'w s3_client \<Rightarrow> nat \<Rightarrow> multipart \<Rightarrow> app_error \<Rightarrow> ('w, exn, unit) xfer" where
  \<comment> \<open>abort the upload and raise the error, which names a failure of the abort\<close>
  "abort_multipart C client mp err =
     pthen (pcall (c3_abort_multipart C client (mp_bucket mp) (mp_key mp) (mp_upload_id mp))) (\<lambda>r.
       case r of
         Inr _ \<Rightarrow> praise (AppExn err)
       | Inl e \<Rightarrow>
           if is_exception e
           then praise (AppExn (err\<lparr>ae_technical_cause := ae_technical_cause err @
                  ''; AbortMultipartUpload failed: '' @ class_name e\<rparr>))
           else praise e)"

definition multipart_bounds_ok :: "int \<Rightarrow> int \<Rightarrow> bool" where
  "multipart_bounds_ok part_size max_concurrency \<longleftrightarrow>
     5 * 1024 * 1024 \<le> part_size \<and> 1 \<le> max_concurrency \<and> max_concurrency \<le> 8"

definition gateway_multipart_file ::
    "'w s3_client \<Rightarrow> 'w file_system \<Rightarrow> plain_credentials \<Rightarrow> string \<Rightarrow> string \<Rightarrow> string \<Rightarrow> path
     \<Rightarrow> int \<Rightarrow> int \<Rightarrow> ('w, exn, unit) xfer" where
  "gateway_multipart_file C F c region bucket key source part_size max_concurrency =
     (if \<not> multipart_bounds_ok part_size max_concurrency
      then praise (AppExn (transfer_error ''s3.multipart.configuration.invalid''
             ''Multipart bounds are invalid''))
      else
        pbind (pcall (c3_open C c region)) (\<lambda>client.
        pthen (pcall (c3_create_multipart C client bucket key)) (\<lambda>created.
          case (case created of Inl e \<Rightarrow> Inl e | Inr None \<Rightarrow> Inl (PyExn ''KeyError'') | Inr (Some i) \<Rightarrow> Inr i) of
            Inl e \<Rightarrow> praise (if multipart_caught e
                            then AppExn (multipart_error ''CreateMultipartUpload'' e) else e)
          | Inr i \<Rightarrow>
              (let mp = \<lparr>mp_bucket = bucket, mp_key = key, mp_upload_id = i\<rparr> in
               pthen (multipart_body C F client mp source part_size) (\<lambda>r.
                 case r of
                   Inr _ \<Rightarrow> pret ()
                 | Inl (action, e) \<Rightarrow>
                     if multipart_caught e
                     then abort_multipart C client mp (multipart_error action e) else praise e)))))"

end
