(* ===== verification/S3_Service.thy ===== *)
theory S3_Service
  imports Authentication S3_Gateway
begin

text \<open>
  S3 locations, listings and transfers (\<open>application/s3_service.py\<close>).  The gateway is the record
  of ports \<open>s3_gateway\<close>; its transfers are trees that call back into the service (theory
  \<open>Transfers\<close>).  The bucket catalog of the service is the field \<open>s3_catalog\<close> of its world, the
  local variables of an upload or a download that its callbacks change are the fields of
  \<open>transfer_world\<close>, which exist while the transfer runs (\<open>with_locals\<close>).
\<close>

subsection \<open>Saved locations\<close>

type_synonym location_selector = "int + string"

record save_location_request =
  slr_profile :: selector
  slr_name :: string
  slr_bucket :: string
  slr_prefix :: string
  slr_location_id :: "int option"

definition list_locations :: "selector \<Rightarrow> ('w, 'm, s3_location list) io" where
  "list_locations profile =
     bind (resolve_profile profile) (\<lambda>p.
     bind (of_app (require_profile_id p)) (\<lambda>i. on_db (list_s3_locations i)))"

definition location_not_found :: app_error where
  "location_not_found = config_error_because ''s3.location.not_found'' ''Saved S3 location was not found''"

definition show_location :: "location_selector \<Rightarrow> selector \<Rightarrow> ('w, 'm, s3_location) io" where
  "show_location sel profile =
     bind (resolve_profile profile) (\<lambda>p.
     bind (case sel of
             Inl i \<Rightarrow> on_db (get_s3_location i)
           | Inr name \<Rightarrow> bind (of_app (require_profile_id p)) (\<lambda>pid. on_db (get_s3_location_by_name pid name)))
       (\<lambda>found. case found of
          None \<Rightarrow> raise_app location_not_found
        | Some l \<Rightarrow> bind (of_app (require_profile_id p)) (\<lambda>pid.
            if sl_profile_id l \<noteq> pid then raise_app location_not_found else ret l)))"

definition create_location :: "instant \<Rightarrow> save_location_request \<Rightarrow> ('w, 'm, s3_location) io" where
  "create_location now r =
     bind (resolve_profile (slr_profile r)) (\<lambda>p.
     bind (of_app (require_profile_id p)) (\<lambda>pid.
     bind (of_app (new_s3_location None pid (slr_name r) (slr_bucket r) (slr_prefix r))) (\<lambda>l.
       on_db (create_s3_location now l))))"

definition update_location :: "instant \<Rightarrow> save_location_request \<Rightarrow> ('w, 'm, s3_location) io" where
  "update_location now r =
     (case slr_location_id r of
        None \<Rightarrow> raise_app (config_error_because ''s3.location.id.required'' ''Location id is required'')
      | Some i \<Rightarrow>
          bind (show_location (Inl i) (slr_profile r)) (\<lambda>current.
          bind (of_app (new_s3_location (Some i) (sl_profile_id current) (slr_name r) (slr_bucket r)
                  (slr_prefix r))) (\<lambda>l.
            on_db (update_s3_location now l))))"

definition delete_location :: "location_selector \<Rightarrow> selector \<Rightarrow> ('w, 'm, unit) io" where
  "delete_location sel profile =
     bind (show_location sel profile) (\<lambda>l.
     bind (of_app (require_location_id l)) (\<lambda>i. on_db (delete_s3_location i)))"

subsection \<open>The gateway\<close>

record 'w s3_gateway =
  sg_list_buckets :: "plain_credentials \<Rightarrow> string \<Rightarrow> ('w, string list) port"
  sg_list_objects :: "plain_credentials \<Rightarrow> string \<Rightarrow> string \<Rightarrow> string \<Rightarrow> ('w, s3_object list) port"
  sg_list_recursive :: "plain_credentials \<Rightarrow> string \<Rightarrow> string \<Rightarrow> string \<Rightarrow> ('w, s3_object list) port"
  sg_object_exists :: "plain_credentials \<Rightarrow> string \<Rightarrow> string \<Rightarrow> string \<Rightarrow> ('w, bool) port"
  sg_delete_object :: "plain_credentials \<Rightarrow> string \<Rightarrow> string \<Rightarrow> string \<Rightarrow> ('w, unit) port"
  sg_rename_object :: "plain_credentials \<Rightarrow> string \<Rightarrow> string \<Rightarrow> string \<Rightarrow> string \<Rightarrow> ('w, unit) port"
  sg_download_file :: "plain_credentials \<Rightarrow> string \<Rightarrow> string \<Rightarrow> string \<Rightarrow> path \<Rightarrow> bool \<Rightarrow> bool
    \<Rightarrow> ('w, exn, unit) xfer"  \<comment> \<open>with callbacks, and whether to overwrite\<close>
  sg_put_file :: "plain_credentials \<Rightarrow> string \<Rightarrow> string \<Rightarrow> string \<Rightarrow> path \<Rightarrow> ('w, exn, unit) xfer"
  sg_multipart_file :: "plain_credentials \<Rightarrow> string \<Rightarrow> string \<Rightarrow> string \<Rightarrow> path \<Rightarrow> int \<Rightarrow> int
    \<Rightarrow> ('w, exn, unit) xfer"

definition multipart_threshold :: int where
  "multipart_threshold = 16 * 1024 * 1024"

definition multipart_part_size :: int where
  "multipart_part_size = 8 * 1024 * 1024"

definition max_concurrency :: int where
  "max_concurrency = 1"

definition direct_location :: "int \<Rightarrow> string \<Rightarrow> string \<Rightarrow> ('w, 'm, s3_location) io" where
  \<comment> \<open>\<open>S3Location(None, profile_id, "direct", bucket, prefix)\<close>\<close>
  "direct_location pid bucket pfx = of_app (new_s3_location None pid ''direct'' bucket pfx)"

definition with_credentials ::
    "'w ports \<Rightarrow> selector \<Rightarrow> (aws_profile \<Rightarrow> int \<Rightarrow> plain_credentials \<Rightarrow> ('w, 'm, 'a) io) \<Rightarrow> ('w, 'm, 'a) io" where
  \<comment> \<open>the profile and the credentials most operations start with\<close>
  "with_credentials P profile body =
     bind (resolve_profile profile) (\<lambda>p.
     bind (of_app (require_profile_id p)) (\<lambda>pid.
     bind (require_credentials P pid) (\<lambda>c. body p pid c)))"

definition s3_success ::
    "'w ports \<Rightarrow> string \<Rightarrow> int \<Rightarrow> string \<Rightarrow> (log_call \<Rightarrow> log_call) \<Rightarrow> ('w, 'm, unit) io" where
  "s3_success P action pid region details =
     record_success P ''s3'' action
       (\<lambda>e. details (e\<lparr>lc_profile_id := Some pid, lc_region := Some region\<rparr>))"

subsection \<open>Buckets\<close>

record 'w s3_world = "'w world" +
  s3_catalog :: "(int \<times> string, string list) dict"

type_synonym ('w, 'm, 'a) s3_io = "(('w, 'm) s3_world_scheme, exn, 'a) eff"

definition cached_buckets :: "selector \<Rightarrow> ('w, 'm, string list option) s3_io" where
  "cached_buckets profile =
     bind (resolve_profile profile) (\<lambda>p.
     bind (of_app (require_profile_id p)) (\<lambda>pid.
       gets (\<lambda>s. dict_get (s3_catalog s) (pid, ap_region p))))"

definition list_buckets_body ::
    "'w ports \<Rightarrow> 'w s3_gateway \<Rightarrow> selector \<Rightarrow> bool \<Rightarrow> ('w, 'm, string list) s3_io" where
  "list_buckets_body P G profile reload =
     bind (resolve_profile profile) (\<lambda>p.
     bind (of_app (require_profile_id p)) (\<lambda>pid.
     bind (gets (\<lambda>s. dict_get (s3_catalog s) (pid, ap_region p))) (\<lambda>known.
       case (reload, known) of
         (False, Some names) \<Rightarrow> ret names
       | _ \<Rightarrow>
           bind (require_credentials P pid) (\<lambda>c.
           bind (call_out (sg_list_buckets G c (ap_region p))) (\<lambda>names.
           seq (modify (s3_catalog_update (dict_set (pid, ap_region p) names)))
             (ret names))))))"

definition list_buckets ::
    "'w ports \<Rightarrow> 'w s3_gateway \<Rightarrow> selector \<Rightarrow> bool \<Rightarrow> ('w, 'm, string list) s3_io" where
  "list_buckets P G profile reload =
     logged P ''s3'' ''list_buckets'' True ''-'' False None (\<lambda>_. list_buckets_body P G profile reload)"

subsection \<open>Single objects\<close>

definition matches_query :: "string \<Rightarrow> s3_object \<Rightarrow> bool" where
  "matches_query query item \<longleftrightarrow> \<not> so_is_prefix item \<and>
     contains (casefold (rsplit_last (CHR ''/'') (so_key item))) (casefold query)"

definition list_objects_body ::
    "'w ports \<Rightarrow> 'w s3_gateway \<Rightarrow> string \<Rightarrow> string \<Rightarrow> selector \<Rightarrow> string option
     \<Rightarrow> ('w, 'm, s3_object list) io" where
  "list_objects_body P G bucket pfx profile query =
     with_credentials P profile (\<lambda>p pid c.
     bind (direct_location pid bucket pfx) (\<lambda>l.
     bind (call_out ((if query = None then sg_list_objects G else sg_list_recursive G)
             c (ap_region p) (sl_bucket l) (sl_prefix l))) (\<lambda>found.
     seq (s3_success P ''list'' pid (ap_region p) (\<lambda>e. e\<lparr>lc_target := sl_bucket l,
            lc_aws_service := Some ''s3'', lc_aws_action := Some ''ListObjectsV2'',
            lc_metadata := [(''bucket'', MetaStr (sl_bucket l)), (''prefix'', MetaStr (sl_prefix l))]\<rparr>))
       (ret (case query of None \<Rightarrow> found | Some q \<Rightarrow> filter (matches_query q) found)))))"

definition list_objects ::
    "'w ports \<Rightarrow> 'w s3_gateway \<Rightarrow> string \<Rightarrow> string \<Rightarrow> selector \<Rightarrow> string option
     \<Rightarrow> ('w, 'm, s3_object list) io" where
  "list_objects P G bucket pfx profile query =
     logged P ''s3'' ''list_objects'' False bucket False None
       (\<lambda>_. list_objects_body P G bucket pfx profile query)"

definition log_s3_failure ::
    "'w ports \<Rightarrow> string \<Rightarrow> int \<Rightarrow> string \<Rightarrow> string \<Rightarrow> string \<Rightarrow> app_error \<Rightarrow> ('w, 'm, 'a) io" where
  \<comment> \<open>the \<open>except ApplicationError\<close> clauses: record the failure with its details, raise it again\<close>
  "log_s3_failure P action pid region bucket target err =
     (case pt_recorder P of
        None \<Rightarrow> raise_app err
      | Some _ \<Rightarrow>
          bind (record_failure P ''s3'' action err (\<lambda>e. e\<lparr>lc_target := target, lc_profile_id := Some pid,
                  lc_region := Some region, lc_metadata := [(''bucket'', MetaStr bucket)]\<rparr>)) (\<lambda>err'.
            raise_app err'))"

definition backslash :: char where
  "backslash = char_of (92::nat)"

definition bad_file_name :: "string \<Rightarrow> bool" where
  "bad_file_name name \<longleftrightarrow> name = [] \<or> name = ''.'' \<or> name = ''..'' \<or>
     CHR ''/'' \<in> set name \<or> backslash \<in> set name"

definition renamed_key :: "string \<Rightarrow> string \<Rightarrow> string" where
  "renamed_key key name =
     (if CHR ''/'' \<in> set key then rpartition_head (CHR ''/'') key @ ''/'' @ name else name)"

definition rename_object_body ::
    "'w ports \<Rightarrow> 'w s3_gateway \<Rightarrow> string \<Rightarrow> string \<Rightarrow> string \<Rightarrow> selector \<Rightarrow> ('w, 'm, string) io" where
  "rename_object_body P G bucket key name profile =
     bind (resolve_profile profile) (\<lambda>p.
     bind (of_app (require_profile_id p)) (\<lambda>pid.
     bind (direct_location pid bucket []) (\<lambda>l.
       let new_name = strip name; target = renamed_key key new_name; region = ap_region p in
       if key = [] \<or> endswith key ''/'' \<or> bad_file_name new_name
       then raise_app (config_error_because ''s3.rename.invalid'' ''enter a new name of a file'')
       else if target = key then ret target
       else
         bind (require_credentials P pid) (\<lambda>c.
         bind (call_out (sg_object_exists G c region (sl_bucket l) target)) (\<lambda>taken.
         seq (raise_when taken (AppExn (config_error_because ''s3.rename.exists'' ''the name is taken'')))
         (seq (try_except (call_out (sg_rename_object G c region (sl_bucket l) key target))
                (\<lambda>e. case e of
                   AppExn err \<Rightarrow> log_s3_failure P ''rename'' pid region (sl_bucket l) key err
                 | _ \<Rightarrow> throw e))
         (seq (for_each [(''CopyObject'', target), (''DeleteObject'', key)] (\<lambda>(action, object_key).
                s3_success P ''rename'' pid region (\<lambda>e. e\<lparr>lc_target := object_key,
                  lc_aws_service := Some ''s3'', lc_aws_action := Some action,
                  lc_metadata := [(''bucket'', MetaStr (sl_bucket l))]\<rparr>)))
           (ret target))))))))"

definition rename_object ::
    "'w ports \<Rightarrow> 'w s3_gateway \<Rightarrow> string \<Rightarrow> string \<Rightarrow> string \<Rightarrow> selector \<Rightarrow> ('w, 'm, string) io" where
  "rename_object P G bucket key name profile =
     logged P ''s3'' ''rename'' False key False None (\<lambda>_. rename_object_body P G bucket key name profile)"

definition delete_object_body ::
    "'w ports \<Rightarrow> 'w s3_gateway \<Rightarrow> string \<Rightarrow> string \<Rightarrow> selector \<Rightarrow> ('w, 'm, unit) io" where
  "delete_object_body P G bucket key profile =
     with_credentials P profile (\<lambda>p pid c.
     bind (direct_location pid bucket []) (\<lambda>l.
       let normalized = strip key; region = ap_region p in
       if normalized = [] \<or> endswith normalized ''/''
       then raise_app (config_error_because ''s3.delete.object.required'' ''Select one non-prefix S3 object'')
       else
         seq (try_except (call_out (sg_delete_object G c region (sl_bucket l) normalized))
                (\<lambda>e. case e of
                   AppExn err \<Rightarrow> log_s3_failure P ''delete_object'' pid region (sl_bucket l) normalized err
                 | _ \<Rightarrow> throw e))
           (s3_success P ''delete_object'' pid region (\<lambda>e. e\<lparr>lc_target := normalized,
              lc_metadata := [(''bucket'', MetaStr (sl_bucket l))],
              lc_aws_service := Some ''s3'', lc_aws_action := Some ''DeleteObject''\<rparr>))))"

definition delete_object ::
    "'w ports \<Rightarrow> 'w s3_gateway \<Rightarrow> string \<Rightarrow> string \<Rightarrow> selector \<Rightarrow> ('w, 'm, unit) io" where
  "delete_object P G bucket key profile =
     logged P ''s3'' ''delete_object'' False key False None (\<lambda>_. delete_object_body P G bucket key profile)"

definition download_object_body ::
    "'w ports \<Rightarrow> 'w file_system \<Rightarrow> 'w s3_gateway \<Rightarrow> string \<Rightarrow> string \<Rightarrow> path \<Rightarrow> selector \<Rightarrow> ('w, 'm, path) io" where
  "download_object_body P F G bucket key destination profile =
     with_credentials P profile (\<lambda>p pid c.
     bind (direct_location pid bucket []) (\<lambda>l.
     bind (call_out (fs_expanduser F destination)) (\<lambda>expanded.
     bind (call_out (fs_resolve F expanded)) (\<lambda>target.
       let normalized = strip key in
       if normalized = [] \<or> endswith normalized ''/''
       then raise_app (config_error_because ''s3.download.object.required'' ''Select one S3 object'')
       else
         bind (call_out (fs_is_dir F (fs_parent F target))) (\<lambda>present.
         seq (raise_when (\<not> present) (AppExn (config_error_because
                ''s3.download.destination.invalid'' ''Download directory does not exist'')))
         (seq (run_prog (\<lambda>_. ret False)
                (sg_download_file G c (ap_region p) (sl_bucket l) normalized target False False))
         (seq (s3_success P ''download'' pid (ap_region p) (\<lambda>e. e\<lparr>lc_target := normalized\<rparr>))
           (ret target))))))))"

definition download_object ::
    "'w ports \<Rightarrow> 'w file_system \<Rightarrow> 'w s3_gateway \<Rightarrow> string \<Rightarrow> string \<Rightarrow> path \<Rightarrow> selector \<Rightarrow> ('w, 'm, path) io" where
  "download_object P F G bucket key destination profile =
     logged P ''s3'' ''download_object'' False key False None
       (\<lambda>_. download_object_body P F G bucket key destination profile)"

subsection \<open>Uploads\<close>

datatype upload_policy = Overwrite | SkipExisting

record upload_item =
  ui_source :: path
  ui_bucket :: string
  ui_key :: string
  ui_size :: int
  ui_exists :: bool

definition s3_uri :: "string \<Rightarrow> string \<Rightarrow> string" where
  "s3_uri bucket key = ''s3://'' @ bucket @ ''/'' @ key"

abbreviation upload_uri :: "upload_item \<Rightarrow> string" where
  "upload_uri it \<equiv> s3_uri (ui_bucket it) (ui_key it)"

record upload_plan =
  up_profile_id :: int
  up_region :: string
  up_items :: "upload_item list"

record upload_summary =
  us_uploaded :: "string list"
  us_bytes_transferred :: int
  us_skipped :: "string list"

definition upload_source_required :: app_error where
  "upload_source_required = config_error_because ''s3.upload.source.required''
     ''At least one source file is required''"

definition symlink_refused :: "'w file_system \<Rightarrow> path \<Rightarrow> app_error" where
  "symlink_refused F p = config_error_because ''s3.upload.source.symlink''
     (''Symbolic links cannot be uploaded: '' @ fs_name F p)"

definition folder_candidates ::
    "'w file_system \<Rightarrow> path \<Rightarrow> ('w, 'm, (path \<times> posix_path) list) io" where
  \<comment> \<open>the files below a folder, with their paths relative to it; no symbolic link may be below\<close>
  "folder_candidates F source =
     bind (os_failure_as (config_error_because ''s3.upload.source.unreadable''
             (''Could not inspect upload folder: '' @ fs_name F source))
             (call_out (fs_descendants F source))) (\<lambda>descendants.
     seq (for_each descendants (\<lambda>d.
            bind (call_out (fs_is_symlink F d)) (\<lambda>link. raise_when link (AppExn (symlink_refused F d)))))
     (bind (map_each (\<lambda>d.
              bind (call_out (fs_is_file F d)) (\<lambda>file.
                if file
                then bind (call_out (fs_resolve F d)) (\<lambda>r. ret [(r, posix (fs_relative_posix F d source))])
                else ret [])) descendants) (\<lambda>found. ret (concat found))))"

definition upload_candidates ::
    "'w file_system \<Rightarrow> path \<Rightarrow> ('w, 'm, (path \<times> posix_path) list) io" where
  "upload_candidates F candidate =
     bind (call_out (fs_expanduser F candidate)) (\<lambda>expanded.
     bind (call_out (fs_is_symlink F expanded)) (\<lambda>link.
     seq (raise_when link (AppExn (symlink_refused F expanded)))
     (bind (call_out (fs_resolve F expanded)) (\<lambda>source.
      bind (call_out (fs_is_file F source)) (\<lambda>file.
        if file then ret [(source, posix (fs_name F source))]
        else bind (call_out (fs_is_dir F source)) (\<lambda>folder.
          if folder then folder_candidates F source
          else raise_app (config_error_because ''s3.upload.source.invalid''
                 (''Not a readable file or folder: '' @ fs_name F source))))))))"

definition upload_key :: "string \<Rightarrow> posix_path \<Rightarrow> string" where
  "upload_key pfx relative =
     posix_text (if pfx \<noteq> [] then posix_join (posix pfx) relative else relative)"

definition unreadable_upload :: "'w file_system \<Rightarrow> path \<Rightarrow> app_error" where
  "unreadable_upload F p = config_error_because ''s3.upload.source.unreadable''
     (''Could not read upload file: '' @ fs_name F p)"

definition target_outside :: app_error where
  "target_outside = config_error_because ''s3.upload.target.invalid''
     ''Upload target must stay below the selected prefix''"

definition target_duplicate :: app_error where
  "target_duplicate = config_error_because ''s3.upload.target.duplicate''
     ''Two local files resolve to the same target object key''"

definition add_new_upload ::
    "'w file_system \<Rightarrow> 'w s3_gateway \<Rightarrow> plain_credentials \<Rightarrow> string \<Rightarrow> s3_location
     \<Rightarrow> upload_item list \<Rightarrow> path \<Rightarrow> string \<Rightarrow> ('w, 'm, upload_item list) io" where
  "add_new_upload F G c region l items source key =
     seq (raise_when (startswith key ''/'' \<or> ''..'' \<in> set (posix_parts (posix key)))
            (AppExn target_outside))
     (seq (raise_when (key \<in> ui_key ` set items)
             (AppExn target_duplicate))
     (bind (os_failure_as (unreadable_upload F source) (call_out (fs_size F source))) (\<lambda>len.
      bind (call_out (sg_object_exists G c region (sl_bucket l) key)) (\<lambda>present.
        ret (items @ [\<lparr>ui_source = source, ui_bucket = sl_bucket l, ui_key = key, ui_size = len,
                       ui_exists = present\<rparr>])))))"

definition add_upload ::
    "'w file_system \<Rightarrow> 'w s3_gateway \<Rightarrow> plain_credentials \<Rightarrow> string \<Rightarrow> s3_location
     \<Rightarrow> upload_item list \<Rightarrow> path \<times> posix_path \<Rightarrow> ('w, 'm, upload_item list) io" where
  \<comment> \<open>\<open>source_paths\<close> and \<open>keys\<close> are the sources and the keys of the items so far\<close>
  "add_upload F G c region l items file =
     (if fst file \<in> ui_source ` set items then ret items
      else add_new_upload F G c region l items (fst file) (upload_key (sl_prefix l) (snd file)))"

fun collect :: "('b \<Rightarrow> 'a \<Rightarrow> ('s, 'e, 'b) eff) \<Rightarrow> 'b \<Rightarrow> 'a list \<Rightarrow> ('s, 'e, 'b) eff" where
  \<comment> \<open>a loop that carries a local value\<close>
  "collect f acc [] = ret acc"
| "collect f acc (x # xs) = bind (f acc x) (\<lambda>acc'. collect f acc' xs)"

definition plan_uploads ::
    "'w file_system \<Rightarrow> 'w s3_gateway \<Rightarrow> plain_credentials \<Rightarrow> string \<Rightarrow> s3_location
     \<Rightarrow> path list \<Rightarrow> ('w, 'm, upload_item list) io" where
  "plan_uploads F G c region l sources =
     collect (\<lambda>items candidate.
       bind (upload_candidates F candidate) (collect (add_upload F G c region l) items)) [] sources"

definition prepare_upload ::
    "'w ports \<Rightarrow> 'w file_system \<Rightarrow> 'w s3_gateway \<Rightarrow> path list \<Rightarrow> string \<Rightarrow> string \<Rightarrow> selector
     \<Rightarrow> ('w, 'm, upload_plan) io" where
  "prepare_upload P F G sources bucket pfx profile =
     with_credentials P profile (\<lambda>p pid c.
     bind (direct_location pid bucket pfx) (\<lambda>l.
     seq (raise_when (sources = []) (AppExn upload_source_required))
     (bind (plan_uploads F G c (ap_region p) l sources) (\<lambda>items.
      seq (raise_when (items = []) (AppExn upload_source_required))
        (ret \<lparr>up_profile_id = pid, up_region = ap_region p, up_items = items\<rparr>)))))"

definition resolve_upload_policy :: "bool option \<Rightarrow> upload_policy option \<Rightarrow> app_error + upload_policy" where
  "resolve_upload_policy overwrite policy =
     (let of_flag = (\<lambda>b. if b then Overwrite else SkipExisting) in
      case (policy, overwrite) of
        (Some p, Some b) \<Rightarrow>
          if p \<noteq> of_flag b
          then Inl (config_error_because ''s3.upload.conflict_policy.conflicting''
                 ''Specify either overwrite or a matching upload conflict policy'')
          else Inr p
      | (Some p, None) \<Rightarrow> Inr p
      | (None, Some b) \<Rightarrow> Inr (of_flag b)
      | (None, None) \<Rightarrow> Inl (config_error_because ''s3.upload.conflict_policy.required''
             ''Select how existing S3 objects should be handled''))"

subsection \<open>The locals of a running transfer\<close>

record 'w transfer_world = "'w world" +
  tr_completed :: int
  tr_total :: int
  tr_item_completed :: int
  tr_current :: "(string \<times> string) option"  \<comment> \<open>the bucket and the key of the current item\<close>
  tr_done :: "string list"
  tr_skipped :: "string list"

type_synonym ('w, 'm, 'a) tr_io = "(('w, 'm) transfer_world_scheme, exn, 'a) eff"

definition with_locals :: "('w, 'm, 'a) tr_io \<Rightarrow> ('w, 'm, 'a) io" where
  "with_locals m = (\<lambda>s.
     case m \<lparr>w_db = w_db s, w_exec = w_exec s, w_out = w_out s, tr_completed = 0, tr_total = 0,
            tr_item_completed = 0, tr_current = None, tr_done = [], tr_skipped = [],
            \<dots> = world.more s\<rparr> of
       (r, t) \<Rightarrow> (r, \<lparr>w_db = w_db t, w_exec = w_exec t, w_out = w_out t,
                     \<dots> = transfer_world.more t\<rparr>))"

definition cancellation_requested :: "'w ports \<Rightarrow> op_context \<Rightarrow> ('w, 'm, bool) io" where
  "cancellation_requested P cx =
     (case cx_cancellation cx of None \<Rightarrow> ret False | Some tok \<Rightarrow> ask (pt_cancelled P tok))"

definition skip_item :: "string \<Rightarrow> int \<Rightarrow> ('w, 'm, unit) tr_io" where
  "skip_item name len = modify (\<lambda>s. s\<lparr>tr_skipped := tr_skipped s @ [name], tr_total := tr_total s - len\<rparr>)"

definition finish_item :: "string \<Rightarrow> ('w, 'm, unit) tr_io" where
  "finish_item name = modify (\<lambda>s. s\<lparr>tr_done := tr_done s @ [name]\<rparr>)"

subsection \<open>Running an upload\<close>

definition upload_event ::
    "'w ports \<Rightarrow> op_context \<Rightarrow> upload_item \<Rightarrow> xfer_event \<Rightarrow> ('w, 'm, bool) tr_io" where
  \<comment> \<open>\<open>progress_for(item)\<close> and the \<open>cancelled\<close> callback\<close>
  "upload_event P cx it q =
     (case q of
        Poll \<Rightarrow> cancellation_requested P cx
      | Report delta \<Rightarrow>
          seq (modify (\<lambda>s. s\<lparr>tr_completed := tr_completed s + delta,
                            tr_item_completed := tr_item_completed s + delta\<rparr>))
          (bind (gets (\<lambda>s. (tr_completed s, tr_total s, tr_item_completed s))) (\<lambda>(done, overall, part).
           seq (report_progress P cx ''uploading'' ''s3.upload.progress'' (Some done) (Some overall)
                  (Some (upload_uri it)))
           (seq (report_progress P cx ''uploading'' ''s3.upload.item.progress'' (Some part)
                   (Some (ui_size it)) (Some (upload_uri it)))
             (ret False)))))"

definition send_item ::
    "'w s3_gateway \<Rightarrow> plain_credentials \<Rightarrow> string \<Rightarrow> upload_item \<Rightarrow> ('w, exn, unit) xfer" where
  "send_item G c region it =
     (if ui_size it \<ge> multipart_threshold
      then sg_multipart_file G c region (ui_bucket it) (ui_key it) (ui_source it) multipart_part_size
             max_concurrency
      else sg_put_file G c region (ui_bucket it) (ui_key it) (ui_source it))"

definition log_uploaded :: "'w ports \<Rightarrow> op_context \<Rightarrow> upload_plan \<Rightarrow> upload_item \<Rightarrow> ('w, 'm, unit) io" where
  "log_uploaded P cx plan it =
     s3_success P ''upload'' (up_profile_id plan) (up_region plan) (\<lambda>e. e\<lparr>lc_target := ui_key it,
       lc_operation_id := Some (cx_operation_id cx), lc_aws_service := Some ''s3'',
       lc_aws_action := Some (if ui_size it \<ge> multipart_threshold then ''CompleteMultipartUpload''
                              else ''PutObject''),
       lc_metadata := [(''bucket'', MetaStr (ui_bucket it)), (''file_size'', MetaInt (ui_size it))]\<rparr>)"

definition send_and_log ::
    "'w ports \<Rightarrow> 'w s3_gateway \<Rightarrow> op_context \<Rightarrow> plain_credentials \<Rightarrow> upload_plan \<Rightarrow> upload_item
     \<Rightarrow> ('w, 'm, unit) tr_io" where
  \<comment> \<open>one turn of the loop, for an item that is not skipped\<close>
  "send_and_log P G cx c plan it =
     seq (modify (\<lambda>s. s\<lparr>tr_item_completed := 0\<rparr>))
     (seq (run_prog (upload_event P cx it) (send_item G c (up_region plan) it))
     (seq (finish_item (upload_uri it))
     (seq (log_uploaded P cx plan it)
       (report_progress P cx ''completed'' ''s3.upload.item.completed'' (Some (ui_size it))
          (Some (ui_size it)) (Some (upload_uri it))))))"

definition upload_one ::
    "'w ports \<Rightarrow> 'w s3_gateway \<Rightarrow> op_context \<Rightarrow> plain_credentials \<Rightarrow> upload_plan \<Rightarrow> upload_policy
     \<Rightarrow> upload_item \<Rightarrow> ('w, 'm, unit) tr_io" where
  \<comment> \<open>one turn of the loop\<close>
  "upload_one P G cx c plan policy it =
     seq (modify (\<lambda>s. s\<lparr>tr_current := Some (ui_bucket it, ui_key it)\<rparr>))
     (seq (raise_if_cancelled P cx)
     (seq (report_progress P cx ''starting'' ''s3.upload.item.started'' (Some 0) (Some (ui_size it))
             (Some (upload_uri it)))
     (bind (if policy = SkipExisting
            then call_out (sg_object_exists G c (up_region plan) (ui_bucket it) (ui_key it))
            else ret False) (\<lambda>appeared.
        if appeared
        then seq (skip_item (upload_uri it) (ui_size it))
               (report_progress P cx ''skipped'' ''s3.upload.item.skipped'' None None (Some (upload_uri it)))
        else send_and_log P G cx c plan it))))"

definition upload_failed :: "'w ports \<Rightarrow> upload_plan \<Rightarrow> exn \<Rightarrow> ('w, 'm, unit) tr_io" where
  \<comment> \<open>the \<open>except\<close> clause; the loop has set the current item\<close>
  "upload_failed P plan e =
     (case e of
        AppExn err \<Rightarrow>
          if ae_message_code err = ''s3.upload.cancelled'' then throw OperationCancelled
          else bind (gets tr_current) (\<lambda>current.
                 case current of
                   None \<Rightarrow> throw (PyExn ''UnboundLocalError'')
                 | Some (bucket, key) \<Rightarrow>
                     log_s3_failure P ''upload'' (up_profile_id plan) (up_region plan) bucket key err)
      | _ \<Rightarrow> throw e)"

definition upload_items ::
    "'w ports \<Rightarrow> 'w s3_gateway \<Rightarrow> op_context \<Rightarrow> plain_credentials \<Rightarrow> upload_plan \<Rightarrow> upload_policy
     \<Rightarrow> upload_item list \<Rightarrow> string list \<Rightarrow> ('w, 'm, upload_summary) tr_io" where
  "upload_items P G cx c plan policy items skipped =
     seq (modify (\<lambda>s. s\<lparr>tr_total := sum_list (map ui_size items), tr_skipped := skipped\<rparr>))
     (seq (report_progress P cx ''starting'' ''s3.upload.started'' (Some 0)
             (Some (sum_list (map ui_size items))) None)
     (seq (try_except
             (seq (for_each items (upload_one P G cx c plan policy)) (raise_if_cancelled P cx))
             (upload_failed P plan))
     (bind (gets (\<lambda>s. (tr_done s, tr_completed s, tr_skipped s, tr_total s))) (\<lambda>(done, sent, left_out, overall).
      seq (report_progress P cx ''completed'' ''s3.upload.completed'' (Some overall) (Some overall) None)
        (ret \<lparr>us_uploaded = done, us_bytes_transferred = sent, us_skipped = left_out\<rparr>)))))"

definition upload_nothing ::
    "'w ports \<Rightarrow> op_context \<Rightarrow> upload_plan \<Rightarrow> string list \<Rightarrow> ('w, 'm, upload_summary) io" where
  \<comment> \<open>the early return when every item is skipped\<close>
  "upload_nothing P cx plan skipped =
     seq (report_progress P cx ''completed'' ''s3.upload.completed'' (Some 0) (Some 0) None)
     (seq (s3_success P ''upload'' (up_profile_id plan) (up_region plan)
             (\<lambda>e. (if skipped \<noteq> [] then e\<lparr>lc_result := ''WARNING'', lc_level := ''WARNING''\<rparr> else e)
               \<lparr>lc_operation_id := Some (cx_operation_id cx),
                lc_metadata := [(''file_size'', MetaInt 0), (''skipped_count'', MetaInt (int (length skipped)))]\<rparr>))
       (ret \<lparr>us_uploaded = [], us_bytes_transferred = 0, us_skipped = skipped\<rparr>))"

definition upload_body ::
    "'w ports \<Rightarrow> 'w s3_gateway \<Rightarrow> upload_plan \<Rightarrow> bool option \<Rightarrow> upload_policy option \<Rightarrow> op_context
     \<Rightarrow> ('w, 'm, upload_summary) io" where
  \<comment> \<open>the check that the policy is one of the two is never false here\<close>
  "upload_body P G plan overwrite chosen cx =
     seq (raise_if_cancelled P cx)
     (bind (of_app (resolve_upload_policy overwrite chosen)) (\<lambda>policy.
       let items = (if policy = Overwrite then up_items plan
                    else filter (\<lambda>it. \<not> ui_exists it) (up_items plan));
           skipped = (if policy = Overwrite then []
                      else map (\<lambda>it. upload_uri it) (filter ui_exists (up_items plan))) in
       bind (require_credentials P (up_profile_id plan)) (\<lambda>c.
       seq (for_each skipped (\<lambda>uri.
              report_progress P cx ''skipped'' ''s3.upload.item.skipped'' None None (Some uri)))
         (if items = [] then upload_nothing P cx plan skipped
          else with_locals (upload_items P G cx c plan policy items skipped)))))"

definition upload ::
    "'w ports \<Rightarrow> 'w s3_gateway \<Rightarrow> upload_plan \<Rightarrow> bool option \<Rightarrow> upload_policy option \<Rightarrow> op_context
     \<Rightarrow> ('w, 'm, upload_summary) io" where
  "upload P G plan overwrite chosen cx =
     logged P ''s3'' ''upload'' False ''-'' True (Some cx) (\<lambda>_. upload_body P G plan overwrite chosen cx)"

subsection \<open>Downloads\<close>

record download_item =
  di_bucket :: string
  di_key :: string
  di_destination :: path
  di_size :: int
  di_exists :: bool

abbreviation download_uri :: "download_item \<Rightarrow> string" where
  "download_uri it \<equiv> s3_uri (di_bucket it) (di_key it)"

record download_plan =
  dp_profile_id :: int
  dp_region :: string
  dp_items :: "download_item list"

record download_summary =
  dsu_downloaded :: "path list"
  dsu_bytes_transferred :: int
  dsu_skipped :: "path list"

definition is_folder_object :: "s3_object \<Rightarrow> bool" where
  "is_folder_object ob \<longleftrightarrow> so_is_prefix ob \<or> endswith (so_key ob) ''/''"

definition key_escapes :: app_error where
  "key_escapes = config_error_because ''s3.download.key.invalid''
     ''S3 object key cannot escape the destination folder''"

definition add_download ::
    "'w file_system \<Rightarrow> string \<Rightarrow> path \<Rightarrow> string set \<Rightarrow> download_item list \<Rightarrow> s3_object
     \<Rightarrow> ('w, 'm, download_item list) io" where
  \<comment> \<open>\<open>keys\<close> and \<open>destinations\<close> are those of the items so far\<close>
  "add_download F bucket root direct_keys items candidate =
     (let key = strip (so_key candidate); relative = posix key in
      if so_is_prefix candidate \<or> key = [] \<or> endswith key ''/'' \<or> key \<in> di_key ` set items
      then ret items
      else if posix_absolute relative \<or> ''..'' \<in> set (posix_parts relative) \<or> backslash \<in> set key
      then raise_app key_escapes
      else
        bind (call_out (fs_resolve F (if so_key candidate \<in> direct_keys
                then fs_join F root [posix_name relative]
                else fs_join F root (posix_parts relative)))) (\<lambda>target.
        seq (raise_when (\<not> fs_is_relative_to F target root) (AppExn key_escapes))
        (seq (raise_when (target \<in> di_destination ` set items)
                (AppExn (config_error_because ''s3.download.destination.duplicate''
                   ''Two S3 objects resolve to the same local destination'')))
        (bind (call_out (fs_exists F target)) (\<lambda>present.
         bind (if present then call_out (fs_is_file F target) else ret True) (\<lambda>file.
         seq (raise_when (\<not> file) (AppExn (config_error_because ''s3.download.destination.exists''
                (''A local file or folder already exists: '' @ fs_name F target))))
         (bind (call_out (fs_exists F target)) (\<lambda>exists.
           ret (items @ [\<lparr>di_bucket = bucket, di_key = key, di_destination = target,
                          di_size = so_size candidate, di_exists = exists\<rparr>])))))))))"

definition plan_downloads ::
    "'w file_system \<Rightarrow> 'w s3_gateway \<Rightarrow> plain_credentials \<Rightarrow> string \<Rightarrow> string \<Rightarrow> path
     \<Rightarrow> s3_object list \<Rightarrow> ('w, 'm, download_item list) io" where
  \<comment> \<open>expand the selected folders, then plan a file for every object\<close>
  "plan_downloads F G c region bucket root selected =
     bind (map_each (\<lambda>ob.
             if is_folder_object ob then call_out (sg_list_recursive G c region bucket (so_key ob))
             else ret [ob]) selected) (\<lambda>found.
       collect (add_download F bucket root
         (so_key ` set (filter (\<lambda>ob. \<not> is_folder_object ob) selected))) [] (concat found))"

definition prepare_download ::
    "'w ports \<Rightarrow> 'w file_system \<Rightarrow> 'w s3_gateway \<Rightarrow> s3_object list \<Rightarrow> path \<Rightarrow> string \<Rightarrow> selector
     \<Rightarrow> ('w, 'm, download_plan) io" where
  "prepare_download P F G selected destination bucket profile =
     with_credentials P profile (\<lambda>p pid c.
     bind (direct_location pid bucket []) (\<lambda>l.
     bind (call_out (fs_expanduser F destination)) (\<lambda>expanded.
     bind (call_out (fs_resolve F expanded)) (\<lambda>root.
     seq (raise_when (selected = []) (AppExn (config_error_because ''s3.download.selection.required''
            ''Select at least one S3 file or folder'')))
     (bind (call_out (fs_is_dir F root)) (\<lambda>present.
      seq (raise_when (\<not> present) (AppExn (config_error_because ''s3.download.destination.invalid''
             ''Download directory does not exist'')))
      (bind (plan_downloads F G c (ap_region p) (sl_bucket l) root selected) (\<lambda>items.
       seq (raise_when (items = []) (AppExn (config_error_because ''s3.download.selection.empty''
              ''The selected S3 folders contain no downloadable files'')))
         (ret \<lparr>dp_profile_id = pid, dp_region = ap_region p, dp_items = items\<rparr>)))))))))"

definition download_event ::
    "'w ports \<Rightarrow> op_context \<Rightarrow> xfer_event \<Rightarrow> ('w, 'm, bool) tr_io" where
  "download_event P cx q =
     (case q of
        Poll \<Rightarrow> cancellation_requested P cx
      | Report delta \<Rightarrow>
          seq (modify (\<lambda>s. s\<lparr>tr_completed := tr_completed s + delta\<rparr>))
          (bind (gets (\<lambda>s. (tr_completed s, tr_total s, tr_current s))) (\<lambda>(done, overall, current).
           seq (report_progress P cx ''downloading'' ''s3.download.progress'' (Some done) (Some overall)
                  (map_option (\<lambda>(b, k). s3_uri b k) current))
             (ret False))))"

definition download_one ::
    "'w ports \<Rightarrow> 'w file_system \<Rightarrow> 'w s3_gateway \<Rightarrow> op_context \<Rightarrow> plain_credentials \<Rightarrow> download_plan
     \<Rightarrow> upload_policy \<Rightarrow> download_item \<Rightarrow> ('w, 'm, unit) tr_io" where
  "download_one P F G cx c plan policy it =
     seq (modify (\<lambda>s. s\<lparr>tr_current := Some (di_bucket it, di_key it)\<rparr>))
     (seq (raise_if_cancelled P cx)
     (seq (report_progress P cx ''starting'' ''s3.download.item.started'' None None (Some (download_uri it)))
     (bind (call_out (fs_exists F (di_destination it))) (\<lambda>present.
        if present \<and> policy = SkipExisting
        then seq (skip_item (di_destination it) (di_size it))
               (report_progress P cx ''skipped'' ''s3.download.item.skipped'' None None (Some (download_uri it)))
        else
          seq (raise_when (present \<and> \<not> di_exists it) (AppExn (config_error_because
                 ''s3.download.destination.exists''
                 ''A destination file appeared after confirmation; retry to confirm it'')))
          (seq (os_failure_as (config_error_because ''s3.download.destination.unavailable''
                  (''Could not create download folder for '' @ fs_name F (di_destination it)))
                  (call_out (fs_make_dirs F (fs_parent F (di_destination it)))))
          (seq (run_prog (download_event P cx)
                  (sg_download_file G c (dp_region plan) (di_bucket it) (di_key it) (di_destination it)
                     True (policy = Overwrite \<and> di_exists it)))
          (seq (finish_item (di_destination it))
            (report_progress P cx ''completed'' ''s3.download.item.completed'' None None
               (Some (download_uri it))))))))))"

definition download_failed :: "'w ports \<Rightarrow> op_context \<Rightarrow> exn \<Rightarrow> ('w, 'm, unit) tr_io" where
  "download_failed P cx e =
     (case e of
        AppExn err \<Rightarrow>
          bind (gets (\<lambda>s. (tr_completed s, tr_total s, tr_current s))) (\<lambda>(done, overall, current).
          seq (report_progress P cx ''failed'' (ae_message_code err) (Some done) (Some overall)
                 (map_option (\<lambda>(b, k). s3_uri b k) current))
            (if ae_message_code err = ''s3.download.cancelled'' then throw OperationCancelled else throw e))
      | _ \<Rightarrow> throw e)"

definition download_items ::
    "'w ports \<Rightarrow> 'w file_system \<Rightarrow> 'w s3_gateway \<Rightarrow> op_context \<Rightarrow> plain_credentials \<Rightarrow> download_plan
     \<Rightarrow> upload_policy \<Rightarrow> ('w, 'm, download_summary) tr_io" where
  "download_items P F G cx c plan policy =
     seq (modify (\<lambda>s. s\<lparr>tr_total := sum_list (map di_size (dp_items plan))\<rparr>))
     (seq (report_progress P cx ''starting'' ''s3.download.started'' (Some 0)
             (Some (sum_list (map di_size (dp_items plan)))) None)
     (seq (try_except
             (seq (for_each (dp_items plan) (download_one P F G cx c plan policy)) (raise_if_cancelled P cx))
             (download_failed P cx))
     (bind (gets (\<lambda>s. (tr_done s, tr_completed s, tr_skipped s, tr_total s))) (\<lambda>(done, got, left_out, overall).
      seq (report_progress P cx ''completed'' ''s3.download.completed'' (Some overall) (Some overall) None)
      (seq (s3_success P ''download'' (dp_profile_id plan) (dp_region plan)
              (\<lambda>e. (if left_out \<noteq> [] then e\<lparr>lc_result := ''WARNING'', lc_level := ''WARNING''\<rparr> else e)
                \<lparr>lc_operation_id := Some (cx_operation_id cx),
                 lc_metadata := [(''file_size'', MetaInt got),
                                 (''skipped_count'', MetaInt (int (length left_out)))]\<rparr>))
        (ret \<lparr>dsu_downloaded = done, dsu_bytes_transferred = got, dsu_skipped = left_out\<rparr>))))))"

definition download ::
    "'w ports \<Rightarrow> 'w file_system \<Rightarrow> 'w s3_gateway \<Rightarrow> download_plan \<Rightarrow> op_context \<Rightarrow> upload_policy
     \<Rightarrow> ('w, 'm, download_summary) io" where
  "download P F G plan cx policy =
     logged P ''s3'' ''download'' False ''-'' True (Some cx) (\<lambda>_.
       seq (raise_if_cancelled P cx)
       (bind (require_credentials P (dp_profile_id plan)) (\<lambda>c.
         with_locals (download_items P F G cx c plan policy))))"

subsection \<open>The service on boto3\<close>

definition boto3_gateway ::
    "'w s3_client \<Rightarrow> 'w file_system
     \<Rightarrow> (string option \<Rightarrow> plain_credentials \<Rightarrow> string \<Rightarrow> string \<Rightarrow> string \<Rightarrow> ('w, s3_object list) port)
     \<Rightarrow> 'w s3_gateway" where
  \<comment> \<open>the gateway the program uses; \<open>listing\<close> stands for \<open>gateway_list_objects\<close>, where it returns\<close>
  "boto3_gateway C F listing = \<lparr>
     sg_list_buckets = gateway_list_buckets C, sg_list_objects = listing (Some ''/''),
     sg_list_recursive = listing None, sg_object_exists = gateway_object_exists C,
     sg_delete_object = gateway_delete_object C, sg_rename_object = gateway_rename_object C,
     sg_download_file = gateway_download_file C F, sg_put_file = gateway_put_file C F,
     sg_multipart_file = gateway_multipart_file C F\<rparr>"

end
