(* ===== verification/S3_Gateway_Properties.thy ===== *)
theory S3_Gateway_Properties
  imports S3_Gateway
begin

text \<open>
  What the S3 gateway promises: a listing of finitely many pages returns, and no multipart upload
  stays open.  The behaviour of S3 the second needs is stated on any account of the open uploads
  (\<open>multipart_kept\<close>).
\<close>

subsection \<open>Listings return\<close>

definition pages_run_out :: "'w s3_client \<Rightarrow> ('w \<Rightarrow> nat) \<Rightarrow> bool" where
  \<comment> \<open>\<open>rank\<close> bounds the pages that are left: a page with a token for the next one leaves fewer\<close>
  "pages_run_out C rank \<longleftrightarrow> (\<forall>client request w page w'.
     c3_list_objects C client request w = (Inr page, w') \<longrightarrow> pg_next_token page \<noteq> None \<longrightarrow>
     rank w' < rank w)"

lemma translating_Inr: "translating s a m w = (Inr x, w') \<longleftrightarrow> m w = (Inr x, w')"
  by (auto simp: translating_def try_except_apply split: prod.splits sum.splits if_splits)

lemma list_pages_return:
  assumes "pages_run_out C rank"
  shows "list_pages C client request found w \<noteq> None"
proof (induction "rank w" arbitrary: request found w rule: less_induct)
  case less
  show ?case
  proof (cases "translating ''s3'' ''ListObjectsV2'' (c3_list_objects C client request) w")
    case (Pair r w')
    show ?thesis
    proof (cases r)
      case (Inl e)
      with Pair show ?thesis by (subst list_pages.simps) simp
    next
      case (Inr page)
      then have listed: "c3_list_objects C client request w = (Inr page, w')"
        using Pair by (simp add: translating_Inr)
      have "list_pages C client q f w' \<noteq> None" if "pg_next_token page \<noteq> None" for q f
        using less assms listed that unfolding pages_run_out_def by blast
      with Pair Inr show ?thesis
        by (subst list_pages.simps) (auto split: sum.split option.split)
    qed
  qed
qed


definition no_credentials :: plain_credentials where
  "no_credentials = \<lparr>pc_access_key = ''AK'', pc_secret_key = ''SK'', pc_session_token = None\<rparr>"

definition finite_listing :: "nat s3_client" where
  \<comment> \<open>an outside that counts the pages that are left\<close>
  "finite_listing = \<lparr>
     c3_open = \<lambda>c r w. (Inr 0, w), c3_list_buckets = \<lambda>n w. (Inr [], w),
     c3_list_objects = \<lambda>n q w. (Inr \<lparr>pg_common_prefixes = [], pg_contents =
       [\<lparr>lc3_key = Some (lq_prefix q @ digits_of w), lc3_size = None, lc3_last_modified = None\<rparr>],
       pg_next_token = (if w = 0 then None else Some ''next'')\<rparr>, w - 1),
     c3_delete_object = \<lambda>n b k t w. (Inr (), w), c3_head_object = \<lambda>n b k w. (Inr (0, ''e''), w),
     c3_copy_object = \<lambda>n b t k e w. (Inr (), w), c3_download_file = \<lambda>n b k p. Done (Inr ()),
     c3_put_object = \<lambda>n b k l. Done (Inr ()), c3_create_multipart = \<lambda>n b k w. (Inr (Some ''u''), w),
     c3_upload_part = \<lambda>n b k u i d w. (Inr (Some ''e''), w),
     c3_complete_multipart = \<lambda>n b k u ps w. (Inr (), w), c3_abort_multipart = \<lambda>n b k u w. (Inr (), w)\<rparr>"


subsection \<open>Multipart uploads\<close>

definition multipart_kept ::
    "('w \<Rightarrow> string set) \<Rightarrow> 'w s3_client \<Rightarrow> 'w file_system \<Rightarrow> bool" where
  \<comment> \<open>\<open>up\<close> is the account of the open uploads: S3 opens a new one with \<open>CreateMultipartUpload\<close>
    or fails, and closes it when it completes or aborts it; an abort succeeds; nothing else moves
    the account\<close>
  "multipart_kept up C F \<longleftrightarrow>
     (\<forall>client bucket key w. case c3_create_multipart C client bucket key w of
        (Inl e, w') \<Rightarrow> up w' = up w
      | (Inr None, w') \<Rightarrow> up w' = up w
      | (Inr (Some i), w') \<Rightarrow> i \<notin> up w \<and> up w' = insert i (up w)) \<and>
     (\<forall>client bucket key i parts w. case c3_complete_multipart C client bucket key i parts w of
        (Inl e, w') \<Rightarrow> up w' = up w | (Inr _, w') \<Rightarrow> up w' = up w - {i}) \<and>
     (\<forall>client bucket key i w. case c3_abort_multipart C client bucket key i w of
        (r, w') \<Rightarrow> r = Inr () \<and> up w' = up w - {i}) \<and>
     (\<forall>c region. frames up (c3_open C c region)) \<and>
     (\<forall>client bucket key i k body. frames up (c3_upload_part C client bucket key i k body)) \<and>
     (\<forall>p. frames up (fs_open F p)) \<and> (\<forall>p. frames up (fs_size F p)) \<and>
     (\<forall>r n. frames up (fs_read F r n)) \<and> (\<forall>r. frames up (fs_close F r))"

lemma multipart_keptD:
  assumes "multipart_kept up C F"
  shows "frames up (c3_open C c region)" "frames up (c3_upload_part C client bucket key i k body)"
    "frames up (fs_open F p)" "frames up (fs_size F p)" "frames up (fs_read F r n)"
    "frames up (fs_close F r)"
    "c3_abort_multipart C client bucket key i w = (a, w') \<Longrightarrow> a = Inr () \<and> up w' = up w - {i}"
    "c3_complete_multipart C client bucket key i parts w = (d, w') \<Longrightarrow>
       up w' = (case d of Inl _ \<Rightarrow> up w | Inr _ \<Rightarrow> up w - {i})"
    "c3_create_multipart C client bucket key w = (b, w') \<Longrightarrow>
       (case b of Inr (Some i) \<Rightarrow> i \<notin> up w \<and> up w' = insert i (up w) | _ \<Rightarrow> up w' = up w)"
  using assms unfolding multipart_kept_def
  by (auto simp del: split_paired_All split: prod.splits sum.splits option.splits) metis+

abbreviation still ::
    "('w \<Rightarrow> string set) \<Rightarrow> (xfer_event \<Rightarrow> ('w, 'm, bool) io) \<Rightarrow> ('w, 'e, 'a) xfer \<Rightarrow> bool" where
  \<comment> \<open>a transfer that leaves the account as it is\<close>
  "still up h m \<equiv> frames (\<lambda>s. up (w_out s)) (run_prog h m)"

lemmas still_port = frames_pcall

lemma still_tagged: "still up h m \<Longrightarrow> still up h (tagged a m)"
  unfolding tagged_def pcatch_def by (rule frames_pthen) (auto split: sum.split)

lemma still_poll: "(\<And>q. frames (\<lambda>s. up (w_out s)) (h q)) \<Longrightarrow> still up h raise_if_polled"
  unfolding raise_if_polled_def by (rule frames_pbind) auto

lemma still_report: "(\<And>q. frames (\<lambda>s. up (w_out s)) (h q)) \<Longrightarrow> still up h (report_delta n)"
  unfolding report_delta_def by (rule frames_pbind) auto

lemmas still_rules = frames_pbind still_port still_tagged still_poll still_report

lemma still_upload_parts:
  assumes "multipart_kept up C F" "\<And>q. frames (\<lambda>s. up (w_out s)) (h q)"
  shows "still up h (upload_parts C F client mp raw n action ks parts)"
proof (induction ks arbitrary: action parts)
  case (Cons k ks)
  then show ?case
    by (auto intro!: still_rules multipart_keptD(2,5) [OF assms(1)] assms(2) split: option.split)
qed simp

lemma still_with_open_tagged:
  fixes body :: "nat \<Rightarrow> ('w, string \<times> exn, string \<times> 'a) xfer"
  assumes "multipart_kept up C F" "\<And>raw. still up h (body raw)"
  shows "still up h (with_open_tagged F source a body)"
proof -
  let ?close = "\<lambda>raw r. pthen (pcall (fs_close F raw)) (\<lambda>u. case u of
      Inr _ \<Rightarrow> Done r | Inl e \<Rightarrow> praise (case r of Inl (a, _) \<Rightarrow> a | Inr (a, _) \<Rightarrow> a, e))"
  have "still up h (?close raw r)" for raw and r :: "string \<times> exn + string \<times> 'a"
  proof (rule frames_pthen [OF still_port [OF multipart_keptD(6) [OF assms(1)]]])
    fix u :: "exn + unit"
    show "still up h (case u of Inr _ \<Rightarrow> Done r
        | Inl e \<Rightarrow> praise (case r of Inl (a, _) \<Rightarrow> a | Inr (a, _) \<Rightarrow> a, e))"
      by (cases u) simp_all
  qed
  then show ?thesis
    unfolding with_open_tagged_def
    by (rule frames_pbind [OF still_tagged [OF still_port [OF multipart_keptD(3) [OF assms(1)]]]
          frames_pthen [OF assms(2)]])
qed

lemma multipart_body_account:
  assumes "multipart_kept up C F" "\<And>q. frames (\<lambda>s. up (w_out s)) (h q)"
    and run: "run_prog h (multipart_body C F client mp source n) s = (r, t)"
  shows "up (w_out t) = (case r of Inl _ \<Rightarrow> up (w_out s) | Inr _ \<Rightarrow> up (w_out s) - {mp_upload_id mp})"
proof -
  let ?first = "multipart_parts C F client mp source n"
  let ?complete = "\<lambda>parts. pcall (c3_complete_multipart C client (mp_bucket mp) (mp_key mp)
      (mp_upload_id mp) parts)"
  have first: "still up h ?first"
    unfolding multipart_parts_def
    by (rule still_with_open_tagged [OF assms(1) frames_pbind
          [OF still_tagged [OF still_port [OF multipart_keptD(4) [OF assms(1)]]]
              still_upload_parts [OF assms(1,2)]]])
  have complete: "up (w_out v) = (case q of Inl _ \<Rightarrow> up (w_out u) | Inr _ \<Rightarrow> up (w_out u) - {mp_upload_id mp})"
    if "run_prog h (tagged ''CompleteMultipartUpload'' (?complete parts)) u = (q, v)" for parts u q v
  proof -
    obtain d w where d: "c3_complete_multipart C client (mp_bucket mp) (mp_key mp) (mp_upload_id mp)
        parts (w_out u) = (d, w)" by fastforce
    with that have "w_out v = w" "isl q = isl d"
      by (cases d; auto simp: tagged_def pcatch_def run_pthen)+
    with multipart_keptD(8) [OF assms(1) d] show ?thesis by (cases d; cases q) auto
  qed
  obtain r1 s1 where one: "run_prog h ?first s = (r1, s1)" by (cases "run_prog h ?first s")
  have s1: "up (w_out s1) = up (w_out s)" by (rule framesD [OF first one])
  show ?thesis
  proof (cases r1)
    case (Inl e)
    have "(r, t) = (Inl e, s1)"
      using run unfolding multipart_body_def run_pbind bind_apply one Inl by simp
    with s1 show ?thesis by simp
  next
    case (Inr ap)
    obtain action parts where ap: "ap = (action, parts)" by fastforce
    obtain r2 s2 where two: "run_prog h (tagged action raise_if_polled) s1 = (r2, s2)"
      by (cases "run_prog h (tagged action raise_if_polled) s1")
    have s2: "up (w_out s2) = up (w_out s)"
      using framesD [OF still_tagged [OF still_poll [OF assms(2)]] two] s1 by simp
    show ?thesis
    proof (cases r2)
      case (Inl e)
      have "(r, t) = (Inl e, s2)"
        using run two unfolding multipart_body_def run_pbind bind_apply one Inr ap Inl
        by (simp add: run_pbind)
      with s2 show ?thesis by simp
    next
      case (Inr _)
      then have "run_prog h (tagged ''CompleteMultipartUpload'' (?complete parts)) s2 = (r, t)"
        using run two unfolding multipart_body_def run_pbind bind_apply one \<open>r1 = Inr ap\<close> ap
        by (simp add: run_pbind)
      with complete s2 show ?thesis by metis
    qed
  qed
qed

lemma failed_body_aborted:
  assumes "multipart_kept up C F" "up (w_out s) = (case q of Inl _ \<Rightarrow> insert i u | Inr _ \<Rightarrow> u)" "i \<notin> u"
    and fin: "run_prog h (case q of Inr _ \<Rightarrow> pret ()
       | Inl (action, e) \<Rightarrow> if multipart_caught e
           then abort_multipart C client \<lparr>mp_bucket = bucket, mp_key = key, mp_upload_id = i\<rparr> (multipart_error action e)
           else praise e) s = (r, t)"
    and caught: "\<And>e. r = Inl e \<Longrightarrow> multipart_caught e"
  shows "up (w_out t) = u"
proof (cases q)
  case (Inr _) with fin assms(2) show ?thesis by simp
next
  case (Inl ae)
  obtain action e where ae: "ae = (action, e)" by fastforce
  show ?thesis
  proof (cases "multipart_caught e")
    case False with fin Inl ae caught show ?thesis by auto
  next
    case True
    obtain x w where ab: "c3_abort_multipart C client bucket key i (w_out s) = (x, w)"
      by (cases "c3_abort_multipart C client bucket key i (w_out s)")
    note aborted = multipart_keptD(7) [OF assms(1) ab]
    have "w_out t = w" using fin [symmetric] Inl ae True ab aborted by (simp add: abort_multipart_def run_pthen)
    moreover have "up w = insert i u - {i}" using aborted assms(2) Inl by simp
    ultimately show ?thesis using assms(3) by simp
  qed
qed


definition full_store :: "string list s3_client" where
  \<comment> \<open>an outside that is the list of the open uploads; no part can be stored\<close>
  "full_store = \<lparr>
     c3_open = \<lambda>c r w. (Inr 0, w), c3_list_buckets = \<lambda>n w. (Inr [], w),
     c3_list_objects = \<lambda>n q w. (Inr \<lparr>pg_common_prefixes = [], pg_contents = [], pg_next_token = None\<rparr>, w),
     c3_delete_object = \<lambda>n b k t w. (Inr (), w), c3_head_object = \<lambda>n b k w. (Inr (0, ''e''), w),
     c3_copy_object = \<lambda>n b t k e w. (Inr (), w), c3_download_file = \<lambda>n b k p. Done (Inr ()),
     c3_put_object = \<lambda>n b k l. Done (Inr ()),
     c3_create_multipart = \<lambda>n b k w. (Inr (Some (concat w @ ''u'')), (concat w @ ''u'') # w),
     c3_upload_part = \<lambda>n b k u i d w. (Inl (ClientError ''ClientError'' (Some ''SlowDown'') None), w),
     c3_complete_multipart = \<lambda>n b k u ps w. (Inr (), removeAll u w),
     c3_abort_multipart = \<lambda>n b k u w. (Inr (), removeAll u w)\<rparr>"

definition one_file :: "'w file_system" where
  \<comment> \<open>every path is a file of ten megabytes\<close>
  "one_file = \<lparr>fs_name = id, fs_parent = (\<lambda>p. ''/''), fs_join = (\<lambda>p ps. p @ ''/'' @ join_with ''/'' ps),
     fs_relative_posix = (\<lambda>p q. drop (length q + 1) p), fs_is_relative_to = (\<lambda>p q. prefix q p),
     fs_windows = False, fs_expanduser = (\<lambda>p w. (Inr p, w)), fs_resolve = (\<lambda>p w. (Inr p, w)),
     fs_is_symlink = (\<lambda>p w. (Inr False, w)), fs_is_file = (\<lambda>p w. (Inr True, w)),
     fs_is_dir = (\<lambda>p w. (Inr False, w)), fs_exists = (\<lambda>p w. (Inr True, w)),
     fs_descendants = (\<lambda>p w. (Inr [], w)), fs_size = (\<lambda>p w. (Inr 10000000, w)),
     fs_make_dirs = (\<lambda>p w. (Inr (), w)), fs_temporary = (\<lambda>p w. (Inr ''t'', w)),
     fs_replace = (\<lambda>p q w. (Inr (), w)), fs_rename = (\<lambda>p q w. (Inr (), w)),
     fs_link = (\<lambda>p q w. (Inr (), w)), fs_unlink = (\<lambda>p w. (Inr (), w)),
     fs_unlink_if_present = (\<lambda>p w. (Inr (), w)), fs_open = (\<lambda>p w. (Inr 0, w)),
     fs_read = (\<lambda>r n w. (Inr ''data'', w)), fs_close = (\<lambda>r w. (Inr (), w))\<rparr>"

lemma length_in_concat: "x \<in> set w \<Longrightarrow> length x \<le> length (concat w)"
  by (induction w) auto

lemma not_in_concat: "concat w @ ''u'' \<notin> set w"
  using length_in_concat [of "concat w @ ''u''" w] by auto

lemma full_store_kept: "multipart_kept set full_store one_file"
  using not_in_concat by (auto simp: multipart_kept_def full_store_def one_file_def frames_def)

definition shop_world :: "string list world" where
  "shop_world = \<lparr>w_db = empty_database, w_exec = None, w_out = [''other'']\<rparr>"

definition never_cancelled :: "xfer_event \<Rightarrow> ('w, 'm, bool) io" where
  "never_cancelled q = ret False"


end
