(* ===== verification/S3_Properties.thy ===== *)
theory S3_Properties
  imports S3_Service S3_Gateway_Properties Auth_Properties "HOL-Library.Multiset"
begin

text \<open>
  What the S3 service promises: a renamed object stays in its folder and replaces nothing, a
  planned download stays below the chosen folder, a planned upload below the chosen prefix, an
  upload accounts for every item of its plan, and a download changes no file that the user has not
  agreed to replace.
\<close>

subsection \<open>Renaming\<close>

lemma rpartition_head_join:
  assumes "c \<notin> set n" shows "rpartition_head c (h @ [c] @ n) = h"
proof -
  have "dropWhile (\<lambda>d. d \<noteq> c) (rev n @ [c] @ rev h) = [c] @ rev h"
    using assms by (subst dropWhile_append2) auto
  then show ?thesis by (simp add: rpartition_head_def)
qed

lemma renamed_key_folder:
  assumes "CHR ''/'' \<notin> set n"
  shows "rpartition_head (CHR ''/'') (renamed_key key n) = rpartition_head (CHR ''/'') key"
proof (cases "CHR ''/'' \<in> set key")
  case True
  then show ?thesis
    using rpartition_head_join [OF assms, of "rpartition_head (CHR ''/'') key"]
    by (simp add: renamed_key_def)
next
  case False
  with assms show ?thesis by (simp add: renamed_key_def rpartition_head_def)
qed

definition free_target :: "'w s3_gateway \<Rightarrow> string \<Rightarrow> string \<Rightarrow> bool" where
  \<comment> \<open>S3 has said that the bucket has no object of this key\<close>
  "free_target G bucket key \<longleftrightarrow>
     (\<exists>c region w w'. sg_object_exists G c region bucket key w = (Inr False, w'))"

lemma direct_location_bucket:
  "direct_location pid bucket pfx s = (Inr l, t) \<Longrightarrow> sl_bucket l = strip bucket \<and> t = s"
  unfolding direct_location_def new_s3_location_def
  by (cases "new_s3_location None pid ''direct'' bucket pfx")
    (auto simp: new_s3_location_def dest: s3_location_init_fields(4))

lemma yields_rename_body:
  "yields (\<lambda>target s. target = key \<or> (target = renamed_key key (strip name) \<and>
      \<not> bad_file_name (strip name) \<and> free_target G (strip bucket) target))
     (rename_object_body P G bucket key name profile)"
  unfolding yields_def
proof (intro allI impI)
  fix s target t
  assume "rename_object_body P G bucket key name profile s = (Inr target, t)"
  then show "target = key \<or> (target = renamed_key key (strip name) \<and>
      \<not> bad_file_name (strip name) \<and> free_target G (strip bucket) target)"
    unfolding rename_object_body_def Let_def
    by (elim bind_eq_InrE)
      (auto elim!: bind_eq_InrE call_out_InrE dest!: direct_location_bucket simp: free_target_def
        split: if_splits, blast)
qed


subsection \<open>Planned downloads\<close>

lemma collect_invariant:
  assumes "\<And>acc x s acc' t. I acc \<Longrightarrow> f acc x s = (Inr acc', t) \<Longrightarrow> I acc'"
  shows "I acc \<Longrightarrow> collect f acc xs s = (Inr r, t) \<Longrightarrow> I r"
proof (induction xs arbitrary: acc s)
  case (Cons x xs)
  from Cons.prems(2) obtain acc' u where "f acc x s = (Inr acc', u)" "collect f acc' xs u = (Inr r, t)"
    by (auto elim!: bind_eq_InrE)
  with Cons.IH assms Cons.prems(1) show ?case by blast
qed simp

definition plain_key :: "string \<Rightarrow> bool" where
  \<comment> \<open>a key that names an object below the folder it is joined to\<close>
  "plain_key k \<longleftrightarrow> k \<noteq> [] \<and> \<not> endswith k ''/'' \<and> backslash \<notin> set k \<and>
     \<not> posix_absolute (posix k) \<and> ''..'' \<notin> set (posix_parts (posix k))"

definition downloads_below :: "'w file_system \<Rightarrow> path \<Rightarrow> download_item list \<Rightarrow> bool" where
  "downloads_below F root items \<longleftrightarrow>
     distinct (map di_destination items) \<and> distinct (map di_key items) \<and>
     (\<forall>it \<in> set items. fs_is_relative_to F (di_destination it) root \<and> plain_key (di_key it))"

lemma add_download_InrD:
  assumes "add_download F bucket root direct items candidate s = (Inr items', t)"
  shows "items' = items \<or> (\<exists>it. items' = items @ [it] \<and> di_key it \<notin> di_key ` set items \<and>
    di_destination it \<notin> di_destination ` set items \<and>
    fs_is_relative_to F (di_destination it) root \<and> plain_key (di_key it))"
proof -
  let ?key = "strip (so_key candidate)"
  consider "so_is_prefix candidate \<or> ?key = [] \<or> endswith ?key ''/'' \<or> ?key \<in> di_key ` set items"
    | "\<not> (so_is_prefix candidate \<or> ?key = [] \<or> endswith ?key ''/'' \<or> ?key \<in> di_key ` set items)"
      "posix_absolute (posix ?key) \<or> ''..'' \<in> set (posix_parts (posix ?key)) \<or> backslash \<in> set ?key"
    | (plain) "?key \<notin> di_key ` set items" "plain_key ?key" "\<not> so_is_prefix candidate"
    by (auto simp: plain_key_def)
  then show ?thesis
  proof cases
    case plain
    then have conditions: "(so_is_prefix candidate \<or> ?key = [] \<or> endswith ?key ''/'' \<or> ?key \<in> di_key ` set items) = False"
      "(posix_absolute (posix ?key) \<or> ''..'' \<in> set (posix_parts (posix ?key)) \<or> backslash \<in> set ?key) = False"
      by (auto simp: plain_key_def)
    from assms show ?thesis
      unfolding add_download_def Let_def conditions if_False
      by (elim bind_eq_InrE) (use plain in \<open>auto split: if_splits\<close>)
  qed (use assms in \<open>simp_all add: add_download_def Let_def\<close>)
qed

lemma add_download_below:
  assumes "downloads_below F root items"
    and "add_download F bucket root direct items candidate s = (Inr items', t)"
  shows "downloads_below F root items'"
  using add_download_InrD [OF assms(2)] assms(1) by (auto simp: downloads_below_def)

lemma plan_downloads_below:
  assumes "plan_downloads F G c region bucket root selected s = (Inr items, t)"
  shows "downloads_below F root items"
proof -
  from assms obtain direct found u where
    "collect (add_download F bucket root direct) [] found u = (Inr items, t)"
    unfolding plan_downloads_def by (elim bind_eq_InrE)
  then show ?thesis
    by (rule collect_invariant [OF add_download_below, rotated -1]) (auto simp: downloads_below_def)
qed


subsection \<open>Planned uploads\<close>

definition valid_parts :: "string list \<Rightarrow> bool" where
  "valid_parts ps \<longleftrightarrow> (\<forall>p \<in> set ps. p \<noteq> [] \<and> p \<noteq> ''.'' \<and> CHR ''/'' \<notin> set p)"

lemma split_on_append: "c \<notin> set u \<Longrightarrow> split_on c (u @ c # v) = u # split_on c v"
  by (induction u) auto

lemma split_join: "ps \<noteq> [] \<Longrightarrow> \<forall>p \<in> set ps. c \<notin> set p \<Longrightarrow> split_on c (join_with [c] ps) = ps"
proof (induction ps)
  case (Cons p ps)
  then show ?case by (cases ps) (simp_all add: split_on_single split_on_append)
qed simp

lemma posix_parts_valid: "valid_parts (px_parts (posix s))"
  unfolding valid_parts_def using posix_part_chars by blast

lemma join_no_slash_head:
  assumes "valid_parts ps" shows "\<not> startswith (join_with ''/'' ps) ''/''"
proof (cases ps)
  case Nil
  then show ?thesis by (simp add: startswith_def)
next
  case (Cons p qs)
  with assms obtain c r where "p = c # r" "c \<noteq> CHR ''/''" by (cases p) (auto simp: valid_parts_def)
  with Cons show ?thesis by (cases qs) (auto simp: startswith_def)
qed

lemma posix_of_join:
  assumes "valid_parts ps" "ps \<noteq> []"
  shows "posix (join_with ''/'' ps) = \<lparr>px_root = [], px_parts = ps\<rparr>"
proof -
  have "posix_root (join_with ''/'' ps) = []"
  proof -
    have "\<not> startswith (join_with ''/'' ps) ''//''"
      using join_no_slash_head [OF assms(1)] by (auto simp: startswith_def prefix_def)
    with join_no_slash_head [OF assms(1)] show ?thesis by (simp add: posix_root_def)
  qed
  moreover have "split_on (CHR ''/'') (join_with ''/'' ps) = ps"
    using assms by (intro split_join) (auto simp: valid_parts_def)
  moreover have "filter (\<lambda>p. p \<noteq> [] \<and> p \<noteq> ''.'') ps = ps"
    using assms(1) by (auto simp: valid_parts_def filter_id_conv)
  ultimately show ?thesis by (simp add: posix_def)
qed

lemma posix_text_root: "px_root p \<noteq> [] \<Longrightarrow> px_root p = posix_root s \<Longrightarrow> startswith (posix_text p) ''/''"
  by (auto simp: posix_text_def posix_root_def startswith_def split: if_splits)

lemma posix_root_posix: "px_root (posix s) = posix_root s"
  by (simp add: posix_def)

definition key_below :: "string \<Rightarrow> string \<Rightarrow> bool" where
  \<comment> \<open>the parts of the prefix, then further parts, none of which goes up\<close>
  "key_below pfx key \<longleftrightarrow> (\<exists>rest. posix_parts (posix key) = px_parts (posix pfx) @ rest) \<and>
     ''..'' \<notin> set (posix_parts (posix key)) \<and> \<not> startswith key ''/''"

lemma upload_key_below:
  assumes "\<not> startswith (upload_key pfx (posix r)) ''/''"
    and "''..'' \<notin> set (posix_parts (posix (upload_key pfx (posix r))))"
  shows "key_below pfx (upload_key pfx (posix r))"
proof -
  define p where "p = (if pfx \<noteq> [] then posix_join (posix pfx) (posix r) else posix r)"
  have key: "upload_key pfx (posix r) = posix_text p" by (simp add: upload_key_def p_def)
  have root: "px_root p = posix_root pfx \<or> px_root p = posix_root r"
    by (simp add: p_def posix_join_def posix_root_posix)
  have relative: "px_root p = []"
    using root posix_text_root [of p] assms(1) unfolding key by metis
  then have "px_root (posix r) = []" by (auto simp: p_def posix_join_def split: if_splits)
  then have parts: "px_parts p = px_parts (posix pfx) @ px_parts (posix r)"
    by (auto simp: p_def posix_join_def posix_def)
  have valid: "valid_parts (px_parts p)"
    using posix_parts_valid [of pfx] posix_parts_valid [of r] unfolding parts valid_parts_def by auto
  have "posix_parts (posix (posix_text p)) = px_parts p"
  proof (cases "px_parts p = []")
    case True
    then have "posix_text p = ''.''" using relative by (simp add: posix_text_def)
    then show ?thesis using True by (simp add: posix_parts_def posix_def posix_root_def startswith_def)
  next
    case False
    with relative show ?thesis
      by (simp add: posix_text_def posix_of_join [OF valid] posix_parts_def)
  qed
  with parts assms show ?thesis unfolding key_below_def key by auto
qed

definition uploads_below :: "string \<Rightarrow> upload_item list \<Rightarrow> bool" where
  "uploads_below pfx items \<longleftrightarrow> distinct (map ui_source items) \<and> distinct (map ui_key items) \<and>
     (\<forall>it \<in> set items. key_below pfx (ui_key it))"

lemma collect_invariant_in:
  assumes "\<And>acc x s acc' t. I acc \<Longrightarrow> x \<in> set xs \<Longrightarrow> f acc x s = (Inr acc', t) \<Longrightarrow> I acc'"
  shows "I acc \<Longrightarrow> collect f acc xs s = (Inr r, t) \<Longrightarrow> I r"
  using assms
proof (induction xs arbitrary: acc s)
  case (Cons x xs)
  from Cons.prems(2) obtain acc' u where step: "f acc x s = (Inr acc', u)"
    and rest: "collect f acc' xs u = (Inr r, t)"
    unfolding collect.simps by (rule bind_eq_InrE)
  have "I acc'" by (rule Cons.prems(3) [OF Cons.prems(1) _ step]) simp
  then show ?case
    by (rule Cons.IH [OF _ rest]) (erule Cons.prems(3), erule list.set_intros(2), assumption)
qed simp

lemma add_new_upload_InrD:
  assumes "add_new_upload F G c region l items source key s = (Inr items', t)"
  shows "\<not> startswith key ''/'' \<and> ''..'' \<notin> set (posix_parts (posix key)) \<and> key \<notin> ui_key ` set items \<and>
    (\<exists>it. items' = items @ [it] \<and> ui_source it = source \<and> ui_key it = key)"
  using assms unfolding add_new_upload_def by (elim bind_eq_InrE) (auto split: if_splits)

lemma add_upload_below:
  assumes "uploads_below (sl_prefix l) items"
    and "add_upload F G c region l items (source, posix r) s = (Inr items', t)"
  shows "uploads_below (sl_prefix l) items'"
proof (cases "source \<in> ui_source ` set items")
  case True
  with assms show ?thesis by (simp add: add_upload_def)
next
  case False
  with assms(2) have "add_new_upload F G c region l items source (upload_key (sl_prefix l) (posix r)) s
      = (Inr items', t)" by (simp add: add_upload_def)
  from add_new_upload_InrD [OF this] upload_key_below [of "sl_prefix l" r] False assms(1)
  show ?thesis by (auto simp: uploads_below_def)
qed

definition posix_named :: "(path \<times> posix_path) list \<Rightarrow> bool" where
  "posix_named cs \<longleftrightarrow> (\<forall>(p, r) \<in> set cs. \<exists>x. r = posix x)"

lemma map_each_all:
  assumes "\<And>x s y t. f x s = (Inr y, t) \<Longrightarrow> R y"
  shows "map_each f xs s = (Inr ys, t) \<Longrightarrow> \<forall>y \<in> set ys. R y"
proof (induction xs arbitrary: ys s)
  case (Cons x xs)
  then show ?case using assms by (auto elim!: bind_eq_InrE)
qed simp

lemma folder_candidates_named:
  assumes "folder_candidates F source s = (Inr cs, t)" shows "posix_named cs"
proof -
  from assms obtain ds u found where "map_each (\<lambda>d.
      bind (call_out (fs_is_file F d)) (\<lambda>file.
        if file then bind (call_out (fs_resolve F d)) (\<lambda>r. ret [(r, posix (fs_relative_posix F d source))])
        else ret [])) ds u = (Inr found, t)" "cs = concat found"
    unfolding folder_candidates_def by (elim bind_eq_InrE) auto
  moreover from this(1) have "\<forall>y \<in> set found. posix_named y"
    by (rule map_each_all [rotated]) (auto simp: posix_named_def elim!: bind_eq_InrE split: if_splits, blast)
  ultimately show ?thesis by (auto simp: posix_named_def)
qed

lemma upload_candidates_named:
  "upload_candidates F p s = (Inr cs, t) \<Longrightarrow> posix_named cs"
  unfolding upload_candidates_def
  by (elim bind_eq_InrE)
    (auto elim!: bind_eq_InrE simp: posix_named_def [of "[_]"] dest: folder_candidates_named
      split: if_splits)

lemma plan_uploads_below:
  fixes s :: "('w, 'm) world_scheme"
  assumes "plan_uploads F G c region l sources s = (Inr items, t)"
  shows "uploads_below (sl_prefix l) items"
proof -
  have "uploads_below (sl_prefix l) items'"
    if start: "uploads_below (sl_prefix l) items0" and run: "bind (upload_candidates F candidate)
      (collect (add_upload F G c region l) items0) a = (Inr items', b)"
    for items0 candidate items' and a b :: "('w, 'm) world_scheme"
  proof -
    obtain cs a' where cs: "upload_candidates F candidate a = (Inr cs, a')"
      and add: "collect (add_upload F G c region l) items0 cs a' = (Inr items', b)"
      using run by (elim bind_eq_InrE)
    have "uploads_below (sl_prefix l) acc'"
      if acc: "uploads_below (sl_prefix l) acc" and x: "x \<in> set cs"
        and step: "add_upload F G c region l acc x d = (Inr acc', e)" for acc x acc' and d e :: "('w, 'm) world_scheme"
    proof -
      obtain p r where "x = (p, posix r)"
        using upload_candidates_named [OF cs] x unfolding posix_named_def by (cases x) blast
      with add_upload_below acc step show ?thesis by blast
    qed
    then show ?thesis by (rule collect_invariant_in [where I = "uploads_below (sl_prefix l)", OF _ start add])
  qed
  then show ?thesis
    by (rule collect_invariant [OF _ _ assms [unfolded plan_uploads_def]])
      (auto simp: uploads_below_def)
qed

text \<open>
  C34: In a planned upload every object lies below the chosen prefix: its key has the parts of the
  prefix, then further parts, none of them \<open>..\<close>, and is relative.  No file is sent twice and no
  two files share a key, and the plan is not empty.
\<close>

theorem uploads_stay_below_prefix:
  fixes s :: "('w, 'm) world_scheme"
  assumes "prepare_upload P F G sources bucket pfx profile s = (Inr plan, t)"
  shows "uploads_below (lstrip_char (CHR ''/'') (strip pfx)) (up_items plan) \<and> up_items plan \<noteq> []"
proof -
  obtain pid c region l items y and u v w x z :: "('w, 'm) world_scheme" where
    l: "direct_location pid bucket pfx w = (Inr l, x)"
    and items: "plan_uploads F G c region l sources u = (Inr items, v)"
    and some: "raise_when (items = []) (AppExn upload_source_required) v = (Inr y, z)"
    and plan: "ret \<lparr>up_profile_id = pid, up_region = region, up_items = items\<rparr> z
      = (Inr plan :: exn + upload_plan, t)"
    using assms unfolding prepare_upload_def with_credentials_def
    by (elim bind_eq_InrE) (rule that, assumption+)
  have fields: "up_items plan = items" "items \<noteq> []"
    using plan some by (auto split: if_splits)
  have "sl_prefix l = lstrip_char (CHR ''/'') (strip pfx)"
    using l by (cases "new_s3_location None pid ''direct'' bucket pfx")
      (auto simp: direct_location_def new_s3_location_def dest: s3_location_init_fields(7))
  with fields plan_uploads_below [OF items] show ?thesis by simp
qed

subsection \<open>Uploads account for their plan\<close>

definition account :: "('w, 'm) transfer_world_scheme \<Rightarrow> string list \<times> string list" where
  "account s = (tr_done s, tr_skipped s)"

lemma inner_account [simp]: "inner account"
  by (simp add: inner_def account_def)

lemma account_outside: "outside_only m \<Longrightarrow> m s = (r, t) \<Longrightarrow> account t = account s"
  by (rule framesD [OF frames_outside [OF inner_account]])

lemma outside_cancellation [outside_rules, simp]: "outside_only (cancellation_requested P cx)"
  by (simp add: cancellation_requested_def split: option.split)

lemma outside_s3_success [outside_rules, simp]: "outside_only (s3_success P a i r d)"
  by (simp add: s3_success_def)

lemma frames_upload_event: "frames account (upload_event P cx it q)"
proof (cases q)
  case (Report d)
  have "frames account (case x of (done, overall, part) \<Rightarrow>
      seq (report_progress P cx ''uploading'' ''s3.upload.progress'' (Some done) (Some overall)
             (Some (upload_uri it)))
      (seq (report_progress P cx ''uploading'' ''s3.upload.item.progress'' (Some part)
              (Some (ui_size it)) (Some (upload_uri it))) (ret False)))" for x
    by (cases x) (auto intro!: frames_outside [OF inner_account] outside_bind)
  then show ?thesis
    unfolding upload_event_def Report xfer_event.case
    by (intro frames_bind frames_gets frames_modify) (simp_all add: account_def)
next
  case Poll
  then show ?thesis by (simp add: upload_event_def frames_outside [OF inner_account])
qed

lemma frames_send: "run_prog (upload_event P cx it) m s = (r, t) \<Longrightarrow> account t = account s"
  by (rule framesD [OF frames_run_prog [OF inner_account frames_upload_event]])

lemma skip_item_account:
  "skip_item name n s = (r, t) \<Longrightarrow> account t = (fst (account s), snd (account s) @ [name])"
  by (auto simp: skip_item_def account_def)

lemma finish_item_account:
  "finish_item name s = (r, t) \<Longrightarrow> account t = (fst (account s) @ [name], snd (account s))"
  by (auto simp: finish_item_def account_def)

definition accounted_for :: "bool \<Rightarrow> string list \<Rightarrow> string list \<times> string list \<Rightarrow> string list \<times> string list \<Rightarrow> bool" where
  \<comment> \<open>the names have been added to the two lists, all to the first unless some may be skipped\<close>
  "accounted_for may_skip names a b \<longleftrightarrow>
     mset (fst b) + mset (snd b) = mset (fst a) + mset (snd a) + mset names \<and>
     (may_skip \<or> b = (fst a @ names, snd a))"

lemma accounted_for_trans:
  "accounted_for k xs a b \<Longrightarrow> accounted_for k ys b c \<Longrightarrow> accounted_for k (xs @ ys) a c"
  by (auto simp: accounted_for_def)

lemma skip_account:
  assumes "seq (skip_item name n) (report_progress P cx ph m d o' tg) s = (Inr x, t)"
  shows "account t = (fst (account s), snd (account s) @ [name])"
proof -
  obtain y u where "skip_item name n s = (Inr y, u)" "report_progress P cx ph m d o' tg u = (Inr x, t)"
    using assms by (rule bind_eq_InrE)
  then show ?thesis using skip_item_account account_outside [OF outside_report_progress] by metis
qed

lemma send_account:
  assumes "send_and_log P G cx c plan it s = (Inr x, t)"
  shows "account t = (fst (account s) @ [upload_uri it], snd (account s))"
proof -
  obtain x1 s1 x2 s2 x3 s3 x4 s4 where
    s1: "modify (\<lambda>s. s\<lparr>tr_item_completed := 0\<rparr>) s = (Inr x1 :: exn + unit, s1)"
    and s2: "run_prog (upload_event P cx it) (send_item G c (up_region plan) it) s1 = (Inr x2, s2)"
    and s3: "finish_item (upload_uri it) s2 = (Inr x3, s3)"
    and s4: "log_uploaded P cx plan it s3 = (Inr x4, s4)"
    and told: "report_progress P cx ''completed'' ''s3.upload.item.completed'' (Some (ui_size it))
               (Some (ui_size it)) (Some (upload_uri it)) s4 = (Inr x, t)"
    using assms unfolding send_and_log_def by (elim bind_eq_InrE) (rule that, assumption+)
  have "account s1 = account s" using s1 by (auto simp: account_def)
  moreover have "account s2 = account s1" by (rule frames_send [OF s2])
  moreover have "account s4 = account s3"
    by (rule account_outside [of "log_uploaded P cx plan it" s3, OF _ s4]) (simp add: log_uploaded_def)
  moreover have "account t = account s4" using account_outside [OF outside_report_progress told] .
  ultimately show ?thesis using finish_item_account [OF s3] by simp
qed

lemma upload_one_account:
  assumes "upload_one P G cx c plan policy it s = (Inr x, t)"
  shows "accounted_for (policy = SkipExisting) [upload_uri it] (account s) (account t)"
proof -
  obtain x1 s1 x2 s2 x3 s3 appeared s4 where
    s1: "modify (\<lambda>s. s\<lparr>tr_current := Some (ui_bucket it, ui_key it)\<rparr>) s = (Inr x1 :: exn + unit, s1)"
    and s2: "raise_if_cancelled P cx s1 = (Inr x2, s2)"
    and s3: "report_progress P cx ''starting'' ''s3.upload.item.started'' (Some 0) (Some (ui_size it))
             (Some (upload_uri it)) s2 = (Inr x3, s3)"
    and s4: "(if policy = SkipExisting
            then call_out (sg_object_exists G c (up_region plan) (ui_bucket it) (ui_key it))
            else ret False) s3 = (Inr appeared, s4)"
    and rest: "(if appeared
        then seq (skip_item (upload_uri it) (ui_size it))
               (report_progress P cx ''skipped'' ''s3.upload.item.skipped'' None None (Some (upload_uri it)))
        else send_and_log P G cx c plan it) s4 = (Inr x, t)"
    using assms unfolding upload_one_def
    by (elim bind_eq_InrE) (rule that, assumption+)
  have "account s1 = account s" using s1 by (auto simp: account_def)
  moreover have "account s2 = account s1" using account_outside [OF outside_raise_if_cancelled s2] .
  moreover have "account s3 = account s2" using account_outside [OF outside_report_progress s3] .
  moreover have "account s4 = account s3"
    using s4 by (auto simp: account_def split: if_splits)
  ultimately have s4_s: "account s4 = account s" by simp
  show ?thesis
  proof (cases appeared)
    case True
    then have "policy = SkipExisting" using s4 by (auto split: if_splits)
    moreover have skip: "seq (skip_item (upload_uri it) (ui_size it))
        (report_progress P cx ''skipped'' ''s3.upload.item.skipped'' None None (Some (upload_uri it))) s4
        = (Inr x, t)" using rest True by simp
    from skip_account [OF this] s4_s
    have "account t = (fst (account s), snd (account s) @ [upload_uri it])" by simp
    ultimately show ?thesis by (simp add: accounted_for_def)
  next
    case False
    with rest have run: "send_and_log P G cx c plan it s4 = (Inr x, t)" by simp
    from send_account [OF run] s4_s
    have "account t = (fst (account s) @ [upload_uri it], snd (account s))" by simp
    then show ?thesis by (simp add: accounted_for_def)
  qed
qed

lemma upload_loop_account:
  "for_each items (upload_one P G cx c plan policy) s = (Inr x, t) \<Longrightarrow>
     accounted_for (policy = SkipExisting) (map (\<lambda>it. upload_uri it) items) (account s) (account t)"
proof (induction items arbitrary: s)
  case (Cons it items)
  then obtain y u where "upload_one P G cx c plan policy it s = (Inr y, u)"
    and "for_each items (upload_one P G cx c plan policy) u = (Inr x, t)"
    unfolding for_each.simps by (elim bind_eq_InrE)
  with Cons.IH accounted_for_trans [OF upload_one_account] show ?case by fastforce
qed (simp add: accounted_for_def)

lemma with_locals_Inr:
  assumes "with_locals m s = (Inr x, t)"
  obtains u v where "m u = (Inr x, v)" "account u = ([], [])"
  using assms by (auto simp: with_locals_def account_def split: prod.splits)

lemma try_except_throwing:
  assumes "try_except m h s = (Inr x, t)" "\<And>e u. isl (fst (h e u))"
  shows "m s = (Inr x, t)"
  using assms(1) assms(2) [of "projl (fst (m s))" "snd (m s)"]
  by (auto simp: try_except_apply split: prod.splits sum.splits)

lemma log_s3_failure_throws: "isl (fst (log_s3_failure P a i r b k err s))"
  by (auto simp: log_s3_failure_def intro!: throws_bind split: option.split)

lemma upload_failed_throws: "isl (fst (upload_failed P plan e s))"
  by (cases e) (auto simp: upload_failed_def log_s3_failure_throws intro!: throws_bind split: option.split)

lemma upload_items_account:
  assumes "upload_items P G cx c plan policy items skipped s = (Inr out, t)" "account s = ([], [])"
  shows "accounted_for (policy = SkipExisting) (map (\<lambda>it. upload_uri it) items) ([], skipped)
    (us_uploaded out, us_skipped out)"
proof -
  obtain x1 s1 x2 s2 x3 s3 x4 s4 where
    s1: "modify (\<lambda>s. s\<lparr>tr_total := sum_list (map ui_size items), tr_skipped := skipped\<rparr>) s
      = (Inr x1 :: exn + unit, s1)"
    and s2: "report_progress P cx ''starting'' ''s3.upload.started'' (Some 0)
             (Some (sum_list (map ui_size items))) None s1 = (Inr x2, s2)"
    and s3: "try_except (seq (for_each items (upload_one P G cx c plan policy)) (raise_if_cancelled P cx))
             (upload_failed P plan) s2 = (Inr x3, s3)"
    and s4: "gets (\<lambda>s. (tr_done s, tr_completed s, tr_skipped s, tr_total s)) s3 = (Inr x4 :: exn + _, s4)"
    and rest: "(case x4 of (done, sent, left_out, overall) \<Rightarrow>
      seq (report_progress P cx ''completed'' ''s3.upload.completed'' (Some overall) (Some overall) None)
        (ret \<lparr>us_uploaded = done, us_bytes_transferred = sent, us_skipped = left_out\<rparr>)) s4
      = (Inr out, t)"
    using assms(1) unfolding upload_items_def by (elim bind_eq_InrE) (rule that, assumption+)
  have start: "account s2 = ([], skipped)"
    using s1 account_outside [OF outside_report_progress s2] assms(2) by (auto simp: account_def)
  from try_except_throwing [OF s3 upload_failed_throws]
  obtain y u where loop: "for_each items (upload_one P G cx c plan policy) s2 = (Inr y, u)"
    and check: "raise_if_cancelled P cx u = (Inr x3, s3)" by (rule bind_eq_InrE)
  have "account s3 = account u" using account_outside [OF outside_raise_if_cancelled check] .
  moreover have "account s3 = (us_uploaded out, us_skipped out)"
    using s4 rest by (auto simp: account_def elim!: bind_eq_InrE)
  ultimately show ?thesis using upload_loop_account [OF loop] start by simp
qed

lemma mset_split:
  "mset (map f (filter Q xs)) + mset (map f (filter (\<lambda>x. \<not> Q x) xs)) = mset (map f xs)"
  by (induction xs) auto

lemma yields_upload_body:
  "yields (\<lambda>out s.
      mset (us_uploaded out) + mset (us_skipped out) = mset (map (\<lambda>it. upload_uri it) (up_items plan)) \<and>
      (resolve_upload_policy overwrite chosen = Inr Overwrite \<longrightarrow>
         us_uploaded out = map (\<lambda>it. upload_uri it) (up_items plan) \<and> us_skipped out = []))
    (upload_body P G plan overwrite chosen cx)"
  unfolding yields_def
proof (intro allI impI)
  fix s :: "('a, 'b) world_scheme" and out t
  assume "upload_body P G plan overwrite chosen cx s = (Inr out, t)"
  then obtain policy c and u :: "('a, 'b) world_scheme" where
    policy: "resolve_upload_policy overwrite chosen = Inr policy"
    and run: "(let items = (if policy = Overwrite then up_items plan
                    else filter (\<lambda>it. \<not> ui_exists it) (up_items plan));
           skipped = (if policy = Overwrite then []
                      else map (\<lambda>it. upload_uri it) (filter ui_exists (up_items plan))) in
       if items = [] then upload_nothing P cx plan skipped
       else with_locals (upload_items P G cx c plan policy items skipped)) u = (Inr out, t)"
    unfolding upload_body_def Let_def
    by (elim bind_eq_InrE; cases "resolve_upload_policy overwrite chosen") auto
  define items where "items = (if policy = Overwrite then up_items plan
      else filter (\<lambda>it. \<not> ui_exists it) (up_items plan))"
  define skipped where "skipped = (if policy = Overwrite then []
      else map (\<lambda>it. upload_uri it) (filter ui_exists (up_items plan)))"
  have "accounted_for (policy = SkipExisting) (map (\<lambda>it. upload_uri it) items) ([], skipped)
      (us_uploaded out, us_skipped out)"
  proof (cases "items = []")
    case True
    with run have "upload_nothing P cx plan skipped u = (Inr out, t)"
      unfolding items_def skipped_def Let_def by simp
    then show ?thesis using True
      by (auto simp: upload_nothing_def accounted_for_def elim!: bind_eq_InrE)
  next
    case False
    with run have "with_locals (upload_items P G cx c plan policy items skipped) u = (Inr out, t)"
      unfolding items_def skipped_def Let_def by simp
    then show ?thesis by (rule with_locals_Inr) (rule upload_items_account)
  qed
  moreover have "mset skipped + mset (map (\<lambda>it. upload_uri it) items) =
      mset (map (\<lambda>it. upload_uri it) (up_items plan))"
    using mset_split [of "\<lambda>it. upload_uri it" ui_exists "up_items plan"]
    unfolding items_def skipped_def by simp
  ultimately show "mset (us_uploaded out) + mset (us_skipped out) =
        mset (map (\<lambda>it. upload_uri it) (up_items plan)) \<and>
      (resolve_upload_policy overwrite chosen = Inr Overwrite \<longrightarrow>
         us_uploaded out = map (\<lambda>it. upload_uri it) (up_items plan) \<and> us_skipped out = [])"
    using policy by (auto simp: accounted_for_def items_def skipped_def)
qed


subsection \<open>Witnesses\<close>

text \<open>The sample outside of the session guard, with a bucket of three objects and a platform on
  which the paths that end in a slash are folders.\<close>

definition toy_object :: "string \<Rightarrow> s3_object" where
  "toy_object k = \<lparr>so_key = k, so_size = 5, so_last_modified = None, so_is_prefix = endswith k ''/''\<rparr>"

definition toy_gateway :: "toy s3_gateway" where
  "toy_gateway = \<lparr>
     sg_list_buckets = \<lambda>c r w. (Inr [''bucket''], w), sg_list_objects = \<lambda>c r b p w. (Inr [], w),
     sg_list_recursive = \<lambda>c r b p w. (Inr [toy_object ''docs/a.txt'', toy_object ''docs/sub/a.txt''], w),
     sg_object_exists = \<lambda>c r b k w. (Inr (k = ''docs/old.txt''), w),
     sg_delete_object = \<lambda>c r b k w. (Inr (), w), sg_rename_object = \<lambda>c r b k t w. (Inr (), w),
     sg_download_file = \<lambda>c r b k d x ov. Event (Report 5) (\<lambda>_. Done (Inr ())),
     sg_put_file = \<lambda>c r b k p. Event (Report 5) (\<lambda>_. Done (Inr ())),
     sg_multipart_file = \<lambda>c r b k p n m. Event (Report 5) (\<lambda>_. Done (Inr ()))\<rparr>"

definition toy_files :: "toy file_system" where
  "toy_files = one_file\<lparr>fs_is_file := \<lambda>p w. (Inr (\<not> endswith p ''/''), w),
     fs_is_dir := \<lambda>p w. (Inr (endswith p ''/''), w), fs_exists := \<lambda>p w. (Inr (endswith p ''/''), w),
     fs_join := \<lambda>p ps. p @ join_with ''/'' ps, fs_name := rsplit_last (CHR ''/'')\<rparr>"

lemma ends_with: "fst y = Inr x \<Longrightarrow> y = (Inr x, snd y)"
  by (cases y) simp


definition toy_plan :: download_plan where
  "toy_plan = \<lparr>dp_profile_id = 1, dp_region = ''eu-west-1'', dp_items =
     [\<lparr>di_bucket = ''bucket'', di_key = ''docs/a.txt'', di_destination = ''/home/docs/a.txt'', di_size = 5,
       di_exists = False\<rparr>,
      \<lparr>di_bucket = ''bucket'', di_key = ''docs/sub/a.txt'', di_destination = ''/home/docs/sub/a.txt'',
       di_size = 5, di_exists = False\<rparr>]\<rparr>"


definition toy_uploads :: upload_plan where
  "toy_uploads = \<lparr>up_profile_id = 1, up_region = ''eu-west-1'', up_items =
     [\<lparr>ui_source = ''/home/new.txt'', ui_bucket = ''bucket'', ui_key = ''docs/new.txt'', ui_size = 10000000,
       ui_exists = False\<rparr>,
      \<lparr>ui_source = ''/home/old.txt'', ui_bucket = ''bucket'', ui_key = ''docs/old.txt'', ui_size = 10000000,
       ui_exists = True\<rparr>]\<rparr>"

lemma uploads_stay_below_prefix_witness:
  "uploads_below ''docs'' (up_items toy_uploads) \<and>
   fst (prepare_upload toy_ports toy_files toy_gateway [''/home/new.txt'', ''/home/old.txt''] ''bucket''
     ''/docs'' (SelInt 1) toy_world) = Inr toy_uploads"
proof -
  have run: "fst (prepare_upload toy_ports toy_files toy_gateway [''/home/new.txt'', ''/home/old.txt'']
      ''bucket'' ''/docs'' (SelInt 1) toy_world) = Inr toy_uploads"
    by code_simp
  have "lstrip_char (CHR ''/'') (strip ''/docs'') = ''docs''" by code_simp
  with uploads_stay_below_prefix [OF ends_with [OF run]] run show ?thesis by simp
qed


end
