(* ===== verification/S3_Downloads.thy ===== *)
theory S3_Downloads
  imports S3_Properties
begin

text \<open>
  A download changes no file the user has not agreed to replace.  The argument goes from the file
  system and boto3 (\<open>files_kept\<close>, their documented behaviour) over the gateway, which writes to
  a temporary file and moves it, to the use case of the service with its progress, its history
  and the session guard (\<open>ports_keep\<close>: none of these writes the file).
\<close>

subsection \<open>Operations that keep a property of the outside\<close>

definition ports_keep :: "('w \<Rightarrow> bool) \<Rightarrow> 'w ports \<Rightarrow> bool" where
  "ports_keep R P \<longleftrightarrow>
     (\<forall>w. R w \<longrightarrow> R (snd (pt_now P w))) \<and> (\<forall>w. R w \<longrightarrow> R (snd (pt_uuid P w))) \<and>
     (\<forall>b. keeps R (pt_unprotect P b)) \<and> (\<forall>c region. keeps R (pt_get_identity P c region)) \<and>
     (\<forall>r who call. pt_recorder P = Some r \<longrightarrow> keeps R (r who call)) \<and>
     (\<forall>t w. R w \<longrightarrow> R (snd (pt_cancelled P t w))) \<and> (\<forall>e. keeps R (pt_progress P e))"

abbreviation keeps_out :: "('w \<Rightarrow> bool) \<Rightarrow> ('w, 'm, 'a) io \<Rightarrow> bool" where
  "keeps_out R m \<equiv> keeps (\<lambda>s. R (w_out s)) m"

named_theorems out_rules "operations that keep a property of the outside"

lemma out_call [out_rules]: "keeps R f \<Longrightarrow> keeps_out R (call_out f)"
  by (simp add: keeps_def)

lemma out_ask: "(\<And>w. R w \<Longrightarrow> R (snd (f w))) \<Longrightarrow> keeps_out R (ask f)"
  by (simp add: keeps_def)

lemma out_on_db [out_rules, simp]: "keeps_out R (on_db m)"
  by (simp add: keeps_def)

lemma out_modify: "(\<And>s. w_out (f s) = w_out s) \<Longrightarrow> keeps_out R (modify f)"
  by (simp add: keeps_def)

lemma out_log [out_rules]: "ports_keep R P \<Longrightarrow> keeps_out R (record_log P c)"
  unfolding record_log_def ports_keep_def
  by (auto intro!: keeps_bind out_call split: option.split)

lemma out_success [out_rules]: "ports_keep R P \<Longrightarrow> keeps_out R (record_success P f a d)"
  by (simp add: record_success_def out_log)

lemma out_failure [out_rules]: "ports_keep R P \<Longrightarrow> keeps_out R (record_failure P f a e d)"
  unfolding record_failure_def Let_def by (intro keeps_bind keeps_gets keeps_ret out_log)

lemma out_clock [out_rules]: "ports_keep R P \<Longrightarrow> keeps_out R (clock_now P)"
  unfolding clock_now_def ports_keep_def by (intro out_ask) blast

lemma out_uuid [out_rules]: "ports_keep R P \<Longrightarrow> keeps_out R (new_uuid P)"
  unfolding new_uuid_def ports_keep_def by (intro out_ask) blast

lemma out_unprotect [out_rules]: "ports_keep R P \<Longrightarrow> keeps_out R (unprotect P b)"
  unfolding unprotect_def ports_keep_def by (intro out_call) blast

lemma out_identity [out_rules]: "ports_keep R P \<Longrightarrow> keeps_out R (get_identity P c r)"
  unfolding get_identity_def ports_keep_def by (intro out_call) blast

lemma out_cancelled [out_rules]: "ports_keep R P \<Longrightarrow> keeps_out R (cancellation_requested P cx)"
  unfolding cancellation_requested_def ports_keep_def
  by (auto intro!: out_ask split: option.split)

lemma out_raise_if_cancelled [out_rules]: "ports_keep R P \<Longrightarrow> keeps_out R (raise_if_cancelled P cx)"
  unfolding raise_if_cancelled_def ports_keep_def
  by (auto intro!: keeps_bind out_ask split: option.split)

lemma out_report [out_rules]: "ports_keep R P \<Longrightarrow> keeps_out R (report_progress P cx ph m d t tg)"
  unfolding report_progress_def ports_keep_def by (auto intro!: out_call)

lemma out_resolve [out_rules]: "keeps_out R (resolve_profile sel)"
  unfolding resolve_profile_def
  by (intro keeps_bind) (auto split: selector.split option.split intro!: keeps_bind)

lemma out_guard [out_rules]: "ports_keep R P \<Longrightarrow> keeps_out R (guard_credentials P sel)"
  unfolding guard_credentials_def verified_credentials_def assert_identity_def
  by (auto intro!: keeps_bind keeps_try_except out_rules split: option.split)

lemma out_require [out_rules]: "ports_keep R P \<Longrightarrow> keeps_out R (require_credentials P i)"
  unfolding require_credentials_def by (auto intro!: keeps_bind out_rules split: option.split)

lemma out_scope:
  assumes "ports_keep R P" "\<And>who. keeps_out R (body who)"
  shows "keeps_out R (execution_scope P c i body)"
proof -
  have "keeps_out R (try_finally (body who) (modify (\<lambda>s. s\<lparr>w_exec := e\<rparr>)))" for who e
    by (intro keeps_try_finally assms(2) out_modify) simp
  then show ?thesis
    unfolding execution_scope_def
    by (intro keeps_bind keeps_gets out_modify)
      (auto intro: out_uuid [OF assms(1)] split: option.split prod.split)
qed

lemma out_outcome [out_rules]: "ports_keep R P \<Longrightarrow> keeps_out R (log_outcome P f a t e)"
  unfolding log_outcome_def by (auto intro!: keeps_bind out_rules split: exn.split)

lemma out_logged:
  assumes "ports_keep R P" "\<And>cx. keeps_out R (body cx)"
  shows "keeps_out R (logged P f a c t k cx body)"
proof (cases "pt_recorder P")
  case None
  with assms(2) show ?thesis by (simp add: logged_def)
next
  case (Some r)
  show ?thesis
    unfolding logged_def Some option.case Let_def
    by (intro out_scope assms keeps_bind keeps_try_except out_log out_outcome)
      (auto intro: out_log [OF assms(1)] split: option.split)
qed

subsection \<open>The gateway\<close>

definition files_kept :: "('w \<Rightarrow> path \<Rightarrow> 'c option) \<Rightarrow> path \<Rightarrow> 'c \<Rightarrow> 'w s3_client \<Rightarrow> 'w file_system \<Rightarrow> bool" where
  \<comment> \<open>what the platform and boto3 document, for a file \<open>p\<close> of content \<open>x\<close>: a temporary file is
    new, \<open>link\<close> never and \<open>rename\<close> (on Windows) not replaces an existing file, every other
    operation writes only the file it names\<close>
  "files_kept content p x C F \<longleftrightarrow> (let R = (\<lambda>w. content w p = Some x) in
     (\<forall>c region. keeps R (c3_open C c region)) \<and> (\<forall>q. keeps R (fs_exists F q)) \<and>
     (\<forall>q. keeps R (fs_make_dirs F q)) \<and>
     (\<forall>d w. R w \<longrightarrow> R (snd (fs_temporary F d w)) \<and> fst (fs_temporary F d w) \<noteq> Inr p) \<and>
     (\<forall>client bucket key q. q \<noteq> p \<longrightarrow> prog_keeps R (c3_download_file C client bucket key q)) \<and>
     (\<forall>a d. a \<noteq> p \<longrightarrow> d \<noteq> p \<longrightarrow> keeps R (fs_replace F a d)) \<and>
     (fs_windows F \<longrightarrow> (\<forall>a d. a \<noteq> p \<longrightarrow> keeps R (fs_rename F a d))) \<and>
     (\<forall>a d. keeps R (fs_link F a d)) \<and>
     (\<forall>a. a \<noteq> p \<longrightarrow> keeps R (fs_unlink F a)) \<and> (\<forall>a. a \<noteq> p \<longrightarrow> keeps R (fs_unlink_if_present F a)))"

lemma files_keptD:
  assumes "files_kept content p x C F"
  shows "keeps (\<lambda>w. content w p = Some x) (c3_open C c region)"
    "keeps (\<lambda>w. content w p = Some x) (fs_exists F q)"
    "keeps (\<lambda>w. content w p = Some x) (fs_make_dirs F q)"
    "content w p = Some x \<Longrightarrow> content (snd (fs_temporary F d w)) p = Some x \<and> fst (fs_temporary F d w) \<noteq> Inr p"
    "q \<noteq> p \<Longrightarrow> prog_keeps (\<lambda>w. content w p = Some x) (c3_download_file C client bucket key q)"
    "q \<noteq> p \<Longrightarrow> d \<noteq> p \<Longrightarrow> keeps (\<lambda>w. content w p = Some x) (fs_replace F q d)"
    "fs_windows F \<Longrightarrow> q \<noteq> p \<Longrightarrow> keeps (\<lambda>w. content w p = Some x) (fs_rename F q d)"
    "keeps (\<lambda>w. content w p = Some x) (fs_link F q d)"
    "q \<noteq> p \<Longrightarrow> keeps (\<lambda>w. content w p = Some x) (fs_unlink F q)"
    "q \<noteq> p \<Longrightarrow> keeps (\<lambda>w. content w p = Some x) (fs_unlink_if_present F q)"
  using assms by (simp_all add: files_kept_def Let_def)

lemma poll_keeps [simp]: "prog_keeps R raise_if_polled" "prog_keeps R (poll_if b)"
  by (auto simp: raise_if_polled_def poll_if_def intro!: prog_keeps_pbind)

lemma transferred_keeps [simp]: "prog_keeps R (transferred b d)"
  by (auto simp: transferred_def report_delta_def intro!: prog_keeps_pbind)

lemma fill_and_place_keeps:
  assumes "files_kept content p x C F" "\<not> (overwrite \<and> destination = p)" "temporary \<noteq> p"
  shows "prog_keeps (\<lambda>w. content w p = Some x)
    (fill_and_place C F client bucket key destination watched overwrite temporary)"
proof -
  have "prog_keeps (\<lambda>w. content w p = Some x) (place_download F temporary destination overwrite)"
    using files_keptD(6-9) [OF assms(1)] assms(2,3) unfolding place_download_def
    by (auto intro!: prog_keeps_pbind)
  then show ?thesis
    unfolding fill_and_place_def
    by (intro prog_keeps_pbind prog_keeps_handled files_keptD(5) [OF assms(1,3)]) simp_all
qed

lemma gateway_download_keeps:
  assumes "files_kept content p x C F" "\<not> (overwrite \<and> destination = p)"
  shows "prog_keeps (\<lambda>w. content w p = Some x)
    (gateway_download_file C F c region bucket key destination watched overwrite)"
proof -
  let ?R = "\<lambda>w. content w p = Some x"
  let ?k = "\<lambda>client created. case created of
               Inl e \<Rightarrow> praise (download_exn e)
             | Inr temporary \<Rightarrow>
                 pthen (fill_and_place C F client bucket key destination watched overwrite temporary) (\<lambda>r.
                   case r of
                     Inr _ \<Rightarrow> pret ()
                   | Inl e \<Rightarrow> pbind (pcall (fs_unlink_if_present F temporary)) (\<lambda>_.
                       praise (download_exn e)))"
  have filled: "prog_keeps ?R (?k client created)" if "created \<noteq> Inr p" for client created
  proof (cases created)
    case (Inr temporary)
    with that have new: "temporary \<noteq> p" by simp
    have "prog_keeps ?R (pbind (pcall (fs_unlink_if_present F temporary)) (\<lambda>_. praise (download_exn e)))"
      for e by (rule prog_keeps_pbind) (simp_all add: files_keptD(10) [OF assms(1) new])
    then have "prog_keeps ?R (case r of Inr _ \<Rightarrow> pret ()
        | Inl e \<Rightarrow> pbind (pcall (fs_unlink_if_present F temporary)) (\<lambda>_. praise (download_exn e)))" for r
      by (cases r) simp_all
    then show ?thesis
      unfolding Inr sum.case by (intro prog_keeps_pthen fill_and_place_keeps [OF assms new])
  qed simp
  have "prog_keeps ?R (pthen (pcall (fs_temporary F d)) (?k client))" for d client
    using files_keptD(4) [OF assms(1)] filled by (intro prog_keeps_call_then) blast
  then have "prog_keeps ?R (case polled of
         Inl e \<Rightarrow> praise (download_exn e)
       | Inr _ \<Rightarrow> pthen (pcall (fs_temporary F (fs_parent F destination))) (?k client))" for client polled
    by (cases polled) simp_all
  then show ?thesis
    unfolding gateway_download_file_def
    by (intro prog_keeps_pbind prog_keeps_pthen poll_keeps) (simp_all add: files_keptD(1) [OF assms(1)])
qed

subsection \<open>The service\<close>

lemma out_download_event: "ports_keep R P \<Longrightarrow> keeps_out R (download_event P cx q)"
proof (cases q)
  case (Report d)
  assume P: "ports_keep R P"
  have "keeps_out R (case x of (done, overall, current) \<Rightarrow>
      seq (report_progress P cx ''downloading'' ''s3.download.progress'' (Some done) (Some overall)
             (map_option (\<lambda>(b, k). s3_uri b k) current)) (ret False))" for x
    by (cases x) (auto intro!: keeps_bind out_report [OF P])
  then show ?thesis
    unfolding download_event_def Report xfer_event.case
    by (intro keeps_bind keeps_gets out_modify) simp_all
next
  case Poll
  assume "ports_keep R P"
  with Poll show ?thesis by (simp add: download_event_def out_cancelled)
qed

lemma out_os_failure: "keeps_out R m \<Longrightarrow> keeps_out R (os_failure_as e m)"
  unfolding os_failure_as_def by (intro keeps_try_except) simp_all

definition may_replace :: "upload_policy \<Rightarrow> download_item \<Rightarrow> bool" where
  \<comment> \<open>the user has seen that the destination exists and has chosen to overwrite\<close>
  "may_replace policy it \<longleftrightarrow> policy = Overwrite \<and> di_exists it"

lemma out_download_one:
  fixes content :: "'w \<Rightarrow> path \<Rightarrow> 'c option"
  assumes "files_kept content p x C F" "ports_keep (\<lambda>w. content w p = Some x) P"
    and "\<not> (may_replace policy it \<and> di_destination it = p)"
  shows "keeps_out (\<lambda>w. content w p = Some x)
    (download_one P F (boto3_gateway C F listing) cx c plan policy it)"
proof -
  let ?R = "\<lambda>w. content w p = Some x"
  have send: "keeps_out ?R (run_prog (download_event P cx)
      (sg_download_file (boto3_gateway C F listing) c (dp_region plan) (di_bucket it) (di_key it)
        (di_destination it) True (policy = Overwrite \<and> di_exists it)))"
    unfolding boto3_gateway_def s3_gateway.simps
    by (intro keeps_run_outside gateway_download_keeps [OF assms(1)] out_download_event [OF assms(2)])
      (use assms(3) in \<open>simp add: may_replace_def\<close>)
  show ?thesis
    unfolding download_one_def skip_item_def finish_item_def
    by (auto intro!: keeps_bind out_modify out_raise_if_cancelled [OF assms(2)] out_report [OF assms(2)]
        out_call files_keptD(2,3) [OF assms(1)] out_os_failure send)
qed

lemma out_with_locals:
  fixes m :: "('w, 'm, 'a) tr_io"
  assumes "keeps_out R m" shows "keeps_out R (with_locals m)"
  using assms unfolding keeps_def with_locals_def
  by (auto split: prod.split) (metis (mono_tags, lifting) snd_conv world.select_convs(3))

lemma keeps_for_each_in:
  "(\<And>x. x \<in> set xs \<Longrightarrow> keeps Q (f x)) \<Longrightarrow> keeps Q (for_each xs f)"
  by (induction xs) (auto intro: keeps_bind)

lemma out_download_items:
  fixes content :: "'w \<Rightarrow> path \<Rightarrow> 'c option"
  assumes "files_kept content p x C F" "ports_keep (\<lambda>w. content w p = Some x) P"
    and "\<And>it. it \<in> set (dp_items plan) \<Longrightarrow> \<not> (may_replace policy it \<and> di_destination it = p)"
  shows "keeps_out (\<lambda>w. content w p = Some x)
    (download_items P F (boto3_gateway C F listing) cx c plan policy)"
proof -
  let ?R = "\<lambda>w. content w p = Some x"
  note told = out_report [OF assms(2)]
  have failed: "keeps_out ?R (download_failed P cx e)" for e
    unfolding download_failed_def
    by (cases e) (auto intro!: keeps_bind told split: prod.split)
  have ended: "keeps_out ?R (case y of (done, got, left_out, overall) \<Rightarrow>
      seq (report_progress P cx ''completed'' ''s3.download.completed'' (Some overall) (Some overall) None)
      (seq (s3_success P ''download'' (dp_profile_id plan) (dp_region plan) (d left_out got)) (ret (k done got left_out))))"
    for y and d :: "path list \<Rightarrow> int \<Rightarrow> log_call \<Rightarrow> log_call" and k :: "path list \<Rightarrow> int \<Rightarrow> path list \<Rightarrow> download_summary"
    unfolding s3_success_def
    by (cases y) (auto intro!: keeps_bind told out_success [OF assms(2)])
  show ?thesis
    unfolding download_items_def
    by (intro keeps_bind keeps_try_except keeps_for_each_in out_modify told failed ended keeps_gets
        out_download_one [OF assms(1,2)] out_raise_if_cancelled [OF assms(2)] assms(3)) simp_all
qed

text \<open>
  C36: A download, on boto3 and the file system of the platform, changes no existing file but
  those the user was shown as existing and chose to overwrite, however it ends: a file that appears
  in the way of a download is never replaced, and the files it is not about are not touched.
\<close>

theorem download_replaces_only_confirmed:
  fixes content :: "'w \<Rightarrow> path \<Rightarrow> 'c option" and s :: "('w, 'm) world_scheme"
  assumes "files_kept content p x C F" "ports_keep (\<lambda>w. content w p = Some x) P"
    and "\<And>it. it \<in> set (dp_items plan) \<Longrightarrow> \<not> (may_replace policy it \<and> di_destination it = p)"
    and "content (w_out s) p = Some x"
  shows "content (w_out (snd (download P F (boto3_gateway C F listing) plan cx policy s))) p = Some x"
proof -
  have "keeps_out (\<lambda>w. content w p = Some x) (download P F (boto3_gateway C F listing) plan cx policy
      :: ('w, 'm, download_summary) io)"
    unfolding download_def
    by (intro out_logged [OF assms(2)] keeps_bind out_raise_if_cancelled [OF assms(2)]
        out_require [OF assms(2)] out_with_locals out_download_items [OF assms(1,2,3)])
  with assms(4) show ?thesis by (simp add: keeps_def)
qed

text \<open>A platform whose state is the contents of its files beside the sample outside.\<close>

record disk = toy +
  dk_files :: "(path, string) dict"

definition disk_ports :: "disk ports" where
  "disk_ports = \<lparr>
     pt_now = (\<lambda>w. (ty_now w, w)), pt_uuid = (\<lambda>w. (''op'', w)),
     pt_protect = (\<lambda>s w. (Inr s, w)), pt_unprotect = (\<lambda>b w. (Inr (tl b), w)),
     pt_get_identity = (\<lambda>c r w. (Inr \<lparr>id_account_id = ''123456789012'', id_user_id = ''ann'', id_arn = ''arn''\<rparr>, w)),
     pt_get_session_token = (\<lambda>c r a m d w. (Inl (PyExn ''OSError''), w)),
     pt_shared_credentials = None, pt_recorder = None,
     pt_cancelled = (\<lambda>t w. (False, w)), pt_progress = (\<lambda>e w. (Inr (), w))\<rparr>"

definition disk_put :: "path \<Rightarrow> string \<Rightarrow> disk \<Rightarrow> disk" where
  "disk_put p x w = w\<lparr>dk_files := dict_set p x (dk_files w)\<rparr>"

definition disk_move :: "bool \<Rightarrow> path \<Rightarrow> path \<Rightarrow> disk \<Rightarrow> (exn + unit) \<times> disk" where
  "disk_move replacing a d w =
     (case dict_get (dk_files w) a of
        None \<Rightarrow> (Inl (PyExn ''FileNotFoundError''), w)
      | Some x \<Rightarrow>
          if \<not> replacing \<and> dict_get (dk_files w) d \<noteq> None then (Inl (PyExn ''FileExistsError''), w)
          else (Inr (), disk_put d x w))"

definition disk_files :: "disk file_system" where
  "disk_files = one_file\<lparr>fs_exists := \<lambda>p w. (Inr (dict_get (dk_files w) p \<noteq> None), w),
     fs_temporary := \<lambda>d w. (let t = concat (map fst (dk_files w)) @ ''t'' in (Inr t, disk_put t [] w)),
     fs_replace := disk_move True, fs_rename := disk_move False, fs_link := disk_move False,
     fs_unlink := \<lambda>p w. (Inr (), w\<lparr>dk_files := dict_pop p (dk_files w)\<rparr>),
     fs_unlink_if_present := \<lambda>p w. (Inr (), w\<lparr>dk_files := dict_pop p (dk_files w)\<rparr>)\<rparr>"

definition disk_client :: "disk s3_client" where
  "disk_client = \<lparr>
     c3_open = \<lambda>c r w. (Inr 0, w), c3_list_buckets = \<lambda>n w. (Inr [], w),
     c3_list_objects = \<lambda>n q w. (Inr \<lparr>pg_common_prefixes = [], pg_contents = [], pg_next_token = None\<rparr>, w),
     c3_delete_object = \<lambda>n b k t w. (Inr (), w), c3_head_object = \<lambda>n b k w. (Inr (0, ''e''), w),
     c3_copy_object = \<lambda>n b t k e w. (Inr (), w),
     c3_download_file = \<lambda>n b k p. pbind (pcall (\<lambda>w. (Inr (), disk_put p ''new'' w))) (\<lambda>_. pevent 3),
     c3_put_object = \<lambda>n b k l. Done (Inr ()), c3_create_multipart = \<lambda>n b k w. (Inr None, w),
     c3_upload_part = \<lambda>n b k u i d w. (Inr None, w),
     c3_complete_multipart = \<lambda>n b k u ps w. (Inr (), w), c3_abort_multipart = \<lambda>n b k u w. (Inr (), w)\<rparr>"

abbreviation disk_content :: "disk \<Rightarrow> path \<Rightarrow> string option" where
  "disk_content w \<equiv> dict_get (dk_files w)"

lemma temporary_new [simp]: "dict_get d (concat (map fst d) @ ''t'') = None"
proof (rule ccontr)
  assume "dict_get d (concat (map fst d) @ ''t'') \<noteq> None"
  then have "concat (map fst d) @ ''t'' \<in> set (map fst d)" by (force dest: map_of_SomeD)
  from length_in_concat [OF this] show False by simp
qed

lemma disk_kept: "files_kept disk_content p x disk_client disk_files"
proof -
  have "disk_content (snd (disk_move b a d w)) p = Some x"
    if "disk_content w p = Some x" "\<not> (b \<and> d = p)" for b a d w
    using that by (auto simp: disk_move_def disk_put_def split: option.split)
  then have move: "keeps (\<lambda>w. disk_content w p = Some x) (disk_move b a d)" if "\<not> (b \<and> d = p)" for b a d
    using that by (simp add: keeps_def)
  show ?thesis
    unfolding files_kept_def Let_def
    using move
    by (auto simp: disk_client_def disk_files_def one_file_def disk_put_def Let_def keeps_def
        intro!: prog_keeps_pbind)
qed

lemma disk_ports_keep: "ports_keep (\<lambda>w. disk_content w p = Some x) disk_ports"
  by (auto simp: ports_keep_def disk_ports_def keeps_def)

definition disk_world :: "disk world" where
  "disk_world = \<lparr>w_db = w_db toy_world, w_exec = None,
     w_out = \<lparr>ty_now = hours 1, ty_ids = 0, ty_calls = [],
       dk_files = [(''/home/docs/a.txt'', ''mine'')]\<rparr>\<rparr>"

lemma download_replaces_only_confirmed_witness:
  "disk_content (w_out (snd (download disk_ports disk_files
     (boto3_gateway disk_client disk_files (\<lambda>d c r b p w. (Inr [], w))) toy_plan
     (own_context ''op'' ''cor'') Overwrite disk_world))) ''/home/docs/a.txt'' = Some ''mine''"
  by (rule download_replaces_only_confirmed [OF disk_kept disk_ports_keep])
    (auto simp: disk_world_def may_replace_def toy_plan_def)

end
