(* ===== verification/Execution_History.thy ===== *)
theory Execution_History
  imports Masking Store_Contract "HOL-Library.Product_Lexorder"
begin

text \<open>
  The execution history: the values of its metadata (JSON), the masking that every event passes
  before it is stored (\<open>infrastructure/execution_log_masking.py\<close> and \<open>mask\<close> of
  \<open>infrastructure/masking.py\<close>), and the table \<open>execution_logs\<close> of
  \<open>infrastructure/sqlite_profile_store.py\<close>, which holds the newest 10,000 events of the last 30
  days.  The column \<open>occurred_at\<close> holds UTC time stamps in ISO format, whose order as text is the
  order of the instants.  The parser \<open>json.loads\<close> is the argument \<open>parse\<close>, of which nothing is
  assumed.
\<close>

subsection \<open>JSON\<close>

datatype json =
    JNull | JBool bool | JInt int
  | JFloat string  \<comment> \<open>as it is printed\<close>
  | JStr string | JArr "json list" | JObj "(string \<times> json) list"

fun is_scalar :: "json \<Rightarrow> bool" where
  "is_scalar (JArr _) = False"
| "is_scalar (JObj _) = False"
| "is_scalar _ = True"

definition hex_digit :: "nat \<Rightarrow> char" where
  "hex_digit n = (if n < 10 then char_of (48 + n) else char_of (87 + n))"

definition escape_char :: "bool \<Rightarrow> char \<Rightarrow> string" where
  \<comment> \<open>the flag is \<open>ensure_ascii\<close>\<close>
  "escape_char ascii c =
     (let n = code c; slash = char_of (92::nat) in
      if n = 34 \<or> n = 92 then [slash, c]
      else if n = 10 then [slash, CHR ''n''] else if n = 13 then [slash, CHR ''r'']
      else if n = 9 then [slash, CHR ''t''] else if n = 12 then [slash, CHR ''f'']
      else if n = 8 then [slash, CHR ''b'']
      else if n < 32 \<or> ascii \<and> 126 < n then slash # ''u00'' @ [hex_digit (n div 16), hex_digit (n mod 16)]
      else [c])"

definition quoted :: "bool \<Rightarrow> string \<Rightarrow> string" where
  "quoted ascii s = char_of (34::nat) # concat (map (escape_char ascii) s) @ [char_of (34::nat)]"

fun dumps :: "bool \<Rightarrow> json \<Rightarrow> string" where
  \<comment> \<open>\<open>json.dumps(value, ensure_ascii=ascii)\<close>\<close>
  "dumps ascii JNull = ''null''"
| "dumps ascii (JBool b) = (if b then ''true'' else ''false'')"
| "dumps ascii (JInt i) = str_of_int i"
| "dumps ascii (JFloat text) = text"
| "dumps ascii (JStr s) = quoted ascii s"
| "dumps ascii (JArr xs) = ''['' @ join_with '', '' (map (dumps ascii) xs) @ '']''"
| "dumps ascii (JObj kvs) =
     ''{'' @ join_with '', '' (map (\<lambda>(k, v). quoted ascii k @ '': '' @ dumps ascii v) kvs) @ ''}''"

fun mask_json :: "string list \<Rightarrow> json \<Rightarrow> json" where
  \<comment> \<open>\<open>mask\<close> of a JSON value\<close>
  "mask_json known (JObj kvs) =
     JObj (map (\<lambda>(k, v). (k, if is_sensitive_name k then JStr redacted else mask_json known v)) kvs)"
| "mask_json known (JArr xs) = JArr (map (mask_json known) xs)"
| "mask_json known (JStr s) = JStr (mask_text s known)"
| "mask_json known v = v"

subsection \<open>Events\<close>

record log_event =
  le_occurred_at :: instant
  le_level :: execution_level
  le_result :: execution_result
  le_phase :: execution_phase
  le_feature :: string
  le_action :: string
  le_target :: string
  le_message :: string
  le_correlation_id :: "string option"
  le_operation_id :: "string option"
  le_aws_service :: "string option"
  le_aws_action :: "string option"
  le_aws_request_id :: "string option"
  le_error_category :: "error_category option"
  le_error_code :: "string option"
  le_required_permission :: "string option"
  le_metadata_json :: string

definition metadata_fields :: "string list" where
  "metadata_fields =
     [''profile_id'', ''region'', ''instance_id'', ''bucket'', ''prefix'', ''key'', ''file_size'',
      ''local_port'', ''remote_port'', ''reason'', ''retryable'', ''attempt'', ''skipped_count'']"

definition short_value :: "json \<Rightarrow> json" where
  "short_value v = (case v of JStr s \<Rightarrow> JStr (take 256 s) | _ \<Rightarrow> v)"

definition sanitize_metadata :: "(string \<Rightarrow> json option) \<Rightarrow> string \<Rightarrow> string" where
  "sanitize_metadata parse text =
     (let metadata = (if length text \<le> 8192 then (case parse text of Some v \<Rightarrow> v | None \<Rightarrow> JObj [])
                      else JObj []);
          allowed = (case metadata of
             JObj kvs \<Rightarrow> filter (\<lambda>(k, v). k \<in> set metadata_fields \<and> is_scalar v) kvs | _ \<Rightarrow> [])
      in dumps False (mask_json [] (JObj (map (\<lambda>(k, v). (k, short_value v)) allowed))))"

definition masked_2000 :: "string \<Rightarrow> string" where
  "masked_2000 s = take 2000 (mask_text s [])"

definition sanitize_event :: "(string \<Rightarrow> json option) \<Rightarrow> log_event \<Rightarrow> log_event" where
  "sanitize_event parse e = e\<lparr>
     le_feature := masked_2000 (le_feature e), le_action := masked_2000 (le_action e),
     le_target := masked_2000 (le_target e), le_message := masked_2000 (le_message e),
     le_correlation_id := map_option masked_2000 (le_correlation_id e),
     le_operation_id := map_option masked_2000 (le_operation_id e),
     le_aws_service := map_option masked_2000 (le_aws_service e),
     le_aws_action := map_option masked_2000 (le_aws_action e),
     le_aws_request_id := map_option masked_2000 (le_aws_request_id e),
     le_error_code := map_option masked_2000 (le_error_code e),
     le_required_permission := map_option masked_2000 (le_required_permission e),
     le_metadata_json := sanitize_metadata parse (le_metadata_json e)\<rparr>"

subsection \<open>The table\<close>

definition retention :: instant where
  "retention = days execution_log_retention_days"

definition newest_first :: "(int \<times> log_event) list \<Rightarrow> (int \<times> log_event) list" where
  \<comment> \<open>\<open>ORDER BY occurred_at DESC, id DESC\<close>\<close>
  "newest_first rows = rev (sort_key (\<lambda>(i, r). (le_occurred_at r, i)) rows)"

definition insert_log :: "log_event \<Rightarrow> (log_event table, exn, unit) eff" where
  "insert_log r = (\<lambda>t.
     if max_rowid \<le> tb_seq t then (Inl (OperationalError ''database or disk is full''), t)
     else (Inr (), \<lparr>tb_seq = tb_seq t + 1, tb_rows = tb_rows t @ [(tb_seq t + 1, r)]\<rparr>))"

definition drop_expired :: "instant \<Rightarrow> log_event table \<Rightarrow> log_event table" where
  "drop_expired now = tb_delete (\<lambda>i r. le_occurred_at r < now - retention)"

definition drop_surplus :: "nat \<Rightarrow> log_event table \<Rightarrow> log_event table" where
  "drop_surplus n t = tb_delete (\<lambda>i r. i \<in> fst ` set (drop n (newest_first (tb_rows t)))) t"

definition execution_connection :: "(log_event table, exn, 'a) eff \<Rightarrow> (log_event table, exn, 'a) eff" where
  "execution_connection m =
     try_except (transact m)
       (\<lambda>e. case e of
          IntegrityError _ \<Rightarrow> raise_app (config_error_because ''logs.storage.failed'' (class_name e))
        | OperationalError _ \<Rightarrow> raise_app (config_error_because ''logs.storage.failed'' (class_name e))
        | _ \<Rightarrow> throw e)"

definition append_execution_log ::
    "(string \<Rightarrow> json option) \<Rightarrow> instant \<Rightarrow> log_event \<Rightarrow> (log_event table, exn, unit) eff" where
  "append_execution_log parse now e =
     execution_connection
       (seq (insert_log (sanitize_event parse e))
       (seq (modify (drop_expired now))
         (modify (drop_surplus (nat execution_log_max_rows)))))"

record log_filter =
  lf_since :: "instant option"
  lf_levels :: "string list"
  lf_features :: "string list"
  lf_search :: string
  lf_errors_only :: bool
  lf_correlation_id :: "string option"
  lf_operation_id :: "string option"
  lf_completed_only :: bool

definition sql_lower :: "string \<Rightarrow> string" where
  \<comment> \<open>SQLite's \<open>lower\<close> changes ASCII letters only\<close>
  "sql_lower = map (\<lambda>c. if is_upper_az c then char_of (code c + 32) else c)"

definition log_matches :: "instant \<Rightarrow> log_filter \<Rightarrow> log_event \<Rightarrow> bool" where
  \<comment> \<open>the \<open>WHERE\<close> clause\<close>
  "log_matches now q r =
     (let cutoff = now - retention;
          since = (case lf_since q of Some t \<Rightarrow> max cutoff t | None \<Rightarrow> cutoff);
          needle = strip (lf_search q);
          columns = [Some (le_message r), Some (le_target r), le_operation_id r,
            le_correlation_id r, le_aws_action r, le_error_code r]
      in since \<le> le_occurred_at r \<and>
        (lf_levels q = [] \<or> level_value (le_level r) \<in> set (lf_levels q)) \<and>
        (lf_features q = [] \<or> le_feature r \<in> set (lf_features q)) \<and>
        (case lf_correlation_id q of None \<Rightarrow> True | Some c \<Rightarrow> c = [] \<or> le_correlation_id r = Some c) \<and>
        (case lf_operation_id q of None \<Rightarrow> True | Some c \<Rightarrow> c = [] \<or> le_operation_id r = Some c) \<and>
        (lf_errors_only q \<longrightarrow> le_result r = ResFailure) \<and>
        (lf_completed_only q \<longrightarrow> le_phase r = PhaseCompleted) \<and>
        (needle \<noteq> [] \<longrightarrow>
           list_ex (\<lambda>c. contains (sql_lower (case c of Some v \<Rightarrow> v | None \<Rightarrow> [])) (sql_lower needle)) columns))"

definition query_execution_logs ::
    "(string \<Rightarrow> json option) \<Rightarrow> instant \<Rightarrow> log_filter \<Rightarrow> int \<Rightarrow> (log_event table, exn, log_event list) eff" where
  "query_execution_logs parse now q limit =
     execution_connection (gets (\<lambda>t.
       map (\<lambda>(i, r). sanitize_event parse r)
         (take (nat (max 1 (min limit execution_log_max_rows)))
           (newest_first (filter (\<lambda>(i, r). log_matches now q r) (tb_rows t))))))"

subsection \<open>What the table holds\<close>

definition log_ok :: "log_event table \<Rightarrow> bool" where
  "log_ok t \<longleftrightarrow> distinct (map fst (tb_rows t)) \<and> (\<forall>(i, r) \<in> set (tb_rows t). i \<le> tb_seq t)"

abbreviation newer :: "int \<times> log_event \<Rightarrow> int \<times> log_event \<Rightarrow> bool" where
  "newer p q \<equiv> le_occurred_at (snd q) < le_occurred_at (snd p) \<or>
     le_occurred_at (snd q) = le_occurred_at (snd p) \<and> fst q < fst p"

definition live_rows :: "instant \<Rightarrow> log_event \<Rightarrow> log_event table \<Rightarrow> (int \<times> log_event) list" where
  \<comment> \<open>the rows that are not older than the retention once \<open>r\<close> has been inserted\<close>
  "live_rows now r t =
     filter (\<lambda>(i, q). now - retention \<le> le_occurred_at q) (tb_rows t @ [(tb_seq t + 1, r)])"

lemma set_newest_first [simp]: "set (newest_first rows) = set rows"
  by (simp add: newest_first_def)

lemma length_newest_first [simp]: "length (newest_first rows) = length rows"
  by (simp add: newest_first_def)

lemma newest_first_distinct: "distinct (map fst rows) \<Longrightarrow> distinct (map fst (newest_first rows))"
  by (simp add: newest_first_def rev_map [symmetric] distinct_map)

lemma distinct_map_sorted_wrt: "distinct (map f xs) \<longleftrightarrow> sorted_wrt (\<lambda>x y. f x \<noteq> f y) xs"
  by (induction xs) auto

lemma newest_first_ordered:
  assumes "distinct (map fst rows)"
  shows "sorted_wrt newer (newest_first rows)"
proof -
  let ?k = "\<lambda>(i, r). (le_occurred_at r, i)" and ?xs = "rev (newest_first rows)"
  have xs: "?xs = sort_key ?k rows" by (simp add: newest_first_def)
  have "sorted_wrt (\<lambda>p q. ?k p \<le> ?k q) ?xs"
    using sorted_sort_key [of ?k rows] by (simp add: xs sorted_map)
  moreover have "sorted_wrt (\<lambda>p q. fst p \<noteq> fst q) ?xs"
    using newest_first_distinct [OF assms] by (simp add: rev_map [symmetric] flip: distinct_map_sorted_wrt)
  ultimately have "sorted_wrt (\<lambda>p q. ?k p \<le> ?k q \<and> fst p \<noteq> fst q) ?xs"
    by (simp add: sorted_wrt_iff_nth_less)
  then have "sorted_wrt (\<lambda>p q. newer q p) ?xs"
    by (rule sorted_wrt_mono_rel [rotated]) (auto simp: less_eq_prod_simp)
  then show ?thesis by (simp add: sorted_wrt_rev)
qed

lemma kept_rows:
  fixes n :: nat
  assumes "distinct (map fst rows)"
  defines "kept \<equiv> filter (\<lambda>(i, r). i \<notin> fst ` set (drop n (newest_first rows))) rows"
  shows "set kept = set (take n (newest_first rows))" "length kept = min (length rows) n"
proof -
  let ?ys = "newest_first rows"
  have d: "distinct (map fst ?ys)" by (rule newest_first_distinct [OF assms(1)])
  have parts: "set rows = set (take n ?ys) \<union> set (drop n ?ys)"
    by (metis append_take_drop_id set_append set_newest_first)
  have "distinct (map fst (take n ?ys) @ map fst (drop n ?ys))"
    using d by (metis append_take_drop_id map_append)
  then have apart: "fst ` set (take n ?ys) \<inter> fst ` set (drop n ?ys) = {}" by simp
  show s: "set kept = set (take n ?ys)"
  proof (intro set_eqI iffI)
    fix p assume "p \<in> set kept"
    then have "p \<in> set rows" "fst p \<notin> fst ` set (drop n ?ys)"
      by (simp_all add: kept_def case_prod_beta)
    then show "p \<in> set (take n ?ys)" using parts by blast
  next
    fix p assume p: "p \<in> set (take n ?ys)"
    then have "fst p \<notin> fst ` set (drop n ?ys)" using apart by blast
    moreover have "p \<in> set rows" using p parts by blast
    ultimately show "p \<in> set kept" by (simp add: kept_def case_prod_beta)
  qed
  have "distinct kept" using assms(1) by (simp add: kept_def distinct_map)
  moreover have "distinct (take n ?ys)" using d by (simp add: distinct_map)
  ultimately show "length kept = min (length rows) n"
    using s by (metis distinct_card length_newest_first length_take min.commute)
qed

lemma append_Inr:
  assumes "append_execution_log parse now e t = (Inr (), t')"
  shows "t' = drop_surplus 10000 (drop_expired now
      \<lparr>tb_seq = tb_seq t + 1, tb_rows = tb_rows t @ [(tb_seq t + 1, sanitize_event parse e)]\<rparr>)"
  using assms
  by (auto simp: append_execution_log_def execution_connection_def try_except_def transact_def
      bind_def modify_def insert_log_def throw_def execution_log_max_rows_def split: if_splits)

lemma append_Inl: "append_execution_log parse now e t = (Inl x, t') \<Longrightarrow> t' = t"
  by (auto simp: append_execution_log_def execution_connection_def try_except_def transact_def
      bind_def modify_def insert_log_def throw_def split: if_splits)

lemma keeps_log_ok_delete: "log_ok t \<Longrightarrow> log_ok (tb_delete P t)"
  by (auto simp: log_ok_def tb_delete_def distinct_map_filter)

lemma log_ok_append: "log_ok t \<Longrightarrow> log_ok (snd (append_execution_log parse now e t))"
proof (cases "append_execution_log parse now e t")
  case (Pair r t')
  assume ok: "log_ok t"
  show ?thesis
  proof (cases r)
    case (Inl x)
    have "t' = t" using append_Inl [OF Pair [unfolded Inl]] .
    with Pair ok show ?thesis by simp
  next
    case (Inr u)
    have "log_ok \<lparr>tb_seq = tb_seq t + 1, tb_rows = tb_rows t @ [(tb_seq t + 1, sanitize_event parse e)]\<rparr>"
      using ok by (fastforce simp: log_ok_def)
    with Pair Inr show ?thesis
      by (auto dest!: append_Inr simp: drop_surplus_def drop_expired_def keeps_log_ok_delete)
  qed
qed

lemma append_rows:
  fixes now :: instant and parse :: "string \<Rightarrow> json option" and e :: log_event and t :: "log_event table"
  assumes "log_ok t" "append_execution_log parse now e t = (Inr (), t')"
  defines "rows \<equiv> live_rows now (sanitize_event parse e) t"
  shows "set (tb_rows t') = set (take 10000 (newest_first rows))"
    "length (tb_rows t') = min (length rows) 10000" "distinct (map fst rows)"
proof -
  let ?all = "tb_rows t @ [(tb_seq t + 1, sanitize_event parse e)]"
  have d: "distinct (map fst ?all)" using assms(1) by (fastforce simp: log_ok_def)
  then show dr: "distinct (map fst rows)"
    unfolding rows_def live_rows_def by (rule distinct_map_filter)
  have "drop_expired now \<lparr>tb_seq = tb_seq t + 1, tb_rows = ?all\<rparr> =
      \<lparr>tb_seq = tb_seq t + 1, tb_rows = rows\<rparr>"
    by (auto simp: drop_expired_def tb_delete_def rows_def live_rows_def not_less intro!: filter_cong)
  then have rows': "tb_rows t' = filter (\<lambda>(i, r). i \<notin> fst ` set (drop 10000 (newest_first rows))) rows"
    using append_Inr [OF assms(2)] by (simp only: drop_surplus_def tb_delete_rows table.simps)
  show "set (tb_rows t') = set (take 10000 (newest_first rows))"
    "length (tb_rows t') = min (length rows) 10000"
    unfolding rows' by (rule kept_rows [OF dr])+
qed

lemma take_drop_newer:
  assumes "distinct (map fst rows)" "p \<in> set (take n (newest_first rows))"
    "q \<in> set rows" "q \<notin> set (take n (newest_first rows))"
  shows "newer p q"
proof -
  have "sorted_wrt newer (take n (newest_first rows) @ drop n (newest_first rows))"
    using newest_first_ordered [OF assms(1)] by simp
  moreover have "q \<in> set (drop n (newest_first rows))"
    using assms(3,4) by (metis Un_iff append_take_drop_id set_append set_newest_first)
  ultimately show ?thesis using assms(2) unfolding sorted_wrt_append by blast
qed

fun append_all :: "(string \<Rightarrow> json option) \<Rightarrow> (instant \<times> log_event) list \<Rightarrow> log_event table \<Rightarrow> log_event table" where
  "append_all parse [] t = t"
| "append_all parse ((now, e) # past) t = append_all parse past (snd (append_execution_log parse now e t))"

lemma append_all_ok: "log_ok t \<Longrightarrow> log_ok (append_all parse past t)"
  by (induction parse past t rule: append_all.induct) (simp_all add: log_ok_append)

lemma query_bounded:
  assumes "query_execution_logs parse now q limit t = (Inr es, t')"
  shows "int (length es) \<le> max 1 (min limit 10000)" "t' = t"
  using assms
  by (auto simp: query_execution_logs_def execution_connection_def try_except_def transact_def
      gets_def execution_log_max_rows_def)

text \<open>
  C37: After any events have been appended to the history, an append that succeeds leaves exactly
  the rows that are at most 30 days old, the new event among them, or the newest 10,000 of these:
  every row it has dropped is older than every row it has kept.
\<close>

theorem history_keeps_newest:
  assumes "append_execution_log parse now e (append_all parse past empty_table) = (Inr (), t')"
  shows "let live = live_rows now (sanitize_event parse e) (append_all parse past empty_table) in
    length (tb_rows t') = min (length live) 10000 \<and> set (tb_rows t') \<subseteq> set live \<and>
    (\<forall>p \<in> set (tb_rows t'). \<forall>q \<in> set live - set (tb_rows t'). newer p q)"
proof -
  have ok: "log_ok (append_all parse past empty_table)"
    by (rule append_all_ok) (simp add: log_ok_def empty_table_def)
  note rows = append_rows [OF ok assms]
  show ?thesis
    unfolding Let_def
  proof (intro conjI ballI)
    fix p q assume "p \<in> set (tb_rows t')"
      "q \<in> set (live_rows now (sanitize_event parse e) (append_all parse past empty_table)) - set (tb_rows t')"
    then show "newer p q" using take_drop_newer [OF rows(3)] by (auto simp: rows(1))
  qed (use rows set_take_subset in \<open>auto dest!: in_set_takeD\<close>)
qed

definition toy_event :: "instant \<Rightarrow> log_event" where
  "toy_event t =
     \<lparr>le_occurred_at = t, le_level = LevelInfo, le_result = ResSuccess, le_phase = PhaseCompleted,
      le_feature = ''s3'', le_action = ''list'', le_target = ''-'', le_message = ''ok'',
      le_correlation_id = None, le_operation_id = Some ''op'', le_aws_service = None,
      le_aws_action = None, le_aws_request_id = None, le_error_category = None,
      le_error_code = None, le_required_permission = None, le_metadata_json = ''{}''\<rparr>"

lemma append_succeeds:
  "tb_seq t < max_rowid \<Longrightarrow> \<exists>t'. append_execution_log parse now e t = (Inr (), t') \<and> tb_seq t' = tb_seq t + 1"
  by (auto simp: append_execution_log_def execution_connection_def try_except_def transact_def
      bind_def modify_def insert_log_def drop_surplus_def drop_expired_def)

theorem history_keeps_newest_witness:
  "\<exists>t'. append_execution_log (\<lambda>_. None) (days 31) (toy_event (days 31))
      (append_all (\<lambda>_. None) [(0, toy_event 0)] empty_table) = (Inr (), t') \<and>
     map (\<lambda>(i, r). le_occurred_at r) (tb_rows t') = [days 31]"
proof -
  let ?e = "\<lambda>t. sanitize_event (\<lambda>_. None) (toy_event t)"
  obtain t where t: "append_execution_log (\<lambda>_. None) 0 (toy_event 0) empty_table = (Inr (), t)" "tb_seq t = 1"
    using append_succeeds [of empty_table] by (fastforce simp: empty_table_def max_rowid_def)
  have "log_ok empty_table" by (simp add: log_ok_def empty_table_def)
  from append_rows(1,2) [OF this t(1)] have "tb_rows t = [(1, ?e 0)]"
    by (auto simp: live_rows_def empty_table_def newest_first_def retention_def sanitize_event_def
        toy_event_def execution_log_retention_days_def length_Suc_conv)
  then have live: "live_rows (days 31) (?e (days 31)) t = [(2, ?e (days 31))]"
    by (simp add: live_rows_def t(2) retention_def sanitize_event_def toy_event_def
        execution_log_retention_days_def)
  obtain t' where t': "append_execution_log (\<lambda>_. None) (days 31) (toy_event (days 31)) t = (Inr (), t')"
    using append_succeeds [of t] t(2) by (fastforce simp: max_rowid_def)
  have "append_all (\<lambda>_. None) [(0, toy_event 0)] empty_table = t" by (simp add: t(1))
  with history_keeps_newest [of _ _ _ "[(0, toy_event 0)]"] t' live show ?thesis
    by (fastforce simp: Let_def length_Suc_conv sanitize_event_def toy_event_def)
qed

end
