(* ===== verification/Settings_Service.thy ===== *)
theory Settings_Service
  imports Ssm_Session Py_Paths
begin

text \<open>
  The two settings of the program (\<open>domain/app_settings.py\<close>), the service that reads and changes
  them (\<open>application/settings_service.py\<close>) and the configurator that owns the one rotating handler
  of the logger (\<open>infrastructure/logging_setup.py\<close>), whose state is the field \<open>lw_logging\<close> of the
  world.  That the database cannot be written is a port, \<open>se_store_fault\<close>.
\<close>

subsection \<open>Values\<close>

datatype log_level = LogDebug | LogInfo | LogWarning | LogError

fun log_level_value :: "log_level \<Rightarrow> string" where
  "log_level_value LogDebug = ''DEBUG''"
| "log_level_value LogInfo = ''INFO''"
| "log_level_value LogWarning = ''WARNING''"
| "log_level_value LogError = ''ERROR''"

definition log_level_invalid :: "string \<Rightarrow> app_error" where
  \<comment> \<open>the code quotes the text with \<open>repr\<close>\<close>
  "log_level_invalid text =
     config_error_because ''settings.log_level.invalid'' (''Unsupported log level: '' @ text)"

definition parse_log_level :: "string \<Rightarrow> app_error + log_level" where
  "parse_log_level text =
     (let v = str_upper (strip text) in
      case find (\<lambda>l. log_level_value l = v) [LogDebug, LogInfo, LogWarning, LogError] of
        Some l \<Rightarrow> Inr l | None \<Rightarrow> Inl (log_level_invalid text))"

record app_settings =
  as_log_directory :: path
  as_log_level :: log_level

definition directory_required :: app_error where
  "directory_required =
     config_error_because ''settings.log_directory.required'' ''Log directory must not be empty''"

definition app_settings_init :: "app_settings \<Rightarrow> app_error + app_settings" where
  "app_settings_init s = (if strip (as_log_directory s) = [] then Inl directory_required else Inr s)"

definition new_settings :: "path \<Rightarrow> log_level \<Rightarrow> app_error + app_settings" where
  "new_settings dir l = app_settings_init \<lparr>as_log_directory = dir, as_log_level = l\<rparr>"

record update_settings_request =
  us_log_directory :: "string option"
  us_log_level :: "string option"

subsection \<open>The rotating handler\<close>

record logging_state =
  lgs_path :: path
  lgs_level :: log_level

record 'w log_world = "'w world" +
  lw_logging :: "logging_state option"  \<comment> \<open>the handler of the logger, if one is installed\<close>

type_synonym ('w, 'm, 'a) lw_io = "(('w, 'm) log_world_scheme, exn, 'a) eff"

record 'w settings_env =
  se_path :: "string \<Rightarrow> path"  \<comment> \<open>the text of \<open>Path(s)\<close>\<close>
  se_default :: path
  se_files :: "'w file_system"
  se_configured :: bool  \<comment> \<open>a configurator is given\<close>
  se_restrict :: "(path \<Rightarrow> 'w \<Rightarrow> (exn + unit) \<times> 'w) option"
  se_log_files :: "path \<Rightarrow> 'w \<Rightarrow> (exn + path list) \<times> 'w"
  se_open_log :: "path \<Rightarrow> 'w \<Rightarrow> (exn + nat) \<times> 'w"  \<comment> \<open>\<open>RotatingFileHandler(path, ...)\<close>\<close>
  se_close_log :: "nat \<Rightarrow> 'w \<Rightarrow> (exn + unit) \<times> 'w"
  se_store_fault :: "'w \<Rightarrow> exn option \<times> 'w"

definition restrict_file :: "'w settings_env \<Rightarrow> path \<Rightarrow> ('w, 'm, unit) io" where
  "restrict_file E p = (case se_restrict E of None \<Rightarrow> skip | Some f \<Rightarrow> call_out (f p))"

definition log_file :: "'w settings_env \<Rightarrow> path \<Rightarrow> path" where
  "log_file E dir = fs_join (se_files E) dir [''aws-connect.log'']"

definition unwritable :: "exn \<Rightarrow> exn" where
  \<comment> \<open>the \<open>except\<close> clauses of \<open>apply\<close>\<close>
  "unwritable e =
     (if is_os_error e
      then AppExn (config_error_because ''settings.log_directory.unwritable'' (class_name e)) else e)"

definition is_app_error :: "exn \<Rightarrow> bool" where
  "is_app_error e = (case e of AppExn _ \<Rightarrow> True | _ \<Rightarrow> False)"

definition open_handler :: "'w settings_env \<Rightarrow> path \<Rightarrow> ('w, 'm, unit) io" where
  \<comment> \<open>the \<open>try\<close> block of \<open>apply\<close>; an error after the file has been opened closes it again\<close>
  "open_handler E p =
     (let F = se_files E; parent = fs_parent F p in
      bind (try_except
        (seq (call_out (fs_make_dirs F parent))
        (seq (case se_restrict E of None \<Rightarrow> skip | Some _ \<Rightarrow>
                seq (restrict_file E parent)
                (bind (call_out (se_log_files E parent)) (\<lambda>found. for_each found (restrict_file E))))
          (call_out (se_open_log E p)))) (\<lambda>e. throw (unwritable e))) (\<lambda>h.
      try_except (restrict_file E p) (\<lambda>e.
        if is_app_error e \<or> is_os_error e
        then seq (call_out (se_close_log E h)) (throw (unwritable e)) else throw e)))"

definition apply_logging :: "'w settings_env \<Rightarrow> app_settings \<Rightarrow> ('w, 'm, path) lw_io" where
  "apply_logging E st =
     bind (call_out (fs_expanduser (se_files E) (as_log_directory st))) (\<lambda>expanded.
     bind (call_out (fs_resolve (se_files E) expanded)) (\<lambda>dir.
       let p = log_file E dir in
       seq (open_handler E p)
       (seq (modify (lw_logging_update (\<lambda>_. Some \<lparr>lgs_path = p, lgs_level = as_log_level st\<rparr>)))
         (ret p))))"

subsection \<open>The service\<close>

definition settings_get :: "'w settings_env \<Rightarrow> ('w, 'm, app_settings) io" where
  "settings_get E =
     bind (on_db (get_setting ''log.directory'')) (\<lambda>directory.
     bind (on_db (get_setting ''log.level'')) (\<lambda>level.
     bind (case given level of None \<Rightarrow> ret LogInfo | Some l \<Rightarrow> of_app (parse_log_level l)) (\<lambda>l.
       of_app (new_settings (case given directory of None \<Rightarrow> se_default E | Some d \<Rightarrow> se_path E d) l))))"

definition apply_settings :: "'w settings_env \<Rightarrow> app_settings \<Rightarrow> ('w, 'm, unit) lw_io" where
  "apply_settings E st =
     (if se_configured E then bind (apply_logging E st) (\<lambda>_. skip) else skip)"

definition restore_logging :: "'w settings_env \<Rightarrow> app_settings \<Rightarrow> exn \<Rightarrow> ('w, 'm, unit) lw_io" where
  "restore_logging E st original =
     bind (catching (apply_settings E st)) (\<lambda>r. case r of
       Inr _ \<Rightarrow> skip
     | Inl e \<Rightarrow> raise_app (config_error_because ''settings.rollback.failed''
                  (class_name original @ ''/'' @ class_name e)))"

definition write_settings :: "'w settings_env \<Rightarrow> (string \<times> string option) list \<Rightarrow> ('w, 'm, unit) io" where
  "write_settings E changes =
     bind (ask (se_store_fault E)) (\<lambda>fault. case fault of
       Some e \<Rightarrow> throw e | None \<Rightarrow> on_db (replace_settings changes))"

definition store_settings ::
    "'w settings_env \<Rightarrow> app_settings \<Rightarrow> (string \<times> string option) list \<Rightarrow> ('w, 'm, unit) lw_io" where
  \<comment> \<open>the \<open>try\<close> statement of \<open>update\<close> and \<open>reset\<close>\<close>
  "store_settings E current changes =
     bind (catching (write_settings E changes)) (\<lambda>r. case r of
       Inr _ \<Rightarrow> skip
     | Inl e \<Rightarrow>
         seq (restore_logging E current e)
           (raise_app (config_error_because ''settings.persistence.failed'' (class_name e))))"

definition update_settings_body ::
    "'w settings_env \<Rightarrow> update_settings_request \<Rightarrow> ('w, 'm, app_settings) lw_io" where
  "update_settings_body E r =
     bind (settings_get E) (\<lambda>current.
       let directory = (case us_log_directory r of Some d \<Rightarrow> d | None \<Rightarrow> as_log_directory current) in
       seq (raise_when (strip directory = []) (AppExn directory_required))
       (bind (case us_log_level r of Some l \<Rightarrow> of_app (parse_log_level l)
              | None \<Rightarrow> ret (as_log_level current)) (\<lambda>level.
        bind (of_app (new_settings (se_path E directory) level)) (\<lambda>candidate.
        seq (apply_settings E candidate)
        (seq (store_settings E current
                [(''log.directory'', Some (as_log_directory candidate)),
                 (''log.level'', Some (log_level_value (as_log_level candidate)))])
          (ret candidate))))))"

definition update_settings ::
    "'w ports \<Rightarrow> 'w settings_env \<Rightarrow> update_settings_request \<Rightarrow> ('w, 'm, app_settings) lw_io" where
  "update_settings P E r =
     logged P ''program'' ''settings_update'' True ''-'' False None (\<lambda>_. update_settings_body E r)"

definition reset_settings_body :: "'w settings_env \<Rightarrow> ('w, 'm, app_settings) lw_io" where
  "reset_settings_body E =
     bind (of_app (new_settings (se_default E) LogInfo)) (\<lambda>candidate.
     bind (settings_get E) (\<lambda>current.
     seq (apply_settings E candidate)
     (seq (store_settings E current [(''log.directory'', None), (''log.level'', None)])
       (ret candidate))))"

definition reset_settings :: "'w ports \<Rightarrow> 'w settings_env \<Rightarrow> ('w, 'm, app_settings) lw_io" where
  "reset_settings P E =
     logged P ''program'' ''settings_reset'' True ''-'' False None (\<lambda>_. reset_settings_body E)"

definition apply_current :: "'w settings_env \<Rightarrow> ('w, 'm, app_settings) lw_io" where
  "apply_current E = bind (settings_get E) (\<lambda>st. seq (apply_settings E st) (ret st))"

record diagnostic_export =
  de_path :: path
  de_files_exported :: int

definition export_logs ::
    "'w settings_env \<Rightarrow> (path \<Rightarrow> path \<Rightarrow> 'w \<Rightarrow> (exn + int) \<times> 'w) \<Rightarrow> path \<Rightarrow> ('w, 'm, diagnostic_export) lw_io" where
  "export_logs E exporter destination =
     bind (settings_get E) (\<lambda>st.
     bind (call_out (exporter (as_log_directory st) destination)) (\<lambda>n.
     bind (call_out (fs_resolve (se_files E) destination)) (\<lambda>p.
       ret \<lparr>de_path = p, de_files_exported = n\<rparr>)))"

subsection \<open>Facts\<close>

definition stable_paths :: "'w file_system \<Rightarrow> (path \<Rightarrow> path) \<Rightarrow> bool" where
  \<comment> \<open>a path always resolves to the same directory, where it resolves\<close>
  "stable_paths F real \<longleftrightarrow> (\<forall>p w q w' v d v'.
     fs_expanduser F p w = (Inr q, w') \<longrightarrow> fs_resolve F q v = (Inr d, v') \<longrightarrow> d = real p)"

definition logging_for :: "'w settings_env \<Rightarrow> (path \<Rightarrow> path) \<Rightarrow> app_settings \<Rightarrow> logging_state" where
  "logging_for E real st = \<lparr>lgs_path = log_file E (real (as_log_directory st)), lgs_level = as_log_level st\<rparr>"

definition in_force :: "'w settings_env \<Rightarrow> (path \<Rightarrow> path) \<Rightarrow> ('w, 'm) log_world_scheme \<Rightarrow> bool" where
  \<comment> \<open>the logger writes where, and as much as, the stored settings say\<close>
  "in_force E real s \<longleftrightarrow>
     (\<exists>st. fst (settings_get E s) = Inr st \<and> lw_logging s = Some (logging_for E real st))"

abbreviation books :: "('w, 'm) log_world_scheme \<Rightarrow> database \<times> logging_state option" where
  "books s \<equiv> (w_db s, lw_logging s)"

lemma outside_restrict_file [outside_rules, simp]: "outside_only (restrict_file E p)"
  by (simp only: restrict_file_def split: option.split) simp

lemma outside_open_handler: "outside_only (open_handler E p)"
  unfolding open_handler_def Let_def
  by (intro outside_bind outside_try_except outside_call_out)
    (auto split: option.split intro!: outside_bind outside_for_each)

lemma frames_books: "outside_only m \<Longrightarrow> frames books m"
  by (rule outside_frames) auto

lemma reads_settings: "frames (\<lambda>s. s) (settings_get E)"
  unfolding settings_get_def
  by (intro frames_bind reads_on_db) (auto simp: get_setting_def split: option.split)

lemma settings_get_state: "settings_get E s = (r, t) \<Longrightarrow> t = s"
  using framesD [OF reads_settings] by fastforce

lemma settings_get_db: "w_db s = w_db t \<Longrightarrow> fst (settings_get E s) = fst (settings_get E t)"
  by (simp add: settings_get_def get_setting_def bind_def gets_def of_app_def split: option.split sum.split)

lemma apply_logging_cases:
  fixes s :: "('w, 'm) log_world_scheme"
  assumes "stable_paths (se_files E) real" "apply_logging E st s = (r, t)"
  shows "w_db t = w_db s"
    "lw_logging t = (case r of Inl _ \<Rightarrow> lw_logging s | Inr _ \<Rightarrow> Some (logging_for E real st))"
proof -
  let ?out = "\<lambda>m. frames books (m :: ('w, 'm, _) lw_io)"
  obtain r1 w1 where 1: "fs_expanduser (se_files E) (as_log_directory st) (w_out s) = (r1, w1)"
    by (cases "fs_expanduser (se_files E) (as_log_directory st) (w_out s)")
  have "w_db t = w_db s \<and>
    lw_logging t = (case r of Inl _ \<Rightarrow> lw_logging s | Inr _ \<Rightarrow> Some (logging_for E real st))"
  proof (cases r1)
    case (Inl e) with assms(2) 1 show ?thesis by (auto simp: apply_logging_def bind_def)
  next
    case (Inr q)
    obtain r2 w2 where 2: "fs_resolve (se_files E) q w1 = (r2, w2)"
      by (cases "fs_resolve (se_files E) q w1")
    show ?thesis
    proof (cases r2)
      case (Inl e) with assms(2) 1 2 Inr show ?thesis by (auto simp: apply_logging_def bind_def)
    next
      case d: (Inr d)
      then have real: "d = real (as_log_directory st)"
        using assms(1) 1 2 Inr unfolding stable_paths_def by blast
      let ?s = "s\<lparr>w_out := w2\<rparr>"
      obtain r3 u where 3: "open_handler E (log_file E d) ?s = (r3, u)"
        by (cases "open_handler E (log_file E d) ?s")
      have "books u = books ?s" by (rule framesD [OF frames_books [OF outside_open_handler] 3])
      with assms(2) 1 2 3 Inr d real show ?thesis
        by (cases r3) (auto simp: apply_logging_def Let_def bind_def logging_for_def)
    qed
  qed
  then show "w_db t = w_db s"
    "lw_logging t = (case r of Inl _ \<Rightarrow> lw_logging s | Inr _ \<Rightarrow> Some (logging_for E real st))"
    by simp_all
qed

lemma apply_settings_cases:
  assumes "stable_paths (se_files E) real" "se_configured E" "apply_settings E st s = (r, t)"
  shows "w_db t = w_db s"
    "lw_logging t = (case r of Inl _ \<Rightarrow> lw_logging s | Inr _ \<Rightarrow> Some (logging_for E real st))"
proof -
  obtain r' u where u: "apply_logging E st s = (r', u)" by (cases "apply_logging E st s")
  with assms(2,3) have "t = u" "isl r = isl r'"
    by (auto simp: apply_settings_def bind_def split: sum.splits)
  with apply_logging_cases [OF assms(1) u] show "w_db t = w_db s"
    "lw_logging t = (case r of Inl _ \<Rightarrow> lw_logging s | Inr _ \<Rightarrow> Some (logging_for E real st))"
    by (cases r; cases r'; simp)+
qed

lemma in_force_same: "in_force E real s \<Longrightarrow> books t = books s \<Longrightarrow> in_force E real t"
  using settings_get_db [of t s E] by (auto simp: in_force_def)

abbreviation clean_outcome :: "exn + 'a \<Rightarrow> bool" where
  \<comment> \<open>no failed rollback and no interruption\<close>
  "clean_outcome r \<equiv> (case r of Inr _ \<Rightarrow> True
     | Inl e \<Rightarrow> is_exception e \<and> exn_code e \<noteq> Some ''settings.rollback.failed'')"

lemma restore_in_force:
  fixes s :: "('w, 'm) log_world_scheme"
  assumes "stable_paths (se_files E) real" "se_configured E" "fst (settings_get E s) = Inr current"
    and "restore_logging E current e0 s = (r, t)" "clean_outcome r"
  shows "in_force E real t"
proof -
  obtain r' u where u: "apply_settings E current s = (r', u)" by (cases "apply_settings E current s")
  note applied = apply_settings_cases [OF assms(1,2) u]
  show ?thesis
  proof (cases r')
    case (Inl e) with u assms(4,5) show ?thesis
      by (auto simp: restore_logging_def catching_def bind_def is_exception_def mk_error_def split: if_splits)
  next
    case (Inr x)
    with u assms(4) have "t = u" by (simp add: restore_logging_def catching_def bind_def)
    with applied Inr assms(3) settings_get_db [of u s E] show ?thesis by (simp add: in_force_def)
  qed
qed

lemma store_in_force:
  fixes s :: "('w, 'm) log_world_scheme"
  assumes "stable_paths (se_files E) real" "se_configured E" "fst (settings_get E s) = Inr current"
    and "lw_logging s = Some (logging_for E real candidate)"
    and after: "replace_settings changes (w_db s) = (Inr (), d)"
      "\<And>u :: ('w, 'm) log_world_scheme. w_db u = d \<Longrightarrow> fst (settings_get E u) = Inr candidate"
    and "store_settings E current changes s = (r, t)" "clean_outcome r"
  shows "in_force E real t"
proof -
  obtain fault w where w: "se_store_fault E (w_out s) = (fault, w)" by (cases "se_store_fault E (w_out s)")
  let ?s = "s\<lparr>w_out := w\<rparr>"
  show ?thesis
  proof (cases fault)
    case None
    with w after(1) assms(7) have "t = ?s\<lparr>w_db := d\<rparr>"
      by (simp add: store_settings_def write_settings_def catching_def bind_def)
    with assms(4) after(2) [of t] show ?thesis by (simp add: in_force_def)
  next
    case (Some e)
    have failed: "write_settings E changes s = (Inl e, ?s)"
      using w Some by (simp add: write_settings_def bind_def)
    have ex: "is_exception e"
    proof (rule ccontr)
      assume "\<not> is_exception e"
      with failed assms(7,8) show False by (auto simp: store_settings_def catching_def bind_def)
    qed
    obtain r' u where u: "restore_logging E current e ?s = (r', u)" by (cases "restore_logging E current e ?s")
    have r: "t = u \<and> (case r' of Inl x \<Rightarrow> r = Inl x | Inr _ \<Rightarrow> True)"
      using failed ex u assms(7) by (auto simp: store_settings_def catching_def bind_def split: sum.splits)
    have "fst (settings_get E ?s) = Inr current" using assms(3) settings_get_db [of ?s s E] by simp
    from restore_in_force [OF assms(1,2) this u] r assms(8) show ?thesis by (cases r') auto
  qed
qed

lemma change_in_force:
  fixes s :: "('w, 'm) log_world_scheme"
  assumes "stable_paths (se_files E) real" "se_configured E" "in_force E real s"
    and "fst (settings_get E s) = Inr current"
    and after: "replace_settings changes (w_db s) = (Inr (), d)"
      "\<And>u :: ('w, 'm) log_world_scheme. w_db u = d \<Longrightarrow> fst (settings_get E u) = Inr candidate"
    and "seq (apply_settings E candidate) (seq (store_settings E current changes) (ret candidate)) s = (r, t)"
    and "clean_outcome r"
  shows "in_force E real t"
proof -
  obtain r' u where u: "apply_settings E candidate s = (r', u)" by (cases "apply_settings E candidate s")
  note applied = apply_settings_cases [OF assms(1,2) u]
  show ?thesis
  proof (cases r')
    case (Inl e)
    with u assms(7) have "t = u" by simp
    with applied Inl show ?thesis by (intro in_force_same [OF assms(3)]) simp
  next
    case (Inr x)
    obtain r2 v where v: "store_settings E current changes u = (r2, v)" by (cases "store_settings E current changes u")
    with u Inr assms(7,8) have "t = v" "clean_outcome r2" by (auto simp: bind_def split: sum.splits)
    moreover have "fst (settings_get E u) = Inr current"
      using assms(4) settings_get_db [of u s E] applied(1) by simp
    moreover have "replace_settings changes (w_db u) = (Inr (), d)" using after(1) applied(1) by simp
    moreover have "lw_logging u = Some (logging_for E real candidate)" using applied(2) Inr by simp
    ultimately show ?thesis using store_in_force [OF assms(1,2)] after(2) v by blast
  qed
qed

lemma parse_level_texts:
  "parse_log_level ''DEBUG'' = Inr LogDebug" "parse_log_level ''INFO'' = Inr LogInfo"
  "parse_log_level ''WARNING'' = Inr LogWarning" "parse_log_level ''ERROR'' = Inr LogError"
  by code_simp+

lemma parse_level_value [simp]: "parse_log_level (log_level_value l) = Inr l"
  by (cases l) (simp_all add: parse_level_texts)

lemma level_value_nonempty [simp]: "log_level_value l \<noteq> []"
  by (cases l) simp_all

lemma level_value_given [simp]: "given (Some (log_level_value l)) = Some (log_level_value l)"
  by (cases l) (simp_all add: given_def)

lemma new_settings_Inr:
  "new_settings dir l = Inr st \<longleftrightarrow> strip dir \<noteq> [] \<and> st = \<lparr>as_log_directory = dir, as_log_level = l\<rparr>"
  by (auto simp: new_settings_def app_settings_init_def)

lemma stored_settings:
  assumes "\<And>p. se_path E (se_path E p) = se_path E p" "new_settings (se_path E p) l = Inr st"
    and "w_db u = d\<lparr>db_settings := dict_set ''log.level'' (log_level_value l)
           (dict_set ''log.directory'' (se_path E p) (db_settings d))\<rparr>"
  shows "fst (settings_get E u) = Inr st"
proof -
  have "se_path E p \<noteq> []" using assms(2) by (auto simp: new_settings_Inr strip_def lstrip_def rstrip_def)
  with assms show ?thesis
    by (simp add: settings_get_def get_setting_def bind_def gets_def given_def)
qed

text \<open>
  C38: The logger writes where, and as much as, the stored settings say, and changing or resetting
  the settings keeps this: when the new ones cannot be stored the old ones are applied again.  Only
  a rollback that fails, which is reported, and an interruption are excepted.
\<close>

theorem settings_stay_in_force:
  fixes s :: "('w, 'm) log_world_scheme"
  assumes "stable_paths (se_files E) real" "se_configured E" "\<And>p. se_path E (se_path E p) = se_path E p"
    and "in_force E real s"
    and "update_settings_body E request s = (r, t) \<or> reset_settings_body E s = (r, t)"
    and "clean_outcome r"
  shows "in_force E real t"
proof -
  obtain current where get: "settings_get E s = (Inr current, s)"
    using assms(4) settings_get_state unfolding in_force_def by (metis prod.collapse)
  from assms(5) show ?thesis
  proof
    assume run: "update_settings_body E request s = (r, t)"
    let ?dir = "case us_log_directory request of Some d \<Rightarrow> d | None \<Rightarrow> as_log_directory current"
    let ?l = "case us_log_level request of Some l \<Rightarrow> parse_log_level l | None \<Rightarrow> Inr (as_log_level current)"
    show ?thesis
    proof (cases "t = s")
      case False
      obtain l candidate where "?l = Inr l" and c: "new_settings (se_path E ?dir) l = Inr candidate"
        and rest: "seq (apply_settings E candidate) (seq (store_settings E current
            [(''log.directory'', Some (as_log_directory candidate)),
             (''log.level'', Some (log_level_value (as_log_level candidate)))]) (ret candidate)) s = (r, t)"
        using run get False
        by (auto simp: update_settings_body_def Let_def bind_def [of "of_app _"] bind_def [of "settings_get E"]
            bind_def [of "raise_when _ _"] of_app_def split: if_splits sum.splits option.splits)
      show ?thesis
        by (rule change_in_force [OF assms(1,2,4) _ _ stored_settings [OF assms(3) c] rest assms(6)])
          (use get c in \<open>auto simp: new_settings_Inr replace_settings_def transact_def put_setting_def
            modify_def bind_def skip_def ret_def\<close>)
    qed (use assms(4) in simp)
  next
    assume run: "reset_settings_body E s = (r, t)"
    show ?thesis
    proof (cases "new_settings (se_default E) LogInfo")
      case (Inl e) with run assms(4) show ?thesis by (simp add: reset_settings_body_def)
    next
      case (Inr candidate)
      with run get have rest: "seq (apply_settings E candidate) (seq (store_settings E current
            [(''log.directory'', None), (''log.level'', None)]) (ret candidate)) s = (r, t)"
        by (simp add: reset_settings_body_def bind_def [of "settings_get E"])
      show ?thesis
        by (rule change_in_force [OF assms(1,2,4) _ _ _ rest assms(6)])
          (use get Inr in \<open>auto simp: replace_settings_def transact_def delete_setting_def modify_def
            bind_def skip_def ret_def settings_get_def get_setting_def gets_def given_def\<close>)
    qed
  qed
qed

definition idle_files :: "unit file_system" where
  \<comment> \<open>a platform where every path resolves to itself and every call succeeds\<close>
  "idle_files = \<lparr>fs_name = (\<lambda>p. p), fs_parent = (\<lambda>p. p), fs_join = (\<lambda>p names. p @ ''/'' @ concat names),
     fs_relative_posix = (\<lambda>p q. p), fs_is_relative_to = (\<lambda>p q. True), fs_windows = False,
     fs_expanduser = (\<lambda>p w. (Inr p, w)), fs_resolve = (\<lambda>p w. (Inr p, w)),
     fs_is_symlink = (\<lambda>p w. (Inr False, w)), fs_is_file = (\<lambda>p w. (Inr True, w)),
     fs_is_dir = (\<lambda>p w. (Inr True, w)), fs_exists = (\<lambda>p w. (Inr True, w)),
     fs_descendants = (\<lambda>p w. (Inr [], w)), fs_size = (\<lambda>p w. (Inr 0, w)),
     fs_make_dirs = (\<lambda>p w. (Inr (), w)), fs_temporary = (\<lambda>p w. (Inr p, w)),
     fs_replace = (\<lambda>p q w. (Inr (), w)), fs_rename = (\<lambda>p q w. (Inr (), w)),
     fs_link = (\<lambda>p q w. (Inr (), w)), fs_unlink = (\<lambda>p w. (Inr (), w)),
     fs_unlink_if_present = (\<lambda>p w. (Inr (), w)), fs_open = (\<lambda>p w. (Inr 0, w)),
     fs_read = (\<lambda>h n w. (Inr [], w)), fs_close = (\<lambda>h w. (Inr (), w))\<rparr>"

definition full_disk_env :: "unit settings_env" where
  \<comment> \<open>the database cannot be written\<close>
  "full_disk_env = \<lparr>se_path = (\<lambda>p. p), se_default = ''/log'', se_files = idle_files, se_configured = True,
     se_restrict = None, se_log_files = (\<lambda>p w. (Inr [], w)), se_open_log = (\<lambda>p w. (Inr 0, w)),
     se_close_log = (\<lambda>h w. (Inr (), w)),
     se_store_fault = (\<lambda>w. (Some (OperationalError ''database or disk is full''), w))\<rparr>"

definition quiet_world :: "unit log_world" where
  "quiet_world = \<lparr>w_db = empty_database, w_exec = None, w_out = (),
     lw_logging = Some \<lparr>lgs_path = ''/log/aws-connect.log'', lgs_level = LogInfo\<rparr>\<rparr>"

theorem settings_stay_in_force_witness:
  "let out = update_settings_body full_disk_env \<lparr>us_log_directory = None, us_log_level = Some ''debug''\<rparr> quiet_world
   in (case fst out of Inl (AppExn e) \<Rightarrow> ae_message_code e | _ \<Rightarrow> []) = ''settings.persistence.failed'' \<and>
     in_force full_disk_env (\<lambda>p. p) (snd out)"
proof -
  let ?r = "\<lparr>us_log_directory = None, us_log_level = Some ''debug''\<rparr>"
  let ?out = "update_settings_body full_disk_env ?r quiet_world"
  have paths: "stable_paths (se_files full_disk_env) (\<lambda>p. p)"
    by (simp add: stable_paths_def full_disk_env_def idle_files_def)
  have env: "se_configured full_disk_env" "\<And>p. se_path full_disk_env (se_path full_disk_env p) = se_path full_disk_env p"
    by (simp_all add: full_disk_env_def)
  have "fst (settings_get full_disk_env quiet_world) = Inr \<lparr>as_log_directory = ''/log'', as_log_level = LogInfo\<rparr>"
    by code_simp
  moreover have "lw_logging quiet_world =
      Some (logging_for full_disk_env (\<lambda>p. p) \<lparr>as_log_directory = ''/log'', as_log_level = LogInfo\<rparr>)"
    by code_simp
  ultimately have start: "in_force full_disk_env (\<lambda>p. p) quiet_world" unfolding in_force_def by blast
  have r: "fst ?out = Inl (AppExn (config_error_because ''settings.persistence.failed'' ''OperationalError''))"
    by code_simp
  have "clean_outcome (fst ?out)" by (simp add: r is_exception_def mk_error_def)
  from settings_stay_in_force [OF paths env start disjI1 [OF prod.collapse [symmetric]] this] r
  show ?thesis by (simp add: Let_def mk_error_def)
qed

end
