(* ===== verification/Activity_Log.thy ===== *)
theory Activity_Log
  imports Execution_History Settings_Service
begin

text \<open>
  The service that records the history of the use cases and reads it back
  (\<open>application/activity_log_service.py\<close>).  Its state is the outside of the other services: the table
  of the history, \<open>lo_history\<close>, and the rest, so that \<open>record_activity\<close> is a value of their port
  \<open>pt_recorder\<close>.  The local time zone of the platform is the pair of functions \<open>local_time\<close>.
\<close>

record 'x log_out =
  lo_history :: "log_event table"
  lo_out :: 'x

record managed_entry =
  me_occurred_at :: instant
  me_feature :: string
  me_target :: string
  me_result :: string
  me_message_code :: string
  me_operation :: "string option"
  me_level :: "string option"
  me_correlation_id :: "string option"
  me_operation_id :: "string option"
  me_aws_service :: "string option"
  me_aws_action :: "string option"
  me_aws_request_id :: "string option"
  me_retryable :: "bool option"
  me_masked_detail :: "string option"
  me_profile_id :: json
  me_region :: json
  me_phase :: execution_phase
  me_error_category :: "error_category option"
  me_error_code :: "string option"
  me_required_permission :: "string option"
  me_metadata_json :: string

record activity_query =
  aq_period_days :: "int option"
  aq_levels :: "string list"
  aq_features :: "string list"
  aq_search :: string
  aq_errors_only :: bool

record aws_call =
  ac_service :: "string option"
  ac_action :: "string option"
  ac_request_id :: "string option"

record local_time =
  lt_day :: "instant \<Rightarrow> int"  \<comment> \<open>\<open>t.astimezone().date()\<close>\<close>
  lt_midnight :: "instant \<Rightarrow> instant"

record 'x activity_env =
  av_repository :: bool
  av_sanitizer :: bool
  av_parse :: "string \<Rightarrow> json option"
  av_now :: "'x \<Rightarrow> instant \<times> 'x"
  av_store_now :: "'x \<Rightarrow> instant \<times> 'x"
  av_uuid :: "'x \<Rightarrow> string \<times> 'x"
  av_write :: "managed_entry \<Rightarrow> 'x \<Rightarrow> (exn + unit) \<times> 'x"
  av_read :: "path \<Rightarrow> int \<Rightarrow> 'x \<Rightarrow> (exn + managed_entry list) \<times> 'x"
  av_local :: local_time

subsection \<open>Recording\<close>

type_synonym ('x, 'a) log_io = "('x log_out, exn, 'a) eff"

definition on_history :: "(log_event table, exn, 'a) eff \<Rightarrow> ('x, 'a) log_io" where
  "on_history = zoom lo_history (\<lambda>t. lo_history_update (\<lambda>_. t))"

definition on_rest :: "('x \<Rightarrow> (exn + 'a) \<times> 'x) \<Rightarrow> ('x, 'a) log_io" where
  "on_rest = zoom lo_out (\<lambda>x. lo_out_update (\<lambda>_. x))"

definition ask_rest :: "('x \<Rightarrow> 'a \<times> 'x) \<Rightarrow> ('x, 'a) log_io" where
  "ask_rest f = on_rest (\<lambda>x. case f x of (a, y) \<Rightarrow> (Inr a, y))"

definition feature_key :: "string \<Rightarrow> string" where
  "feature_key feature =
     (let v = casefold feature in
      if contains v ''ec2'' then ''ec2'' else if contains v ''rds'' then ''rds''
      else if contains v ''s3'' then ''s3'' else if contains v ''secret'' then ''secrets''
      else if contains v ''auth'' \<or> contains v ''profile'' then ''auth''
      else if contains v ''dashboard'' then ''dashboard'' else ''program'')"

definition json_of_meta :: "meta \<Rightarrow> json" where
  "json_of_meta m = (case m of MetaInt i \<Rightarrow> JInt i | MetaStr s \<Rightarrow> JStr s)"

definition or_else :: "string option \<Rightarrow> string option \<Rightarrow> string option" where
  \<comment> \<open>\<open>a or b\<close>: an empty text gives way\<close>
  "or_else a b = (case given a of Some x \<Rightarrow> Some x | None \<Rightarrow> b)"

definition default_level :: "execution_result \<Rightarrow> string" where
  "default_level r = (case r of ResFailure \<Rightarrow> ''ERROR'' | ResWarning \<Rightarrow> ''WARNING''
     | ResCancelled \<Rightarrow> ''WARNING'' | ResSuccess \<Rightarrow> ''INFO'')"

definition level_of :: "string \<Rightarrow> exn + execution_level" where
  \<comment> \<open>\<open>ExecutionLevel(text)\<close>\<close>
  "level_of text = (case find (\<lambda>l. level_value l = text) [LevelDebug, LevelInfo, LevelWarning, LevelError] of
     Some l \<Rightarrow> Inr l | None \<Rightarrow> Inl (PyExn ''ValueError''))"

definition metadata_invalid :: app_error where
  "metadata_invalid =
     config_error_because ''logs.metadata.invalid'' ''Execution metadata must be a JSON object''"

definition call_metadata :: "(string \<Rightarrow> json option) \<Rightarrow> log_call \<Rightarrow> app_error + string" where
  "call_metadata parse c =
     (let text = dumps True (JObj (map (\<lambda>(k, m). (k, json_of_meta m)) (lc_metadata c)));
          extra = [(''profile_id'', case lc_profile_id c of Some i \<Rightarrow> JInt i | None \<Rightarrow> JNull),
                   (''region'', case lc_region c of Some r \<Rightarrow> JStr r | None \<Rightarrow> JNull),
                   (''retryable'', case lc_retryable c of Some b \<Rightarrow> JBool b | None \<Rightarrow> JNull)]
      in case (if length text \<le> 8192 then parse text else Some (JObj [])) of
           Some (JObj kvs) \<Rightarrow> Inr (dumps True (JObj (fold (\<lambda>(k, v). dict_set k v) extra kvs)))
         | _ \<Rightarrow> Inl metadata_invalid)"

definition identified :: "(string \<times> string) option \<Rightarrow> aws_call option \<Rightarrow> log_call \<Rightarrow> log_call" where
  \<comment> \<open>what a call leaves open is taken from the execution and from the current AWS call\<close>
  "identified who call c =
     (let c1 = (case who of None \<Rightarrow> c | Some (cor, op) \<Rightarrow>
                  c\<lparr>lc_correlation_id := or_else (lc_correlation_id c) (Some cor),
                    lc_operation_id := or_else (lc_operation_id c) (Some op)\<rparr>)
      in case call of None \<Rightarrow> c1 | Some k \<Rightarrow>
        (let c2 = c1\<lparr>lc_aws_service := or_else (lc_aws_service c1) (ac_service k),
                     lc_aws_action := or_else (lc_aws_action c1) (ac_action k)\<rparr>
         in if lc_aws_service c2 = ac_service k \<and> lc_aws_action c2 = ac_action k
            then c2\<lparr>lc_aws_request_id := or_else (lc_aws_request_id c2) (ac_request_id k)\<rparr> else c2))"

definition call_event :: "string \<Rightarrow> instant \<Rightarrow> log_call \<Rightarrow> exn + log_event" where
  "call_event metadata now c =
     (let status = result_from_legacy (lc_result c);
          level = (if lc_level c \<noteq> [] then lc_level c else default_level status) in
      case level_of level of Inl e \<Rightarrow> Inl e | Inr l \<Rightarrow>
        Inr \<lparr>le_occurred_at = now, le_level = l, le_result = status, le_phase = lc_phase c,
          le_feature = feature_key (lc_feature c),
          le_action = (if lc_operation c \<noteq> [] then lc_operation c else lc_message_code c),
          le_target = lc_target c, le_message = lc_message_code c,
          le_correlation_id = lc_correlation_id c, le_operation_id = lc_operation_id c,
          le_aws_service = lc_aws_service c, le_aws_action = lc_aws_action c,
          le_aws_request_id = lc_aws_request_id c, le_error_category = lc_error_category c,
          le_error_code = lc_error_code c, le_required_permission = lc_required_permission c,
          le_metadata_json = metadata\<rparr>)"

definition metadata_get :: "(string \<Rightarrow> json option) \<Rightarrow> string \<Rightarrow> exn + (string \<Rightarrow> json)" where
  \<comment> \<open>\<open>json.loads(text)\<close>, of which \<open>get\<close> is called\<close>
  "metadata_get parse text =
     (case parse text of
        None \<Rightarrow> Inl (PyExn ''JSONDecodeError'')
      | Some (JObj kvs) \<Rightarrow> Inr (\<lambda>k. case dict_get kvs k of Some v \<Rightarrow> v | None \<Rightarrow> JNull)
      | Some _ \<Rightarrow> Inl (PyExn ''AttributeError''))"

definition execution_entry :: "(string \<Rightarrow> json option) \<Rightarrow> log_event \<Rightarrow> exn + managed_entry" where
  "execution_entry parse e =
     (case metadata_get parse (le_metadata_json e) of Inl x \<Rightarrow> Inl x | Inr get \<Rightarrow>
      Inr \<lparr>me_occurred_at = le_occurred_at e, me_feature = le_feature e, me_target = le_target e,
        me_result = result_value (le_result e), me_message_code = le_message e,
        me_operation = Some (le_action e), me_level = Some (level_value (le_level e)),
        me_correlation_id = le_correlation_id e, me_operation_id = le_operation_id e,
        me_aws_service = le_aws_service e, me_aws_action = le_aws_action e,
        me_aws_request_id = le_aws_request_id e, me_retryable = None, me_masked_detail = None,
        me_profile_id = get ''profile_id'', me_region = get ''region'', me_phase = le_phase e,
        me_error_category = le_error_category e, me_error_code = le_error_code e,
        me_required_permission = le_required_permission e, me_metadata_json = le_metadata_json e\<rparr>)"

definition sanitizer_required :: app_error where
  "sanitizer_required =
     config_error_because ''logs.sanitizer.required'' ''Execution history requires a masking adapter''"

definition or_uuid :: "'x activity_env \<Rightarrow> string option \<Rightarrow> ('x, string) log_io" where
  "or_uuid A x = (case given x of Some i \<Rightarrow> ret i | None \<Rightarrow> ask_rest (av_uuid A))"

definition record_event :: "'x activity_env \<Rightarrow> log_event \<Rightarrow> ('x, unit) log_io" where
  \<comment> \<open>\<open>_record_event\<close>; an instant carries its time zone\<close>
  "record_event A e =
     seq (raise_when (\<not> av_sanitizer A) (AppExn sanitizer_required))
     (bind (or_uuid A (le_correlation_id e)) (\<lambda>cor.
      bind (or_uuid A (le_operation_id e)) (\<lambda>op.
        let safe = sanitize_event (av_parse A)
              (e\<lparr>le_correlation_id := Some cor, le_operation_id := Some op\<rparr>) in
        seq (if av_repository A
             then bind (ask_rest (av_store_now A)) (\<lambda>now. on_history (append_execution_log (av_parse A) now safe))
             else skip)
        (bind (of_result (execution_entry (av_parse A) safe)) (\<lambda>entry. on_rest (av_write A entry))))))"

definition plain_entry :: "instant \<Rightarrow> log_call \<Rightarrow> managed_entry" where
  \<comment> \<open>what is written when there is no structured history\<close>
  "plain_entry now c =
     \<lparr>me_occurred_at = now, me_feature = lc_feature c, me_target = lc_target c,
      me_result = lc_result c, me_message_code = lc_message_code c,
      me_operation = given (Some (lc_operation c)), me_level = given (Some (lc_level c)),
      me_correlation_id = lc_correlation_id c, me_operation_id = lc_operation_id c,
      me_aws_service = lc_aws_service c, me_aws_action = lc_aws_action c,
      me_aws_request_id = lc_aws_request_id c, me_retryable = lc_retryable c, me_masked_detail = None,
      me_profile_id = (case lc_profile_id c of Some i \<Rightarrow> JInt i | None \<Rightarrow> JNull),
      me_region = (case lc_region c of Some r \<Rightarrow> JStr r | None \<Rightarrow> JNull), me_phase = lc_phase c,
      me_error_category = lc_error_category c, me_error_code = lc_error_code c,
      me_required_permission = lc_required_permission c,
      me_metadata_json = dumps True (JObj (map (\<lambda>(k, m). (k, json_of_meta m)) (lc_metadata c)))\<rparr>"

definition record_activity ::
    "'x activity_env \<Rightarrow> aws_call option \<Rightarrow> (string \<times> string) option \<Rightarrow> log_call \<Rightarrow> ('x, unit) log_io" where
  "record_activity A call who c =
     (let c' = identified who call c in
      if av_repository A
      then bind (of_app (call_metadata (av_parse A) c')) (\<lambda>metadata.
           bind (ask_rest (av_now A)) (\<lambda>now.
           bind (of_result (call_event metadata now c')) (record_event A)))
      else bind (ask_rest (av_now A)) (\<lambda>now. on_rest (av_write A (plain_entry now c'))))"

subsection \<open>Reading\<close>

definition no_filter :: log_filter where
  "no_filter = \<lparr>lf_since = None, lf_levels = [], lf_features = [], lf_search = [],
     lf_errors_only = False, lf_correlation_id = None, lf_operation_id = None, lf_completed_only = False\<rparr>"

definition list_history :: "'x activity_env \<Rightarrow> log_filter option \<Rightarrow> int \<Rightarrow> ('x, log_event list) log_io" where
  "list_history A q limit =
     seq (raise_when (limit < 1 \<or> 10000 < limit) (AppExn (config_error_because ''logs.limit.invalid''
            ''Execution log limit must be between 1 and 10000'')))
     (seq (raise_when (\<not> av_repository A) (AppExn (config_error_because ''logs.repository.required''
             ''Structured execution history is unavailable'')))
       (bind (ask_rest (av_store_now A)) (\<lambda>now.
          on_history (query_execution_logs (av_parse A) now
            (case q of Some f \<Rightarrow> f | None \<Rightarrow> no_filter) limit))))"

definition list_recent :: "'x activity_env \<Rightarrow> int \<Rightarrow> ('x, log_event list) log_io" where
  "list_recent A limit = list_history A (Some (no_filter\<lparr>lf_completed_only := True\<rparr>)) limit"

definition load_dashboard_recent ::
    "'x activity_env \<Rightarrow> aws_call option \<Rightarrow> (string \<times> string) option \<Rightarrow> int \<Rightarrow> ('x, log_event list) log_io" where
  "load_dashboard_recent A call who limit =
     bind (list_recent A limit) (\<lambda>entries.
     seq (record_activity A call who (log_entry ''dashboard'' ''load'' ''SUCCESS'' ''INFO'' PhaseCompleted
            ''dashboard.load.completed''))
       (ret entries))"

definition entry_result :: "managed_entry \<Rightarrow> string" where
  "entry_result e =
     (let v = casefold (me_result e) in
      if v \<in> {''failed'', ''failure'', ''error''} then ''failure''
      else if v \<in> {''warning'', ''warn'', ''notice'', ''cancelled''} then ''warning'' else ''success'')"

definition entry_level :: "managed_entry \<Rightarrow> string" where
  "entry_level e =
     (case given (me_level e) of
        Some l \<Rightarrow> str_upper l
      | None \<Rightarrow> if entry_result e = ''failure'' then ''ERROR''
                else if entry_result e = ''warning'' then ''WARNING'' else ''INFO'')"

definition matches_search :: "managed_entry \<Rightarrow> string \<Rightarrow> bool" where
  "matches_search e needle \<longleftrightarrow> needle = [] \<or>
     list_ex (\<lambda>v. contains (casefold v) needle)
       [me_message_code e, case me_masked_detail e of Some d \<Rightarrow> d | None \<Rightarrow> [],
        case me_operation_id e of Some d \<Rightarrow> d | None \<Rightarrow> [],
        case me_correlation_id e of Some d \<Rightarrow> d | None \<Rightarrow> [], me_target e,
        case me_aws_action e of Some d \<Rightarrow> d | None \<Rightarrow> []]"

definition filter_activity_logs ::
    "local_time \<Rightarrow> managed_entry list \<Rightarrow> activity_query option \<Rightarrow> instant \<Rightarrow> managed_entry list" where
  "filter_activity_logs L entries query now =
     (case query of None \<Rightarrow> entries | Some q \<Rightarrow>
      (let threshold = map_option (\<lambda>n. now - days (n - 1)) (aq_period_days q);
           levels = str_upper ` set (aq_levels q); features = casefold ` set (aq_features q);
           needle = casefold (strip (aq_search q)) in
       filter (\<lambda>e.
         (case threshold of None \<Rightarrow> True | Some t \<Rightarrow> lt_day L t \<le> lt_day L (me_occurred_at e)) \<and>
         (levels = {} \<or> entry_level e \<in> levels) \<and>
         (features = {} \<or> feature_key (me_feature e) \<in> features) \<and>
         (aq_errors_only q \<longrightarrow> entry_result e = ''failure'') \<and>
         matches_search e needle) entries))"

definition history_entries :: "'x activity_env \<Rightarrow> log_filter \<Rightarrow> int \<Rightarrow> ('x, managed_entry list) log_io" where
  "history_entries A q limit =
     bind (list_history A (Some q) limit) (map_each (\<lambda>e. of_result (execution_entry (av_parse A) e)))"

definition managed_entries ::
    "'x log_out settings_env \<Rightarrow> 'x activity_env \<Rightarrow> int \<Rightarrow> ('x log_out, 'm, managed_entry list) io" where
  \<comment> \<open>\<open>self._reader.read_recent(self._settings.get().log_directory, limit)\<close>\<close>
  "managed_entries E A limit =
     bind (settings_get E) (\<lambda>st. call_out (on_rest (av_read A (as_log_directory st) limit)))"

definition shell_connection :: "int \<Rightarrow> string \<Rightarrow> managed_entry \<Rightarrow> bool" where
  \<comment> \<open>a \<open>profile_id\<close> that is a float does not occur\<close>
  "shell_connection profile_id region e \<longleftrightarrow>
     me_feature e = ''ec2'' \<and>
     (me_message_code e = ''ec2.connection.succeeded'' \<or>
      (me_operation e \<in> {Some ''connect'', Some ''connect_external''} \<and>
       me_aws_service e = Some ''ssm'' \<and> me_aws_action e = Some ''StartSession'')) \<and>
     result_from_legacy (me_result e) = ResSuccess \<and>
     (case me_profile_id e of JInt i \<Rightarrow> i = profile_id | JBool b \<Rightarrow> profile_id = (if b then 1 else 0)
      | _ \<Rightarrow> False) \<and>
     me_region e = JStr region"

definition note_connection :: "managed_entry \<Rightarrow> (string, instant) dict \<Rightarrow> (string, instant) dict" where
  "note_connection e latest =
     (case dict_get latest (me_target e) of
        None \<Rightarrow> dict_set (me_target e) (me_occurred_at e) latest
      | Some previous \<Rightarrow>
          if previous < me_occurred_at e then dict_set (me_target e) (me_occurred_at e) latest else latest)"

definition latest_connections :: "int \<Rightarrow> string \<Rightarrow> managed_entry list \<Rightarrow> (string, instant) dict" where
  "latest_connections profile_id region entries =
     fold (\<lambda>e latest. if shell_connection profile_id region e then note_connection e latest else latest)
       entries []"

definition recent_ec2_connections ::
    "'x log_out settings_env \<Rightarrow> 'x activity_env \<Rightarrow> int \<Rightarrow> string \<Rightarrow> ('x log_out, 'm, (string, instant) dict) io" where
  "recent_ec2_connections E A profile_id region =
     bind (if av_repository A
           then call_out (history_entries A
                  (no_filter\<lparr>lf_features := [''ec2''], lf_completed_only := True\<rparr>) 10000)
           else managed_entries E A 10000) (\<lambda>entries.
       ret (latest_connections profile_id region entries))"

definition recent_activity ::
    "'x log_out settings_env \<Rightarrow> 'x activity_env \<Rightarrow> int \<Rightarrow> activity_query option
     \<Rightarrow> ('x log_out, 'm, managed_entry list) io" where
  "recent_activity E A limit query =
     seq (raise_when (limit < 1 \<or> 500 < limit) (AppExn (config_error_because ''logs.limit.invalid''
            ''Managed log limit must be between 1 and 500'')))
     (if av_repository A
      then
        (let q = (case query of Some x \<Rightarrow> x | None \<Rightarrow>
                   \<lparr>aq_period_days = None, aq_levels = [], aq_features = [], aq_search = [], aq_errors_only = False\<rparr>)
         in bind (case aq_period_days q of None \<Rightarrow> ret None | Some n \<Rightarrow>
                   bind (call_out (ask_rest (av_now A))) (\<lambda>now.
                     ret (Some (lt_midnight (av_local A) now - days (n - 1))))) (\<lambda>since.
           call_out (history_entries A (no_filter\<lparr>
             lf_since := since, lf_levels := aq_levels q, lf_features := aq_features q,
             lf_search := aq_search q, lf_errors_only := aq_errors_only q\<rparr>) limit)))
      else bind (managed_entries E A limit) (\<lambda>entries.
        bind (call_out (ask_rest (av_now A))) (\<lambda>now.
          ret (filter_activity_logs (av_local A) entries query now))))"

subsection \<open>The last connections\<close>

definition connection_times :: "int \<Rightarrow> string \<Rightarrow> managed_entry list \<Rightarrow> string \<Rightarrow> instant list" where
  "connection_times profile_id region entries i =
     map me_occurred_at (filter (\<lambda>e. shell_connection profile_id region e \<and> me_target e = i) entries)"

lemma Max_insert_Max:
  fixes a :: "'a :: linorder"
  assumes "finite A" "finite B"
  shows "Max (insert (Max (insert a A)) B) = Max (insert a (A \<union> B))"
  using assms by (cases "A = {}"; cases "B = {}") (simp_all add: Max_Un max.assoc)

lemma note_connection_get:
  "dict_get (note_connection e latest) i =
     (if me_target e \<noteq> i then dict_get latest i
      else Some (case dict_get latest i of None \<Rightarrow> me_occurred_at e | Some t \<Rightarrow> max t (me_occurred_at e)))"
  by (auto simp: note_connection_def max_def split: option.split)

text \<open>
  C39: The last connections of a profile in a region name, for each instance, the latest time at
  which a shell was opened on it according to the history, and no other instance.
\<close>

theorem latest_connections_are_latest:
  "dict_get (latest_connections profile_id region entries) i =
     (let times = connection_times profile_id region entries i in
      if times = [] then None else Some (Max (set times)))"
proof -
  define step where "step = (\<lambda>e latest.
    if shell_connection profile_id region e then note_connection e latest else latest)"
  have "dict_get (fold step entries latest) i =
      (let times = connection_times profile_id region entries i in
       if times = [] then dict_get latest i
       else Some (Max (set times \<union> set_option (dict_get latest i))))" for latest
  proof (induction entries arbitrary: latest)
    case (Cons e entries)
    have "dict_get (step e latest) i =
        (if shell_connection profile_id region e \<and> me_target e = i
         then Some (Max (insert (me_occurred_at e) (set_option (dict_get latest i)))) else dict_get latest i)"
      by (auto simp: step_def note_connection_get max.commute split: option.split)
    with Cons show ?case
      by (auto simp: connection_times_def Let_def Un_commute Max_insert_Max)
  qed (simp add: connection_times_def)
  then show ?thesis
    by (simp add: latest_connections_def step_def Let_def)
qed

end
