(* ===== verification/Drive_Service.thy ===== *)
theory Drive_Service
  imports Tunnel_Facts
begin

text \<open>
  S3 drives (\<open>application/s3_drive_service.py\<close>).  The mount is the record of ports \<open>mount_ports\<close>;
  an operation context that \<open>connect\<close> hands on reports through the outside.  The service's flag
  \<open>_closing\<close> is the field \<open>dw_closing\<close> of its world.
\<close>

record 'w mount_ports =
  mo_letters :: "'w \<Rightarrow> (exn + string set) \<times> 'w"
  mo_status :: "s3_drive \<Rightarrow> 'w \<Rightarrow> (exn + drive_status) \<times> 'w"
  mo_connect :: "s3_drive \<Rightarrow> plain_credentials \<Rightarrow> string \<Rightarrow> op_context \<Rightarrow> 'w \<Rightarrow> (exn + unit) \<times> 'w"
  mo_disconnect :: "s3_drive \<Rightarrow> 'w \<Rightarrow> (exn + unit) \<times> 'w"
  mo_assert_editable :: "s3_drive \<Rightarrow> 'w \<Rightarrow> (exn + unit) \<times> 'w"

record ('w, 'r) drive_world = "('w, 'r) tunnel_world" +
  dw_closing :: bool

type_synonym ('w, 'r, 'm, 'a) dw_io = "(('w, 'r, 'm) drive_world_scheme, exn, 'a) eff"

definition drive_letter_busy :: "string \<Rightarrow> app_error" where
  "drive_letter_busy cause = config_error_because ''drive.letter.busy'' cause"

definition drive_list :: "'w mount_ports \<Rightarrow> int option \<Rightarrow> ('w, 'm, drive_status list) io" where
  "drive_list M profile_id =
     bind (on_db (list_drives profile_id)) (map_each (\<lambda>d. call_out (mo_status M d)))"

definition drive_get :: "int \<Rightarrow> ('w, 'm, s3_drive) io" where
  "drive_get i =
     bind (on_db (get_drive i)) (\<lambda>found. case found of
       None \<Rightarrow> raise_app (config_error_because ''drive.not_found'' ''The saved drive no longer exists'')
     | Some d \<Rightarrow> ret d)"

definition available_letters :: "'w mount_ports \<Rightarrow> ('w, 'm, string set) io" where
  "available_letters M = call_out (mo_letters M)"

definition drive_save :: "'w mount_ports \<Rightarrow> s3_drive \<Rightarrow> ('w, 'm, s3_drive) io" where
  "drive_save M d =
     bind (resolve_profile (SelInt (sd_profile_id d))) (\<lambda>_.
     seq (case sd_id d of None \<Rightarrow> skip | Some i \<Rightarrow>
            bind (drive_get i) (\<lambda>previous.
            seq (raise_when (sd_profile_id previous \<noteq> sd_profile_id d)
                   (AppExn (config_error_because ''drive.owner.invalid'' ''Drive ownership cannot change'')))
              (call_out (mo_assert_editable M previous))))
     (bind (available_letters M) (\<lambda>letters.
      seq (raise_when (sd_letter d \<notin> letters)
             (AppExn (drive_letter_busy ''The selected drive letter is in use'')))
        (on_db (save_drive d)))))"

definition drive_connect ::
    "'w ports \<Rightarrow> 'w mount_ports \<Rightarrow> int \<Rightarrow> op_context \<Rightarrow> ('w, 'r, 'm, drive_status) dw_io" where
  "drive_connect P M i cx =
     bind (gets dw_closing) (\<lambda>closing.
     seq (raise_when closing
            (AppExn (config_error_because ''drive.closing'' ''Application shutdown is in progress'')))
     (bind (drive_get i) (\<lambda>d.
      bind (resolve_profile (SelInt (sd_profile_id d))) (\<lambda>p.
      bind (require_credentials P (sd_profile_id d)) (\<lambda>c.
      seq (raise_if_cancelled P cx)
      (seq (call_out (mo_connect M d c (ap_region p) cx))
        (call_out (mo_status M d))))))))"

definition drive_clone :: "'w mount_ports \<Rightarrow> int \<Rightarrow> string \<Rightarrow> ('w, 'm, s3_drive) io" where
  "drive_clone M i name =
     bind (drive_get i) (\<lambda>source.
     bind (on_db (list_drives None)) (\<lambda>drives.
     bind (available_letters M) (\<lambda>letters.
       let available = letters - sd_letter ` set drives in
       if available = {} then raise_app (drive_letter_busy ''No unused drive letter for clone'')
       else bind (of_app (s3_drive_init (source\<lparr>sd_id := None, sd_name := name,
                            sd_letter := Min available\<rparr>))) (drive_save M))))"

definition drive_rename :: "'w mount_ports \<Rightarrow> int \<Rightarrow> string \<Rightarrow> ('w, 'm, s3_drive) io" where
  "drive_rename M i name =
     bind (drive_get i) (\<lambda>d. bind (of_app (s3_drive_init (d\<lparr>sd_name := name\<rparr>))) (drive_save M))"

definition connected_path :: "'w mount_ports \<Rightarrow> int \<Rightarrow> ('w, 'm, string) io" where
  "connected_path M i =
     bind (drive_get i) (\<lambda>d.
     bind (call_out (mo_status M d)) (\<lambda>st.
     seq (raise_when (dst_state st \<noteq> DriveConnected)
            (AppExn (config_error_because ''drive.not_connected'' ''Connect the mount before opening it'')))
       (ret (windows_path d))))"

definition drive_disconnect :: "'w mount_ports \<Rightarrow> int \<Rightarrow> ('w, 'm, unit) io" where
  "drive_disconnect M i = bind (drive_get i) (\<lambda>d. call_out (mo_disconnect M d))"

definition drive_delete :: "'w mount_ports \<Rightarrow> int \<Rightarrow> ('w, 'm, unit) io" where
  "drive_delete M i =
     bind (drive_get i) (\<lambda>d.
     seq (call_out (mo_disconnect M d))
     (seq (call_out (mo_assert_editable M d)) (on_db (delete_drive i))))"

definition app_failure :: "('s, exn, 'a) eff \<Rightarrow> ('s, exn, app_error + 'a) eff" where
  \<comment> \<open>\<open>try: ... except ApplicationError as error: ...\<close>, where the error is kept for later\<close>
  "app_failure m = bind (attempt m) (\<lambda>r. case r of
     Inr x \<Rightarrow> ret (Inr x) | Inl (AppExn err) \<Rightarrow> ret (Inl err) | Inl e \<Rightarrow> throw e)"

definition raise_first :: "(app_error + 'a) list \<Rightarrow> ('s, exn, unit) eff" where
  "raise_first outcomes =
     (case List.map_filter (\<lambda>r. case r of Inl err \<Rightarrow> Some err | Inr _ \<Rightarrow> None) outcomes of
        err # _ \<Rightarrow> raise_app err | [] \<Rightarrow> skip)"

definition stop_drives :: "'w mount_ports \<Rightarrow> int option \<Rightarrow> ('w, 'm, unit) io" where
  \<comment> \<open>\<open>_stop\<close>\<close>
  "stop_drives M profile_id =
     bind (on_db (list_drives profile_id)) (\<lambda>drives.
     bind (map_each (\<lambda>d. app_failure (call_out (mo_disconnect M d))) drives) raise_first)"

definition profile_deletion :: "'w mount_ports \<Rightarrow> int \<Rightarrow> ('w, 'm, 'a) io \<Rightarrow> ('w, 'm, 'a) io" where
  "profile_deletion M profile_id body =
     seq (stop_drives M (Some profile_id))
     (bind (on_db (list_drives (Some profile_id))) (\<lambda>drives.
      seq (for_each drives (\<lambda>d. call_out (mo_assert_editable M d))) body))"

definition drive_shutdown :: "'w mount_ports \<Rightarrow> ('w, 'r, 'm, unit) dw_io" where
  "drive_shutdown M =
     seq (modify (dw_closing_update (\<lambda>_. True)))
       (try_except (stop_drives M None)
         (\<lambda>e. case e of
            AppExn _ \<Rightarrow> seq (modify (dw_closing_update (\<lambda>_. False))) (throw e)
          | _ \<Rightarrow> throw e))"

end
