(* ===== verification/Ec2_Service.thy ===== *)
theory Ec2_Service
  imports Drive_Service "HOL-Library.Product_Lexorder"
begin

text \<open>
  EC2 instances and the sessions on them (\<open>application/ec2_service.py\<close>): listing with its fallback,
  power actions, the foreground session, and the sessions in terminals of their own, which the
  service holds in a dictionary by operation id (\<open>ew_external\<close>) and whose processes belong to the
  managed runner it shares with the tunnels.  The gateways are ports; one that is not configured is
  \<open>None\<close>.
\<close>

subsection \<open>Targets\<close>

record ec2_target =
  et_instance_id :: string
  et_name :: "string option"
  et_private_ip_address :: "string option"
  et_platform_name :: "string option"
  et_ssm_ping_status :: string
  et_instance_state :: "string option"
  et_favorite :: bool
  et_power_actions_available :: bool
  et_tags :: "(string \<times> string) list"
  et_last_connected_at :: "instant option"

definition ssm_ready :: "ec2_target \<Rightarrow> bool" where
  "ssm_ready t \<longleftrightarrow> et_ssm_ping_status t = ''Online''"

record ec2_target_filter =
  ef_keyword :: string
  ef_ping_status :: string
  ef_instance_state :: string
  ef_favorites_only :: bool

definition target_sort_key :: "ec2_target \<Rightarrow> bool \<times> string \<times> string" where
  "target_sort_key t =
     (\<not> et_favorite t, casefold (case et_name t of Some n \<Rightarrow> n | None \<Rightarrow> []), et_instance_id t)"

definition searched_text :: "ec2_target \<Rightarrow> string" where
  "searched_text t = casefold (join_with '' '' (filter (\<lambda>v. v \<noteq> []) (List.map_filter id
     [et_name t, Some (et_instance_id t), et_private_ip_address t, et_platform_name t])))"

definition filter_ec2_targets :: "ec2_target list \<Rightarrow> ec2_target_filter \<Rightarrow> app_error + ec2_target list" where
  "filter_ec2_targets targets f =
     (if ef_ping_status f \<notin> {''all'', ''Online'', ''Offline''}
      then Inl (config_error_because ''ec2.filter.status.unsupported''
                  ''SSM status must be all, Online, or Offline'')
      else if ef_instance_state f \<notin> {''all'', ''running'', ''stopped''}
      then Inl (config_error_because ''ec2.filter.instance_state.unsupported''
                  ''EC2 state must be all, running, or stopped'')
      else
        (let query = casefold (strip (ef_keyword f)) in
         Inr (sort_key target_sort_key (filter (\<lambda>t.
           (ef_ping_status f = ''all'' \<or> et_ssm_ping_status t = ef_ping_status f) \<and>
           (\<not> ef_favorites_only f \<or> et_favorite t) \<and>
           (ef_instance_state f = ''all'' \<or> et_instance_state t = Some (ef_instance_state f)) \<and>
           (query = [] \<or> contains (searched_text t) query)) targets))))"

record ec2_connection =
  ec_instance_id :: string
  ec_session_id :: string
  ec_plugin_exit_code :: int

record ec2_power_result =
  ep_instance_id :: string
  ep_action :: string
  ep_previous_state :: string
  ep_request_accepted :: bool

record external_handle =
  eh_operation_id :: string
  eh_process_id :: int
  eh_ssm_session_id :: string
  eh_instance_id :: string
  eh_profile_id :: int
  eh_state :: operation_state
  eh_exit_code :: "int option"
  eh_error :: "app_error option"
  eh_warning :: "app_error option"

record external_session =
  es_profile_id :: int
  es_instance_id :: string
  es_process_id :: int
  es_ssm_session_id :: string
  es_region :: string

record ec2_metadata =
  em_instance_id :: string
  em_name :: "string option"
  em_private_ip_address :: "string option"
  em_tags :: "(string \<times> string) list"

record ec2_instance =
  ei_instance_id :: string
  ei_state :: string
  ei_name :: "string option"
  ei_private_ip_address :: "string option"
  ei_platform_name :: "string option"
  ei_tags :: "(string \<times> string) list"

record 'w power_ports =
  pw_start :: "plain_credentials \<Rightarrow> string \<Rightarrow> string \<Rightarrow> 'w \<Rightarrow> (exn + unit) \<times> 'w"
  pw_reboot :: "plain_credentials \<Rightarrow> string \<Rightarrow> string \<Rightarrow> 'w \<Rightarrow> (exn + unit) \<times> 'w"

record 'w ec2_ports =
  xp_sessions :: "'w session_ports"
  xp_describe :: "plain_credentials \<Rightarrow> string \<Rightarrow> string list \<Rightarrow> 'w \<Rightarrow> (exn + (string, ec2_metadata) dict) \<times> 'w"
  xp_inventory :: "(plain_credentials \<Rightarrow> string \<Rightarrow> 'w \<Rightarrow> (exn + ec2_instance list) \<times> 'w) option"
  xp_power :: "'w power_ports option"
  xp_favorites :: bool
  xp_history :: "int \<Rightarrow> string \<Rightarrow> 'w \<Rightarrow> (exn + (string, instant) dict) \<times> 'w"
    \<comment> \<open>\<open>recent_ec2_connections\<close>, called when there is a history\<close>

record ('w, 'r) ec2_world = "('w, 'r) drive_world" +
  ew_external :: "(string, external_session) dict"

type_synonym ('w, 'r, 'm, 'a) ew_io = "(('w, 'r, 'm) ec2_world_scheme, exn, 'a) eff"

subsection \<open>Listing\<close>

definition favorite_ids :: "'w ec2_ports \<Rightarrow> int \<Rightarrow> string \<Rightarrow> ('w, 'm, string set) io" where
  "favorite_ids X profile_id region =
     (if xp_favorites X then on_db (list_ec2_favorites profile_id region) else ret {})"

definition is_permission_error :: "exn \<Rightarrow> app_error option" where
  "is_permission_error e =
     (case e of AppExn err \<Rightarrow> if ae_class err = AwsPermissionError then Some err else None | _ \<Rightarrow> None)"

definition metadata_or_empty ::
    "'w ec2_ports \<Rightarrow> plain_credentials \<Rightarrow> string \<Rightarrow> managed_instance list \<Rightarrow> ('w, 'm, (string, ec2_metadata) dict) io" where
  "metadata_or_empty X c region managed =
     (if managed = [] then ret []
      else try_except (call_out (xp_describe X c region (map mi_instance_id managed)))
        (\<lambda>e. if is_permission_error e = None then throw e else ret []))"

definition fallback_target :: "(string, ec2_metadata) dict \<Rightarrow> string set \<Rightarrow> managed_instance \<Rightarrow> ec2_target" where
  "fallback_target metadata favorites m =
     (let details = dict_get metadata (mi_instance_id m) in
      \<lparr>et_instance_id = mi_instance_id m, et_name = Option.bind details em_name,
       et_private_ip_address = (case details of Some d \<Rightarrow> em_private_ip_address d | None \<Rightarrow> mi_ip_address m),
       et_platform_name = mi_platform_name m, et_ssm_ping_status = ''Online'',
       et_instance_state = None, et_favorite = (mi_instance_id m \<in> favorites),
       et_power_actions_available = False,
       et_tags = (case details of Some d \<Rightarrow> em_tags d | None \<Rightarrow> []), et_last_connected_at = None\<rparr>)"

definition online_fallback ::
    "'w ec2_ports \<Rightarrow> plain_credentials \<Rightarrow> string \<Rightarrow> int \<Rightarrow> ('w, 'm, ec2_target list) io" where
  "online_fallback X c region profile_id =
     bind (call_out (sp_list_online (xp_sessions X) c region)) (\<lambda>found.
       let managed = filter (\<lambda>m. mi_ping_status m = ''Online'') found in
       bind (metadata_or_empty X c region managed) (\<lambda>metadata.
       bind (favorite_ids X profile_id region) (\<lambda>favorites.
         ret (sort_key target_sort_key (map (fallback_target metadata favorites) managed)))))"

definition last_by_id :: "managed_instance list \<Rightarrow> string \<Rightarrow> managed_instance option" where
  \<comment> \<open>\<open>{item.instance_id: item for item in managed}\<close>: the last one counts\<close>
  "last_by_id managed i = map_of (map (\<lambda>m. (mi_instance_id m, m)) (rev managed)) i"

definition inventory_target :: "managed_instance list \<Rightarrow> string set \<Rightarrow> ec2_instance \<Rightarrow> ec2_target" where
  "inventory_target managed favorites x =
     (let ssm = last_by_id managed (ei_instance_id x) in
      \<lparr>et_instance_id = ei_instance_id x, et_name = ei_name x,
       et_private_ip_address = ei_private_ip_address x,
       et_platform_name = (case given (Option.bind ssm mi_platform_name) of
          Some n \<Rightarrow> Some n | None \<Rightarrow> ei_platform_name x),
       et_ssm_ping_status =
         (if map_option mi_ping_status ssm = Some ''Online'' then ''Online'' else ''Offline''),
       et_instance_state = Some (ei_state x), et_favorite = (ei_instance_id x \<in> favorites),
       et_power_actions_available = True, et_tags = ei_tags x, et_last_connected_at = None\<rparr>)"

definition inventory_targets ::
    "'w ec2_ports \<Rightarrow> plain_credentials \<Rightarrow> string \<Rightarrow> int \<Rightarrow> ('w, 'm, ec2_target list) io" where
  "inventory_targets X c region profile_id =
     (case xp_inventory X of None \<Rightarrow> ret [] | Some inventory \<Rightarrow>
      bind (call_out (inventory c region)) (\<lambda>instances.
      bind (call_out (sp_list_managed (xp_sessions X) c region)) (\<lambda>managed.
      bind (favorite_ids X profile_id region) (\<lambda>favorites.
        ret (sort_key target_sort_key (map (inventory_target managed favorites) instances))))))"

definition log_fallback :: "'w ports \<Rightarrow> app_error \<Rightarrow> int \<Rightarrow> string \<Rightarrow> ('w, 'm, unit) io" where
  "log_fallback P err profile_id region =
     record_log P ((log_entry ''ec2'' ''list_fallback'' ''WARNING'' ''WARNING'' PhaseCompleted
         ''ec2.inventory.permission_fallback'')
       \<lparr>lc_aws_service := ae_aws_service err, lc_aws_action := ae_aws_action err,
        lc_aws_request_id := ae_aws_request_id err, lc_error_category := ae_error_category err,
        lc_error_code := ae_error_code err, lc_required_permission := ae_required_permission err,
        lc_profile_id := Some profile_id, lc_region := Some region\<rparr>)"

definition list_inventory_or_fallback ::
    "'w ports \<Rightarrow> 'w ec2_ports \<Rightarrow> plain_credentials \<Rightarrow> string \<Rightarrow> int \<Rightarrow> ('w, 'm, ec2_target list) io" where
  "list_inventory_or_fallback P X c region profile_id =
     (if xp_inventory X = None then online_fallback X c region profile_id
      else bind (attempt (inventory_targets X c region profile_id)) (\<lambda>r. case r of
        Inr targets \<Rightarrow> ret targets
      | Inl e \<Rightarrow> (case is_permission_error e of
          None \<Rightarrow> throw e
        | Some err \<Rightarrow> seq (log_fallback P err profile_id region) (online_fallback X c region profile_id))))"

definition list_with_history ::
    "'w ports \<Rightarrow> 'w ec2_ports \<Rightarrow> plain_credentials \<Rightarrow> string \<Rightarrow> int \<Rightarrow> ('w, 'm, ec2_target list) io" where
  \<comment> \<open>\<open>_list\<close>\<close>
  "list_with_history P X c region profile_id =
     bind (list_inventory_or_fallback P X c region profile_id) (\<lambda>targets.
     seq (record_success P ''ec2'' ''list'' (\<lambda>e. e\<lparr>lc_profile_id := Some profile_id, lc_region := Some region\<rparr>))
     (bind (case pt_recorder P of None \<Rightarrow> ret [] | Some _ \<Rightarrow> call_out (xp_history X profile_id region)) (\<lambda>history.
        ret (map (\<lambda>t. t\<lparr>et_last_connected_at := dict_get history (et_instance_id t)\<rparr>) targets))))"

definition list_targets :: "'w ports \<Rightarrow> 'w ec2_ports \<Rightarrow> selector \<Rightarrow> ('w, 'm, ec2_target list) io" where
  "list_targets P X sel =
     logged P ''ec2'' ''list_targets'' False ''-'' False None (\<lambda>_.
       bind (resolve_profile sel) (\<lambda>p.
       bind (of_app (require_profile_id p)) (\<lambda>i.
       bind (require_credentials P i) (\<lambda>c. list_with_history P X c (ap_region p) i))))"

definition list_targets_in_region ::
    "'w ports \<Rightarrow> 'w ec2_ports \<Rightarrow> selector \<Rightarrow> string \<Rightarrow> ('w, 'm, ec2_target list) io" where
  "list_targets_in_region P X sel region =
     logged P ''ec2'' ''list_targets_in_region'' False ''-'' False None (\<lambda>_.
       bind (resolve_profile sel) (\<lambda>p.
       bind (of_app (require_profile_id p)) (\<lambda>i.
       bind (require_credentials P i) (\<lambda>c.
       bind (of_app (validated_region region)) (\<lambda>r. list_with_history P X c r i)))))"

definition selected_region :: "string option \<Rightarrow> aws_profile \<Rightarrow> app_error + string" where
  "selected_region region p =
     validated_region (case given region of Some r \<Rightarrow> r | None \<Rightarrow> ap_region p)"

definition set_favorite ::
    "'w ec2_ports \<Rightarrow> string \<Rightarrow> bool \<Rightarrow> selector \<Rightarrow> string option \<Rightarrow> ('w, 'm, unit) io" where
  "set_favorite X instance_id favorite sel region =
     seq (raise_when (\<not> xp_favorites X) (AppExn (config_error_because ''ec2.favorite.unavailable''
            ''EC2 favorite persistence is not configured'')))
     (bind (resolve_profile sel) (\<lambda>p.
      bind (of_app (selected_region region p)) (\<lambda>r.
        let i = strip instance_id in
        seq (raise_when (i = []) (AppExn (config_error_because ''ec2.instance_id.required''
               ''EC2 instance ID is required'')))
        (bind (of_app (require_profile_id p)) (\<lambda>pid. on_db (set_ec2_favorite pid r i favorite))))))"

subsection \<open>Power\<close>

definition power_action ::
    "'w ports \<Rightarrow> 'w ec2_ports \<Rightarrow> string \<Rightarrow> string \<Rightarrow> selector \<Rightarrow> string option \<Rightarrow> op_context option
     \<Rightarrow> ('w, 'm, ec2_power_result) io" where
  "power_action P X act instance_id sel region context =
     (case (xp_inventory X, xp_power X) of
        (Some inventory, Some gateway) \<Rightarrow>
          bind (resolve_profile sel) (\<lambda>p.
          bind (of_app (require_profile_id p)) (\<lambda>i.
          bind (require_credentials P i) (\<lambda>c.
          bind (of_app (selected_region region p)) (\<lambda>r.
          bind (given_context P context) (\<lambda>cx.
          seq (raise_if_cancelled P cx)
          (seq (report_progress P cx ''target-validation'' (''ec2.'' @ act @ ''.target.validate'')
                  None None (Some instance_id))
          (bind (call_out (inventory c r)) (\<lambda>found.
             (case find (\<lambda>x. ei_instance_id x = instance_id) (rev found) of
               None \<Rightarrow> raise_app (config_error_because ''ec2.instance.not_found''
                        ''The requested EC2 instance was not found'')
             | Some target \<Rightarrow>
                 let required = (if act = ''start'' then ''stopped'' else ''running'') in
                 seq (raise_when (ei_state target \<noteq> required)
                        (AppExn (config_error_because (''ec2.'' @ act @ ''.state.invalid'')
                          (''EC2 '' @ act @ '' requires state '' @ required @ ''; current state is '' @ ei_state target))))
                 (seq (raise_if_cancelled P cx)
                 (seq (if act = ''start'' then call_out (pw_start gateway c r instance_id)
                       else call_out (pw_reboot gateway c r instance_id))
                 (seq (report_progress P cx ''requested'' (''ec2.'' @ act @ ''.requested'') (Some 1) (Some 1) None)
                   (ret \<lparr>ep_instance_id = instance_id, ep_action = act,
                         ep_previous_state = ei_state target, ep_request_accepted = True\<rparr>)))))))))))))
      | _ \<Rightarrow> raise_app (config_error_because ''ec2.power.unavailable''
               ''EC2 power actions require DescribeInstances permission and gateway configuration''))"

definition start_instance ::
    "'w ports \<Rightarrow> 'w ec2_ports \<Rightarrow> string \<Rightarrow> selector \<Rightarrow> string option \<Rightarrow> op_context option
     \<Rightarrow> ('w, 'm, ec2_power_result) io" where
  "start_instance P X instance_id sel region context =
     logged P ''ec2'' ''start_instance'' True instance_id True context
       (power_action P X ''start'' instance_id sel region)"

definition reboot_instance ::
    "'w ports \<Rightarrow> 'w ec2_ports \<Rightarrow> string \<Rightarrow> selector \<Rightarrow> string option \<Rightarrow> op_context option
     \<Rightarrow> ('w, 'm, ec2_power_result) io" where
  "reboot_instance P X instance_id sel region context =
     logged P ''ec2'' ''reboot_instance'' True instance_id True context
       (power_action P X ''reboot'' instance_id sel region)"

subsection \<open>Sessions\<close>

definition ec2_target_not_online :: app_error where
  "ec2_target_not_online = on_aws ''ssm'' ''DescribeInstanceInformation''
     (mk_error TargetNotConnectedError ''ec2.target.not_online''
        ''The requested instance is not an online SSM managed node'')"

definition require_target ::
    "'w ec2_ports \<Rightarrow> plain_credentials \<Rightarrow> string \<Rightarrow> string \<Rightarrow> ('w, 'm, unit) io" where
  "require_target X c region instance_id =
     bind (call_out (sp_list_online (xp_sessions X) c region)) (\<lambda>online.
       raise_when (\<not> list_ex (\<lambda>m. mi_instance_id m = instance_id \<and> mi_ping_status m = ''Online'') online)
         (AppExn ec2_target_not_online))"

definition record_connection :: "'w ports \<Rightarrow> int \<Rightarrow> string \<Rightarrow> string \<Rightarrow> ('w, 'm, unit) io" where
  \<comment> \<open>the call gives no level\<close>
  "record_connection P profile_id region instance_id =
     record_log P ((log_entry ''ec2'' ''connect'' ''succeeded'' [] PhaseCompleted ''ec2.connection.succeeded'')
       \<lparr>lc_target := instance_id, lc_aws_service := Some ''ssm'', lc_aws_action := Some ''StartSession'',
        lc_profile_id := Some profile_id, lc_region := Some region\<rparr>)"

definition checked_target ::
    "'w ports \<Rightarrow> 'w ec2_ports \<Rightarrow> string \<Rightarrow> selector \<Rightarrow> string option \<Rightarrow> op_context option
     \<Rightarrow> ('w, 'm, int \<times> plain_credentials \<times> op_context \<times> string) io" where
  \<comment> \<open>what \<open>connect\<close> and \<open>connect_external\<close> do first\<close>
  "checked_target P X instance_id sel region context =
     bind (resolve_profile sel) (\<lambda>p.
     bind (of_app (require_profile_id p)) (\<lambda>i.
     bind (require_credentials P i) (\<lambda>c.
     bind (given_context P context) (\<lambda>cx.
     seq (raise_if_cancelled P cx)
     (seq (report_progress P cx ''target-validation'' ''ec2.session.target.validate'' None None
             (Some instance_id))
     (bind (of_app (selected_region region p)) (\<lambda>r.
      seq (require_target X c r instance_id) (ret (i, c, cx, r)))))))))"

definition connect_body ::
    "'w ports \<Rightarrow> 'w ec2_ports \<Rightarrow> string \<Rightarrow> selector \<Rightarrow> string option \<Rightarrow> op_context option
     \<Rightarrow> ('w, 'm, ec2_connection) io" where
  "connect_body P X instance_id sel region context =
     bind (checked_target P X instance_id sel region context) (\<lambda>(i, c, cx, r).
     bind (run_session P (xp_sessions X) c r instance_id None None (Some cx) None) (\<lambda>result.
     seq (if rr_plugin_exit_code result = 0 then record_connection P i r instance_id else skip)
       (ret \<lparr>ec_instance_id = instance_id, ec_session_id = rr_session_id result,
             ec_plugin_exit_code = rr_plugin_exit_code result\<rparr>)))"

definition ec2_connect ::
    "'w ports \<Rightarrow> 'w ec2_ports \<Rightarrow> string \<Rightarrow> selector \<Rightarrow> string option \<Rightarrow> op_context option
     \<Rightarrow> ('w, 'm, ec2_connection) io" where
  "ec2_connect P X instance_id sel region context =
     logged P ''ec2'' ''connect'' False instance_id True context (connect_body P X instance_id sel region)"

definition external_handle_of :: "managed_session \<Rightarrow> int \<Rightarrow> string \<Rightarrow> external_handle" where
  "external_handle_of m profile_id instance_id =
     \<lparr>eh_operation_id = ms_operation_id m, eh_process_id = ms_process_id m,
      eh_ssm_session_id = ms_session_id m, eh_instance_id = instance_id, eh_profile_id = profile_id,
      eh_state = ms_state m, eh_exit_code = ms_exit_code m, eh_error = ms_error m,
      eh_warning = ms_warning m\<rparr>"

definition connect_external_body ::
    "'w ports \<Rightarrow> 'w ec2_ports \<Rightarrow> string \<Rightarrow> selector \<Rightarrow> string option \<Rightarrow> string option
     \<Rightarrow> parameters option \<Rightarrow> op_context option \<Rightarrow> ('w, 'r, 'm, external_handle) ew_io" where
  "connect_external_body P X instance_id sel region doc params context =
     bind (checked_target P X instance_id sel region context) (\<lambda>(i, c, cx, r).
     seq (raise_if_cancelled P cx)
     (bind (session_start P (xp_sessions X) c r instance_id doc params True (Some cx)) (\<lambda>m.
      seq (modify (ew_external_update (dict_set (ms_operation_id m)
             \<lparr>es_profile_id = i, es_instance_id = instance_id, es_process_id = ms_process_id m,
              es_ssm_session_id = ms_session_id m, es_region = r\<rparr>)))
      (seq (if doc = None \<and> params = None \<and> ms_state m = OpRunning
            then record_connection P i r instance_id else skip)
        (ret (external_handle_of m i instance_id))))))"

definition connect_external ::
    "'w ports \<Rightarrow> 'w ec2_ports \<Rightarrow> string \<Rightarrow> selector \<Rightarrow> string option \<Rightarrow> string option
     \<Rightarrow> parameters option \<Rightarrow> op_context option \<Rightarrow> ('w, 'r, 'm, external_handle) ew_io" where
  "connect_external P X instance_id sel region doc params context =
     logged P ''ec2'' ''connect_external'' False instance_id True context
       (connect_external_body P X instance_id sel region doc params)"

definition forget_external :: "string \<Rightarrow> ('w, 'r, 'm, unit) ew_io" where
  "forget_external i = modify (ew_external_update (dict_pop i))"

definition lost_external :: "string \<Rightarrow> external_session \<Rightarrow> app_error \<Rightarrow> managed_session" where
  "lost_external i entry err =
     \<lparr>ms_operation_id = i, ms_process_id = es_process_id entry, ms_session_id = es_ssm_session_id entry,
      ms_state = OpFailed, ms_exit_code = None, ms_error = Some err, ms_warning = None\<rparr>"

definition log_session_end ::
    "'w ports \<Rightarrow> string \<Rightarrow> external_session \<Rightarrow> managed_session \<Rightarrow> ('w, 'm, managed_session) io" where
  \<comment> \<open>records the end of a session; recording a failure changes its error\<close>
  "log_session_end P i entry m =
     (case pt_recorder P of None \<Rightarrow> ret m | Some _ \<Rightarrow>
      (let details = (\<lambda>e. e\<lparr>lc_target := es_instance_id entry, lc_profile_id := Some (es_profile_id entry),
             lc_region := Some (es_region entry)\<rparr>) in
       case ms_error m of
         Some err \<Rightarrow> bind (record_failure P ''ec2'' ''session_end'' err details) (\<lambda>err'.
           ret (m\<lparr>ms_error := Some err'\<rparr>))
       | None \<Rightarrow> seq (record_success P ''ec2'' ''session_end'' (\<lambda>e.
           (if ms_warning m \<noteq> None then (details e)\<lparr>lc_result := ''WARNING'', lc_level := ''WARNING''\<rparr>
            else details e)\<lparr>lc_operation_id := Some i\<rparr>)) (ret m)))"

definition reap_session ::
    "'w ports \<Rightarrow> 'w ec2_ports \<Rightarrow> string \<times> external_session \<Rightarrow> ('w, 'r, 'm, external_handle) ew_io" where
  "reap_session P X owned = (case owned of (i, entry) \<Rightarrow>
     bind (app_failure (session_status (xp_sessions X) i)) (\<lambda>r.
       let m = (case r of Inr m \<Rightarrow> m | Inl err \<Rightarrow> lost_external i entry err) in
       bind (if ms_state m = OpRunning then ret m
             else bind (gets (\<lambda>s. dict_get (ew_external s) i)) (\<lambda>removed.
               seq (forget_external i)
                 (if removed = None then ret m else log_session_end P i entry m))) (\<lambda>m'.
         ret (external_handle_of m' (es_profile_id entry) (es_instance_id entry)))))"

definition reap_external_sessions ::
    "'w ports \<Rightarrow> 'w ec2_ports \<Rightarrow> ('w, 'r, 'm, external_handle list) ew_io" where
  "reap_external_sessions P X = bind (gets ew_external) (map_each (reap_session P X))"

definition external_sessions ::
    "'w ports \<Rightarrow> 'w ec2_ports \<Rightarrow> int option \<Rightarrow> ('w, 'r, 'm, external_handle list) ew_io" where
  "external_sessions P X profile_id =
     bind (reap_external_sessions P X) (\<lambda>handles.
       ret (filter (\<lambda>h. profile_id = None \<or> profile_id = Some (eh_profile_id h)) handles))"

definition stop_external_body ::
    "'w ports \<Rightarrow> 'w ec2_ports \<Rightarrow> string \<Rightarrow> op_context option \<Rightarrow> ('w, 'r, 'm, external_handle) ew_io" where
  "stop_external_body P X i context =
     bind (gets (\<lambda>s. dict_get (ew_external s) i)) (\<lambda>found. case found of
       None \<Rightarrow> raise_app (plugin_error ''session.operation.not_found''
                 ''External EC2 session is not tracked'')
     | Some entry \<Rightarrow>
         bind (case context of Some cx \<Rightarrow> ret cx | None \<Rightarrow> new_context P (Some i)) (\<lambda>cx.
         seq (raise_if_cancelled P cx)
         (seq (report_progress P cx ''stopping'' ''ec2.session.stop'' None None (Some (es_instance_id entry)))
         (bind (try_finally (session_stop (xp_sessions X) i) (forget_external i)) (\<lambda>m.
          seq (report_progress P cx ''stopped'' ''ec2.session.stopped'' (Some 1) (Some 1) None)
            (ret (external_handle_of m (es_profile_id entry) (es_instance_id entry))))))))"

definition stop_external ::
    "'w ports \<Rightarrow> 'w ec2_ports \<Rightarrow> string \<Rightarrow> op_context option \<Rightarrow> ('w, 'r, 'm, external_handle) ew_io" where
  "stop_external P X i context =
     logged P ''ec2'' ''stop_external'' True ''-'' True context (stop_external_body P X i)"

definition external_of :: "int \<Rightarrow> (string, external_session) dict \<Rightarrow> string list" where
  "external_of profile_id d = map fst (filter (\<lambda>(i, e). es_profile_id e = profile_id) d)"

definition stop_external_for_profile ::
    "'w ports \<Rightarrow> 'w ec2_ports \<Rightarrow> int \<Rightarrow> ('w, 'r, 'm, external_handle list) ew_io" where
  "stop_external_for_profile P X profile_id =
     bind (gets (\<lambda>s. external_of profile_id (ew_external s))) (\<lambda>ids.
     bind (map_each (\<lambda>i. app_failure (stop_external P X i None)) ids) (\<lambda>outcomes.
     seq (raise_first (map (\<lambda>r. case r of
             Inl err \<Rightarrow> Inl err
           | Inr h \<Rightarrow> (case eh_error h of Some err \<Rightarrow> Inl err | None \<Rightarrow> Inr h)) outcomes))
       (ret (map projr outcomes))))"

end
