(* ===== verification/Connection_Lifecycle.thy ===== *)
theory Connection_Lifecycle
  imports Ec2_Service Tunnel_Properties
begin

text \<open>
  The connections of a profile across the services, and its deletion
  (\<open>application/connection_lifecycle.py\<close>): the tunnels, the sessions on EC2 instances and the
  drives are counted, stopped if this is wanted, and the profile is deleted while no drive can be
  connected.  The service for drives may be absent (\<open>None\<close>).
\<close>

record profile_connections =
  pn_profile_id :: int
  pn_ec2_count :: int
  pn_rds_count :: int
  pn_s3_drive_count :: int

definition has_active :: "profile_connections \<Rightarrow> bool" where
  "has_active c \<longleftrightarrow> 0 < pn_ec2_count c \<or> 0 < pn_rds_count c \<or> 0 < pn_s3_drive_count c"

definition count_where :: "('a \<Rightarrow> bool) \<Rightarrow> 'a list \<Rightarrow> int" where
  "count_where p xs = int (length (filter p xs))"

definition found_or_empty :: "app_error + 'a list \<Rightarrow> 'a list" where
  "found_or_empty r = (case r of Inl _ \<Rightarrow> [] | Inr xs \<Rightarrow> xs)"

definition first_failure :: "app_error option list \<Rightarrow> app_error option" where
  "first_failure errors = (case List.map_filter id errors of [] \<Rightarrow> None | e # _ \<Rightarrow> Some e)"

definition failure_of :: "app_error + 'a \<Rightarrow> app_error option" where
  "failure_of r = (case r of Inl e \<Rightarrow> Some e | Inr _ \<Rightarrow> None)"

definition raise_found :: "app_error option \<Rightarrow> ('s, exn, unit) eff" where
  "raise_found e = (case e of None \<Rightarrow> skip | Some err \<Rightarrow> raise_app err)"

definition active_connections ::
    "'w ports \<Rightarrow> 'w ec2_ports \<Rightarrow> 'w tunnel_ports \<Rightarrow> 'w mount_ports option \<Rightarrow> int
     \<Rightarrow> ('w, 'r, 'm, profile_connections) ew_io" where
  "active_connections P X T drives i =
     bind (app_failure (external_sessions P X (Some i))) (\<lambda>re.
     bind (app_failure (active_tunnels P T (Some i))) (\<lambda>rr.
       let ec2 = found_or_empty re; rds = found_or_empty rr in
       seq (raise_found (first_failure [failure_of re, failure_of rr]))
       (seq (raise_found (first_failure (map eh_error ec2 @ map tc_error rds)))
       (bind (case drives of None \<Rightarrow> ret [] | Some M \<Rightarrow> drive_list M (Some i)) (\<lambda>mounted.
         ret \<lparr>pn_profile_id = i,
           pn_ec2_count = count_where (\<lambda>h. eh_state h = OpRunning) ec2,
           pn_rds_count = count_where (\<lambda>c. th_state (tc_handle c) = OpRunning) rds,
           pn_s3_drive_count = count_where (\<lambda>d. dst_state d \<noteq> DriveDisconnected) mounted\<rparr>)))))"

definition stop_connections ::
    "'w ports \<Rightarrow> 'w ec2_ports \<Rightarrow> 'w tunnel_ports \<Rightarrow> int \<Rightarrow> ('w, 'r, 'm, unit) ew_io" where
  "stop_connections P X T i =
     bind (app_failure (stop_external_for_profile P X i)) (\<lambda>re.
     bind (app_failure (stop_all P T (Some i))) (\<lambda>rr.
       raise_found (first_failure [failure_of re, failure_of rr])))"

definition delete_with_connections ::
    "'w ports \<Rightarrow> 'w ec2_ports \<Rightarrow> 'w tunnel_ports \<Rightarrow> 'w mount_ports option \<Rightarrow> selector \<Rightarrow> bool
     \<Rightarrow> ('w, 'r, 'm, unit) ew_io" where
  "delete_with_connections P X T drives sel stop_active =
     bind (resolve_profile sel) (\<lambda>p.
     bind (of_app (require_profile_id p)) (\<lambda>i.
     bind (active_connections P X T drives i) (\<lambda>active.
     seq (raise_when (has_active active \<and> \<not> stop_active)
            (AppExn (config_error_because ''profile.connections.active''
              ''Active EC2, RDS or S3 drives must be stopped before profile deletion'')))
     (seq (if has_active active then stop_connections P X T i else skip)
       (case drives of
          None \<Rightarrow> on_db (delete_profile i)
        | Some M \<Rightarrow> profile_deletion M i (on_db (delete_profile i)))))))"

subsection \<open>What the steps leave alone\<close>

lemma app_failure_frames: "frames g m \<Longrightarrow> frames g (app_failure m)"
  unfolding app_failure_def by (intro frames_bind frames_attempt) (auto split: sum.split exn.split)

lemma app_failure_outside [outside_rules]: "outside_only m \<Longrightarrow> outside_only (app_failure m)"
  unfolding app_failure_def by (intro outside_bind outside_attempt) (auto split: sum.split exn.split)

lemma app_failure_Inr: "app_failure m s = (Inr (Inr x), t) \<Longrightarrow> m s = (Inr x, t)"
  by (cases "m s"; cases "fst (m s)") (auto simp: app_failure_def bind_def split: exn.splits)

lemma inner_tunnel_more [simp]: "inner tunnel_world.more"
  by (simp add: inner_def)

lemma tunnel_more_outside: "outside_only m \<Longrightarrow> frames tunnel_world.more m"
  by (rule frames_outside) simp_all

lemma tunnel_more_session: "frames session_world.more m \<Longrightarrow> frames tunnel_world.more m"
proof -
  have "tunnel_world.more s = tunnel_world.more t" if "session_world.more s = session_world.more t"
    for s t :: "('w, 'r, 'm) tunnel_world_scheme"
    using that by (cases s, cases t) simp
  then show "frames session_world.more m \<Longrightarrow> frames tunnel_world.more m" unfolding frames_def by blast
qed

lemma tunnel_more_forget [simp]: "frames tunnel_world.more (forget_tunnel i)"
  unfolding forget_tunnel_def by (rule frames_modify) simp

lemma tunnel_more_stop [simp]: "frames tunnel_world.more (stop_tunnel P T i context reason)"
  unfolding stop_tunnel_def stop_tunnel_body_def Let_def
  by (intro frames_logged) (auto intro!: frames_bind frames_try_finally
      simp: tunnel_more_outside tunnel_more_session split: option.split)

lemma tunnel_more_poll [simp]: "frames tunnel_world.more (poll_tunnel P T x)"
  unfolding poll_tunnel_def probe_tunnel_def Let_def
  by (auto intro!: frames_bind frames_attempt simp: tunnel_more_outside tunnel_more_session
      split: sum.split exn.split prod.split)

lemma tunnel_more_active [simp]: "frames tunnel_world.more (active_tunnels P T i)"
  unfolding active_tunnels_def by (auto intro!: frames_bind frames_map_each)

lemma tunnel_more_stop_all [simp]: "frames tunnel_world.more (stop_all P T i)"
  unfolding stop_all_def stop_each_def
  by (intro frames_bind frames_map_each frames_attempt) (auto split: list.split sum.split exn.split)

lemma frames_ew_external:
  fixes m :: "('w, 'r, 'm, 'a) ew_io"
  assumes "frames tunnel_world.more m" shows "frames ew_external m"
proof -
  have "ew_external s = ew_external t" if "tunnel_world.more s = tunnel_world.more t"
    for s t :: "('w, 'r, 'm) ec2_world_scheme"
    using that by (cases s, cases t) simp
  with assms show ?thesis unfolding frames_def by blast
qed

lemma ew_session [simp]: "frames ew_external (session_stop S i)" "frames ew_external (session_status S i)"
  by (simp_all add: frames_ew_external tunnel_more_session)

lemma inner_ew [simp]: "inner ew_external"
  by (simp add: inner_def)

lemma ew_outside: "outside_only m \<Longrightarrow> frames ew_external m"
  by (rule frames_outside) simp_all

lemma outside_log_session_end [outside_rules, simp]: "outside_only (log_session_end P i e m)"
  by (auto simp: log_session_end_def Let_def split: option.split intro!: outside_bind)

lemma tw_session: "frames tw_managed (session_stop S i)" "frames tw_managed (session_status S i)"
  by (simp_all add: frames_tw_managed)

lemma inner_tw [simp]: "inner tw_managed"
  by (simp add: inner_def)

lemma db_forget_external [simp]: "frames w_db (forget_external i)" "frames tw_managed (forget_external i)"
  by (simp_all add: forget_external_def frames_modify)

lemma external_frames:
  assumes "inner g" "\<And>S i. frames g (session_stop S i)" "\<And>S i. frames g (session_status S i)"
    "\<And>i. frames g (forget_external i)"
  shows "frames g (external_sessions P X j)" "frames g (stop_external_for_profile P X k)"
proof -
  note outside = frames_outside [OF assms(1)]
  have "frames g (reap_session P X x)" for x
    unfolding reap_session_def Let_def
    by (auto intro!: frames_bind app_failure_frames simp: assms outside split: prod.split)
  then show "frames g (external_sessions P X j)"
    unfolding external_sessions_def reap_external_sessions_def by (intro frames_bind frames_map_each) auto
  have body: "frames g (stop_external_body P X i cx)" for i cx
    unfolding stop_external_body_def
    by (auto intro!: frames_bind frames_try_finally simp: assms outside split: option.split)
  have stop: "frames g (stop_external P X i cx)" for i cx
    unfolding stop_external_def by (rule frames_logged [OF assms(1) body])
  have "frames g (raise_first rs)" for rs :: "(app_error + external_handle) list"
    by (simp add: raise_first_def split: list.split)
  then show "frames g (stop_external_for_profile P X k)"
    unfolding stop_external_for_profile_def
    by (intro frames_bind frames_map_each app_failure_frames stop) auto
qed

lemma external_db [simp]:
  "frames w_db (external_sessions P X j)" "frames w_db (stop_external_for_profile P X k)"
  by (rule external_frames; simp)+

lemma external_tw [simp]:
  "frames tw_managed (external_sessions P X j)" "frames tw_managed (stop_external_for_profile P X k)"
  by (rule external_frames; simp add: tw_session)+

subsection \<open>Dictionaries that only lose entries\<close>

definition thins :: "('s \<Rightarrow> ('k, 'v) dict) \<Rightarrow> ('s, 'e, 'a) eff \<Rightarrow> bool" where
  "thins f m \<longleftrightarrow> (\<forall>i. keeps (\<lambda>s. dict_get (f s) i = None) m) \<and> (\<forall>D. keeps (\<lambda>s. set (f s) \<subseteq> D) m)"

lemma thins_frames: "frames f m \<Longrightarrow> thins f m"
  unfolding thins_def keeps_def frames_def by simp

lemma thins_bind: "thins f m \<Longrightarrow> (\<And>x. thins f (h x)) \<Longrightarrow> thins f (bind m h)"
  unfolding thins_def by (auto intro: keeps_bind)

lemma thins_try_finally: "thins f m \<Longrightarrow> thins f n \<Longrightarrow> thins f (try_finally m n)"
  unfolding thins_def by (auto intro: keeps_try_finally)

lemma thins_map_each: "(\<And>x. thins f (h x)) \<Longrightarrow> thins f (map_each h xs)"
  unfolding thins_def by (auto intro: keeps_map_each)

lemma thins_app_failure: "thins f m \<Longrightarrow> thins f (app_failure m)"
  unfolding app_failure_def thins_def
  by (auto intro!: keeps_bind keeps_attempt split: sum.split exn.split)

lemma thinsD:
  assumes "thins f m" "m s = (r, t)"
  shows "dict_get (f s) i = None \<Longrightarrow> dict_get (f t) i = None" "set (f t) \<subseteq> set (f s)"
proof -
  show "dict_get (f s) i = None \<Longrightarrow> dict_get (f t) i = None"
    using assms unfolding thins_def by (blast dest: keepsD)
  have "keeps (\<lambda>u. set (f u) \<subseteq> set (f s)) m" using assms(1) unfolding thins_def by blast
  from keepsD [OF this subset_refl assms(2)] show "set (f t) \<subseteq> set (f s)" .
qed

lemma thins_forget [simp]: "thins ew_external (forget_external i)"
  unfolding thins_def forget_external_def
  by (auto intro!: keeps_modify simp: AList.delete_eq map_of_filter_in map_of_eq_None_iff)

lemma thins_reap [simp]: "thins ew_external (reap_session P X x)"
  unfolding reap_session_def Let_def
  by (auto intro!: thins_bind thins_app_failure simp: thins_frames ew_outside split: prod.split)

lemma thins_stop_external [simp]: "thins ew_external (stop_external P X i context)"
proof -
  have "thins ew_external (stop_external_body P X i cx)" for cx
    unfolding stop_external_body_def
    by (auto intro!: thins_bind thins_try_finally simp: thins_frames ew_outside split: option.split)
  then show ?thesis
    unfolding stop_external_def thins_def
    by (auto intro!: keeps_logged simp: inner_def)
qed

subsection \<open>Sessions on instances\<close>

lemma reap_session_Inr:
  fixes s :: "('w, 'r, 'm) ec2_world_scheme"
  assumes "reap_session P X (i, e) s = (Inr h, t)"
  shows "eh_profile_id h = es_profile_id e" "eh_state h = OpRunning \<or> dict_get (ew_external t) i = None"
proof -
  let ?m = "\<lambda>r. case r of Inr m \<Rightarrow> m | Inl err \<Rightarrow> lost_external i e err"
  let ?rest = "\<lambda>m. bind (if ms_state m = OpRunning then ret m
             else bind (gets (\<lambda>s. dict_get (ew_external s) i)) (\<lambda>removed.
               seq (forget_external i)
                 (if removed = None then ret m else log_session_end P i e m)))
       (\<lambda>m'. ret (external_handle_of m' (es_profile_id e) (es_instance_id e)))
     :: ('w, 'r, 'm, external_handle) ew_io"
  have "bind (app_failure (session_status (xp_sessions X) i)) (\<lambda>r. ?rest (?m r)) s = (Inr h, t)"
    using assms by (simp only: reap_session_def prod.case Let_def)
  then obtain r u where "?rest (?m r) u = (Inr h, t)" by (rule bind_eq_InrE)
  then obtain m where run: "?rest m u = (Inr h, t)" by blast
  from run show "eh_profile_id h = es_profile_id e"
    by (auto elim!: bind_eq_InrE simp: external_handle_of_def)
  show "eh_state h = OpRunning \<or> dict_get (ew_external t) i = None"
  proof (cases "ms_state m = OpRunning")
    case True with run show ?thesis by (auto simp: external_handle_of_def)
  next
    case False
    let ?rest2 = "\<lambda>removed. bind (if removed = None then ret m else log_session_end P i e m)
       (\<lambda>m'. ret (external_handle_of m' (es_profile_id e) (es_instance_id e)))
       :: ('w, 'r, 'm, external_handle) ew_io"
    have "?rest2 (dict_get (ew_external u) i) (ew_external_update (dict_pop i) u) = (Inr h, t)"
      using run False by (simp add: bind_assoc forget_external_def bind_gets bind_modify)
    moreover have "outside_only (?rest2 removed)" for removed
      by (intro outside_bind) (simp_all split: if_split)
    ultimately have "ew_external t = dict_pop i (ew_external u)"
      using framesD [OF ew_outside] by fastforce
    then show ?thesis by simp
  qed
qed

lemma map_each_ConsE:
  assumes "map_each f (x # xs) s = (Inr ys, t)"
  obtains y zs u where "f x s = (Inr y, u)" "map_each f xs u = (Inr zs, t)" "ys = y # zs"
  using assms by (auto elim!: bind_eq_InrE)

lemma map_each_reaped:
  fixes s :: "('w, 'r, 'm) ec2_world_scheme"
  assumes "map_each (reap_session P X) es s = (Inr hs, t)" "(i, e) \<in> set es"
  shows "\<exists>h \<in> set hs. eh_profile_id h = es_profile_id e \<and>
    (eh_state h = OpRunning \<or> dict_get (ew_external t) i = None)"
  using assms
proof (induction es arbitrary: s hs)
  case (Cons x es)
  obtain h ks u where h: "reap_session P X x s = (Inr h, u)" and ks: "map_each (reap_session P X) es u = (Inr ks, t)"
    and hs: "hs = h # ks"
    using Cons.prems(1) by (rule map_each_ConsE)
  show ?case
  proof (cases "(i, e) = x")
    case True
    have "thins ew_external (map_each (reap_session P X) es :: ('w, 'r, 'm, external_handle list) ew_io)"
      by (rule thins_map_each) simp
    from thinsD(1) [OF this ks, of i] reap_session_Inr [of P X i e s h u] h True show ?thesis
      by (auto simp: hs)
  next
    case False
    with Cons.prems(2) Cons.IH [OF ks] show ?thesis by (auto simp: hs)
  qed
qed simp

lemma external_sessions_running:
  fixes s :: "('w, 'r, 'm) ec2_world_scheme"
  assumes "external_sessions P X (Some j) s = (Inr hs, t)" "(i, e) \<in> set (ew_external t)" "es_profile_id e = j"
  shows "\<exists>h \<in> set hs. eh_state h = OpRunning"
proof -
  obtain all where all: "map_each (reap_session P X) (ew_external s) s = (Inr all, t)"
    and hs: "hs = filter (\<lambda>h. j = eh_profile_id h) all"
    using assms(1) unfolding external_sessions_def reap_external_sessions_def
    by (auto elim!: bind_eq_InrE)
  have "thins ew_external (map_each (reap_session P X) (ew_external s) :: ('w, 'r, 'm, external_handle list) ew_io)"
    by (rule thins_map_each) simp
  with thinsD(2) [OF this all] assms(2) have "(i, e) \<in> set (ew_external s)" by blast
  from map_each_reaped [OF all this] assms(2,3) show ?thesis
    by (auto simp: hs map_of_eq_None_iff) (metis image_iff fst_conv)
qed

lemma stop_external_Inr:
  fixes s :: "('w, 'r, 'm) ec2_world_scheme"
  assumes "stop_external P X i context s = (Inr h, t)" shows "dict_get (ew_external t) i = None"
proof -
  have body: "yields (\<lambda>h s. dict_get (ew_external s) i = None)
      (stop_external_body P X i cx :: ('w, 'r, 'm, external_handle) ew_io)" for cx
    unfolding yields_def
  proof (intro allI impI)
    fix s t :: "('w, 'r, 'm) ec2_world_scheme" and h
    assume "stop_external_body P X i cx s = (Inr h, t)"
    then obtain m u v c ph msg x y tg where
      stop: "try_finally (session_stop (xp_sessions X) i) (forget_external i) u = (Inr m, v)"
      and rep: "report_progress P c ph msg x y tg v = (Inr (), t)"
      unfolding stop_external_body_def by (auto elim!: bind_eq_InrE split: option.splits)
    have "dict_get (ew_external v) i = None"
      using stop by (auto simp: try_finally_def forget_external_def split: prod.splits)
    moreover have "ew_external t = ew_external v"
      by (rule framesD [OF ew_outside [OF outside_report_progress] rep])
    ultimately show "dict_get (ew_external t) i = None" by simp
  qed
  have "yields (\<lambda>h s. dict_get (ew_external s) i = None)
      (stop_external P X i context :: ('w, 'r, 'm, external_handle) ew_io)"
    unfolding stop_external_def by (rule yields_logged [OF _ body]) (simp add: inner_def)
  from yieldsD [OF this assms]
  show ?thesis .
qed

subsection \<open>Stopping until nothing is left\<close>

lemma all_stopped:
  assumes "map_each (\<lambda>i. app_failure (stop i)) ids s = (Inr outs, t)" "\<forall>r \<in> set outs. \<not> isl r"
    and "\<And>i s h t. stop i s = (Inr h, t) \<Longrightarrow> dict_get (f t) i = None" "\<And>i. thins f (stop i)"
  shows "\<forall>i \<in> set ids. dict_get (f t) i = None"
  using assms(1,2)
proof (induction ids arbitrary: s outs)
  case (Cons i js)
  obtain r rs u where r: "app_failure (stop i) s = (Inr r, u)"
    and rs: "map_each (\<lambda>i. app_failure (stop i)) js u = (Inr rs, t)" and outs: "outs = r # rs"
    using Cons.prems(1) by (rule map_each_ConsE)
  obtain h where "r = Inr h" using Cons.prems(2) outs by (cases r) auto
  with r have "dict_get (f u) i = None" using assms(3) app_failure_Inr by metis
  moreover have "thins f (map_each (\<lambda>i. app_failure (stop i)) js)"
    by (intro thins_map_each thins_app_failure assms(4))
  ultimately have "dict_get (f t) i = None"
    using thinsD(1) [of f "map_each (\<lambda>i. app_failure (stop i)) js" u "Inr rs" t i] rs by simp
  with Cons.IH [OF rs] Cons.prems(2) outs show ?case by simp
qed simp

lemma left_none:
  assumes "\<forall>i \<in> fst ` {x \<in> set d. p (snd x)}. dict_get d' i = None" "set d' \<subseteq> set d"
  shows "\<forall>x \<in> set d'. \<not> p (snd x)"
  using assms by (fastforce simp: map_of_eq_None_iff)

lemma raise_first_Inr:
  assumes "raise_first rs s = (Inr (), t)" shows "t = s \<and> (\<forall>r \<in> set rs. \<not> isl r)"
proof -
  have none: "List.map_filter (\<lambda>r. case r of Inl err \<Rightarrow> Some err | Inr _ \<Rightarrow> None) rs = []" and "t = s"
    using assms unfolding raise_first_def by (cases "List.map_filter
      (\<lambda>r. case r of Inl err \<Rightarrow> Some err | Inr _ \<Rightarrow> None) rs"; simp)+
  from none have "\<not> isl r" if "r \<in> set rs" for r
    using that by (cases r) (auto simp: List.map_filter_def filter_empty_conv)
  with \<open>t = s\<close> show ?thesis by blast
qed

lemma stop_external_for_profile_Inr:
  fixes s :: "('w, 'r, 'm) ec2_world_scheme"
  assumes "stop_external_for_profile P X j s = (Inr hs, t)"
  shows "\<forall>x \<in> set (ew_external t). es_profile_id (snd x) \<noteq> j"
proof -
  let ?stop = "\<lambda>i. stop_external P X i None :: ('w, 'r, 'm, external_handle) ew_io"
  let ?checked = "\<lambda>outs. map (\<lambda>r. case r of Inl err \<Rightarrow> Inl err
           | Inr h \<Rightarrow> (case eh_error h of Some err \<Rightarrow> Inl err | None \<Rightarrow> Inr h)) outs"
  have "bind (map_each (\<lambda>i. app_failure (?stop i)) (external_of j (ew_external s))) (\<lambda>outs.
      seq (raise_first (?checked outs)) (ret (map projr outs))) s = (Inr hs, t)"
    using assms by (simp only: stop_external_for_profile_def bind_gets)
  then obtain outs u where outs: "map_each (\<lambda>i. app_failure (?stop i)) (external_of j (ew_external s)) s = (Inr outs, u)"
    and rest: "seq (raise_first (?checked outs)) (ret (map projr outs)) u = (Inr hs, t)"
    by (rule bind_eq_InrE)
  have ok: "raise_first (?checked outs) u = (Inr (), t)"
    using rest by (auto elim: bind_eq_InrE)
  note ok' = raise_first_Inr [OF ok]
  have all: "\<forall>r \<in> set outs. \<not> isl r"
  proof
    fix r assume "r \<in> set outs"
    with ok' show "\<not> isl r" by (cases r) auto
  qed
  from all_stopped [where f = ew_external, OF outs all stop_external_Inr thins_stop_external]
  have "\<forall>i \<in> set (external_of j (ew_external s)). dict_get (ew_external u) i = None" .
  moreover have "set (ew_external u) \<subseteq> set (ew_external s)"
    by (rule thinsD(2) [OF thins_map_each outs]) (simp add: thins_app_failure)
  ultimately have "\<forall>x \<in> set (ew_external u). \<not> es_profile_id (snd x) = j"
    by (intro left_none) (auto simp: external_of_def)
  with ok' show ?thesis by simp
qed

lemma thins_stop_tunnel: "thins tw_managed (stop_tunnel P T i cx reason)"
  using shrinks_stop_tunnel [of P T i cx reason]
  by (simp add: shrinks_def thins_def unmanaged_def [abs_def] managed_within_def [abs_def])

lemma stop_all_Inr:
  fixes s :: "('w, 'r, 'm) tunnel_world_scheme"
  assumes "stop_all P T (Some j) s = (Inr hs, t)"
  shows "\<forall>x \<in> set (tw_managed t). ts_profile_id (mt_tunnel (snd x)) \<noteq> j"
proof -
  let ?stop = "\<lambda>i. stop_tunnel P T i None None :: ('w, 'r, 'm, tunnel_handle) tw_io"
  have each: "stop_each P T i = app_failure (?stop i)" for i
    by (simp add: stop_each_def app_failure_def)
  let ?ids = "map fst (owned_tunnels (Some j) (tw_managed s))"
  obtain outs where outs: "map_each (\<lambda>i. app_failure (?stop i)) ?ids s = (Inr outs, t)"
    and all: "\<forall>r \<in> set outs. \<exists>h. r = Inr h"
    using assms unfolding stop_all_def each
    by (auto elim!: bind_eq_InrE simp: List.map_filter_def isl_def filter_empty_conv split: list.splits sum.splits)
  have ok: "\<forall>r \<in> set outs. \<not> isl r" using all by auto
  have gone: "dict_get (tw_managed t) i = None" if "?stop i s = (Inr h, t)" for i s h t
    using yieldsD [OF yields_stop_tunnel that] by (simp add: gone_def unmanaged_def)
  from all_stopped [where f = tw_managed, OF outs ok gone thins_stop_tunnel]
  have "\<forall>i \<in> set ?ids. dict_get (tw_managed t) i = None" .
  moreover have "set (tw_managed t) \<subseteq> set (tw_managed s)"
    by (rule thinsD(2) [OF thins_map_each outs]) (simp add: thins_app_failure thins_stop_tunnel)
  ultimately have "\<forall>x \<in> set (tw_managed t). \<not> ts_profile_id (mt_tunnel (snd x)) = j"
    by (intro left_none) (auto simp: owned_tunnels_def)
  then show ?thesis by simp
qed

lemma active_tunnels_running:
  fixes s :: "('w, 'r, 'm) tunnel_world_scheme"
  assumes "tp_managed T" "active_tunnels P T (Some j) s = (Inr rs, t)"
    "(i, m) \<in> set (tw_managed t)" "ts_profile_id (mt_tunnel m) = j"
  shows "\<exists>c \<in> set rs. th_state (tc_handle c) = OpRunning"
proof -
  let ?es = "owned_tunnels (Some j) (tw_managed s)"
  have run: "map_each (poll_tunnel P T) ?es s = (Inr rs, t)"
    using assms(1,2) by (simp add: active_tunnels_def)
  have "(i, m) \<in> set ?es"
    using managed_subset [OF shrinks_map_each [OF shrinks_poll_tunnel] run] assms(3,4)
    by (auto simp: owned_tunnels_def)
  with map_each_polled [OF run] obtain c where "c \<in> set rs" "polled i c t"
    by (fastforce simp: list_all2_conv_all_nth in_set_conv_nth)
  moreover have "dict_get (tw_managed t) i \<noteq> None"
    using imageI [OF assms(3), of fst] by (simp add: map_of_eq_None_iff)
  ultimately show ?thesis by (auto simp: polled_def unmanaged_def)
qed

end
