(* ===== verification/Profile_Deletion.thy ===== *)
theory Profile_Deletion
  imports Connection_Lifecycle
begin

text \<open>
  What holds once a profile has been deleted together with its connections
  (\<open>application/connection_lifecycle.py\<close>, \<open>delete\<close>): the composition of the drives, the EC2
  sessions, the tunnels and the store.
\<close>

subsection \<open>Drives\<close>

definition unmounts :: "(s3_drive \<Rightarrow> 'w \<Rightarrow> bool) \<Rightarrow> 'w mount_ports \<Rightarrow> bool" where
  \<comment> \<open>a \<open>disconnect\<close> that returns has unmounted its drive; neither it nor a check mounts another\<close>
  "unmounts mounted M \<longleftrightarrow>
     (\<forall>d w w'. mo_disconnect M d w = (Inr (), w') \<longrightarrow> \<not> mounted d w') \<and>
     (\<forall>d e w. \<not> mounted d w \<longrightarrow> \<not> mounted d (snd (mo_disconnect M e w))) \<and>
     (\<forall>d e w. \<not> mounted d w \<longrightarrow> \<not> mounted d (snd (mo_assert_editable M e w)))"

lemma reads_list_drives [simp]: "frames (\<lambda>s. s) (on_db (list_drives i))"
  unfolding list_drives_def sql_ids_def by (intro reads_on_db frames_bind frames_transact) simp_all

lemma unmounted_kept:
  assumes "unmounts mounted M"
  shows "keeps (\<lambda>s. \<not> mounted d (w_out s)) (call_out (mo_disconnect M e))"
    "keeps (\<lambda>s. \<not> mounted d (w_out s)) (call_out (mo_assert_editable M e))"
  using assms unfolding unmounts_def keeps_def by simp_all

lemma keeps_app_failure: "keeps Q m \<Longrightarrow> keeps Q (app_failure m)"
  unfolding app_failure_def by (auto intro!: keeps_bind keeps_attempt split: sum.split exn.split)

lemma all_unmounted:
  assumes "unmounts mounted M" "map_each (\<lambda>d. app_failure (call_out (mo_disconnect M d))) ds s = (Inr outs, t)"
    "\<forall>r \<in> set outs. \<not> isl r"
  shows "\<forall>d \<in> set ds. \<not> mounted d (w_out t)"
  using assms(2,3)
proof (induction ds arbitrary: s outs)
  case (Cons d es)
  obtain r rs u where r: "app_failure (call_out (mo_disconnect M d)) s = (Inr r, u)"
    and rs: "map_each (\<lambda>d. app_failure (call_out (mo_disconnect M d))) es u = (Inr rs, t)" and outs: "outs = r # rs"
    using Cons.prems(1) by (rule map_each_ConsE)
  obtain x where "r = Inr x" using Cons.prems(2) outs by (cases r) auto
  with r have "call_out (mo_disconnect M d) s = (Inr (), u)" using app_failure_Inr by fastforce
  then have "\<not> mounted d (w_out u)"
    using assms(1) unfolding unmounts_def
    by (cases "mo_disconnect M d (w_out s)") (auto simp: call_out_def zoom_def split: prod.splits)
  then have "\<not> mounted d (w_out t)"
    by (rule keepsD [OF keeps_map_each [OF keeps_app_failure [OF unmounted_kept(1) [OF assms(1)]]] _ rs])
  with Cons.IH [OF rs] Cons.prems(2) outs show ?case by simp
qed simp

lemma profile_deletion_Inr:
  assumes "unmounts mounted M" "profile_deletion M i body s = (Inr x, t)"
  obtains ds u where "list_drives (Some i) (w_db s) = (Inr ds, w_db s)" "body u = (Inr x, t)"
    "\<forall>d \<in> set ds. \<not> mounted d (w_out u)" "\<exists>w. u = s\<lparr>w_out := w\<rparr>"
proof -
  let ?off = "\<lambda>d. app_failure (call_out (mo_disconnect M d))"
  let ?check = "\<lambda>ds. for_each ds (\<lambda>d. call_out (mo_assert_editable M d))"
  obtain s1 where stop: "stop_drives M (Some i) s = (Inr (), s1)"
    and rest: "bind (on_db (list_drives (Some i))) (\<lambda>ds. seq (?check ds) body) s1 = (Inr x, t)"
    using assms(2) unfolding profile_deletion_def by (rule bind_eq_InrE) auto
  obtain ds s0 where ds: "on_db (list_drives (Some i)) s = (Inr ds, s0)"
    and off: "bind (map_each ?off ds) raise_first s0 = (Inr (), s1)"
    using stop unfolding stop_drives_def by (rule bind_eq_InrE)
  note s0 = reads_state [OF reads_list_drives ds]
  obtain outs s2 where outs: "map_each ?off ds s0 = (Inr outs, s2)" and ok: "raise_first outs s2 = (Inr (), s1)"
    using off by (rule bind_eq_InrE)
  note s1 = raise_first_Inr [OF ok]
  obtain es s3 where es: "on_db (list_drives (Some i)) s1 = (Inr es, s3)"
    and more: "seq (?check es) body s3 = (Inr x, t)"
    using rest by (rule bind_eq_InrE)
  note s3 = reads_state [OF reads_list_drives es]
  obtain u where check: "?check es s3 = (Inr (), u)" and body: "body u = (Inr x, t)"
    using more by (rule bind_eq_InrE) auto
  have "\<forall>d \<in> set ds. \<not> mounted d (w_out s2)"
    by (rule all_unmounted [OF assms(1) outs]) (use s1 in blast)
  then have gone: "\<forall>d \<in> set ds. \<not> mounted d (w_out u)"
    using keepsD [OF keeps_for_each [OF unmounted_kept(2) [OF assms(1)]] _ check] s1 s3 by blast
  have "outside_only (map_each ?off ds)"
    by (intro outside_map_each app_failure_outside outside_call_out)
  from outside_onlyD [OF this outs] obtain w where w: "s2 = s\<lparr>w_out := w\<rparr>" using s0 by blast
  have "outside_only (?check es)"
    by (rule outside_for_each) (rule outside_call_out)
  from outside_onlyD [OF this check] obtain v where "u = s\<lparr>w_out := v\<rparr>" using w s1 s3 by auto
  moreover have "list_drives (Some i) (w_db s) = (Inr ds, w_db s)"
    using ds s0 by (cases "list_drives (Some i) (w_db s)") (auto dest: arg_cong [where f = w_db])
  ultimately show ?thesis using that [OF _ body gone] by blast
qed

subsection \<open>The whole deletion\<close>

lemma profile_row_gone:
  assumes "delete_profile i db = (Inr x, db')" shows "tb_get (db_profiles db') i = None"
proof -
  obtain r where r: "tb_get (db_profiles db) i = Some r"
    and db': "db' = cascade i (db\<lparr>db_profiles := remove_profile i (db_profiles db)\<rparr>)"
    using assms by (rule delete_profile_Inr)
  have "i \<notin> set (map fst (tb_rows (remove_profile i (db_profiles db))))"
    unfolding remove_profile_ids [OF r] by (auto simp: tb_delete_def)
  then show ?thesis by (simp add: db' cascade_def map_of_eq_None_iff)
qed

lemma ew_on_db [simp]: "frames ew_external (on_db m)" "frames tw_managed (on_db m)" "frames w_out (on_db m)"
  by (auto simp: on_db_def zoom_def intro!: framesI split: prod.split)

lemma first_failure_simps [simp]:
  "first_failure [] = None" "first_failure (None # es) = first_failure es" "first_failure (Some e # es) = Some e"
  by (simp_all add: first_failure_def List.map_filter_def)

lemma first_failure_None: "first_failure es = None \<longleftrightarrow> (\<forall>e \<in> set es. e = None)"
proof (induction es)
  case (Cons e es) then show ?case by (cases e) simp_all
qed simp

lemma no_failure:
  assumes "raise_found (first_failure es) s = (Inr x, t)" shows "t = s \<and> (\<forall>e \<in> set es. e = None)"
proof (cases "first_failure es")
  case None with assms show ?thesis by (simp add: raise_found_def first_failure_None)
qed (use assms in \<open>simp add: raise_found_def\<close>)

lemma outside_raise_found: "outside_only (raise_found e)"
  by (cases e) (simp_all add: raise_found_def)

lemma active_connections_Inr:
  fixes s :: "('w, 'r, 'm) ec2_world_scheme"
  assumes "active_connections P X T drives i s = (Inr c, t)" "\<not> has_active c" "tp_managed T"
  shows "(\<forall>x \<in> set (ew_external t). es_profile_id (snd x) \<noteq> i) \<and>
    (\<forall>x \<in> set (tw_managed t). ts_profile_id (mt_tunnel (snd x)) \<noteq> i)"
proof -
  let ?rest2 = "\<lambda>re rr. seq (raise_found (first_failure [failure_of re, failure_of rr]))
       (seq (raise_found (first_failure (map eh_error (found_or_empty re) @ map tc_error (found_or_empty rr))))
       (bind (case drives of None \<Rightarrow> ret [] | Some M \<Rightarrow> drive_list M (Some i)) (\<lambda>mounted.
         ret \<lparr>pn_profile_id = i,
           pn_ec2_count = count_where (\<lambda>h. eh_state h = OpRunning) (found_or_empty re),
           pn_rds_count = count_where (\<lambda>c. th_state (tc_handle c) = OpRunning) (found_or_empty rr),
           pn_s3_drive_count = count_where (\<lambda>d. dst_state d \<noteq> DriveDisconnected) mounted\<rparr>)))
     :: ('w, 'r, 'm, profile_connections) ew_io"
  obtain re s1 where re: "app_failure (external_sessions P X (Some i)) s = (Inr re, s1)"
    and then2: "bind (app_failure (active_tunnels P T (Some i))) (?rest2 re) s1 = (Inr c, t)"
    using assms(1) unfolding active_connections_def Let_def by (rule bind_eq_InrE)
  obtain rr s2 where rr: "app_failure (active_tunnels P T (Some i)) s1 = (Inr rr, s2)"
    and rest: "?rest2 re rr s2 = (Inr c, t)"
    using then2 by (rule bind_eq_InrE)
  have listing: "outside_only (case drives of None \<Rightarrow> ret [] | Some M \<Rightarrow> drive_list M (Some i))"
    unfolding drive_list_def
    by (auto split: option.split intro!: outside_bind outside_map_each outside_call_out
        outside_reads [OF reads_list_drives] simp del: call_out_apply)
  have "outside_only (?rest2 re rr)"
    by (intro outside_bind outside_raise_found listing outside_ret)
  from outside_onlyD [OF this rest] obtain w where t: "t = s2\<lparr>w_out := w\<rparr>" by blast
  obtain s3 x where found: "raise_found (first_failure [failure_of re, failure_of rr]) s2 = (Inr x, s3)"
    using rest by (rule bind_eq_InrE)
  from no_failure [OF this] have "failure_of re = None" "failure_of rr = None" by simp_all
  then obtain hs cs where eqs: "re = Inr hs" "rr = Inr cs"
    by (auto simp: failure_of_def split: sum.splits)
  have hs: "external_sessions P X (Some i) s = (Inr hs, s1)"
    and cs: "active_tunnels P T (Some i) s1 = (Inr cs, s2)"
    by (rule app_failure_Inr [OF re [unfolded eqs]], rule app_failure_Inr [OF rr [unfolded eqs]])
  have same: "ew_external t = ew_external s1" "tw_managed t = tw_managed s2"
    using framesD [OF frames_ew_external [OF tunnel_more_active] cs] by (simp_all add: t)
  have "c = \<lparr>pn_profile_id = i, pn_ec2_count = count_where (\<lambda>h. eh_state h = OpRunning) hs,
      pn_rds_count = count_where (\<lambda>c. th_state (tc_handle c) = OpRunning) cs,
      pn_s3_drive_count = pn_s3_drive_count c\<rparr>"
    using rest by (auto simp: eqs found_or_empty_def elim!: bind_eq_InrE)
  then have idle: "\<forall>h \<in> set hs. eh_state h \<noteq> OpRunning" "\<forall>c \<in> set cs. th_state (tc_handle c) \<noteq> OpRunning"
    using assms(2) by (cases c; simp add: has_active_def count_where_def filter_empty_conv)+
  show ?thesis
    using external_sessions_running [OF hs] active_tunnels_running [OF assms(3) cs] idle
    unfolding same by fastforce
qed

lemma stop_connections_Inr:
  fixes s :: "('w, 'r, 'm) ec2_world_scheme"
  assumes "stop_connections P X T i s = (Inr x, t)"
  shows "(\<forall>x \<in> set (ew_external t). es_profile_id (snd x) \<noteq> i) \<and>
    (\<forall>x \<in> set (tw_managed t). ts_profile_id (mt_tunnel (snd x)) \<noteq> i)"
proof -
  obtain re s1 where re: "app_failure (stop_external_for_profile P X i) s = (Inr re, s1)"
    and then2: "bind (app_failure (stop_all P T (Some i))) (\<lambda>rr.
      raise_found (first_failure [failure_of re, failure_of rr])) s1 = (Inr x, t)"
    using assms unfolding stop_connections_def by (rule bind_eq_InrE)
  obtain rr s2 where rr: "app_failure (stop_all P T (Some i)) s1 = (Inr rr, s2)"
    and rest: "raise_found (first_failure [failure_of re, failure_of rr]) s2 = (Inr x, t)"
    using then2 by (rule bind_eq_InrE)
  from no_failure [OF rest] have "failure_of re = None" "failure_of rr = None" and t: "t = s2" by simp_all
  then obtain hs cs where eqs: "re = Inr hs" "rr = Inr cs"
    by (auto simp: failure_of_def split: sum.splits)
  have hs: "stop_external_for_profile P X i s = (Inr hs, s1)" and cs: "stop_all P T (Some i) s1 = (Inr cs, s2)"
    by (rule app_failure_Inr [OF re [unfolded eqs]], rule app_failure_Inr [OF rr [unfolded eqs]])
  have "ew_external t = ew_external s1"
    using framesD [OF frames_ew_external [OF tunnel_more_stop_all] cs] by (simp add: t)
  with stop_external_for_profile_Inr [OF hs] stop_all_Inr [OF cs] show ?thesis by (simp add: t)
qed

definition disowned :: "int \<Rightarrow> ('w, 'r, 'm) ec2_world_scheme \<Rightarrow> bool" where
  "disowned i t \<longleftrightarrow> (\<forall>x \<in> set (ew_external t). es_profile_id (snd x) \<noteq> i) \<and>
    (\<forall>x \<in> set (tw_managed t). ts_profile_id (mt_tunnel (snd x)) \<noteq> i)"

lemma db_active_connections: "frames w_db (active_connections P X T drives i)"
proof -
  have "frames w_db (case drives of None \<Rightarrow> ret [] | Some M \<Rightarrow> drive_list M (Some i))"
    by (rule db_outside) (auto simp: drive_list_def split: option.split intro!: outside_bind outside_map_each
        outside_call_out outside_reads [OF reads_list_drives] simp del: call_out_apply)
  then show ?thesis
    unfolding active_connections_def Let_def
    by (intro frames_bind app_failure_frames external_db db_active_tunnels
        db_outside [OF outside_raise_found] frames_ret)
qed

lemma db_stop_connections: "frames w_db (stop_connections P X T i)"
  unfolding stop_connections_def
  by (intro frames_bind app_failure_frames external_db db_stop_all db_outside [OF outside_raise_found])

lemma connections_ended:
  fixes s :: "('w, 'r, 'm) ec2_world_scheme"
  assumes "active_connections P X T drives i s = (Inr c, u)" "tp_managed T"
    "(if has_active c then stop_connections P X T i else skip) u = (Inr x, t)"
  shows "disowned i t \<and> w_db t = w_db s"
  using framesD [OF db_active_connections assms(1)] assms(3) active_connections_Inr [OF assms(1) _ assms(2)]
    stop_connections_Inr [of P X T i u x t] framesD [OF db_stop_connections, of P X T i u _ t]
  by (cases "has_active c") (auto simp: disowned_def)


definition desk_drive :: s3_drive where
  "desk_drive = \<lparr>sd_id = None, sd_profile_id = 1, sd_name = ''team'', sd_bucket = ''my-bucket'', sd_prefix = [],
     sd_letter = ''S'', sd_local_prefix = []\<rparr>"

definition desk_mount :: "desk mount_ports" where
  \<comment> \<open>a drive is mounted until its letter is in the list of what has been closed\<close>
  "desk_mount = \<lparr>mo_letters = (\<lambda>w. (Inr {}, w)),
     mo_status = (\<lambda>d w. (Inr \<lparr>dst_drive = d, dst_state = (if sd_letter d \<in> set (dk_closed w) then DriveDisconnected
        else DriveConnected), dst_message_code = []\<rparr>, w)),
     mo_connect = (\<lambda>d c r cx w. (Inr (), w)),
     mo_disconnect = (\<lambda>d w. (Inr (), w\<lparr>dk_closed := sd_letter d # dk_closed w\<rparr>)),
     mo_assert_editable = (\<lambda>d w. (Inr (), w))\<rparr>"

definition desk_ec2 :: "desk ec2_ports" where
  "desk_ec2 = \<lparr>xp_sessions = desk_sessions, xp_describe = (\<lambda>c r ids w. (Inr [], w)), xp_inventory = None,
     xp_power = None, xp_favorites = False, xp_history = (\<lambda>i r w. (Inr [], w))\<rparr>"

definition desk_busy :: "(desk, tunnel_request) ec2_world" where
  \<comment> \<open>two tunnels, one session on an instance and one mounted drive, all of profile 1\<close>
  "desk_busy = (let o1 = \<lparr>os_credentials = desk_key, os_region = ''eu'', os_session_id = ''s0'',
        os_process = \<lparr>ph_handle = 0, ph_pid = 7\<rparr>, os_ended = False, os_external_terminal = False\<rparr>
     in \<lparr>w_db = snd (save_drive desk_drive two_profiles), w_exec = None,
     w_out = desk_start\<lparr>dk_now := hours 3, dk_running := True\<rparr>, aw_pending = [], ow_pending = [],
     sw_owned = (''c'', o1\<lparr>os_session_id := ''s2''\<rparr>) # sw_owned desk_started,
     tw_managed = tw_managed desk_started, dw_closing = False,
     ew_external = [(''c'', \<lparr>es_profile_id = 1, es_instance_id = ''i-0123456789abcdef0'', es_process_id = 7,
        es_ssm_session_id = ''s2'', es_region = ''eu''\<rparr>)]\<rparr>)"


end
