(* ===== verification/Secrets_Service.thy ===== *)
theory Secrets_Service
  imports Ec2_Service Execution_History
begin

text \<open>
  Secrets (\<open>application/secrets_service.py\<close>): what is shown of a retrieved Secret, the lookup of a
  Secret directly or by a command on an EC2 instance, the saved snapshots, and the update of one
  field.  The parser \<open>json.loads\<close> is the argument \<open>parse\<close> (\<open>None\<close>: \<open>JSONDecodeError\<close>), since a
  parsed number is printed by the shortest representation of a double and a text may name any code
  point; the printer is written out.
\<close>

subsection \<open>JSON texts\<close>

definition break_at :: "nat \<Rightarrow> string" where
  "break_at depth = CHR 10 # replicate (2 * depth) (CHR '' '')"

fun dumps_indented :: "nat \<Rightarrow> json \<Rightarrow> string" where
  \<comment> \<open>\<open>json.dumps(value, ensure_ascii=False, indent=2)\<close> at a depth\<close>
  "dumps_indented n (JArr (x # xs)) =
     ''['' @ break_at (n + 1) @ join_with ('','' @ break_at (n + 1)) (map (dumps_indented (n + 1)) (x # xs))
       @ break_at n @ '']''"
| "dumps_indented n (JObj (kv # kvs)) =
     ''{'' @ break_at (n + 1) @ join_with ('','' @ break_at (n + 1))
       (map (\<lambda>(k, v). quoted False k @ '': '' @ dumps_indented (n + 1) v) (kv # kvs)) @ break_at n @ ''}''"
| "dumps_indented n v = dumps False v"

fun dumps_compact :: "json \<Rightarrow> string" where
  \<comment> \<open>\<open>json.dumps(value, ensure_ascii=False, separators=(",", ":"))\<close>\<close>
  "dumps_compact (JArr xs) = ''['' @ join_with '','' (map dumps_compact xs) @ '']''"
| "dumps_compact (JObj kvs) =
     ''{'' @ join_with '','' (map (\<lambda>(k, v). quoted False k @ '':'' @ dumps_compact v) kvs) @ ''}''"
| "dumps_compact v = dumps False v"

definition json_decode_error :: exn where
  "json_decode_error = PyExn ''JSONDecodeError''"

subsection \<open>What is shown of a Secret\<close>

datatype secret_kind = KindJson | KindText

record secret_field =
  sf_path :: string
  sf_raw_value :: json
  sf_sensitive :: bool

definition masked_value :: "secret_field \<Rightarrow> json" where
  "masked_value f = (if sf_sensitive f then JStr redacted else sf_raw_value f)"

record secret_result =
  sr_secret_id :: string
  sr_kind :: secret_kind
  sr_fields :: "secret_field list"
  sr_version_id :: "string option"
  sr_version_stages :: "string list"
  sr_raw_secret_string :: string
  sr_retrieved_at :: "instant option"

definition new_field :: "string \<Rightarrow> json \<Rightarrow> bool \<Rightarrow> secret_field" where
  "new_field path v sensitive = \<lparr>sf_path = path, sf_raw_value = v, sf_sensitive = sensitive\<rparr>"

definition root_path :: "string \<Rightarrow> string" where
  \<comment> \<open>\<open>path or "$"\<close>\<close>
  "root_path path = (if path = [] then ''$'' else path)"

definition child_path :: "string \<Rightarrow> string \<Rightarrow> string" where
  "child_path path name = (if path = [] then name else path @ ''.'' @ name)"

definition item_path :: "string \<Rightarrow> nat \<Rightarrow> string" where
  "item_path path i = path @ ''['' @ digits_of i @ '']''"

fun flatten :: "json \<Rightarrow> string \<Rightarrow> bool \<Rightarrow> secret_field list"
and flatten_items :: "json list \<Rightarrow> string \<Rightarrow> bool \<Rightarrow> nat \<Rightarrow> secret_field list"
and flatten_entries :: "(string \<times> json) list \<Rightarrow> string \<Rightarrow> bool \<Rightarrow> secret_field list" where
  "flatten (JObj kvs) path s = (if kvs = [] then [new_field (root_path path) (JObj []) s]
     else flatten_entries kvs path s)"
| "flatten (JArr xs) path s = (if xs = [] then [new_field (root_path path) (JArr []) s]
     else flatten_items xs path s 0)"
| "flatten v path s = [new_field (root_path path) v s]"
| "flatten_items [] path s i = []"
| "flatten_items (x # xs) path s i = flatten x (item_path path i) s @ flatten_items xs path s (Suc i)"
| "flatten_entries [] path s = []"
| "flatten_entries (kv # kvs) path s = (case kv of (name, v) \<Rightarrow>
     flatten v (child_path path name) (s \<or> is_sensitive_name name)) @ flatten_entries kvs path s"

fun masked_document :: "json \<Rightarrow> bool \<Rightarrow> json" where
  "masked_document (JObj kvs) s = JObj (map (\<lambda>(k, v). (k, masked_document v (s \<or> is_sensitive_name k))) kvs)"
| "masked_document (JArr xs) s = JArr (map (\<lambda>v. masked_document v s) xs)"
| "masked_document v s = (if s then JStr redacted else v)"

definition parse_secret ::
    "(string \<Rightarrow> json option) \<Rightarrow> string \<Rightarrow> string \<Rightarrow> string option \<Rightarrow> string list \<Rightarrow> secret_result" where
  \<comment> \<open>\<open>_parse\<close>\<close>
  "parse_secret parse i text version stages =
     (let result = (\<lambda>kind fields. \<lparr>sr_secret_id = i, sr_kind = kind, sr_fields = fields,
        sr_version_id = version, sr_version_stages = stages, sr_raw_secret_string = text,
        sr_retrieved_at = None\<rparr>) in
      case parse text of
        None \<Rightarrow> result KindText [new_field ''$'' (JStr text) True]
      | Some v \<Rightarrow> if is_scalar v then result KindJson [new_field ''$'' v True]
                  else result KindJson (flatten v [] False))"

definition json_text :: "(string \<Rightarrow> json option) \<Rightarrow> bool \<Rightarrow> secret_result \<Rightarrow> exn + string" where
  "json_text parse reveal r =
     (case sr_kind r of
        KindText \<Rightarrow> Inr (dumps_indented 0 (JStr (if reveal then sr_raw_secret_string r else redacted)))
      | KindJson \<Rightarrow> (case parse (sr_raw_secret_string r) of
          None \<Rightarrow> Inl json_decode_error
        | Some v \<Rightarrow> Inr (dumps_indented 0 (if reveal then v else masked_document v (is_scalar v)))))"

definition value_text :: "json \<Rightarrow> string" where
  "value_text v = (case v of JStr s \<Rightarrow> s | _ \<Rightarrow> dumps False v)"

definition copy_text :: "(string \<Rightarrow> json option) \<Rightarrow> string \<Rightarrow> secret_result \<Rightarrow> exn + string" where
  "copy_text parse format r =
     (if format = ''json'' then json_text parse True r
      else if format = ''key_value''
      then Inr (join_with [CHR 10] (map (\<lambda>f. sf_path f @ '': '' @ value_text (sf_raw_value f)) (sr_fields r)))
      else Inr (sr_raw_secret_string r))"

definition field_at :: "string \<Rightarrow> secret_result \<Rightarrow> app_error + secret_field" where
  "field_at path r =
     (case find (\<lambda>f. sf_path f = path) (sr_fields r) of
        None \<Rightarrow> Inl (config_error_because ''secret.field.not_found''
                  ''The requested field is absent from the retrieved secret'')
      | Some f \<Rightarrow> Inr f)"

definition rds_endpoint_invalid :: app_error where
  "rds_endpoint_invalid = config_error_because ''secret.rds_endpoint.invalid''
     ''Secret JSON must contain a valid top-level host and port''"

definition secret_rds_endpoint :: "secret_result \<Rightarrow> app_error + string \<times> int" where
  "secret_rds_endpoint r =
     (let field = (\<lambda>name. map_option sf_raw_value (find (\<lambda>f. casefold (sf_path f) = name) (sr_fields r)));
          port = (case field ''port'' of Some (JStr s) \<Rightarrow> int_text s | Some (JInt i) \<Rightarrow> Some i | _ \<Rightarrow> None) in
      case (field ''host'', port) of
        (Some (JStr host), Some n) \<Rightarrow>
          if strip host = [] \<or> \<not> (1 \<le> n \<and> n \<le> 65535) then Inl rds_endpoint_invalid
          else Inr (strip host, n)
      | _ \<Rightarrow> Inl rds_endpoint_invalid)"

subsection \<open>Commands on instances\<close>

definition secret_char :: "char \<Rightarrow> bool" where
  "secret_char c \<longleftrightarrow> is_alnum_ascii c \<or> c \<in> set ''/_+=.@-''"

definition secret_name_re :: regex where
  "secret_name_re = Cls secret_char 1 (Some 512)"

definition secret_arn_re :: regex where
  "secret_arn_re = seq_all [lit ''arn:'', Altr (lit ''aws'') (Altr (lit ''aws-cn'') (lit ''aws-us-gov'')),
     lit '':secretsmanager:'', Cls (\<lambda>c. is_lower_az c \<or> is_dec c \<or> c = CHR ''-'') 1 None, lit_char (CHR '':''),
     Cls is_dec 12 (Some 12), lit '':secret:'', Cls secret_char 1 (Some 512)]"

definition validate_remote_secret_id :: "string \<Rightarrow> app_error + unit" where
  "validate_remote_secret_id i =
     (if fullmatch secret_name_re i \<or> fullmatch secret_arn_re i then Inr ()
      else Inl (config_error_because ''secret.id.remote.invalid''
        ''Remote Secret ID contains unsupported characters or is not a valid ARN''))"

definition remote_secret_command :: "string \<Rightarrow> string" where
  \<comment> \<open>\<open>_REMOTE_SECRET_COMMAND.format(secret_id=...)\<close>\<close>
  "remote_secret_command i = ''aws secretsmanager get-secret-value --secret-id '' @ [char_of (39::nat)] @ i @
     [char_of (39::nat)] @ '' --query SecretString --output text''"

definition build_remote_secret_command :: "string \<Rightarrow> app_error + string" where
  "build_remote_secret_command i =
     (case validate_remote_secret_id i of Inl e \<Rightarrow> Inl e | Inr _ \<Rightarrow> Inr (remote_secret_command i))"

definition platform_unsupported :: "string \<Rightarrow> app_error" where
  "platform_unsupported cause = config_error_because ''secret.relay.platform.unsupported'' cause"

definition build_persistent_remote_secret_command :: "string \<Rightarrow> string \<Rightarrow> app_error + string" where
  "build_persistent_remote_secret_command i platform =
     (case build_remote_secret_command i of
        Inl e \<Rightarrow> Inl e
      | Inr command \<Rightarrow>
          if contains (casefold platform) ''windows''
          then Inr (''powershell.exe -NoLogo -NoExit -Command '' @ [char_of (34::nat)] @ command @ [char_of (34::nat)])
          else if list_ex (contains (casefold platform)) [''linux'', ''ubuntu'', ''unix'']
          then Inr (command @ ''; exec '' @ [char_of (34::nat)] @ ''${SHELL:-/bin/sh}'' @ [char_of (34::nat)] @ '' -l'')
          else Inl (platform_unsupported
            ''The selected EC2 relay platform cannot keep an interactive command session open''))"

definition supported_platform :: "string \<Rightarrow> bool" where
  "supported_platform platform \<longleftrightarrow>
     list_ex (contains (casefold platform)) [''windows'', ''linux'', ''ubuntu'', ''unix'']"

subsection \<open>The service\<close>

record retrieved_secret =
  rs_secret_id :: string
  rs_secret_string :: string
  rs_version_id :: "string option"
  rs_version_stages :: "string list"

record secret_relay_target =
  rt_instance_id :: string
  rt_platform_name :: string
  rt_name :: "string option"

record 'w secrets_ports =
  \<comment> \<open>what the constructor is given; \<open>None\<close> or \<open>False\<close> for an absent collaborator\<close>
  ct_parse :: "string \<Rightarrow> json option"
  ct_now :: "'w \<Rightarrow> instant \<times> 'w"  \<comment> \<open>\<open>datetime.now(UTC)\<close>\<close>
  ct_get_secret_value :: "plain_credentials \<Rightarrow> string \<Rightarrow> string \<Rightarrow> 'w \<Rightarrow> (exn + retrieved_secret) \<times> 'w"
  ct_list_secrets :: "plain_credentials \<Rightarrow> string \<Rightarrow> 'w \<Rightarrow> (exn + (string \<times> string) list) \<times> 'w"
  ct_put_secret_value :: "plain_credentials \<Rightarrow> string \<Rightarrow> string \<Rightarrow> string \<Rightarrow> 'w \<Rightarrow> (exn + string option) \<times> 'w"
  ct_list_online :: "(plain_credentials \<Rightarrow> string \<Rightarrow> 'w \<Rightarrow> (exn + managed_instance list) \<times> 'w) option"
  ct_remote :: "(plain_credentials \<Rightarrow> string \<Rightarrow> string \<Rightarrow> string \<Rightarrow> string \<Rightarrow> op_context \<Rightarrow> 'w
    \<Rightarrow> (exn + retrieved_secret) \<times> 'w) option"
  ct_describe :: "(plain_credentials \<Rightarrow> string \<Rightarrow> string list \<Rightarrow> 'w
    \<Rightarrow> (exn + (string, ec2_metadata) dict) \<times> 'w) option"
  ct_saved :: bool

definition relay_unavailable :: app_error where
  "relay_unavailable = config_error_because ''secret.relay.unavailable''
     ''EC2-mediated Secret lookup is not configured''"

definition saved_not_found :: app_error where
  "saved_not_found = config_error_because ''secret.saved.not_found'' ''Saved Secret was not found''"

definition require_saved_store :: "'w secrets_ports \<Rightarrow> ('s, exn, unit) eff" where
  "require_saved_store C = raise_when (\<not> ct_saved C) (AppExn (config_error_because
     ''secret.saved.unavailable'' ''Saved Secret storage is not configured''))"

definition require_online_relay ::
    "'w secrets_ports \<Rightarrow> plain_credentials \<Rightarrow> string \<Rightarrow> string \<Rightarrow> ('w, 'm, secret_relay_target) io" where
  "require_online_relay C c region i =
     seq (raise_when (i = []) (AppExn (config_error_because ''secret.relay.instance.required''
            ''Select one Online EC2 relay instance'')))
     (case ct_list_online C of
        None \<Rightarrow> raise_app relay_unavailable
      | Some list_online \<Rightarrow>
          bind (call_out (list_online c region)) (\<lambda>targets.
          case find (\<lambda>m. mi_instance_id m = i \<and> mi_ping_status m = ''Online'') targets of
            None \<Rightarrow> raise_app (config_error_because ''secret.relay.instance.not_online''
                     ''The selected EC2 relay is not an Online SSM managed node'')
          | Some m \<Rightarrow>
              (case given (mi_platform_name m) of
                 Some platform \<Rightarrow>
                   if supported_platform platform
                   then ret \<lparr>rt_instance_id = mi_instance_id m, rt_platform_name = platform, rt_name = None\<rparr>
                   else raise_app (platform_unsupported ''The selected EC2 relay platform is unavailable'')
               | None \<Rightarrow> raise_app (platform_unsupported ''The selected EC2 relay platform is unavailable''))))"

definition remember ::
    "'w secrets_ports \<Rightarrow> string \<Rightarrow> selector \<Rightarrow> string option \<Rightarrow> secret_lookup_mode option
     \<Rightarrow> string option \<Rightarrow> instant option \<Rightarrow> ('w, 'm, saved_secret) io" where
  "remember C identifier sel value_given mode relay retrieved_at =
     bind (resolve_profile sel) (\<lambda>p.
     bind (of_app (require_profile_id p)) (\<lambda>i.
     seq (require_saved_store C)
     (bind (of_app (saved_secret_init \<lparr>ss_id = None, ss_profile_id = i, ss_identifier = identifier,
              ss_value = (case value_given of None \<Rightarrow> [] | Some v \<Rightarrow> v),
              ss_lookup_mode = (case mode of None \<Rightarrow> Direct | Some m \<Rightarrow> m),
              ss_relay_instance_id = relay, ss_last_retrieved_at = retrieved_at\<rparr>)) (\<lambda>candidate.
      if value_given \<noteq> None \<or> mode \<noteq> None \<or> relay \<noteq> None then on_db (upsert_saved_secret candidate)
      else bind (on_db (get_saved_secret_by_identifier i (ss_identifier candidate))) (\<lambda>existing.
        case existing of Some x \<Rightarrow> ret x | None \<Rightarrow>
          try_except (on_db (create_saved_secret candidate)) (\<lambda>e.
            case e of
              AppExn err \<Rightarrow>
                if ae_class err \<noteq> ConfigurationError
                   \<or> ae_message_code err \<noteq> ''secret.saved.identifier.duplicate'' then throw e
                else bind (on_db (get_saved_secret_by_identifier i (ss_identifier candidate)))
                  (\<lambda>concurrent. case concurrent of None \<Rightarrow> throw e | Some x \<Rightarrow> ret x)
            | _ \<Rightarrow> throw e))))))"

definition lookup_remote ::
    "'w ports \<Rightarrow> 'w secrets_ports \<Rightarrow> plain_credentials \<Rightarrow> string \<Rightarrow> string \<Rightarrow> string option \<Rightarrow> bool
     \<Rightarrow> op_context option \<Rightarrow> ('w, 'm, retrieved_secret) io" where
  \<comment> \<open>the branch of \<open>get\<close> for \<open>VIA_EC2\<close>\<close>
  "lookup_remote P C c region identifier instance_id confirmed context =
     seq (of_app (validate_remote_secret_id identifier))
     (seq (raise_when (\<not> confirmed) (AppExn (config_error_because ''secret.relay.confirmation.required''
            ''EC2-mediated Secret lookup requires explicit acknowledgement'')))
     (bind (require_online_relay C c region (strip (case instance_id of None \<Rightarrow> [] | Some i \<Rightarrow> i))) (\<lambda>relay.
      bind (given_context P context) (\<lambda>cx.
      seq (raise_if_cancelled P cx)
      (seq (report_progress P cx ''remote-command'' ''secret.relay.command.start'' None None
              (Some (rt_instance_id relay)))
      (case ct_remote C of
         None \<Rightarrow> raise_app relay_unavailable
       | Some run \<Rightarrow>
           bind (call_out (run c region (rt_instance_id relay) (rt_platform_name relay) identifier cx)) (\<lambda>r.
           seq (report_progress P cx ''remote-command'' ''secret.relay.command.succeeded'' (Some 1) (Some 1) None)
             (ret r))))))))"

definition get_secret_body ::
    "'w ports \<Rightarrow> 'w secrets_ports \<Rightarrow> string \<Rightarrow> selector \<Rightarrow> secret_lookup_mode \<Rightarrow> string option \<Rightarrow> bool
     \<Rightarrow> op_context option \<Rightarrow> ('w, 'm, secret_result) io" where
  "get_secret_body P C secret_id sel mode instance_id confirmed context =
     (let identifier = strip secret_id in
      seq (raise_when (identifier = []) (AppExn (config_error_because ''secret.id.required''
             ''A Secret name or ARN is required'')))
      (bind (resolve_profile sel) (\<lambda>p.
       bind (of_app (require_profile_id p)) (\<lambda>i.
       bind (require_credentials P i) (\<lambda>c.
       bind (case mode of
               Direct \<Rightarrow> call_out (ct_get_secret_value C c (ap_region p) identifier)
             | ViaEc2 \<Rightarrow> lookup_remote P C c (ap_region p) identifier instance_id confirmed context) (\<lambda>r.
       bind (ask (ct_now C)) (\<lambda>now.
         let result = (parse_secret (ct_parse C) (rs_secret_id r) (rs_secret_string r) (rs_version_id r)
               (rs_version_stages r))\<lparr>sr_retrieved_at := Some now\<rparr> in
         seq (if ct_saved C
              then bind (remember C (sr_secret_id result) (SelInt i) (Some (rs_secret_string r)) (Some mode)
                     (if mode = ViaEc2 then map_option strip instance_id else None) (Some now)) (\<lambda>_. skip)
              else skip)
         (seq (record_success P ''secrets'' ''get''
                 (\<lambda>e. e\<lparr>lc_target := identifier, lc_profile_id := Some i, lc_region := Some (ap_region p)\<rparr>))
           (ret result)))))))))"

definition get_secret ::
    "'w ports \<Rightarrow> 'w secrets_ports \<Rightarrow> string \<Rightarrow> selector \<Rightarrow> secret_lookup_mode \<Rightarrow> string option \<Rightarrow> bool
     \<Rightarrow> op_context option \<Rightarrow> ('w, 'm, secret_result) io" where
  "get_secret P C secret_id sel mode instance_id confirmed context =
     logged P ''secrets'' ''get'' False secret_id True context
       (get_secret_body P C secret_id sel mode instance_id confirmed)"

definition list_saved :: "'w secrets_ports \<Rightarrow> selector \<Rightarrow> ('w, 'm, saved_secret list) io" where
  "list_saved C sel =
     bind (resolve_profile sel) (\<lambda>p.
     seq (require_saved_store C)
     (bind (of_app (require_profile_id p)) (\<lambda>i. on_db (list_saved_secrets i))))"

definition owned_saved :: "'w secrets_ports \<Rightarrow> int \<Rightarrow> selector \<Rightarrow> ('w, 'm, int \<times> saved_secret) io" where
  \<comment> \<open>the first steps of \<open>load_saved\<close> and \<open>delete_saved\<close>\<close>
  "owned_saved C saved_id sel =
     bind (resolve_profile sel) (\<lambda>p.
     seq (require_saved_store C)
     (bind (on_db (get_saved_secret saved_id)) (\<lambda>existing. case existing of
        None \<Rightarrow> raise_app saved_not_found
      | Some x \<Rightarrow>
          bind (of_app (require_profile_id p)) (\<lambda>i.
          seq (raise_when (ss_profile_id x \<noteq> i) (AppExn saved_not_found)) (ret (i, x))))))"

definition load_saved ::
    "'w secrets_ports \<Rightarrow> int \<Rightarrow> selector \<Rightarrow> ('w, 'm, saved_secret \<times> secret_result) io" where
  "load_saved C saved_id sel =
     bind (owned_saved C saved_id sel) (\<lambda>(i, x).
       ret (x, (parse_secret (ct_parse C) (ss_identifier x) (ss_value x) None [])
                 \<lparr>sr_retrieved_at := ss_last_retrieved_at x\<rparr>))"

definition delete_saved :: "'w secrets_ports \<Rightarrow> int \<Rightarrow> selector \<Rightarrow> ('w, 'm, unit) io" where
  "delete_saved C saved_id sel =
     bind (owned_saved C saved_id sel) (\<lambda>_. on_db (delete_saved_secret saved_id))"

definition update_saved ::
    "'w secrets_ports \<Rightarrow> int \<Rightarrow> string \<Rightarrow> selector \<Rightarrow> string option \<Rightarrow> ('w, 'm, saved_secret) io" where
  \<comment> \<open>the profile id is required before the store is\<close>
  "update_saved C saved_id identifier sel value_given =
     bind (resolve_profile sel) (\<lambda>p.
     bind (of_app (require_profile_id p)) (\<lambda>i.
     seq (require_saved_store C)
     (bind (on_db (get_saved_secret saved_id)) (\<lambda>existing. case existing of
        None \<Rightarrow> raise_app saved_not_found
      | Some x \<Rightarrow>
          seq (raise_when (ss_profile_id x \<noteq> i) (AppExn saved_not_found))
          (bind (of_app (saved_secret_init (x\<lparr>ss_id := Some saved_id, ss_profile_id := i,
                   ss_identifier := identifier,
                   ss_value := (case value_given of None \<Rightarrow> ss_value x | Some v \<Rightarrow> v)\<rparr>))) (\<lambda>y.
           on_db (update_saved_secret y)))))))"

definition list_secrets :: "'w ports \<Rightarrow> 'w secrets_ports \<Rightarrow> selector \<Rightarrow> ('w, 'm, (string \<times> string) list) io" where
  "list_secrets P C sel =
     logged P ''secrets'' ''list'' False ''-'' False None (\<lambda>_.
       bind (resolve_profile sel) (\<lambda>p.
       bind (of_app (require_profile_id p)) (\<lambda>i.
       bind (require_credentials P i) (\<lambda>c.
       bind (call_out (ct_list_secrets C c (ap_region p))) (\<lambda>found.
       seq (record_success P ''secrets'' ''list''
              (\<lambda>e. e\<lparr>lc_profile_id := Some i, lc_region := Some (ap_region p)\<rparr>))
         (ret found))))))"

definition save_top_level_field ::
    "'w ports \<Rightarrow> 'w secrets_ports \<Rightarrow> secret_result \<Rightarrow> string \<Rightarrow> string \<Rightarrow> selector
     \<Rightarrow> ('w, 'm, secret_result) io" where
  "save_top_level_field P C r path text sel =
     seq (raise_when (sr_kind r \<noteq> KindJson \<or> path = [] \<or> CHR ''.'' \<in> set path \<or> CHR ''['' \<in> set path)
            (AppExn (config_error_because ''secret.field.update.unsupported''
               ''Only top-level JSON fields can be updated safely'')))
     (case ct_parse C (sr_raw_secret_string r) of
        None \<Rightarrow> raise_app (config_error_because ''secret.field.update.unsupported''
                 ''Secret source is not a JSON object'')
      | Some document \<Rightarrow>
          (case (case document of JObj kvs \<Rightarrow> if dict_get kvs path = None then None else Some kvs | _ \<Rightarrow> None) of
             None \<Rightarrow> raise_app (config_error_because ''secret.field.not_found''
                      ''The requested top-level field is absent'')
           | Some kvs \<Rightarrow>
               (let v = (case ct_parse C text of Some v \<Rightarrow> v | None \<Rightarrow> JStr text) in
                bind (resolve_profile sel) (\<lambda>p.
                bind (of_app (require_profile_id p)) (\<lambda>i.
                bind (require_credentials P i) (\<lambda>c.
                  let new_text = dumps_compact (JObj (dict_set path v kvs)) in
                  bind (call_out (ct_put_secret_value C c (ap_region p) (sr_secret_id r) new_text)) (\<lambda>version.
                    ret (parse_secret (ct_parse C) (sr_secret_id r) new_text version [''AWSCURRENT'']))))))))"

definition list_relay_targets ::
    "'w ports \<Rightarrow> 'w secrets_ports \<Rightarrow> selector \<Rightarrow> ('w, 'm, secret_relay_target list) io" where
  "list_relay_targets P C sel =
     (case ct_list_online C of
        None \<Rightarrow> raise_app relay_unavailable
      | Some list_online \<Rightarrow>
          bind (resolve_profile sel) (\<lambda>p.
          bind (of_app (require_profile_id p)) (\<lambda>i.
          bind (require_credentials P i) (\<lambda>c.
          bind (call_out (list_online c (ap_region p))) (\<lambda>online.
            let managed = filter (\<lambda>m. mi_ping_status m = ''Online'' \<and> given (mi_platform_name m) \<noteq> None) online in
            bind (case ct_describe C of
                    Some describe \<Rightarrow>
                      if managed = [] then ret []
                      else try_except (call_out (describe c (ap_region p) (map mi_instance_id managed)))
                        (\<lambda>e. if is_permission_error e = None then throw e else ret [])
                  | None \<Rightarrow> ret []) (\<lambda>metadata.
              ret (map (\<lambda>m. \<lparr>rt_instance_id = mi_instance_id m,
                   rt_platform_name = (case mi_platform_name m of None \<Rightarrow> [] | Some x \<Rightarrow> x),
                   rt_name = Option.bind (dict_get metadata (mi_instance_id m)) em_name\<rparr>) managed)))))))"

definition test_relay_connection ::
    "'w ports \<Rightarrow> 'w secrets_ports \<Rightarrow> string \<Rightarrow> selector \<Rightarrow> ('w, 'm, secret_relay_target) io" where
  "test_relay_connection P C instance_id sel =
     logged P ''secrets'' ''test_relay_connection'' True instance_id False None (\<lambda>_.
       bind (resolve_profile sel) (\<lambda>p.
       bind (of_app (require_profile_id p)) (\<lambda>i.
       bind (require_credentials P i) (\<lambda>c.
         require_online_relay C c (ap_region p) (strip instance_id)))))"

end
