(* ===== verification/Secrets_Properties.thy ===== *)
theory Secrets_Properties
  imports Secrets_Service
begin

text \<open>
  What the Secrets service promises: the command it runs on an instance carries nothing but the
  identifier, and what it shows of a Secret without being asked to reveal it does not depend on a
  sensitive value.
\<close>

subsection \<open>The command on an instance\<close>

definition shell_special :: "char \<Rightarrow> bool" where
  \<comment> \<open>a character with a meaning for a POSIX shell, \<open>cmd\<close> or PowerShell inside or outside quotes\<close>
  "shell_special c \<longleftrightarrow> c \<in> set ''$;&|<>()*?[]{}~#!,%^`'' \<or> code c \<le> 32 \<or> code c = 34 \<or> code c = 39
     \<or> code c = 92 \<or> 126 < code c"

definition identifier_char :: "char \<Rightarrow> bool" where
  "identifier_char c \<longleftrightarrow> secret_char c \<or> c = CHR '':''"

lemma identifier_plain: "identifier_char c \<Longrightarrow> \<not> shell_special c"
  by (auto simp: identifier_char_def shell_special_def secret_char_def is_alnum_ascii_def is_lower_az_def
      is_upper_az_def is_dec_def)

lemma identifier_classes:
  "all_classes (\<lambda>P. \<forall>c. P c \<longrightarrow> identifier_char c) secret_name_re"
  "all_classes (\<lambda>P. \<forall>c. P c \<longrightarrow> identifier_char c) secret_arn_re"
  by (auto simp: secret_name_re_def secret_arn_re_def identifier_char_def secret_char_def is_alnum_ascii_def
      is_lower_az_def is_upper_az_def is_dec_def)

lemma valid_identifier:
  assumes "validate_remote_secret_id i = Inr ()" shows "list_all identifier_char i"
  using assms fullmatch_chars identifier_classes
  by (auto simp: validate_remote_secret_id_def split: if_splits)

definition windows_frame :: "string \<times> string" where
  \<comment> \<open>what stands before and after the command\<close>
  "windows_frame = (''powershell.exe -NoLogo -NoExit -Command '' @ [char_of (34::nat)], [char_of (34::nat)])"

definition unix_frame :: "string \<times> string" where
  "unix_frame = ([], ''; exec '' @ [char_of (34::nat)] @ ''${SHELL:-/bin/sh}'' @ [char_of (34::nat)] @ '' -l'')"

text \<open>
  C10: whatever text is given as identifier, the command that is sent to an instance is the fixed
  command with that text between its two single quotes and with nothing but a fixed prefix and suffix
  around it, and the text has no character that a shell would act on.
\<close>

theorem relay_command_is_inert:
  assumes "build_persistent_remote_secret_command i platform = Inr command"
  shows "\<exists>frame \<in> {windows_frame, unix_frame}. command = fst frame @ remote_secret_command i @ snd frame
    \<and> list_all (\<lambda>c. \<not> shell_special c) i
    \<and> length (filter (\<lambda>c. code c = 39) (remote_secret_command i)) = 2"
proof -
  have valid: "validate_remote_secret_id i = Inr ()"
    using assms by (auto simp: build_persistent_remote_secret_command_def build_remote_secret_command_def
        split: sum.splits)
  have plain: "list_all (\<lambda>c. \<not> shell_special c) i"
    using valid_identifier [OF valid] identifier_plain by (auto simp: list_all_iff)
  then have "filter (\<lambda>c. code c = 39) i = []" by (auto simp: list_all_iff shell_special_def filter_empty_conv)
  then have two: "length (filter (\<lambda>c. code c = 39) (remote_secret_command i)) = 2"
    by (simp add: remote_secret_command_def)
  have "build_remote_secret_command i = Inr (remote_secret_command i)"
    by (simp add: build_remote_secret_command_def valid)
  with assms have "command = fst windows_frame @ remote_secret_command i @ snd windows_frame \<or>
      command = fst unix_frame @ remote_secret_command i @ snd unix_frame"
    unfolding build_persistent_remote_secret_command_def windows_frame_def unix_frame_def
    by (simp split: if_splits)
  with plain two show ?thesis by blast
qed

theorem relay_command_is_inert_witness:
  "\<exists>before after. build_persistent_remote_secret_command ''prod/db'' ''Amazon Linux''
      = Inr (before @ remote_secret_command ''prod/db'' @ after) \<and> list_all (\<lambda>c. \<not> shell_special c) ''prod/db''"
proof -
  have "\<not> isl (build_persistent_remote_secret_command ''prod/db'' ''Amazon Linux'')" by code_simp
  then obtain c where "build_persistent_remote_secret_command ''prod/db'' ''Amazon Linux'' = Inr c"
    by (cases "build_persistent_remote_secret_command ''prod/db'' ''Amazon Linux''") auto
  with relay_command_is_inert [OF this] show ?thesis by blast
qed

subsection \<open>What is shown without revealing\<close>

fun alike :: "bool \<Rightarrow> json \<Rightarrow> json \<Rightarrow> bool"
and alike_items :: "bool \<Rightarrow> json list \<Rightarrow> json list \<Rightarrow> bool"
and alike_entries :: "bool \<Rightarrow> (string \<times> json) list \<Rightarrow> (string \<times> json) list \<Rightarrow> bool" where
  \<comment> \<open>equal but for the values under a sensitive name; with the flag, for all values\<close>
  "alike s (JObj kvs) w = (case w of JObj kws \<Rightarrow> alike_entries s kvs kws | _ \<Rightarrow> False)"
| "alike s (JArr xs) w = (case w of JArr ys \<Rightarrow> alike_items s xs ys | _ \<Rightarrow> False)"
| "alike s v w = (is_scalar w \<and> (s \<or> v = w))"
| "alike_items s [] ys = (ys = [])"
| "alike_items s (x # xs) ys = (case ys of y # ys \<Rightarrow> alike s x y \<and> alike_items s xs ys | [] \<Rightarrow> False)"
| "alike_entries s [] kws = (kws = [])"
| "alike_entries s (kv # kvs) kws = (case kws of
     kw # kws \<Rightarrow> (case kv of (k, v) \<Rightarrow> k = fst kw \<and> alike (s \<or> is_sensitive_name k) v (snd kw))
       \<and> alike_entries s kvs kws
   | [] \<Rightarrow> False)"

lemma masked_scalar: "is_scalar v \<Longrightarrow> masked_document v s = (if s then JStr redacted else v)"
  by (cases v) auto

lemma flatten_scalar: "is_scalar v \<Longrightarrow> flatten v path s = [new_field (root_path path) v s]"
  by (cases v) auto

lemma alike_scalar: "is_scalar v \<Longrightarrow> alike s v w \<longleftrightarrow> is_scalar w \<and> (s \<or> v = w)"
  by (cases v) auto

lemma alike_Nil [simp]: "alike_items s xs [] \<longleftrightarrow> xs = []" "alike_entries s kvs [] \<longleftrightarrow> kvs = []"
  by (cases xs; simp) (cases kvs; simp)

lemma masked_alike:
  shows "alike s v w \<Longrightarrow> masked_document v s = masked_document w s"
    "alike_items s xs ys \<Longrightarrow> map (\<lambda>v. masked_document v s) xs = map (\<lambda>v. masked_document v s) ys"
    "alike_entries s kvs kws \<Longrightarrow>
       map (\<lambda>(k, v). (k, masked_document v (s \<or> is_sensitive_name k))) kvs =
       map (\<lambda>(k, v). (k, masked_document v (s \<or> is_sensitive_name k))) kws"
  by (induction s v w and s xs ys and s kvs kws rule: alike_alike_items_alike_entries.induct)
    (auto simp: masked_scalar split: json.splits list.splits prod.splits)

definition shown_field :: "secret_field \<Rightarrow> string \<times> json" where
  "shown_field f = (sf_path f, masked_value f)"

lemma shown_scalars: "s \<or> v = w \<Longrightarrow> shown_field (new_field path v s) = shown_field (new_field path w s)"
  by (auto simp: shown_field_def masked_value_def new_field_def)

lemma shown_sensitive [simp]: "shown_field (new_field path v True) = (path, JStr redacted)"
  by (simp add: shown_field_def masked_value_def new_field_def)

lemma flatten_alike:
  shows "alike s v w \<Longrightarrow> map shown_field (flatten v path s) = map shown_field (flatten w path s)"
    "alike_items s xs ys \<Longrightarrow> map shown_field (flatten_items xs path s i) = map shown_field (flatten_items ys path s i)"
    "alike_entries s kvs kws \<Longrightarrow>
       map shown_field (flatten_entries kvs path s) = map shown_field (flatten_entries kws path s)"
proof (induction s v w and s xs ys and s kvs kws arbitrary: path and path i and path
    rule: alike_alike_items_alike_entries.induct)
qed (auto simp: flatten_scalar shown_scalars split: json.splits list.splits prod.splits)

definition indistinct :: "(string \<Rightarrow> json option) \<Rightarrow> string \<Rightarrow> string \<Rightarrow> bool" where
  \<comment> \<open>two values that differ in what is sensitive only; a value that is no object or list is sensitive\<close>
  "indistinct parse t u =
     (case (parse t, parse u) of (None, None) \<Rightarrow> True
      | (Some v, Some w) \<Rightarrow> alike (is_scalar v) v w | _ \<Rightarrow> False)"

lemma alike_same_shape: "alike s v w \<Longrightarrow> is_scalar v = is_scalar w"
  by (cases v; cases w) auto

text \<open>
  C16: the text and the fields that are shown of a Secret without revealing it do not depend on a
  sensitive value: two values that differ only below sensitive names, or are plain texts or scalars,
  are shown alike.
\<close>

theorem unrevealed_secret_hidden:
  assumes "indistinct parse t u"
  shows "json_text parse False (parse_secret parse i t version stages)
      = json_text parse False (parse_secret parse i u version stages)
    \<and> map shown_field (sr_fields (parse_secret parse i t version stages))
      = map shown_field (sr_fields (parse_secret parse i u version stages))"
proof (cases "parse t")
  case None
  with assms have "parse u = None" by (simp add: indistinct_def split: option.splits)
  with None show ?thesis by (simp add: json_text_def parse_secret_def)
next
  case (Some v)
  with assms obtain w where w: "parse u = Some w" "alike (is_scalar v) v w"
    by (cases "parse u") (simp_all add: indistinct_def)
  note shape = alike_same_shape [OF w(2)] masked_alike(1) [OF w(2)]
  show ?thesis
  proof (cases "is_scalar v")
    case True
    with Some w shape show ?thesis by (simp add: json_text_def parse_secret_def)
  next
    case False
    with w(2) have "map shown_field (flatten v [] False) = map shown_field (flatten w [] False)"
      by (intro flatten_alike) simp
    with False Some w shape show ?thesis by (simp add: json_text_def parse_secret_def)
  qed
qed

definition sample_parse :: "string \<Rightarrow> json option" where
  "sample_parse t = (if t = ''one'' then Some (JObj [(''host'', JStr ''db''), (''password'', JStr ''x'')])
     else if t = ''two'' then Some (JObj [(''host'', JStr ''db''), (''password'', JInt 3)]) else None)"

theorem unrevealed_secret_hidden_witness:
  "json_text sample_parse False (parse_secret sample_parse ''s'' ''one'' None [])
     = json_text sample_parse False (parse_secret sample_parse ''s'' ''two'' None []) \<and>
   json_text sample_parse True (parse_secret sample_parse ''s'' ''one'' None [])
     \<noteq> json_text sample_parse True (parse_secret sample_parse ''s'' ''two'' None [])"
proof
  have "indistinct sample_parse ''one'' ''two''" by code_simp
  from unrevealed_secret_hidden [OF this]
  show "json_text sample_parse False (parse_secret sample_parse ''s'' ''one'' None [])
     = json_text sample_parse False (parse_secret sample_parse ''s'' ''two'' None [])" by blast
qed code_simp

end
