(* ===== verification/Aws_Gateways.thy ===== *)
theory Aws_Gateways
  imports Secrets_Service Aws_Errors
begin

text \<open>
  The gateways of Secrets Manager, of SSM commands, of RDS and of EC2
  (\<open>infrastructure/aws_secrets_gateway.py\<close>, \<open>aws_remote_secret_gateway.py\<close>, \<open>aws_rds_gateway.py\<close>,
  \<open>aws_ssm_gateway.py\<close>).  A client of boto3 is a record of ports on the outside; of a response the
  fields the code reads are kept, \<open>None\<close> for one that is missing or of another type.  The loops over
  pages may not end: they are one partial function, whose value \<open>None\<close> means that it does not
  return.
\<close>

subsection \<open>Pages\<close>

type_synonym ('w, 'a) call = "('w, exn, 'a) eff"

partial_function (option) collect_pages ::
    "(string option \<Rightarrow> ('w, 'a list \<times> string option) call) \<Rightarrow> string option \<Rightarrow> 'a list \<Rightarrow> 'w
     \<Rightarrow> ((exn + 'a list) \<times> 'w) option" where
  \<comment> \<open>\<open>while True\<close>: what the page adds and the token of the next page\<close>
  [code]: "collect_pages fetch token found w =
     (case fetch token w of
        (Inl e, w') \<Rightarrow> Some (Inl e, w')
      | (Inr (items, next_token), w') \<Rightarrow>
          (case next_token of
             None \<Rightarrow> Some (Inr (found @ items), w')
           | Some t \<Rightarrow> collect_pages fetch (Some t) (found @ items) w'))"

definition with_client ::
    "('w, nat) call \<Rightarrow> (nat \<Rightarrow> 'w \<Rightarrow> ((exn + 'a) \<times> 'w) option) \<Rightarrow> 'w \<Rightarrow> ((exn + 'a) \<times> 'w) option" where
  "with_client opened k w = (case opened w of (Inl e, w') \<Rightarrow> Some (Inl e, w') | (Inr client, w') \<Rightarrow> k client w')"

subsection \<open>Secrets Manager\<close>

record secret_response =
  vr_secret_string :: "string option"
  vr_arn :: "string option"
  vr_name :: "string option"
  vr_version_id :: "string option"
  vr_version_stages :: "string list"

record secrets_page =
  gp_secrets :: "(string option \<times> string option) list"  \<comment> \<open>\<open>Name\<close> and \<open>ARN\<close>\<close>
  gp_next_token :: "string option"

record 'w secrets_client =
  cm_open :: "plain_credentials \<Rightarrow> string \<Rightarrow> ('w, nat) call"
  cm_get_secret_value :: "nat \<Rightarrow> string \<Rightarrow> ('w, secret_response) call"
  cm_list_secrets :: "nat \<Rightarrow> string option \<Rightarrow> ('w, secrets_page) call"
  cm_put_secret_value :: "nat \<Rightarrow> string \<Rightarrow> string \<Rightarrow> ('w, string option) call"

definition secret_error :: "string \<Rightarrow> string \<Rightarrow> string \<Rightarrow> string \<Rightarrow> app_error" where
  "secret_error service action msg cause = on_aws service action (mk_error SecretAccessError msg cause)"

definition value_unavailable_codes :: "string list" where
  "value_unavailable_codes = [''DecryptionFailure'', ''DecryptionFailureException'',
     ''InvalidParameterException'', ''InvalidRequestException'']"

definition secret_value_error :: "exn \<Rightarrow> app_error" where
  \<comment> \<open>the two \<open>except\<close> clauses of \<open>get_secret_value\<close>\<close>
  "secret_value_error e =
     (let other = translate_aws_error e ''secretsmanager'' ''GetSecretValue'' in
      case e of
        ClientError _ c _ \<Rightarrow>
          let k = client_code c in
          if k = ''ResourceNotFoundException''
          then secret_error ''secretsmanager'' ''GetSecretValue'' ''secret.not_found'' k
          else if k \<in> set value_unavailable_codes
          then secret_error ''secretsmanager'' ''GetSecretValue'' ''secret.value.unavailable'' k
          else other
      | _ \<Rightarrow> other)"

definition sm_get_secret_value ::
    "'w secrets_client \<Rightarrow> plain_credentials \<Rightarrow> string \<Rightarrow> string \<Rightarrow> ('w, retrieved_secret) call" where
  "sm_get_secret_value C c region i =
     bind (cm_open C c region) (\<lambda>client.
     bind (try_except (cm_get_secret_value C client i)
             (\<lambda>e. if is_aws_failure e then raise_app (secret_value_error e) else throw e)) (\<lambda>response.
     case vr_secret_string response of
       None \<Rightarrow> raise_app (secret_error ''secretsmanager'' ''GetSecretValue'' ''secret.binary.unsupported''
                 ''GetSecretValue returned SecretBinary instead of SecretString'')
     | Some text \<Rightarrow> ret
         \<lparr>rs_secret_id = (case given (vr_arn response) of Some a \<Rightarrow> a
             | None \<Rightarrow> (case given (vr_name response) of Some n \<Rightarrow> n | None \<Rightarrow> i)),
          rs_secret_string = text, rs_version_id = given (vr_version_id response),
          rs_version_stages = vr_version_stages response\<rparr>))"

definition listed_secrets :: "secrets_page \<Rightarrow> (string \<times> string) list" where
  "listed_secrets page = [(n, a). (Some n, Some a) \<leftarrow> gp_secrets page]"

definition sm_list_secrets ::
    "'w secrets_client \<Rightarrow> plain_credentials \<Rightarrow> string \<Rightarrow> 'w \<Rightarrow> ((exn + (string \<times> string) list) \<times> 'w) option" where
  \<comment> \<open>an empty token is not sent, but it does not end the loop either\<close>
  "sm_list_secrets C c region = with_client (cm_open C c region) (\<lambda>client.
     collect_pages (\<lambda>token. translating ''secretsmanager'' ''ListSecrets''
         (bind (cm_list_secrets C client (given token)) (\<lambda>page.
            ret (listed_secrets page, gp_next_token page)))) None [])"

definition sm_put_secret_value ::
    "'w secrets_client \<Rightarrow> plain_credentials \<Rightarrow> string \<Rightarrow> string \<Rightarrow> string \<Rightarrow> ('w, string option) call" where
  "sm_put_secret_value C c region i text =
     bind (cm_open C c region) (\<lambda>client.
     bind (translating ''secretsmanager'' ''PutSecretValue'' (cm_put_secret_value C client i text)) (\<lambda>version.
       ret (given version)))"

subsection \<open>Commands over SSM\<close>

record invocation =
  iv_status :: "string option"
  iv_output :: "string option"
  iv_error_output :: string
  iv_status_details :: string

record 'w command_client =
  cc_open :: "plain_credentials \<Rightarrow> string \<Rightarrow> ('w, nat) call"
  cc_send_command :: "nat \<Rightarrow> string \<Rightarrow> string \<Rightarrow> string \<Rightarrow> ('w, string option) call"
    \<comment> \<open>instance, document and command; the id of the command\<close>
  cc_get_invocation :: "nat \<Rightarrow> string \<Rightarrow> string \<Rightarrow> ('w, invocation) call"
  cc_sleep :: "('w, unit) call"
  cc_max_attempts :: nat

definition terminal_failures :: "string list" where
  "terminal_failures = [''Failed'', ''TimedOut'', ''Cancelled'', ''DeliveryTimedOut'']"

definition pending_states :: "string list" where
  "pending_states = [''Pending'', ''InProgress'', ''Delayed'']"

definition max_output_characters :: nat where
  "max_output_characters = 24000"

definition invocation_error :: "string \<Rightarrow> string \<Rightarrow> app_error" where
  "invocation_error msg cause = secret_error ''ssm'' ''GetCommandInvocation'' msg cause"

definition get_invocation ::
    "'w command_client \<Rightarrow> nat \<Rightarrow> string \<Rightarrow> string \<Rightarrow> ('w, invocation option) call" where
  "get_invocation C client command_id instance_id =
     try_except (bind (cc_get_invocation C client command_id instance_id) (\<lambda>v. ret (Some v)))
       (\<lambda>e. if \<not> is_aws_failure e then throw e
            else case e of
              ClientError _ k _ \<Rightarrow> if client_code k = ''InvocationDoesNotExist'' then ret None
                else raise_app (translate_aws_error e ''ssm'' ''GetCommandInvocation'')
            | _ \<Rightarrow> raise_app (translate_aws_error e ''ssm'' ''GetCommandInvocation''))"

fun has_word :: "string list \<Rightarrow> char option \<Rightarrow> string \<Rightarrow> bool" where
  \<comment> \<open>\<open>re.search\<close> of one of the words between two \<open>\b\<close>; the words begin and end with letters\<close>
  "has_word ws p [] = False"
| "has_word ws p (c # s) \<longleftrightarrow>
     \<not> word_before p \<and> list_ex (\<lambda>w. startswith (c # s) w \<and> \<not> starts_word (drop (length w) (c # s))) ws
     \<or> has_word ws (Some c) s"

definition terminal_failure :: "invocation \<Rightarrow> string \<Rightarrow> app_error" where
  \<comment> \<open>\<open>_raise_terminal_failure\<close>\<close>
  "terminal_failure v status =
     (let diagnostic = casefold (iv_error_output v @ '' '' @ iv_status_details v);
          timed_out = status \<in> {''TimedOut'', ''DeliveryTimedOut''} in
      if has_word [''accessdenied'', ''accessdeniedexception''] None diagnostic
      then (secret_error ''secretsmanager'' ''GetSecretValue'' ''secret.relay.instance_role.permission_denied''
              ''The EC2 instance role cannot call Secrets Manager GetSecretValue'')
           \<lparr>ae_error_category := Some CatPermission, ae_error_code := Some ''AccessDeniedException'',
            ae_required_permission := Some ''secretsmanager:GetSecretValue''\<rparr>
      else (invocation_error ''secret.relay.command.failed'' (''Run Command ended with status '' @ status))
           \<lparr>ae_error_category := Some (if timed_out then CatTimeout else CatResource),
            ae_error_code := Some status, ae_retryable := timed_out\<rparr>)"

definition without_newline :: "string \<Rightarrow> string" where
  "without_newline s =
     (if endswith s [CHR 13, CHR 10] then take (length s - 2) s
      else if endswith s [CHR 10] then take (length s - 1) s else s)"

definition command_output :: "string \<Rightarrow> invocation \<Rightarrow> app_error + retrieved_secret" where
  "command_output i v =
     (case iv_output v of
        None \<Rightarrow> Inl (invocation_error ''secret.relay.output.invalid''
                  ''Run Command returned missing or oversized Secret output'')
      | Some text \<Rightarrow>
          if max_output_characters < length text
          then Inl (invocation_error ''secret.relay.output.invalid''
                  ''Run Command returned missing or oversized Secret output'')
          else if without_newline text = []
          then Inl (invocation_error ''secret.relay.output.invalid'' ''Run Command returned empty Secret output'')
          else Inr \<lparr>rs_secret_id = i, rs_secret_string = without_newline text, rs_version_id = None,
                    rs_version_stages = []\<rparr>)"

definition command_timeout :: app_error where
  "command_timeout = (invocation_error ''secret.relay.timeout''
     ''Run Command did not complete within the bounded polling window'')
       \<lparr>ae_error_category := Some CatTimeout, ae_error_code := Some ''Timeout'', ae_retryable := True\<rparr>"

fun poll_command ::
    "'w command_client \<Rightarrow> ('w, unit) call \<Rightarrow> nat \<Rightarrow> string \<Rightarrow> string \<Rightarrow> string \<Rightarrow> nat \<Rightarrow> ('w, retrieved_secret) call" where
  \<comment> \<open>the \<open>for\<close> loop with the number of attempts that are left; \<open>_wait\<close> does not sleep after the last\<close>
  "poll_command C cancelled client command_id instance_id i 0 = raise_app command_timeout"
| "poll_command C cancelled client command_id instance_id i (Suc n) =
     (let again = seq (if n = 0 then skip else cc_sleep C)
            (poll_command C cancelled client command_id instance_id i n) in
      seq cancelled
      (bind (get_invocation C client command_id instance_id) (\<lambda>found. case found of
         None \<Rightarrow> again
       | Some v \<Rightarrow>
           seq cancelled
           (let status = (case iv_status v of None \<Rightarrow> ''Unknown'' | Some x \<Rightarrow> x) in
            if status = ''Success'' then of_app (command_output i v)
            else if status \<in> set terminal_failures then raise_app (terminal_failure v status)
            else if status \<notin> set pending_states
            then raise_app (invocation_error ''secret.relay.command.status_unknown''
                   ''Run Command returned an unsupported terminal status'')
            else again))))"

definition remote_get_secret_value ::
    "'w command_client \<Rightarrow> ('w, unit) call \<Rightarrow> plain_credentials \<Rightarrow> string \<Rightarrow> string \<Rightarrow> string \<Rightarrow> string
     \<Rightarrow> ('w, retrieved_secret) call" where
  "remote_get_secret_value C cancelled c region instance_id platform i =
     bind (cc_open C c region) (\<lambda>client.
     bind (of_app (build_remote_secret_command i)) (\<lambda>command.
     seq cancelled
     (bind (translating ''ssm'' ''SendCommand'' (cc_send_command C client instance_id
              (if contains (casefold platform) ''windows'' then ''AWS-RunPowerShellScript''
               else ''AWS-RunShellScript'') command)) (\<lambda>sent.
      bind (key_of sent) (\<lambda>command_id.
        poll_command C cancelled client command_id instance_id i (cc_max_attempts C))))))"

subsection \<open>RDS\<close>

record db_instance =
  dv_identifier :: "string option"
  dv_address :: "string option"
  dv_port :: "int option"
  dv_engine :: "string option"

record 'w rds_client =
  rc_open :: "plain_credentials \<Rightarrow> string \<Rightarrow> ('w, nat) call"
  rc_describe :: "nat \<Rightarrow> string option \<Rightarrow> ('w, db_instance list \<times> string option) call"
    \<comment> \<open>the request's \<open>Marker\<close>; the instances and the next \<open>Marker\<close>\<close>

definition db_endpoints :: "db_instance list \<Rightarrow> rds_endpoint list" where
  "db_endpoints ds = List.map_filter (\<lambda>d.
     case (dv_address d, dv_port d, dv_identifier d) of
       (Some host, Some port, Some identifier) \<Rightarrow> Some \<lparr>re_identifier = identifier, re_host = host, re_port = port,
          re_engine = (case dv_engine d of None \<Rightarrow> ''unknown'' | Some e \<Rightarrow> e)\<rparr>
     | _ \<Rightarrow> None) ds"

definition gateway_list_endpoints ::
    "'w rds_client \<Rightarrow> plain_credentials \<Rightarrow> string \<Rightarrow> 'w \<Rightarrow> ((exn + rds_endpoint list) \<times> 'w) option" where
  "gateway_list_endpoints C c region = with_client (rc_open C c region) (\<lambda>client w.
     map_option (map_prod (map_sum id (sort_key (\<lambda>e. casefold (re_identifier e)))) id)
       (collect_pages (\<lambda>marker. translating ''rds'' ''DescribeDBInstances''
           (bind (rc_describe C client (given marker)) (\<lambda>(ds, next_marker).
              ret (db_endpoints ds, next_marker)))) None [] w))"

subsection \<open>Instances and sessions\<close>

record node_item =
  nd_instance_id :: "string option"
  nd_ping_status :: "string option"
  nd_ip_address :: "string option"
  nd_platform_name :: "string option"

record session_request =
  sq_target :: string
  sq_document :: "string option"
  sq_parameters :: "parameters option"

record session_response =
  sn_session_id :: "string option"
  sn_stream_url :: "string option"
  sn_token_value :: "string option"

record 'w node_client =
  nc_open :: "plain_credentials \<Rightarrow> string \<Rightarrow> ('w, nat) call"
  nc_describe :: "nat \<Rightarrow> bool \<Rightarrow> string option \<Rightarrow> ('w, node_item list \<times> string option) call"
    \<comment> \<open>whether the filter asks for online nodes only, and the token\<close>
  nc_start_session :: "nat \<Rightarrow> session_request \<Rightarrow> ('w, session_response) call"
  nc_terminate_session :: "nat \<Rightarrow> string \<Rightarrow> ('w, unit) call"

definition node_of :: "node_item \<Rightarrow> exn + managed_instance" where
  "node_of x =
     (case nd_instance_id x of
        None \<Rightarrow> Inl (PyExn ''KeyError'')
      | Some i \<Rightarrow> Inr \<lparr>mi_instance_id = i,
          mi_ping_status = (case nd_ping_status x of None \<Rightarrow> ''Unknown'' | Some p \<Rightarrow> p),
          mi_ip_address = given (nd_ip_address x), mi_platform_name = given (nd_platform_name x)\<rparr>)"

definition list_nodes ::
    "'w node_client \<Rightarrow> bool \<Rightarrow> plain_credentials \<Rightarrow> string \<Rightarrow> 'w \<Rightarrow> ((exn + managed_instance list) \<times> 'w) option" where
  "list_nodes C online_only c region = with_client (nc_open C c region) (\<lambda>client.
     collect_pages (\<lambda>token. translating ''ssm'' ''DescribeInstanceInformation''
         (bind (nc_describe C client online_only token) (\<lambda>(xs, next_token).
          bind (map_each (\<lambda>x. of_result (node_of x))
                  (filter (\<lambda>x. \<not> online_only \<or> nd_ping_status x = Some ''Online'') xs)) (\<lambda>nodes.
            ret (nodes, given next_token))))) None [])"

definition gateway_start_session ::
    "'w node_client \<Rightarrow> plain_credentials \<Rightarrow> string \<Rightarrow> string \<Rightarrow> string option \<Rightarrow> parameters option
     \<Rightarrow> ('w, started_session) call" where
  "gateway_start_session C c region target doc params =
     bind (nc_open C c region) (\<lambda>client.
     bind (translating ''ssm'' ''StartSession'' (nc_start_session C client
             \<lparr>sq_target = target, sq_document = doc, sq_parameters = params\<rparr>)) (\<lambda>r.
     bind (key_of (sn_session_id r)) (\<lambda>i.
     bind (key_of (sn_stream_url r)) (\<lambda>url.
     bind (key_of (sn_token_value r)) (\<lambda>token.
       ret \<lparr>st_session_id = i, st_stream_url = url, st_token_value = token\<rparr>)))))"

definition gateway_end_session ::
    "'w node_client \<Rightarrow> plain_credentials \<Rightarrow> string \<Rightarrow> string \<Rightarrow> ('w, unit) call" where
  "gateway_end_session C c region i =
     bind (nc_open C c region) (\<lambda>client.
       translating ''ssm'' ''TerminateSession'' (nc_terminate_session C client i))"

type_synonym tag = "string option \<times> string option"  \<comment> \<open>\<open>Key\<close> and \<open>Value\<close>\<close>

record instance_item =
  in_instance_id :: "string option"
  in_state :: "string option"
  in_tags :: "tag list"
  in_private_ip_address :: "string option"
  in_platform_details :: "string option"
  in_platform :: "string option"

record 'w instance_client =
  ic_open :: "plain_credentials \<Rightarrow> string \<Rightarrow> ('w, nat) call"
  ic_describe :: "nat \<Rightarrow> string list option \<Rightarrow> string option \<Rightarrow> ('w, instance_item list list \<times> string option) call"
    \<comment> \<open>\<open>InstanceIds\<close> and the token; the instances of each reservation\<close>
  ic_start :: "nat \<Rightarrow> string \<Rightarrow> bool \<Rightarrow> ('w, unit) call"  \<comment> \<open>with \<open>DryRun\<close> or without\<close>
  ic_reboot :: "nat \<Rightarrow> string \<Rightarrow> bool \<Rightarrow> ('w, unit) call"

definition name_tag :: "tag list \<Rightarrow> string option" where
  "name_tag tags = Option.bind (find (\<lambda>(k, v). k = Some ''Name'' \<and> given v \<noteq> None) tags) snd"

definition instance_tags :: "tag list \<Rightarrow> (string \<times> string) list" where
  "instance_tags tags = [(k, case v of None \<Rightarrow> [] | Some x \<Rightarrow> x). (Some k, v) \<leftarrow> tags]"

definition known_states :: "string list" where
  "known_states = [''pending'', ''running'', ''stopping'', ''stopped'']"

definition item_state :: "instance_item \<Rightarrow> string" where
  "item_state x = (case in_state x of None \<Rightarrow> ''unknown'' | Some st \<Rightarrow> st)"

definition inventory_item :: "instance_item \<Rightarrow> exn + ec2_instance" where
  "inventory_item x =
     (case in_instance_id x of
        None \<Rightarrow> Inl (PyExn ''KeyError'')
      | Some i \<Rightarrow> Inr \<lparr>ei_instance_id = i, ei_state = item_state x, ei_name = name_tag (in_tags x),
          ei_private_ip_address = given (in_private_ip_address x),
          ei_platform_name = (case given (in_platform_details x) of Some d \<Rightarrow> Some d
            | None \<Rightarrow> given (in_platform x)),
          ei_tags = instance_tags (in_tags x)\<rparr>)"

definition gateway_list_inventory ::
    "'w instance_client \<Rightarrow> plain_credentials \<Rightarrow> string \<Rightarrow> 'w \<Rightarrow> ((exn + ec2_instance list) \<times> 'w) option" where
  "gateway_list_inventory C c region = with_client (ic_open C c region) (\<lambda>client.
     collect_pages (\<lambda>token. translating ''ec2'' ''DescribeInstances''
         (bind (ic_describe C client None token) (\<lambda>(reservations, next_token).
          bind (map_each (\<lambda>x. of_result (inventory_item x))
                  (filter (\<lambda>x. item_state x \<in> set known_states) (concat reservations))) (\<lambda>found.
            ret (found, given next_token))))) None [])"

function (sequential) batches :: "nat \<Rightarrow> 'a list \<Rightarrow> 'a list list" where
  "batches n [] = []"
| "batches n xs = (if n = 0 then [] else take n xs # batches n (drop n xs))"
  by pat_completeness auto
termination by (relation "measure (\<lambda>(n, xs). length xs)") auto

definition metadata_entry :: "instance_item \<Rightarrow> exn + string \<times> ec2_metadata" where
  "metadata_entry x =
     (case in_instance_id x of
        None \<Rightarrow> Inl (PyExn ''KeyError'')
      | Some i \<Rightarrow> Inr (i, \<lparr>em_instance_id = i, em_name = name_tag (in_tags x),
          em_private_ip_address = given (in_private_ip_address x), em_tags = instance_tags (in_tags x)\<rparr>))"

definition gateway_describe ::
    "'w instance_client \<Rightarrow> plain_credentials \<Rightarrow> string \<Rightarrow> string list \<Rightarrow> ('w, (string, ec2_metadata) dict) call" where
  "gateway_describe C c region ids =
     (if ids = [] then ret []
      else bind (ic_open C c region) (\<lambda>client.
        translating ''ec2'' ''DescribeInstances''
          (bind (map_each (\<lambda>some. bind (ic_describe C client (Some some) None) (\<lambda>(reservations, _).
               map_each (\<lambda>x. of_result (metadata_entry x)) (concat reservations))) (batches 100 ids)) (\<lambda>found.
            ret (fold (\<lambda>(i, m). dict_set i m) (concat found) [])))))"

definition run_power_action :: "string \<Rightarrow> (bool \<Rightarrow> ('w, unit) call) \<Rightarrow> ('w, unit) call" where
  \<comment> \<open>a dry run first; the code of a \<open>ClientError\<close> without one is the empty text here\<close>
  "run_power_action action call =
     seq (try_except (call True) (\<lambda>e.
            if \<not> is_aws_failure e then throw e
            else case e of
              ClientError _ k _ \<Rightarrow> if k = Some ''DryRunOperation'' then skip
                else raise_app (translate_aws_error e ''ec2'' action)
            | _ \<Rightarrow> raise_app (translate_aws_error e ''ec2'' action)))
       (translating ''ec2'' action (call False))"

definition gateway_start_instance ::
    "'w instance_client \<Rightarrow> plain_credentials \<Rightarrow> string \<Rightarrow> string \<Rightarrow> ('w, unit) call" where
  "gateway_start_instance C c region i =
     bind (ic_open C c region) (\<lambda>client. run_power_action ''StartInstances'' (ic_start C client i))"

definition gateway_reboot_instance ::
    "'w instance_client \<Rightarrow> plain_credentials \<Rightarrow> string \<Rightarrow> string \<Rightarrow> ('w, unit) call" where
  "gateway_reboot_instance C c region i =
     bind (ic_open C c region) (\<lambda>client. run_power_action ''RebootInstances'' (ic_reboot C client i))"

end
