(* ===== verification/Aws_Gateway_Properties.thy ===== *)
theory Aws_Gateway_Properties
  imports Aws_Gateways
begin

text \<open>
  What the gateways promise: a lookup of a Secret over an instance runs one command and asks for its
  result a bounded number of times, a batch of instances is what EC2 takes, and a listing of Secrets
  whose token is empty does not return.
\<close>

subsection \<open>Counting calls\<close>

definition costs :: "('s \<Rightarrow> nat) \<Rightarrow> nat \<Rightarrow> ('s, 'e, 'a) eff \<Rightarrow> bool" where
  \<comment> \<open>the counter grows by at most \<open>k\<close>\<close>
  "costs f k m \<longleftrightarrow> (\<forall>s. f (snd (m s)) \<le> f s + k)"

lemma costsD: "costs f k m \<Longrightarrow> m s = (r, t) \<Longrightarrow> f t \<le> f s + k"
  unfolding costs_def by (metis snd_conv)

lemma costs_frames: "frames f m \<Longrightarrow> costs f k m"
  by (simp add: costs_def frames_def)

lemma costs_bind:
  assumes "costs f a m" "\<And>x. costs f b (h x)" shows "costs f (a + b) (bind m h)"
  unfolding costs_def
proof
  fix s
  obtain r t where m: "m s = (r, t)" by (cases "m s")
  have t: "f t \<le> f s + a" by (rule costsD [OF assms(1) m])
  show "f (snd (bind m h s)) \<le> f s + (a + b)"
  proof (cases r)
    case (Inr x)
    have "f (snd (h x t)) \<le> f t + b" using assms(2) [of x] by (simp add: costs_def)
    with t m Inr show ?thesis by (simp add: bind_def)
  qed (use t m in \<open>simp add: bind_def\<close>)
qed

lemma costs_quiet: "frames f m \<Longrightarrow> (\<And>x. costs f k (h x)) \<Longrightarrow> costs f k (bind m h)"
  using costs_bind [of f 0 m k h] by (simp add: costs_frames)

lemma costs_if: "costs f k m \<Longrightarrow> costs f k n \<Longrightarrow> costs f k (if b then m else n)"
  by simp

lemma costs_raise: "costs f k (raise_app e)" "costs f k (of_app r)"
  by (rule costs_frames, simp add: frames_def)
    (rule costs_frames, cases r, simp_all add: frames_def)

lemma costs_catch:
  assumes "costs f k m" "\<And>e. frames f (h e)" shows "costs f k (try_except m h)"
  unfolding costs_def
proof
  fix s
  obtain r t where m: "m s = (r, t)" by (cases "m s")
  have t: "f t \<le> f s + k" by (rule costsD [OF assms(1) m])
  show "f (snd (try_except m h s)) \<le> f s + k"
    using t m assms(2) by (cases r) (simp_all add: try_except_def frames_def)
qed

lemma frames_translating: "frames f m \<Longrightarrow> frames f (translating service action m)"
  unfolding translating_def by (intro frames_try_except) auto

lemma costs_translating: "costs f k m \<Longrightarrow> costs f k (translating service action m)"
  unfolding translating_def by (rule costs_catch) auto

definition counts_commands :: "'w command_client \<Rightarrow> ('w, unit) call \<Rightarrow> ('w \<Rightarrow> nat) \<Rightarrow> ('w \<Rightarrow> nat) \<Rightarrow> bool" where
  \<comment> \<open>one observer counts the commands sent, the other the questions for a result\<close>
  "counts_commands C cancelled sent asked \<longleftrightarrow>
     (\<forall>c r. frames sent (cc_open C c r) \<and> frames asked (cc_open C c r)) \<and>
     (\<forall>n x d k w. sent (snd (cc_send_command C n x d k w)) = sent w + 1) \<and>
     (\<forall>n x d k. frames asked (cc_send_command C n x d k)) \<and>
     (\<forall>n k x. frames sent (cc_get_invocation C n k x) \<and> costs asked 1 (cc_get_invocation C n k x)) \<and>
     frames sent (cc_sleep C) \<and> frames asked (cc_sleep C) \<and> frames sent cancelled \<and> frames asked cancelled"

lemma get_invocation_counts:
  assumes "counts_commands C cancelled sent asked"
  shows "frames sent (get_invocation C n k x)" "costs asked 1 (get_invocation C n k x)"
proof -
  have call: "frames sent (cc_get_invocation C n k x)" "costs asked 1 (cc_get_invocation C n k x)"
    using assms by (simp_all add: counts_commands_def)
  show "frames sent (get_invocation C n k x)"
    unfolding get_invocation_def using call(1)
    by (intro frames_try_except frames_bind) (auto split: exn.split)
  have "costs asked (1 + 0) (bind (cc_get_invocation C n k x) (\<lambda>v. ret (Some v)))"
    by (rule costs_bind [OF call(2)]) (simp add: costs_frames)
  then show "costs asked 1 (get_invocation C n k x)"
    unfolding get_invocation_def by (intro costs_catch) (auto split: exn.split)
qed

lemma poll_command_counts:
  assumes "counts_commands C cancelled sent asked"
  shows "frames sent (poll_command C cancelled n k x i m)" "costs asked m (poll_command C cancelled n k x i m)"
proof -
  note quiet = assms [unfolded counts_commands_def]
  note get = get_invocation_counts [OF assms]
  show "frames sent (poll_command C cancelled n k x i m)"
  proof (induction m)
    case (Suc m)
    then show ?case
      using quiet get(1) by (auto simp: Let_def intro!: frames_bind split: option.split)
  qed (simp add: frames_def)
  show "costs asked m (poll_command C cancelled n k x i m)"
  proof (induction m)
    case (Suc m)
    let ?again = "seq (if m = 0 then skip else cc_sleep C) (poll_command C cancelled n k x i m)"
    have sleep: "frames asked (if m = 0 then skip else cc_sleep C)" using quiet by simp
    have cancelled: "frames asked cancelled" using quiet by blast
    have again: "costs asked m ?again" by (rule costs_quiet [OF sleep Suc])
    have "costs asked (1 + m) (poll_command C cancelled n k x i (Suc m))"
      unfolding poll_command.simps Let_def
    proof (rule costs_quiet [OF cancelled], rule costs_bind [OF get(2)])
      fix found :: "invocation option"
      show "costs asked m (case found of None \<Rightarrow> ?again | Some v \<Rightarrow> seq cancelled
           (if (case iv_status v of None \<Rightarrow> ''Unknown'' | Some x \<Rightarrow> x) = ''Success'' then of_app (command_output i v)
            else if (case iv_status v of None \<Rightarrow> ''Unknown'' | Some x \<Rightarrow> x) \<in> set terminal_failures
            then raise_app (terminal_failure v (case iv_status v of None \<Rightarrow> ''Unknown'' | Some x \<Rightarrow> x))
            else if (case iv_status v of None \<Rightarrow> ''Unknown'' | Some x \<Rightarrow> x) \<notin> set pending_states
            then raise_app (invocation_error ''secret.relay.command.status_unknown''
                   ''Run Command returned an unsupported terminal status'')
            else ?again))"
        using again by (cases found) (auto simp del: bind_apply intro!: costs_quiet [OF cancelled] costs_if costs_raise)
    qed
    then show ?case by simp
  qed (simp add: costs_def)
qed

lemma returned_value_was_asked:
  assumes "counts_commands C cancelled sent asked"
    "remote_get_secret_value C cancelled c region instance platform i w = (Inr x, w')"
  shows "sent w' = sent w + 1"
proof -
  note quiet = assms(1) [unfolded counts_commands_def]
  let ?document = "if contains (casefold platform) ''windows'' then ''AWS-RunPowerShellScript''
    else ''AWS-RunShellScript''"
  obtain client w1 command w2 u w3 k w4 j w5 where steps: "cc_open C c region w = (Inr client, w1)"
    "of_app (build_remote_secret_command i) w1 = (Inr command, w2)" "cancelled w2 = (Inr u, w3)"
    "translating ''ssm'' ''SendCommand'' (cc_send_command C client instance ?document command) w3 = (Inr k, w4)"
    "key_of k w4 = (Inr j, w5)"
    "poll_command C cancelled client j instance i (cc_max_attempts C) w5 = (Inr x, w')"
    using assms(2) unfolding remote_get_secret_value_def by (elim bind_eq_InrE) (rule that, assumption+)
  have "sent w4 = sent w3 + 1"
    using steps(4) quiet by (cases "cc_send_command C client instance ?document command w3")
      (auto simp: translating_def try_except_def split: sum.splits if_splits dest: arg_cong [where f = "\<lambda>p. sent (snd p)"])
  moreover have "sent w1 = sent w"
    by (rule framesD [of sent "cc_open C c region" w "Inr client" w1]) (use quiet steps(1) in blast)+
  moreover have "w2 = w1" using steps(2) by (cases "build_remote_secret_command i") (auto simp: of_app_def)
  moreover have "sent w3 = sent w2"
    by (rule framesD [of sent cancelled w2 "Inr u" w3]) (use quiet steps(3) in blast)+
  moreover have "w5 = w4" using steps(5) by (cases k) (auto simp: key_of_def)
  moreover have "sent w' = sent w5" by (rule framesD [OF poll_command_counts(1) [OF assms(1)] steps(6)])
  ultimately show ?thesis by simp
qed

text \<open>
  C5: a lookup of a Secret over an instance sends the command at most once, and exactly once when it
  returns a value, and asks for its result at most as often as it is configured to, however the
  answers of AWS, the cancellation and the clock are; so it ends.
\<close>

theorem relay_lookup_bounded:
  assumes "counts_commands C cancelled sent asked"
    "remote_get_secret_value C cancelled c region instance platform i w = (r, w')"
  shows "sent w' \<le> sent w + 1 \<and> asked w' \<le> asked w + cc_max_attempts C
    \<and> (isl r \<or> sent w' = sent w + 1)"
proof -
  note quiet = assms(1) [unfolded counts_commands_def]
  let ?m = "remote_get_secret_value C cancelled c region instance platform i"
  let ?send = "\<lambda>client command. translating ''ssm'' ''SendCommand'' (cc_send_command C client instance
       (if contains (casefold platform) ''windows'' then ''AWS-RunPowerShellScript''
        else ''AWS-RunShellScript'') command)"
  let ?poll = "\<lambda>client command_id. poll_command C cancelled client command_id instance i (cc_max_attempts C)"
  have send: "costs sent 1 (?send client command)" "frames asked (?send client command)" for client command
  proof -
    have "costs sent 1 (cc_send_command C client instance document command)" for document
      unfolding costs_def using quiet by simp
    then show "costs sent 1 (?send client command)" by (rule costs_translating)
    show "frames asked (?send client command)" by (rule frames_translating) (use quiet in blast)
  qed
  have after: "frames sent (bind (key_of x) (?poll client))" "costs asked (0 + cc_max_attempts C) (bind (key_of x) (?poll client))"
    for x client
    using poll_command_counts [OF assms(1)]
    by (auto intro!: frames_bind costs_bind costs_frames simp: key_of_def split: option.split)
  have "costs sent (0 + (0 + (0 + (1 + 0)))) (remote_get_secret_value C cancelled c region instance platform i)"
    unfolding remote_get_secret_value_def
    by (intro costs_bind send after costs_frames) (use quiet in auto)
  moreover have "costs asked (0 + (0 + (0 + (0 + (0 + cc_max_attempts C)))))
      (remote_get_secret_value C cancelled c region instance platform i)"
    unfolding remote_get_secret_value_def
    by (intro costs_bind [OF costs_frames] send after) (use quiet in auto)
  ultimately have "sent (snd (?m w)) \<le> sent w + 1" "asked (snd (?m w)) \<le> asked w + cc_max_attempts C"
    unfolding costs_def by simp_all
  moreover have "isl r \<or> sent w' = sent w + 1"
    using returned_value_was_asked [OF assms(1)] assms(2) by (cases r) auto
  ultimately show ?thesis using assms(2) by simp
qed

record relay_lab =
  rl_sent :: nat
  rl_asked :: nat

definition lab_client :: "relay_lab command_client" where
  \<comment> \<open>the result is there at the second question\<close>
  "lab_client = \<lparr>cc_open = (\<lambda>c r w. (Inr 0, w)),
     cc_send_command = (\<lambda>n x d k w. (Inr (Some ''cmd''), w\<lparr>rl_sent := rl_sent w + 1\<rparr>)),
     cc_get_invocation = (\<lambda>n k x w. (if rl_asked w < 1
        then Inl (ClientError ''InvocationDoesNotExist'' (Some ''InvocationDoesNotExist'') None)
        else Inr \<lparr>iv_status = Some ''Success'', iv_output = Some (''pw'' @ [CHR 10]), iv_error_output = [],
          iv_status_details = []\<rparr>, w\<lparr>rl_asked := rl_asked w + 1\<rparr>)),
     cc_sleep = skip, cc_max_attempts = 2\<rparr>"

theorem relay_lookup_bounded_witness:
  "rl_sent (snd (remote_get_secret_value lab_client skip \<lparr>pc_access_key = [], pc_secret_key = [],
      pc_session_token = None\<rparr> ''eu'' ''i'' ''Linux'' ''prod/db'' \<lparr>rl_sent = 0, rl_asked = 0\<rparr>)) = 1"
proof -
  let ?m = "remote_get_secret_value lab_client skip \<lparr>pc_access_key = [], pc_secret_key = [],
      pc_session_token = None\<rparr> ''eu'' ''i'' ''Linux'' ''prod/db''"
  have counts: "counts_commands lab_client skip rl_sent rl_asked"
    by (simp add: counts_commands_def lab_client_def frames_def costs_def)
  obtain r w where run: "?m \<lparr>rl_sent = 0, rl_asked = 0\<rparr> = (r, w)" by fastforce
  have "map_sum (\<lambda>_. ()) rs_secret_string (fst (?m \<lparr>rl_sent = 0, rl_asked = 0\<rparr>)) = Inr ''pw''" by code_simp
  then have "\<not> isl r" using run by (cases r) simp_all
  with relay_lookup_bounded [OF counts run] run show ?thesis by simp
qed

subsection \<open>Listings\<close>

lemma no_progress:
  assumes "\<And>t. given t = None \<Longrightarrow> fetch t w = (Inr (items, Some []), w)" "given t = None"
  shows "collect_pages fetch t found w = None"
proof -
  have never: "fetch' = fetch \<and> w' = w \<and> given t = None \<longrightarrow> False" if "collect_pages fetch' t found w' = Some y"
    for fetch' t found w' y
  proof (rule collect_pages.raw_induct
      [where P = "\<lambda>f t found w' y. f = fetch \<and> w' = w \<and> given t = None \<longrightarrow> False", OF _ that], intro impI)
    fix collect f t found w' y
    assume IH: "\<And>f t found w' y. collect f t found w' = Some y \<Longrightarrow> f = fetch \<and> w' = w \<and> given t = None \<longrightarrow> False"
      and step: "(case f t w' of (Inl e, w') \<Rightarrow> Some (Inl e, w')
        | (Inr (items, None), w') \<Rightarrow> Some (Inr (found @ items), w')
        | (Inr (items, Some t), w') \<Rightarrow> collect f (Some t) (found @ items) w') = Some y"
      and now: "f = fetch \<and> w' = w \<and> given t = None"
    from step now assms(1) [of t] have "collect fetch (Some []) (found @ items) w = Some y" by simp
    from IH [OF this] show False by (simp add: given_def)
  qed
  then show ?thesis using assms(2) by (cases "collect_pages fetch t found w") blast+
qed

text \<open>
  A page of \<open>ListSecrets\<close> whose next token is the empty text makes the listing start again from
  the first page, and again: it does not return.  (A token that is absent ends it.)
\<close>

theorem empty_token_never_returns:
  assumes "cm_open C c region w = (Inr client, w')" "cm_list_secrets C client None w' = (Inr page, w')"
    "gp_next_token page = Some []"
  shows "sm_list_secrets C c region w = None"
proof -
  have "collect_pages (\<lambda>token. translating ''secretsmanager'' ''ListSecrets''
         (bind (cm_list_secrets C client (given token)) (\<lambda>page.
            ret (listed_secrets page, gp_next_token page)))) None [] w' = None"
    using assms(2,3) by (intro no_progress [where items = "listed_secrets page"])
      (simp_all add: translating_def try_except_def bind_apply given_def)
  then show ?thesis using assms(1) by (simp add: sm_list_secrets_def with_client_def)
qed

definition looping_client :: "unit secrets_client" where
  "looping_client = \<lparr>cm_open = (\<lambda>c r w. (Inr 0, w)),
     cm_get_secret_value = (\<lambda>n i w. (Inl (BotoCoreError ''EndpointConnectionError''), w)),
     cm_list_secrets = (\<lambda>n t w. (Inr \<lparr>gp_secrets = [(Some ''a'', Some ''arn'')], gp_next_token = Some []\<rparr>, w)),
     cm_put_secret_value = (\<lambda>n i x w. (Inr None, w))\<rparr>"

theorem empty_token_never_returns_witness:
  "sm_list_secrets looping_client \<lparr>pc_access_key = [], pc_secret_key = [], pc_session_token = None\<rparr> ''eu'' () = None"
  by (rule empty_token_never_returns [of looping_client _ _ "()" 0 "()"
      "\<lparr>gp_secrets = [(Some ''a'', Some ''arn'')], gp_next_token = Some []\<rparr>"]) (simp_all add: looping_client_def)

lemma concat_batches: "0 < n \<Longrightarrow> concat (batches n xs) = xs \<and> (\<forall>b \<in> set (batches n xs). b \<noteq> [] \<and> length b \<le> n)"
  by (induction n xs rule: batches.induct) auto

end
