(* ===== verification/Legacy_Import.thy ===== *)
theory Legacy_Import
  imports Drive_Service Py_Paths
begin

text \<open>
  The import of the configuration file of an earlier tool (\<open>application/legacy_import.py\<close>).  What
  \<open>configparser\<close> makes of the file is the port \<open>im_read_ini\<close>: its sections, and the options of
  \<open>DEFAULT\<close>, which stand in for an option that a section lacks.  \<open>now\<close> is what the store reads of
  the clock.
\<close>

subsection \<open>The file\<close>

record ini =
  ini_defaults :: "(string \<times> string) list"
  ini_sections :: "(string \<times> (string \<times> string) list) list"

record 'w import_ports =
  im_files :: "'w file_system"
  im_suffix :: "path \<Rightarrow> string"
  im_read_ini :: "path \<Rightarrow> 'w \<Rightarrow> (exn + ini) \<times> 'w"

definition has_section :: "ini \<Rightarrow> string \<Rightarrow> bool" where
  "has_section f section \<longleftrightarrow> map_of (ini_sections f) section \<noteq> None"

definition ini_get :: "ini \<Rightarrow> string \<Rightarrow> string \<Rightarrow> string" where
  \<comment> \<open>\<open>values.get(section, option, fallback="").strip()\<close>\<close>
  "ini_get f section option =
     strip (case map_of (ini_sections f) section of
        None \<Rightarrow> []
      | Some options \<Rightarrow>
          (case map_of options option of Some v \<Rightarrow> v
           | None \<Rightarrow> (case map_of (ini_defaults f) option of Some v \<Rightarrow> v | None \<Rightarrow> [])))"

record import_request =
  iq_source :: path
  iq_profile_name :: string
  iq_tunnel_name :: string
  iq_include_tunnel :: bool
  iq_confirmed :: bool

record import_preview =
  iv_profile_name :: string
  iv_region :: string
  iv_account_id :: string
  iv_user_id :: string
  iv_tunnel_name :: "string option"
  iv_tunnel_host :: "string option"
  iv_remote_port :: "int option"
  iv_local_port :: "int option"

record import_result =
  ir_profile_id :: int
  ir_profile_name :: string
  ir_tunnel_id :: "int option"
  ir_tunnel_imported :: bool

definition required_option :: "ini \<Rightarrow> string \<Rightarrow> string \<Rightarrow> app_error + string" where
  "required_option f section option =
     (let v = ini_get f section option in
      if v = [] then Inl (config_error (''legacy.'' @ section @ ''.'' @ option @ ''.required'')) else Inr v)"

definition parser_errors :: "string list" where
  "parser_errors = [''UnicodeError'', ''UnicodeDecodeError'', ''Error'', ''ParsingError'', ''MissingSectionHeaderError'',
     ''DuplicateSectionError'', ''DuplicateOptionError'']"

definition validate_source :: "'w import_ports \<Rightarrow> path \<Rightarrow> ('w, 'm, unit) io" where
  "validate_source M source =
     bind (call_out (fs_is_file (im_files M) source)) (\<lambda>file.
     seq (raise_when (\<not> file) (AppExn (config_error ''legacy.ini.not_found'')))
       (raise_when (str_lower (im_suffix M source) \<noteq> ''.ini'')
         (AppExn (config_error ''legacy.ini.extension.invalid''))))"

definition read_ini :: "'w import_ports \<Rightarrow> path \<Rightarrow> ('w, 'm, ini) io" where
  "read_ini M source =
     bind (try_except (call_out (im_read_ini M source)) (\<lambda>e.
        if is_os_error e \<or> (\<exists>n \<in> set parser_errors. e = PyExn n)
        then raise_app (config_error_because ''legacy.ini.read.failed'' (class_name e)) else throw e)) (\<lambda>f.
     seq (raise_when (\<not> has_section f ''aws'') (AppExn (config_error ''legacy.ini.aws.required''))) (ret f))"

subsection \<open>Profile and tunnel\<close>

definition build_profile :: "'w ports \<Rightarrow> ini \<Rightarrow> string \<Rightarrow> ('w, 'm, aws_profile) io" where
  "build_profile P f name =
     bind (of_app (required_option f ''aws'' ''region'')) (\<lambda>region.
     bind (of_app (required_option f ''aws'' ''account_id'')) (\<lambda>account.
     bind (of_app (required_option f ''aws'' ''user_id'')) (\<lambda>user.
     bind (of_app (required_option f ''aws'' ''access_key'')) (\<lambda>access.
     bind (of_app (required_option f ''aws'' ''secret_key'')) (\<lambda>secret.
     bind (of_app (plain_credentials_init access secret None)) (\<lambda>c.
     bind (protect P (pc_access_key c)) (\<lambda>a.
     bind (protect P (pc_secret_key c)) (\<lambda>k.
       of_app (aws_profile_init \<lparr>ap_id = None, ap_name = name, ap_region = region, ap_account_id = account,
         ap_user_id = user, ap_mfa_arn = default_mfa_arn account user, ap_encrypted_access_key = a,
         ap_encrypted_secret_key = k, ap_mfa_enabled = True,
         ap_session_duration_hours = default_session_duration_hours, ap_is_default = False,
         ap_created_at = None, ap_updated_at = None\<rparr>)))))))))"

definition legacy_tunnel :: "int \<Rightarrow> string \<Rightarrow> string \<Rightarrow> int \<Rightarrow> int \<Rightarrow> app_error + tunnel_session" where
  "legacy_tunnel profile_id name host remote_port local_port =
     tunnel_session_init \<lparr>ts_id = None, ts_profile_id = profile_id, ts_name = name, ts_host = host,
       ts_remote_port = remote_port, ts_local_port = local_port, ts_target_mode = Select,
       ts_target_instance_id = None, ts_created_at = None, ts_updated_at = None, ts_last_used_at = None,
       ts_session_duration_hours = 12\<rparr>"

definition build_tunnel :: "ini \<Rightarrow> string \<Rightarrow> app_error + tunnel_session option" where
  "build_tunnel f name =
     (if \<not> has_section f ''rds'' then Inr None else
      let first = (\<lambda>option other. if ini_get f ''rds'' option = [] then ini_get f ''rds'' other
             else ini_get f ''rds'' option);
          host = first ''host'' ''fallback_host''; port = first ''port'' ''fallback_port'' in
      if host = [] \<and> port = [] then Inr None
      else if host = [] \<or> port = [] then Inl (config_error ''legacy.rds.incomplete'')
      else
        let local_port = (if ini_get f ''rds'' ''local_port'' = [] then port else ini_get f ''rds'' ''local_port'') in
        case (int_text port, int_text local_port) of
          (Some r, Some l) \<Rightarrow>
            (case legacy_tunnel 1 name host r l of Inl e \<Rightarrow> Inl e | Inr t \<Rightarrow> Inr (Some t))
        | _ \<Rightarrow> Inl (config_error ''legacy.rds.port.invalid''))"

subsection \<open>The use cases\<close>

definition import_source :: "'w import_ports \<Rightarrow> import_request \<Rightarrow> ('w, 'm, ini) io" where
  \<comment> \<open>the steps \<open>preview\<close> and \<open>apply\<close> begin with\<close>
  "import_source M r =
     bind (call_out (fs_expanduser (im_files M) (iq_source r))) (\<lambda>expanded.
     bind (call_out (fs_resolve (im_files M) expanded)) (\<lambda>source.
     seq (validate_source M source)
     (bind (on_db (get_profile_by_name (iq_profile_name r))) (\<lambda>existing.
      seq (raise_when (existing \<noteq> None) (AppExn (config_error ''legacy.profile.name.conflict'')))
        (read_ini M source)))))"

definition wanted_tunnel :: "ini \<Rightarrow> import_request \<Rightarrow> app_error + tunnel_session option" where
  "wanted_tunnel f r = (if iq_include_tunnel r then build_tunnel f (iq_tunnel_name r) else Inr None)"

definition preview_import :: "'w import_ports \<Rightarrow> import_request \<Rightarrow> ('w, 'm, import_preview) io" where
  "preview_import M r =
     bind (import_source M r) (\<lambda>f.
     bind (of_app (wanted_tunnel f r)) (\<lambda>t.
     bind (of_app (required_option f ''aws'' ''access_key'')) (\<lambda>_.
     bind (of_app (required_option f ''aws'' ''secret_key'')) (\<lambda>_.
     bind (of_app (required_option f ''aws'' ''region'')) (\<lambda>region.
     bind (of_app (required_option f ''aws'' ''account_id'')) (\<lambda>account.
     bind (of_app (required_option f ''aws'' ''user_id'')) (\<lambda>user.
       ret \<lparr>iv_profile_name = iq_profile_name r, iv_region = region, iv_account_id = account,
         iv_user_id = user, iv_tunnel_name = map_option ts_name t, iv_tunnel_host = map_option ts_host t,
         iv_remote_port = map_option ts_remote_port t, iv_local_port = map_option ts_local_port t\<rparr>)))))))"

definition import_tunnel :: "instant \<Rightarrow> int \<Rightarrow> tunnel_session \<Rightarrow> ('w, 'm, int) io" where
  "import_tunnel now profile_id t =
     bind (of_app (legacy_tunnel profile_id (ts_name t) (ts_host t) (ts_remote_port t) (ts_local_port t))) (\<lambda>u.
     bind (on_db (create_tunnel now u)) (\<lambda>created. of_app (require_tunnel_id created)))"

definition apply_import ::
    "'w ports \<Rightarrow> 'w import_ports \<Rightarrow> instant \<Rightarrow> import_request \<Rightarrow> ('w, 'm, import_result) io" where
  "apply_import P M now r =
     seq (raise_when (\<not> iq_confirmed r) (AppExn (config_error ''legacy.import.confirmation.required'')))
     (bind (import_source M r) (\<lambda>f.
      bind (build_profile P f (iq_profile_name r)) (\<lambda>p.
      bind (of_app (wanted_tunnel f r)) (\<lambda>t.
      bind (on_db (create_profile now p)) (\<lambda>created.
      bind (of_app (require_profile_id created)) (\<lambda>i.
      bind (try_except
              (case t of None \<Rightarrow> ret None | Some t \<Rightarrow> bind (import_tunnel now i t) (\<lambda>j. ret (Some j)))
              (\<lambda>e. case e of AppExn _ \<Rightarrow> seq (on_db (delete_profile i)) (throw e) | _ \<Rightarrow> throw e)) (\<lambda>j.
        ret \<lparr>ir_profile_id = i, ir_profile_name = ap_name created, ir_tunnel_id = j,
             ir_tunnel_imported = (j \<noteq> None)\<rparr>)))))))"

end
