(* ===== verification/Legacy_Properties.thy ===== *)
theory Legacy_Properties
  imports Legacy_Import Auth_Properties S3_Gateway_Properties
begin

text \<open>
  What the import promises: it is one logical operation.  An import that fails has left the profiles,
  and every other table, as they were, also when the profile had already been created.
\<close>

lemma bind_eq_InlE:
  assumes "bind m f s = (Inl e, t)"
  obtains (first) "m s = (Inl e, t)" | (rest) x u where "m s = (Inr x, u)" "f x u = (Inl e, t)"
  using assms by (cases "m s"; cases "fst (m s)") (auto simp: bind_def)

subsection \<open>Undoing a creation\<close>

lemma cascade_nothing:
  assumes "children_ok ids db" "i \<notin> ids" shows "cascade i db = db"
proof -
  have same: "tb_delete (\<lambda>j r. owner r = i) t = t" if "owned_ok owner ids t" for owner and t :: "'r table"
  proof -
    have "filter (\<lambda>(j, r). owner r \<noteq> i) (tb_rows t) = tb_rows t"
      using that assms(2) by (intro filter_True) (auto simp: owned_ok_def rows_ok_def list_all_iff)
    then show ?thesis by (simp add: tb_delete_def)
  qed
  have "dict_pop i (db_sessions db) = db_sessions db"
    using assms by (intro delete_id) (auto simp: children_ok_def)
  moreover have "filter (\<lambda>(p, _). p \<noteq> i) (db_favorites db) = db_favorites db"
    using assms by (intro filter_True) (auto simp: children_ok_def)
  ultimately show ?thesis using assms(1) by (simp add: cascade_def same children_ok_def)
qed

lemma create_then_delete:
  assumes "create_profile now p db = (Inr q, db1)" "db_ok db" "profile_ok p" "require_profile_id q = Inr i"
  shows "\<exists>T. delete_profile i db1 = (Inr (), db\<lparr>db_profiles := T\<rparr>) \<and> tb_rows T = tb_rows (db_profiles db)"
proof -
  obtain j r t where new: "db_ok db1" "tb_get (db_profiles db) j = None" "db1 = db\<lparr>db_profiles := t\<rparr>"
    "tb_get t = (tb_get (db_profiles db))(j \<mapsto> r)"
    "r = profile_row p (tb_rows (db_profiles db) = []) (Some now) (Some now)" "q = r\<lparr>ap_id := Some j\<rparr>"
    "tb_rows t = tb_rows (db_profiles db) @ [(j, r)]"
    by (rule create_profile_Inr [OF assms(1-3)])
  have j: "j = i" using assms(4) new(6) by (simp add: require_profile_id_def)
  have present: "tb_get (db_profiles db1) i = Some r" using new(3,4) j by simp
  have absent: "i \<notin> profile_ids db" using new(2) j by (simp add: map_of_eq_None_iff)
  have "filter (\<lambda>(k, r). k \<noteq> i) (tb_rows (db_profiles db)) = tb_rows (db_profiles db)"
  proof (rule filter_True, rule ballI)
    fix x assume "x \<in> set (tb_rows (db_profiles db))"
    from imageI [OF this, of fst] absent show "case x of (k, r) \<Rightarrow> k \<noteq> i" by (cases x) auto
  qed
  then have rest: "tb_rows (tb_delete (\<lambda>k r. k = i) t) = tb_rows (db_profiles db)"
    using new(7) j by (simp add: tb_delete_def)
  have restored: "tb_rows (remove_profile i t) = tb_rows (db_profiles db)"
  proof (cases "tb_rows (db_profiles db) = []")
    case True
    with rest show ?thesis by (auto simp: remove_profile_def Let_def order_by_def)
  next
    case False
    then have "\<not> ap_is_default r" using new(5) by (simp add: profile_row_def)
    with rest present new(3) show ?thesis by (simp add: remove_profile_def)
  qed
  have "children_ok (profile_ids db) (db1\<lparr>db_profiles := remove_profile i t\<rparr>)"
    using assms(2) new(3) by (simp add: db_ok_def children_ok_def)
  from cascade_nothing [OF this absent]
  have "cascade i (db1\<lparr>db_profiles := remove_profile i t\<rparr>) = db\<lparr>db_profiles := remove_profile i t\<rparr>"
    using new(3) by simp
  moreover have "i \<in> {- (2 ^ 63) .. max_rowid}"
    using new(1) tb_ok_id_range [OF _ present] by (fastforce simp: db_ok_def profiles_ok_def)
  ultimately have "delete_profile i db1 = (Inr (), db\<lparr>db_profiles := remove_profile i t\<rparr>)"
    using present new(3) by (simp add: delete_profile_def transact_def sql_ids_def bind_apply)
  with restored show ?thesis by blast
qed

lemma import_created:
  assumes "create_profile now p db = (Inr q, db1)" "db_ok db" "profile_ok p"
  shows "db_ok db1" "\<exists>i. require_profile_id q = Inr i"
  by (rule create_profile_Inr [OF assms]; simp add: require_profile_id_def)+

lemma import_tunnel_Inl:
  assumes "import_tunnel now i u s = (Inl e, t)" "db_ok (w_db s)" shows "w_db t = w_db s"
proof -
  let ?u = "legacy_tunnel i (ts_name u) (ts_host u) (ts_remote_port u) (ts_local_port u)"
  show ?thesis
  proof (cases ?u)
    case (Inl err) with assms(1) show ?thesis by (simp add: import_tunnel_def bind_apply)
  next
    case (Inr v)
    then have ok: "tunnel_ok v" by (auto simp: legacy_tunnel_def dest: tunnel_session_init_ok)
    obtain r db' where r: "create_tunnel now v (w_db s) = (r, db')" by (cases "create_tunnel now v (w_db s)")
    show ?thesis
    proof (cases r)
      case (Inl e')
      with r ok assms(2) have "db' = w_db s" unfolding create_tunnel_def by (auto dest: tunnels.create_item_Inl)
      with Inl Inr r assms(1) show ?thesis by (simp add: import_tunnel_def bind_apply)
    next
      case (Inr created)
      with r ok assms(2) have "ts_id created \<noteq> None"
        unfolding create_tunnel_def by (auto elim: tunnels.create_item_Inr)
      with Inr \<open>?u = Inr v\<close> r assms(1) show ?thesis
        by (auto simp: import_tunnel_def bind_apply require_tunnel_id_def)
    qed
  qed
qed

subsection \<open>The import\<close>

lemma outside_import_source [outside_rules]: "outside_only (import_source M r)"
  unfolding import_source_def validate_source_def read_ini_def
  by (intro outside_bind outside_try_except outside_call_out outside_reads reads_on_db)
    (auto simp: get_profile_by_name_def intro!: frames_bind)

lemma outside_build_profile [outside_rules]: "outside_only (build_profile P f name)"
  unfolding build_profile_def by (intro outside_bind outside_of_app outside_protect)

lemma build_profile_ok:
  assumes "build_profile P f name s = (Inr p, t)" shows "profile_ok p"
proof -
  have "yields (\<lambda>p _. profile_ok p) (build_profile P f name)"
    unfolding build_profile_def by (intro yields_bind) (auto simp: yields_def of_app_def
        split: sum.splits dest: aws_profile_init_ok)
  then show ?thesis using assms by (rule yieldsD)
qed

definition undone :: "('w, 'm) world_scheme \<Rightarrow> ('w, 'm) world_scheme \<Rightarrow> bool" where
  "undone s t \<longleftrightarrow> (\<exists>T. w_db t = (w_db s)\<lparr>db_profiles := T\<rparr> \<and> tb_rows T = tb_rows (db_profiles (w_db s)))"

lemma undone_same: "w_db t = w_db s \<Longrightarrow> undone s t"
  unfolding undone_def by (intro exI [of _ "db_profiles (w_db s)"]) simp

lemma undone_later: "undone u t \<Longrightarrow> w_db u = w_db s \<Longrightarrow> undone s t"
  by (simp add: undone_def)

lemma undone_outside: "outside_only m \<Longrightarrow> m s = (x, t) \<Longrightarrow> w_db t = w_db s"
  using outside_onlyD by fastforce

lemma compensated_tunnel:
  fixes s :: "('w, 'm) world_scheme"
  assumes "create_profile now p db = (Inr q, w_db s)" "db_ok db" "profile_ok p" "require_profile_id q = Inr i"
    and failed: "try_except
      (case w of None \<Rightarrow> ret None | Some u \<Rightarrow> bind (import_tunnel now i u) (\<lambda>j. ret (Some j)))
      (\<lambda>e. case e of AppExn _ \<Rightarrow> seq (on_db (delete_profile i)) (throw e) | _ \<Rightarrow> throw e) s = (Inl (AppExn e), t)"
  shows "\<exists>T. w_db t = db\<lparr>db_profiles := T\<rparr> \<and> tb_rows T = tb_rows (db_profiles db)"
proof -
  obtain u where u: "w = Some u" using failed by (cases w) (simp_all add: try_except_def)
  obtain x s' where x: "import_tunnel now i u s = (x, s')" by (cases "import_tunnel now i u s")
  obtain e' where e': "x = Inl e'" using failed u x by (cases x) (auto simp: try_except_apply)
  with x import_created(1) [OF assms(1-3)] have s': "w_db s' = w_db s"
    using import_tunnel_Inl [of now i u s e' s'] by simp
  obtain T where T: "delete_profile i (w_db s) = (Inr (), db\<lparr>db_profiles := T\<rparr>)" "tb_rows T = tb_rows (db_profiles db)"
    using create_then_delete [OF assms(1-4)] by blast
  from failed u x e' s' T have "w_db t = db\<lparr>db_profiles := T\<rparr>"
    by (cases e') (auto simp: try_except_apply bind_apply)
  with T(2) show ?thesis by blast
qed

lemma stored_import_undone:
  fixes s :: "('w, 'm) world_scheme"
  assumes run: "bind (on_db (create_profile now p)) (\<lambda>created. bind (of_app (require_profile_id created)) (\<lambda>i.
      bind (try_except
              (case w of None \<Rightarrow> ret None | Some u \<Rightarrow> bind (import_tunnel now i u) (\<lambda>j. ret (Some j)))
              (\<lambda>e. case e of AppExn _ \<Rightarrow> seq (on_db (delete_profile i)) (throw e) | _ \<Rightarrow> throw e))
        (\<lambda>j. ret (result created i j)))) s = (Inl (AppExn e), t)"
    and ok: "db_ok (w_db s)" and p: "profile_ok p"
  shows "undone s t"
  using run
proof (cases rule: bind_eq_InlE)
  case first
  then obtain db' where c: "create_profile now p (w_db s) = (Inl (AppExn e), db')" "w_db t = db'"
    by (cases "create_profile now p (w_db s)") auto
  with create_profile_Inl [OF c(1) ok p] show ?thesis by (intro undone_same) simp
next
  case (rest created u)
  then have c: "create_profile now p (w_db s) = (Inr created, w_db u)"
    by (cases "create_profile now p (w_db s)") auto
  obtain i where i: "require_profile_id created = Inr i" using import_created(2) [OF c ok p] by blast
  with rest(2) show ?thesis unfolding undone_def
    by (auto elim!: bind_eq_InlE intro: compensated_tunnel [OF c ok p i])
qed


definition sample_ini :: "(string \<times> string) list \<Rightarrow> ini" where
  "sample_ini rds = \<lparr>ini_defaults = [], ini_sections = [
     (''aws'', [(''region'', ''eu-west-1''), (''account_id'', ''123456789012''), (''user_id'', ''ann''),
        (''access_key'', '' AKIA0123456789ABCDEF ''), (''secret_key'', ''0123456789abcdef'')]),
     (''rds'', rds)]\<rparr>"

definition sample_import_ports :: "(string \<times> string) list \<Rightarrow> 'w import_ports" where
  "sample_import_ports rds = \<lparr>im_files = one_file, im_suffix = (\<lambda>p. ''.INI''),
     im_read_ini = (\<lambda>p w. (Inr (sample_ini rds), w))\<rparr>"

definition sample_request :: import_request where
  "sample_request = \<lparr>iq_source = ''old.INI'', iq_profile_name = ''legacy-import'',
     iq_tunnel_name = ''legacy-rds'', iq_include_tunnel = True, iq_confirmed = True\<rparr>"

definition bad_port :: "(string \<times> string) list" where
  "bad_port = [(''host'', ''db.example''), (''fallback_port'', ''3306''), (''local_port'', ''x'')]"


text \<open>
  Any other error is not compensated: when the tunnel cannot be written, the profile that was created
  before stays.
\<close>

definition full_tunnel_world :: "toy world" where
  "full_tunnel_world = toy_world\<lparr>w_db := (w_db toy_world)\<lparr>db_tunnels := \<lparr>tb_seq = max_rowid, tb_rows = []\<rparr>\<rparr>\<rparr>"

theorem unwritten_tunnel_leaves_the_profile:
  "let out = apply_import toy_ports (sample_import_ports [(''host'', ''db.example''), (''port'', ''3306'')]) 7
       sample_request full_tunnel_world
   in fst out = Inl (OperationalError ''database or disk is full'') \<and>
     map (ap_name \<circ> snd) (tb_rows (db_profiles (w_db (snd out)))) = [''a'', ''legacy-import'']"
proof -
  let ?out = "apply_import toy_ports (sample_import_ports [(''host'', ''db.example''), (''port'', ''3306'')]) 7
      sample_request full_tunnel_world"
  have "(case fst ?out of Inl (OperationalError m) \<Rightarrow> m | _ \<Rightarrow> []) = ''database or disk is full''" by code_simp
  then have "fst ?out = Inl (OperationalError ''database or disk is full'')"
    by (auto split: sum.splits exn.splits)
  moreover have "map (ap_name \<circ> snd) (tb_rows (db_profiles (w_db (snd ?out)))) = [''a'', ''legacy-import'']" by code_simp
  ultimately show ?thesis by (simp add: Let_def)
qed

end
